(* ===== verification/Prelude.thy ===== *)
theory Prelude
  imports Complex_Main
begin

text \<open>
  Shared vocabulary of the development.

  \<^item> JavaScript exceptions of the management API are values of \<open>error\<close>; a call that may throw
    returns \<open>error + 'a\<close> (\<open>'a result\<close>), sequenced by \<open>rbind\<close>.
  \<^item> Code that reads and writes state is a function \<open>'s \<Rightarrow> 's \<times> 'a result\<close> (\<open>('s, 'a) action\<close>),
    sequenced by \<open>mbind\<close>; state written before an exception stays written, as in the source.
    \<open>mcatch\<close> is \<open>try/catch\<close>.
  \<^item> SQL tables are lists of rows; \<open>sql_update\<close> is \<open>UPDATE ... SET f WHERE p\<close>, \<open>filter\<close> is
    \<open>SELECT ... WHERE\<close>.
  \<^item> Strings are lists of code units below 256; a JavaScript string outside that range does not
    occur in the data the modelled code compares with its literals and character classes.
\<close>

named_theorems result_simps \<open>sequencing of fallible computations\<close>
named_theorems sql_simps \<open>tables as lists of rows\<close>

section \<open>Exceptions\<close>

text \<open>
  \<open>HttpError\<close> and \<open>OperationError\<close> are the classes of errors.ts. \<open>ApiError\<close> is an exception of
  the Kubernetes client or of fetch, with the HTTP status when there was a response. \<open>JsError\<close> is
  \<open>new Error(message)\<close>, \<open>ZodError\<close> a rejected schema, \<open>PgError\<close> a database error with its
  SQLSTATE.
\<close>

datatype error =
    HttpError int string
  | OperationError string bool
  | ApiError "int option"
  | JsError string
  | ZodError
  | PgError string

datatype js_code = CodeNum int | CodeStr string

text \<open>
  The helper \<open>statusCode\<close> of kubernetes.ts reads \<open>code ?? statusCode ?? response.statusCode\<close>: an
  \<open>OperationError\<close> and a database error carry a string in \<open>code\<close>.
\<close>

fun statusCode :: "error \<Rightarrow> js_code option" where
  "statusCode (HttpError n _) = Some (CodeNum n)"
| "statusCode (OperationError c _) = Some (CodeStr c)"
| "statusCode (ApiError c) = map_option CodeNum c"
| "statusCode (JsError _) = None"
| "statusCode ZodError = None"
| "statusCode (PgError c) = Some (CodeStr c)"

abbreviation has_status :: "error \<Rightarrow> int \<Rightarrow> bool" where
  "has_status e n \<equiv> statusCode e = Some (CodeNum n)"

fun is_operation_error :: "error \<Rightarrow> bool" where
  "is_operation_error (OperationError _ _) = True"
| "is_operation_error _ = False"

section \<open>Results\<close>

type_synonym 'a result = "error + 'a"

definition rbind :: "'a result \<Rightarrow> ('a \<Rightarrow> 'b result) \<Rightarrow> 'b result" where
  "rbind m f = (case m of Inl e \<Rightarrow> Inl e | Inr x \<Rightarrow> f x)"

definition throw_if :: "bool \<Rightarrow> error \<Rightarrow> 'b result \<Rightarrow> 'b result" where
  "throw_if c e k = (if c then Inl e else k)"

lemma rbind_Inl [simp, result_simps]: "rbind (Inl e) f = Inl e"
  by (simp add: rbind_def)

lemma rbind_Inr [simp, result_simps]: "rbind (Inr x) f = f x"
  by (simp add: rbind_def)

lemma rbind_eq_Inr [result_simps]: "rbind m f = Inr y \<longleftrightarrow> (\<exists>x. m = Inr x \<and> f x = Inr y)"
  by (cases m) auto

lemma rbind_eq_Inl [result_simps]:
  "rbind m f = Inl e \<longleftrightarrow> m = Inl e \<or> (\<exists>x. m = Inr x \<and> f x = Inl e)"
  by (cases m) auto

lemma throw_if_eq_Inr [simp, result_simps]: "throw_if c e k = Inr y \<longleftrightarrow> \<not> c \<and> k = Inr y"
  by (simp add: throw_if_def)

lemma throw_if_eq_Inl [result_simps]: "throw_if c e k = Inl e' \<longleftrightarrow> (if c then e' = e else k = Inl e')"
  by (auto simp: throw_if_def)

lemma throw_if_True [simp]: "throw_if True e k = Inl e"
  and throw_if_False [simp]: "throw_if False e k = k"
  by (simp_all add: throw_if_def)

text \<open>Applying a fallible function to every element, stopping at the first exception.\<close>

fun rmap :: "('a \<Rightarrow> 'b result) \<Rightarrow> 'a list \<Rightarrow> 'b list result" where
  "rmap f [] = Inr []"
| "rmap f (x # xs) = rbind (f x) (\<lambda>y. rbind (rmap f xs) (\<lambda>ys. Inr (y # ys)))"

lemma rmap_eq_Inr: "rmap f xs = Inr ys \<longleftrightarrow> list_all2 (\<lambda>x y. f x = Inr y) xs ys"
proof (induction xs arbitrary: ys)
  case Nil
  then show ?case by auto
next
  case (Cons x xs)
  then show ?case by (cases ys) (auto simp: rbind_eq_Inr)
qed

section \<open>Stateful code\<close>

type_synonym ('s, 'a) action = "'s \<Rightarrow> 's \<times> 'a result"

definition mret :: "'a \<Rightarrow> ('s, 'a) action" where
  "mret x s = (s, Inr x)"

definition mthrow :: "error \<Rightarrow> ('s, 'a) action" where
  "mthrow e s = (s, Inl e)"

definition mbind :: "('s, 'a) action \<Rightarrow> ('a \<Rightarrow> ('s, 'b) action) \<Rightarrow> ('s, 'b) action" where
  "mbind m f s = (case m s of (s', Inl e) \<Rightarrow> (s', Inl e) | (s', Inr x) \<Rightarrow> f x s')"

definition mcatch :: "('s, 'a) action \<Rightarrow> (error \<Rightarrow> ('s, 'a) action) \<Rightarrow> ('s, 'a) action" where
  "mcatch m h s = (case m s of (s', Inl e) \<Rightarrow> h e s' | (s', Inr x) \<Rightarrow> (s', Inr x))"

definition mget :: "('s \<Rightarrow> 'a) \<Rightarrow> ('s, 'a) action" where
  "mget g s = (s, Inr (g s))"

definition mput :: "('s \<Rightarrow> 's) \<Rightarrow> ('s, unit) action" where
  "mput f s = (f s, Inr ())"

definition mlift :: "'a result \<Rightarrow> ('s, 'a) action" where
  "mlift r s = (s, r)"

definition mthrow_if :: "bool \<Rightarrow> error \<Rightarrow> ('s, unit) action" where
  "mthrow_if c e = (if c then mthrow e else mret ())"

fun mfor :: "'a list \<Rightarrow> ('a \<Rightarrow> ('s, unit) action) \<Rightarrow> ('s, unit) action" where
  "mfor [] f = mret ()"
| "mfor (x # xs) f = mbind (f x) (\<lambda>_. mfor xs f)"

lemma mret_run [simp]: "mret x s = (s, Inr x)"
  by (simp add: mret_def)

lemma mthrow_run [simp]: "mthrow e s = (s, Inl e)"
  by (simp add: mthrow_def)

lemma mget_run [simp]: "mget g s = (s, Inr (g s))"
  by (simp add: mget_def)

lemma mput_run [simp]: "mput f s = (f s, Inr ())"
  by (simp add: mput_def)

lemma mlift_run [simp]: "mlift r s = (s, r)"
  by (simp add: mlift_def)

lemma mbind_run [result_simps]:
  "mbind m f s = (case m s of (s', Inl e) \<Rightarrow> (s', Inl e) | (s', Inr x) \<Rightarrow> f x s')"
  by (simp add: mbind_def)

lemma mbind_mret [simp]: "mbind (mret x) f = f x"
  by (rule ext) (simp add: mbind_def)

lemma mbind_mthrow [simp]: "mbind (mthrow e) f = mthrow e"
  by (rule ext) (simp add: mbind_def)

lemma mthrow_if_True [simp]: "mthrow_if True e = mthrow e"
  and mthrow_if_False [simp]: "mthrow_if False e = mret ()"
  by (simp_all add: mthrow_if_def)

lemma mbind_assoc: "mbind (mbind m f) g = mbind m (\<lambda>x. mbind (f x) g)"
  by (rule ext) (simp add: mbind_def split: prod.splits sum.splits)

lemma mbind_Inr:
  "mbind m f s = (s'', Inr y) \<longleftrightarrow> (\<exists>x s'. m s = (s', Inr x) \<and> f x s' = (s'', Inr y))"
  by (auto simp: mbind_def split: prod.splits sum.splits)

text \<open>
  Preservation: a relation between the state before and after an action, closed under sequencing
  when it is reflexive and transitive.
\<close>

definition keeps :: "('s \<Rightarrow> 's \<Rightarrow> bool) \<Rightarrow> ('s, 'a) action \<Rightarrow> bool" where
  "keeps R m \<longleftrightarrow> (\<forall>s. R s (fst (m s)))"

lemma keepsI: "(\<And>s. R s (fst (m s))) \<Longrightarrow> keeps R m"
  by (simp add: keeps_def)

lemma keepsD: "keeps R m \<Longrightarrow> m s = (s', r) \<Longrightarrow> R s s'"
  unfolding keeps_def by (metis fst_conv)

lemma keeps_mret: "reflp R \<Longrightarrow> keeps R (mret x)"
  by (simp add: keeps_def reflpD)

lemma keeps_mthrow: "reflp R \<Longrightarrow> keeps R (mthrow e)"
  by (simp add: keeps_def reflpD)

lemma keeps_mget: "reflp R \<Longrightarrow> keeps R (mget g)"
  by (simp add: keeps_def reflpD)

lemma keeps_mlift: "reflp R \<Longrightarrow> keeps R (mlift r)"
  by (simp add: keeps_def reflpD)

lemma keeps_mthrow_if: "reflp R \<Longrightarrow> keeps R (mthrow_if c e)"
  by (simp add: mthrow_if_def keeps_mret keeps_mthrow)

lemma keeps_mbind:
  assumes "transp R" "keeps R m" "\<And>x. keeps R (f x)"
  shows "keeps R (mbind m f)"
proof (rule keepsI)
  fix s
  obtain s' r where ms: "m s = (s', r)" by (cases "m s")
  have "R s s'" using assms(2) ms by (rule keepsD)
  moreover have "R s' (fst (f x s'))" for x
    using assms(3) by (simp add: keeps_def)
  ultimately show "R s (fst (mbind m f s))"
    using ms transpD[OF assms(1)] by (cases r) (auto simp: mbind_def)
qed

lemma keeps_mcatch:
  assumes "transp R" "keeps R m" "\<And>e. keeps R (h e)"
  shows "keeps R (mcatch m h)"
proof (rule keepsI)
  fix s
  obtain s' r where ms: "m s = (s', r)" by (cases "m s")
  have "R s s'" using assms(2) ms by (rule keepsD)
  moreover have "R s' (fst (h e s'))" for e
    using assms(3) by (simp add: keeps_def)
  ultimately show "R s (fst (mcatch m h s))"
    using ms transpD[OF assms(1)] by (cases r) (auto simp: mcatch_def)
qed

lemma keeps_mfor:
  assumes "reflp R" "transp R" "\<And>x. keeps R (f x)"
  shows "keeps R (mfor xs f)"
proof (induction xs)
  case Nil
  show ?case unfolding mfor.simps by (rule keeps_mret[OF assms(1)])
next
  case (Cons x xs)
  show ?case unfolding mfor.simps by (rule keeps_mbind[OF assms(2) assms(3) Cons.IH])
qed

lemma keeps_if: "(c \<Longrightarrow> keeps R m) \<Longrightarrow> (\<not> c \<Longrightarrow> keeps R n) \<Longrightarrow> keeps R (if c then m else n)"
  by simp

lemma keeps_option:
  "keeps R m \<Longrightarrow> (\<And>x. keeps R (f x)) \<Longrightarrow> keeps R (case v of None \<Rightarrow> m | Some x \<Rightarrow> f x)"
  by (cases v) simp_all

lemma keeps_option_eq:
  "(v = None \<Longrightarrow> keeps R m) \<Longrightarrow> (\<And>x. v = Some x \<Longrightarrow> keeps R (f x)) \<Longrightarrow> keeps R (case v of None \<Rightarrow> m | Some x \<Rightarrow> f x)"
  by (cases v) auto

lemma keeps_pair: "(\<And>a b. keeps R (f a b)) \<Longrightarrow> keeps R (case p of (a, b) \<Rightarrow> f a b)"
  by (cases p) simp

lemmas keeps_rules = keeps_mret keeps_mthrow keeps_mget keeps_mlift keeps_mthrow_if keeps_mbind
  keeps_mcatch keeps_mfor keeps_if keeps_option

section \<open>Tables\<close>

definition sql_update :: "('r \<Rightarrow> bool) \<Rightarrow> ('r \<Rightarrow> 'r) \<Rightarrow> 'r list \<Rightarrow> 'r list" where
  "sql_update p f rows = map (\<lambda>r. if p r then f r else r) rows"

definition first_row :: "'r list \<Rightarrow> 'r option" where
  "first_row rows = (case rows of [] \<Rightarrow> None | r # _ \<Rightarrow> Some r)"

definition sql_first :: "('r \<Rightarrow> bool) \<Rightarrow> 'r list \<Rightarrow> 'r option" where
  "sql_first p rows = first_row (filter p rows)"

lemma sql_update_Nil [simp, sql_simps]: "sql_update p f [] = []"
  and sql_update_Cons [simp, sql_simps]:
    "sql_update p f (r # rows) = (if p r then f r else r) # sql_update p f rows"
  by (simp_all add: sql_update_def)

lemma sql_update_append [simp, sql_simps]:
  "sql_update p f (xs @ ys) = sql_update p f xs @ sql_update p f ys"
  by (simp add: sql_update_def)

lemma length_sql_update [simp, sql_simps]: "length (sql_update p f rows) = length rows"
  by (simp add: sql_update_def)

lemma set_sql_update [sql_simps]:
  "set (sql_update p f rows) = f ` {r \<in> set rows. p r} \<union> {r \<in> set rows. \<not> p r}"
  by (auto simp: sql_update_def)

lemma sql_update_none: "(\<And>r. r \<in> set rows \<Longrightarrow> \<not> p r) \<Longrightarrow> sql_update p f rows = rows"
  by (induction rows) auto

lemma sql_first_Nil [simp, sql_simps]: "sql_first p [] = None"
  and sql_first_Cons [simp, sql_simps]:
    "sql_first p (r # rows) = (if p r then Some r else sql_first p rows)"
  by (simp_all add: sql_first_def first_row_def)

lemma sql_first_Some: "sql_first p rows = Some r \<Longrightarrow> r \<in> set rows \<and> p r"
  by (induction rows) (auto split: if_splits)

lemma sql_first_None [sql_simps]: "sql_first p rows = None \<longleftrightarrow> (\<forall>r \<in> set rows. \<not> p r)"
  by (induction rows) auto

lemma sql_first_append [sql_simps]:
  "sql_first p (xs @ ys) = (case sql_first p xs of None \<Rightarrow> sql_first p ys | Some r \<Rightarrow> Some r)"
  by (induction xs) auto

lemma map_sql_update:
  "(\<And>r. p r \<Longrightarrow> k (f r) = k r) \<Longrightarrow> map k (sql_update p f rows) = map k rows"
  by (induction rows) auto

lemma filter_sql_update_other:
  "(\<And>r. p r \<Longrightarrow> q (f r) = q r) \<Longrightarrow> (\<And>r. p r \<Longrightarrow> q r \<Longrightarrow> f r = r) \<Longrightarrow>
   filter q (sql_update p f rows) = filter q rows"
  by (induction rows) auto

lemma filter_sql_update:
  "(\<And>r. p r \<Longrightarrow> q (f r) = q r) \<Longrightarrow> filter q (sql_update p f rows) = sql_update p f (filter q rows)"
  by (induction rows) auto

end
