(* ===== verification/Js_Text.thy ===== *)
theory Js_Text
  imports Prelude "HOL-Library.Char_ord" "HOL-Library.List_Lexorder"
begin

text \<open>
  JavaScript strings and numbers as the sources use them: ASCII character classes of the regular
  expressions, decimal printing (\<open>String(n)\<close>, template literals), \<open>BigInt(digits)\<close>, the rounding
  of \<open>Number(integer)\<close>, optional strings and their truthiness, plain objects as association
  lists.
\<close>

section \<open>Character classes\<close>

definition is_digit :: "char \<Rightarrow> bool" where
  "is_digit c \<longleftrightarrow> 48 \<le> (of_char c :: nat) \<and> (of_char c :: nat) \<le> 57"

definition is_lower :: "char \<Rightarrow> bool" where
  "is_lower c \<longleftrightarrow> 97 \<le> (of_char c :: nat) \<and> (of_char c :: nat) \<le> 122"

definition is_upper :: "char \<Rightarrow> bool" where
  "is_upper c \<longleftrightarrow> 65 \<le> (of_char c :: nat) \<and> (of_char c :: nat) \<le> 90"

definition is_alnum :: "char \<Rightarrow> bool" where
  "is_alnum c \<longleftrightarrow> is_digit c \<or> is_lower c \<or> is_upper c"

definition is_hex_lower :: "char \<Rightarrow> bool" where
  "is_hex_lower c \<longleftrightarrow> is_digit c \<or> (97 \<le> (of_char c :: nat) \<and> (of_char c :: nat) \<le> 102)"

definition is_hex :: "char \<Rightarrow> bool" where
  "is_hex c \<longleftrightarrow> is_hex_lower c \<or> (65 \<le> (of_char c :: nat) \<and> (of_char c :: nat) \<le> 70)"

definition digit_val :: "char \<Rightarrow> nat" where
  "digit_val c = of_char c - 48"

definition digit_char :: "nat \<Rightarrow> char" where
  "digit_char d = char_of (48 + d)"

lemma of_char_digit_char: "d < 10 \<Longrightarrow> (of_char (digit_char d) :: nat) = 48 + d"
  by (simp add: digit_char_def)

lemma is_digit_digit_char [simp]: "d < 10 \<Longrightarrow> is_digit (digit_char d)"
  by (simp add: is_digit_def of_char_digit_char)

lemma digit_val_digit_char [simp]: "d < 10 \<Longrightarrow> digit_val (digit_char d) = d"
  by (simp add: digit_val_def of_char_digit_char)

lemma digit_val_less: "is_digit c \<Longrightarrow> digit_val c < 10"
  unfolding is_digit_def digit_val_def by linarith

section \<open>Decimal numbers\<close>

text \<open>\<open>BigInt(s)\<close> for a string of digits.\<close>

definition digits_val :: "string \<Rightarrow> nat" where
  "digits_val s = foldl (\<lambda>n c. 10 * n + digit_val c) 0 s"

text \<open>\<open>String(n)\<close> for a non-negative integer.\<close>

fun show_nat :: "nat \<Rightarrow> string" where
  "show_nat n = (if n < 10 then [digit_char n] else show_nat (n div 10) @ [digit_char (n mod 10)])"

declare show_nat.simps [simp del]

definition show_int :: "int \<Rightarrow> string" where
  "show_int n = (if n < 0 then CHR ''-'' # show_nat (nat (- n)) else show_nat (nat n))"

lemma foldl_digits:
  "foldl (\<lambda>n c. 10 * n + digit_val c) a s = a * 10 ^ length s + digits_val s"
proof (induction s arbitrary: a rule: rev_induct)
  case Nil
  then show ?case by (simp add: digits_val_def)
next
  case (snoc c s)
  have "digits_val (s @ [c]) = 10 * digits_val s + digit_val c"
    by (simp add: digits_val_def)
  with snoc.IH[of a] show ?case by simp
qed

lemma digits_val_append: "digits_val (s @ t) = digits_val s * 10 ^ length t + digits_val t"
proof -
  have "digits_val (s @ t) = foldl (\<lambda>n c. 10 * n + digit_val c) (digits_val s) t"
    by (simp add: digits_val_def)
  then show ?thesis by (simp only: foldl_digits)
qed

lemma digits_val_Nil [simp]: "digits_val [] = 0"
  and digits_val_single [simp]: "digits_val [c] = digit_val c"
  by (simp_all add: digits_val_def)

lemma digits_val_Cons: "digits_val (c # s) = digit_val c * 10 ^ length s + digits_val s"
  using digits_val_append[of "[c]" s] by simp

lemma show_nat_correct:
  "digits_val (show_nat n) = n \<and> list_all is_digit (show_nat n) \<and> show_nat n \<noteq> []"
proof (induction n rule: show_nat.induct)
  case (1 n)
  show ?case
  proof (cases "n < 10")
    case True
    then show ?thesis by (subst (1 2 3) show_nat.simps) simp
  next
    case False
    with "1.IH" show ?thesis
      by (subst (1 2 3) show_nat.simps) (simp add: digits_val_append)
  qed
qed

lemma digits_val_show_nat [simp]: "digits_val (show_nat n) = n"
  and show_nat_digits [simp]: "list_all is_digit (show_nat n)"
  and show_nat_nonempty [simp]: "show_nat n \<noteq> []"
  using show_nat_correct[of n] by simp_all

lemma show_nat_inject [simp]: "show_nat m = show_nat n \<longleftrightarrow> m = n"
  by (metis digits_val_show_nat)

lemma length_show_nat: "n < 10 ^ k \<Longrightarrow> 0 < k \<Longrightarrow> length (show_nat n) \<le> k"
proof (induction k arbitrary: n)
  case 0
  then show ?case by simp
next
  case (Suc k)
  show ?case
  proof (cases "n < 10")
    case True
    then show ?thesis by (subst show_nat.simps) simp
  next
    case False
    with Suc.prems have "n div 10 < 10 ^ k" and "0 < k"
      by (cases k; simp add: less_mult_imp_div_less mult.commute)+
    then have "length (show_nat (n div 10)) \<le> k" by (rule Suc.IH)
    with False show ?thesis by (subst show_nat.simps) simp
  qed
qed

lemma show_nat_no_leading_zero: "0 < n \<Longrightarrow> hd (show_nat n) \<noteq> CHR ''0''"
proof (induction n rule: show_nat.induct)
  case (1 n)
  show ?case
  proof (cases "n < 10")
    case True
    have "(of_char (digit_char n) :: nat) \<noteq> of_char (CHR ''0'')"
      using True "1.prems" by (simp add: of_char_digit_char)
    then show ?thesis using True by (subst show_nat.simps) auto
  next
    case False
    with "1.IH" "1.prems" show ?thesis by (subst show_nat.simps) simp
  qed
qed

section \<open>Rounding of \<open>Number(integer)\<close>\<close>

text \<open>
  An IEEE double keeps 53 significant bits; \<open>Number\<close> of a larger integer rounds to nearest, ties
  to even.
\<close>

fun excess_bits :: "nat \<Rightarrow> nat" where
  "excess_bits n = (if n < 2 ^ 53 then 0 else Suc (excess_bits (n div 2)))"

declare excess_bits.simps [simp del]

definition js_number :: "nat \<Rightarrow> nat" where
  "js_number n =
     (let e = excess_bits n; q = n div 2 ^ e; r = n mod 2 ^ e
      in if 2 * r < 2 ^ e \<or> (2 * r = 2 ^ e \<and> even q) then q * 2 ^ e else (q + 1) * 2 ^ e)"

lemma js_number_exact: "n < 2 ^ 53 \<Longrightarrow> js_number n = n"
  by (simp add: js_number_def excess_bits.simps[of n])

lemma excess_bits_high: "2 ^ 53 \<le> n \<Longrightarrow> 2 ^ 53 \<le> (n div 2 ^ excess_bits n) * 2 ^ excess_bits n"
proof (induction n rule: excess_bits.induct)
  case (1 n)
  define k where "k = excess_bits (n div 2)"
  have e: "excess_bits n = Suc k"
    using "1.prems" by (simp add: excess_bits.simps[of n] k_def)
  show ?case
  proof (cases "n div 2 < 2 ^ 53")
    case True
    then have "k = 0" by (simp add: k_def excess_bits.simps[of "n div 2"])
    with e "1.prems" show ?thesis by simp
  next
    case False
    with "1.IH" "1.prems" have "2 ^ 53 \<le> (n div 2 div 2 ^ k) * 2 ^ k"
      by (simp add: k_def)
    then have "2 ^ 53 \<le> 2 * ((n div 2 div 2 ^ k) * 2 ^ k)" by linarith
    then show ?thesis unfolding e by (simp only: power_Suc div_mult2_eq mult.left_commute)
  qed
qed

lemma js_number_high:
  assumes "2 ^ 53 \<le> n"
  shows "2 ^ 53 \<le> js_number n"
proof -
  define e where "e = excess_bits n"
  have "2 ^ 53 \<le> (n div 2 ^ e) * 2 ^ e"
    using excess_bits_high[OF assms] by (simp add: e_def)
  moreover have "(n div 2 ^ e) * 2 ^ e \<le> js_number n"
    by (auto simp: js_number_def Let_def e_def)
  ultimately show ?thesis by (rule le_trans)
qed

text \<open>Rounding never changes a comparison with a limit below \<open>2\<^sup>5\<^sup>3\<close>.\<close>

lemma js_number_compare:
  assumes "k < 2 ^ 53"
  shows "k < js_number n \<longleftrightarrow> k < n"
proof (cases "n < 2 ^ 53")
  case True
  then show ?thesis by (simp add: js_number_exact)
next
  case False
  with assms have "k < n" "k < js_number n"
    using js_number_high[of n] by simp_all
  then show ?thesis by simp
qed

section \<open>Optional strings and plain objects\<close>

text \<open>A string is falsy in JavaScript when it is missing, null or empty.\<close>

definition truthy :: "string option \<Rightarrow> bool" where
  "truthy v \<longleftrightarrow> v \<noteq> None \<and> v \<noteq> Some ''''"

lemma truthy_simps [simp]: "\<not> truthy None" "truthy (Some s) \<longleftrightarrow> s \<noteq> ''''"
  by (simp_all add: truthy_def)

lemma truthy_iff: "truthy v \<longleftrightarrow> (\<exists>s. v = Some s \<and> s \<noteq> '''')"
  by (cases v) auto

text \<open>
  \<open>Record<string, string>\<close>: an association list, looked up with \<open>map_of\<close>. Deep equality does not
  depend on the order of keys.
\<close>

type_synonym strmap = "(string \<times> string) list"

definition strmap_eq :: "strmap \<Rightarrow> strmap \<Rightarrow> bool" where
  "strmap_eq a b \<longleftrightarrow> list_all (\<lambda>k. map_of a k = map_of b k) (map fst a @ map fst b)"

lemma strmap_eq_iff: "strmap_eq a b \<longleftrightarrow> map_of a = map_of b"
proof
  assume eq: "strmap_eq a b"
  show "map_of a = map_of b"
  proof (rule ext)
    fix k
    show "map_of a k = map_of b k"
    proof (cases "k \<in> fst ` set a \<or> k \<in> fst ` set b")
      case True
      with eq show ?thesis by (auto simp: strmap_eq_def list_all_iff)
    next
      case False
      then show ?thesis by (metis map_of_eq_None_iff)
    qed
  qed
next
  assume "map_of a = map_of b"
  then show "strmap_eq a b" by (simp add: strmap_eq_def list_all_iff)
qed

lemma strmap_eq_refl [simp]: "strmap_eq a a"
  by (simp add: strmap_eq_iff)

text \<open>\<open>{...a, ...b}\<close>: the entries of \<open>b\<close> win.\<close>

definition strmap_merge :: "strmap \<Rightarrow> strmap \<Rightarrow> strmap" where
  "strmap_merge a b = b @ filter (\<lambda>(k, _). k \<notin> fst ` set b) a"

lemma map_of_strmap_merge [simp]:
  "map_of (strmap_merge a b) k = (case map_of b k of None \<Rightarrow> map_of a k | Some v \<Rightarrow> Some v)"
proof (cases "map_of b k")
  case None
  then have k: "k \<notin> fst ` set b" by (simp add: map_of_eq_None_iff)
  have "map_of (filter (\<lambda>(k, _). k \<notin> fst ` set b) a) k = map_of a k"
    using k by (induction a) (auto simp: image_iff)
  with None show ?thesis by (simp add: strmap_merge_def map_add_def)
next
  case (Some v)
  then show ?thesis by (simp add: strmap_merge_def map_add_def)
qed

text \<open>\<open>value.replace(/^"|"$/g, '')\<close>: one leading and one trailing double quote are dropped.\<close>

definition dquote :: char where
  "dquote = CHR 0x22"

definition strip_quotes :: "string \<Rightarrow> string" where
  "strip_quotes s =
     (let t = (if s \<noteq> [] \<and> hd s = dquote then tl s else s)
      in if t \<noteq> [] \<and> last t = dquote then butlast t else t)"

end
