(* ===== verification/Json_Schema.thy ===== *)
theory Json_Schema
  imports Js_Text
begin

text \<open>
  JSON values and the schema combinators of zod that the sources use. A schema is a function from
  an optional value (\<open>None\<close> is \<open>undefined\<close>, a missing property) to the parsed value, or \<open>None\<close>
  when zod reports an issue. \<open>z_parse\<close> is \<open>.parse\<close>: it throws a \<open>ZodError\<close>. Numbers are
  rational: every finite double is one; \<open>z.number()\<close> rejects NaN and the infinities, which JSON
  cannot contain either. The keys of an object are distinct, as \<open>JSON.parse\<close> makes them.
\<close>

datatype json =
    JNull
  | JBool bool
  | JNum rat
  | JStr string
  | JArr "json list"
  | JObj "(string \<times> json) list"

type_synonym 'a schema = "json option \<Rightarrow> 'a option"

definition z_parse :: "'a schema \<Rightarrow> json \<Rightarrow> 'a result" where
  "z_parse sc v = (case sc (Some v) of None \<Rightarrow> Inl ZodError | Some x \<Rightarrow> Inr x)"

fun z_string :: "string schema" where
  "z_string (Some (JStr s)) = Some s"
| "z_string _ = None"

fun z_bool :: "bool schema" where
  "z_bool (Some (JBool b)) = Some b"
| "z_bool _ = None"

fun z_number :: "rat schema" where
  "z_number (Some (JNum r)) = Some r"
| "z_number _ = None"

text \<open>\<open>z.number().int().min(lo).max(hi)\<close>\<close>

definition z_int :: "int \<Rightarrow> int \<Rightarrow> int schema" where
  "z_int lo hi v =
     (case z_number v of
        None \<Rightarrow> None
      | Some r \<Rightarrow> if of_int \<lfloor>r\<rfloor> = r \<and> lo \<le> \<lfloor>r\<rfloor> \<and> \<lfloor>r\<rfloor> \<le> hi then Some \<lfloor>r\<rfloor> else None)"

definition z_check :: "'a schema \<Rightarrow> ('a \<Rightarrow> bool) \<Rightarrow> 'a schema" where
  "z_check sc p v = (case sc v of None \<Rightarrow> None | Some x \<Rightarrow> if p x then Some x else None)"

definition z_default :: "'a \<Rightarrow> 'a schema \<Rightarrow> 'a schema" where
  "z_default d sc v = (case v of None \<Rightarrow> Some d | Some _ \<Rightarrow> sc v)"

definition z_optional :: "'a schema \<Rightarrow> 'a option schema" where
  "z_optional sc v = (case v of None \<Rightarrow> Some None | Some _ \<Rightarrow> map_option Some (sc v))"

definition z_nullable :: "'a schema \<Rightarrow> 'a option schema" where
  "z_nullable sc v = (if v = Some JNull then Some None else map_option Some (sc v))"

definition z_enum :: "string list \<Rightarrow> string schema" where
  "z_enum xs = z_check z_string (\<lambda>s. s \<in> set xs)"

definition z_literal :: "string \<Rightarrow> string schema" where
  "z_literal x = z_check z_string (\<lambda>s. s = x)"

fun z_array :: "'a schema \<Rightarrow> 'a list schema" where
  "z_array sc (Some (JArr xs)) = those (map (\<lambda>x. sc (Some x)) xs)"
| "z_array sc _ = None"

text \<open>
  An object schema first asks for an object; \<open>.strict()\<close> refuses keys that are not listed. The
  fields are then read with \<open>z_field\<close>.
\<close>

fun z_object :: "((string \<times> json) list) schema" where
  "z_object (Some (JObj fs)) = Some fs"
| "z_object _ = None"

definition z_strict :: "string list \<Rightarrow> ((string \<times> json) list) schema" where
  "z_strict keys = z_check z_object (\<lambda>fs. list_all (\<lambda>(k, _). k \<in> set keys) fs)"

definition z_field :: "(string \<times> json) list \<Rightarrow> string \<Rightarrow> 'a schema \<Rightarrow> 'a option" where
  "z_field fs k sc = sc (map_of fs k)"

text \<open>\<open>z.union([...])\<close>: the first alternative that accepts.\<close>

fun z_union :: "'a schema list \<Rightarrow> 'a schema" where
  "z_union [] v = None"
| "z_union (sc # scs) v = (case sc v of None \<Rightarrow> z_union scs v | Some x \<Rightarrow> Some x)"

text \<open>\<open>String.prototype.trim\<close> on code units below 256.\<close>

definition is_space :: "char \<Rightarrow> bool" where
  "is_space c \<longleftrightarrow> (of_char c :: nat) \<in> {9, 10, 11, 12, 13, 32, 160}"

definition js_trim :: "string \<Rightarrow> string" where
  "js_trim s = rev (dropWhile is_space (rev (dropWhile is_space s)))"

lemma z_parse_Inr: "z_parse sc v = Inr x \<longleftrightarrow> sc (Some v) = Some x"
  by (simp add: z_parse_def split: option.splits)

lemma z_int_Some: "z_int lo hi v = Some n \<Longrightarrow> lo \<le> n \<and> n \<le> hi"
  by (auto simp: z_int_def split: option.splits if_splits)

lemma z_int_JNum: "z_int lo hi (Some (JNum (of_int n))) = (if lo \<le> n \<and> n \<le> hi then Some n else None)"
  by (simp add: z_int_def)

lemma z_enum_Some: "z_enum xs v = Some s \<Longrightarrow> s \<in> set xs"
  by (auto simp: z_enum_def z_check_def split: option.splits if_splits)

lemma z_literal_Some: "z_literal x v = Some s \<Longrightarrow> s = x"
  by (auto simp: z_literal_def z_check_def split: option.splits if_splits)

lemma z_default_Some:
  "z_default d sc v = Some x \<Longrightarrow> P d \<Longrightarrow> (\<And>y. sc v = Some y \<Longrightarrow> P y) \<Longrightarrow> P x"
  by (auto simp: z_default_def split: option.splits)

lemma z_union_Some: "z_union scs v = Some x \<Longrightarrow> \<exists>sc \<in> set scs. sc v = Some x"
  by (induction scs) (auto split: option.splits)

end
