(* ===== verification/Quantities.thy ===== *)
theory Quantities
  imports Js_Text
begin

text \<open>
  Kubernetes resource quantities (src/apps/admin-api/src/quantities.ts): the parser \<open>rational\<close>, the
  exact comparison \<open>quantityExceeds\<close> and the rounding \<open>quantityCeil\<close>. BigInts are \<open>int\<close>; the two
  \<open>Error\<close>s of a bad quantity are \<open>JsError\<close>. The reference semantics \<open>quantity_value\<close> reads a
  quantity as a rational number; the lemmas show that the code computes with exactly that number.
\<close>

section \<open>The quantity grammar\<close>

definition exponent_suffix :: "string \<Rightarrow> bool" where
  "exponent_suffix s \<longleftrightarrow>
     (case s of
        [] \<Rightarrow> False
      | c # t \<Rightarrow>
          (c = CHR ''e'' \<or> c = CHR ''E'') \<and>
          (let u = (if t \<noteq> [] \<and> (hd t = CHR ''+'' \<or> hd t = CHR ''-'') then tl t else t)
           in u \<noteq> [] \<and> list_all is_digit u))"

definition binary_suffixes :: "string list" where
  "binary_suffixes = [''Ki'', ''Mi'', ''Gi'', ''Ti'', ''Pi'', ''Ei'']"

definition decimal_powers :: "(string \<times> int) list" where
  "decimal_powers = [('''', 0), (''n'', -9), (''u'', -6), (''m'', -3), (''k'', 3), (''M'', 6),
     (''G'', 9), (''T'', 12), (''P'', 15), (''E'', 18)]"

text \<open>
  The regular expression of \<open>rational\<close>: an optional plus sign, digits with an optional fraction
  (at least one digit), and an optional suffix. The result is the whole part, the fraction and the
  suffix. The longest run of digits is the only possible mantissa, because no suffix starts with a
  digit or a point.
\<close>

definition match_quantity :: "string \<Rightarrow> (string \<times> string \<times> string) option" where
  "match_quantity value =
     (let v = (if value \<noteq> [] \<and> hd value = CHR ''+'' then tl value else value);
          whole = takeWhile is_digit v;
          rest = dropWhile is_digit v;
          point = (rest \<noteq> [] \<and> hd rest = CHR ''.'');
          fraction = (if point then takeWhile is_digit (tl rest) else []);
          suffix = (if point then dropWhile is_digit (tl rest) else rest)
      in if whole = [] \<and> fraction = [] then None
         else if suffix = [] \<or> exponent_suffix suffix \<or> suffix \<in> set (map fst decimal_powers) \<or>
                 suffix \<in> set binary_suffixes
              then Some (whole, fraction, suffix)
              else None)"

text \<open>\<open>[...].indexOf(suffix)\<close>\<close>

fun index_of :: "'a list \<Rightarrow> 'a \<Rightarrow> nat option" where
  "index_of [] y = None"
| "index_of (x # xs) y = (if x = y then Some 0 else map_option Suc (index_of xs y))"

text \<open>\<open>Number(suffix.slice(1))\<close> for a signed string of digits.\<close>

definition signed_val :: "string \<Rightarrow> int" where
  "signed_val t =
     (case t of
        c # u \<Rightarrow> if c = CHR ''-'' then - int (digits_val u)
                 else if c = CHR ''+'' then int (digits_val u) else int (digits_val t)
      | [] \<Rightarrow> 0)"

definition suffix_exponent :: "string \<Rightarrow> int option" where
  "suffix_exponent suffix =
     (if suffix \<noteq> [] \<and> (hd suffix = CHR ''e'' \<or> hd suffix = CHR ''E'') \<and> 1 < length suffix
      then Some (signed_val (tl suffix))
      else map_of decimal_powers suffix)"

section \<open>Operations\<close>

definition rational :: "string \<Rightarrow> (int \<times> int) result" where
  "rational value =
     throw_if (128 < length value) (JsError ''Invalid resource quantity'')
       (case match_quantity value of
          None \<Rightarrow> Inl (JsError ''Invalid resource quantity'')
        | Some (whole, fraction, suffix) \<Rightarrow>
            let numerator = int (digits_val ((if whole = [] then ''0'' else whole) @ fraction));
                denominator = 10 ^ length fraction
            in (case index_of binary_suffixes suffix of
                  Some binary \<Rightarrow> Inr (numerator * 1024 ^ (binary + 1), denominator)
                | None \<Rightarrow>
                    (case suffix_exponent suffix of
                       None \<Rightarrow> Inl (JsError ''Invalid resource quantity'')
                     | Some ex \<Rightarrow>
                         throw_if (128 < \<bar>ex\<bar>) (JsError ''Invalid resource quantity'')
                           (if 0 \<le> ex then Inr (numerator * 10 ^ nat ex, denominator)
                            else Inr (numerator, denominator * 10 ^ nat (- ex))))))"

definition quantityExceeds :: "string \<Rightarrow> string \<Rightarrow> bool result" where
  "quantityExceeds actual reserved =
     rbind (rational actual) (\<lambda>(a, ad). rbind (rational reserved) (\<lambda>(r, rd).
       Inr (a * rd > r * ad)))"

definition quantityCeil :: "string \<Rightarrow> string \<Rightarrow> int result" where
  "quantityCeil actual unit =
     rbind (rational actual) (\<lambda>(a, ad). rbind (rational unit) (\<lambda>(u, ud).
       throw_if (u \<le> 0) (JsError ''Invalid resource unit'')
         (let numerator = a * ud; denominator = ad * u;
              rounded = (numerator + denominator - 1) div denominator
          in throw_if (2147483647 < rounded) (JsError ''Resource quantity exceeds platform limit'')
               (Inr rounded))))"

section \<open>Reference semantics\<close>

definition suffix_factor :: "string \<Rightarrow> rat option" where
  "suffix_factor suffix =
     (case index_of binary_suffixes suffix of
        Some k \<Rightarrow> Some (1024 ^ (k + 1))
      | None \<Rightarrow> map_option (\<lambda>ex. 10 powi ex) (suffix_exponent suffix))"

definition quantity_value :: "string \<Rightarrow> rat option" where
  "quantity_value value =
     (case match_quantity value of
        None \<Rightarrow> None
      | Some (whole, fraction, suffix) \<Rightarrow>
          map_option (\<lambda>f. (of_nat (digits_val whole) + of_nat (digits_val fraction) / 10 ^ length fraction) * f)
            (suffix_factor suffix))"

lemma mantissa_value:
  "of_int (int (digits_val ((if whole = [] then ''0'' else whole) @ fraction))) / (10 ^ length fraction :: rat)
   = of_nat (digits_val whole) + of_nat (digits_val fraction) / 10 ^ length fraction"
proof -
  have "digits_val (if whole = [] then ''0'' else whole) = digits_val whole"
    by (simp add: digit_val_def)
  then show ?thesis
    by (simp add: digits_val_append add_divide_distrib)
qed

lemma power_int_split: "(10 :: rat) powi ex = (if 0 \<le> ex then 10 ^ nat ex else 1 / 10 ^ nat (- ex))"
  by (simp add: power_int_def inverse_eq_divide power_one_over)

lemma rational_value:
  assumes "rational v = Inr (n, d)"
  shows "0 \<le> n \<and> 0 < d \<and> quantity_value v = Some (of_int n / of_int d)"
proof -
  obtain whole fraction suffix where m: "match_quantity v = Some (whole, fraction, suffix)"
    using assms by (auto simp: rational_def split: option.splits)
  define num where "num = int (digits_val ((if whole = [] then ''0'' else whole) @ fraction))"
  define den where "den = (10 :: int) ^ length fraction"
  have num0: "0 \<le> num" and den0: "0 < den" by (simp_all add: num_def den_def)
  have mant: "of_nat (digits_val whole) + of_nat (digits_val fraction) / 10 ^ length fraction
      = (of_int num / of_int den :: rat)"
    using mantissa_value[of whole fraction] by (simp add: num_def den_def)
  show ?thesis
  proof (cases "index_of binary_suffixes suffix")
    case (Some k)
    with assms m have "n = num * 1024 ^ (k + 1)" "d = den"
      by (auto simp: rational_def num_def den_def Let_def)
    with Some m mant num0 den0 show ?thesis
      by (simp add: quantity_value_def suffix_factor_def)
  next
    case None
    then obtain ex where ex: "suffix_exponent suffix = Some ex"
      using assms m by (auto simp: rational_def Let_def split: option.splits)
    have nd: "(n, d) = (if 0 \<le> ex then (num * 10 ^ nat ex, den) else (num, den * 10 ^ nat (- ex)))"
      using assms m None ex by (auto simp: rational_def num_def den_def Let_def split: if_splits)
    have val: "quantity_value v = Some (of_int num / of_int den * 10 powi ex)"
      using m None ex mant by (simp add: quantity_value_def suffix_factor_def)
    show ?thesis
      using nd val num0 den0 by (auto simp: power_int_split split: if_splits)
  qed
qed

lemma rational_nonneg: "rational v = Inr (n, d) \<Longrightarrow> 0 \<le> n \<and> 0 < d"
  by (drule rational_value) blast

lemma frac_less_iff:
  assumes "0 < (ad :: int)" "0 < rd"
  shows "r * ad < a * rd \<longleftrightarrow> (of_int r / of_int rd :: rat) < of_int a / of_int ad"
proof -
  have "(of_int r / of_int rd :: rat) < of_int a / of_int ad \<longleftrightarrow>
        (of_int (r * ad) :: rat) < of_int (a * rd)"
    using assms by (simp add: divide_simps mult.commute)
  then show ?thesis by (simp only: of_int_less_iff)
qed

lemma ceil_div:
  assumes "0 < (d :: int)"
  shows "(n + d - 1) div d = \<lceil>of_int n / (of_int d :: rat)\<rceil>"
proof (rule sym, rule ceiling_unique)
  define q where "q = (n + d - 1) div d"
  have eq: "n + d - 1 = q * d + (n + d - 1) mod d"
    by (simp add: q_def)
  have lo: "n \<le> q * d" and hi: "(q - 1) * d < n"
    using eq pos_mod_bound[OF assms, of "n + d - 1"] pos_mod_sign[OF assms, of "n + d - 1"]
    by (auto simp: algebra_simps)
  have "(of_int ((q - 1) * d) :: rat) < of_int n" using hi by (simp only: of_int_less_iff)
  then show "of_int ((n + d - 1) div d) - 1 < (of_int n / of_int d :: rat)"
    using assms by (simp add: q_def[symmetric] divide_simps)
  have "(of_int n :: rat) \<le> of_int (q * d)" using lo by (simp only: of_int_le_iff)
  then show "(of_int n / of_int d :: rat) \<le> of_int ((n + d - 1) div d)"
    using assms by (simp add: q_def[symmetric] divide_simps)
qed

section \<open>Printing and parsing\<close>

lemma takeWhile_digits: "list_all is_digit ds \<Longrightarrow> takeWhile is_digit (ds @ t) = ds @ takeWhile is_digit t"
  by (induction ds) simp_all

lemma dropWhile_digits: "list_all is_digit ds \<Longrightarrow> dropWhile is_digit (ds @ t) = dropWhile is_digit t"
  by (induction ds) simp_all

lemma hd_digit: "is_digit c \<Longrightarrow> c \<noteq> CHR ''+''"
  by (auto simp: is_digit_def)

lemma match_printed:
  assumes "s \<in> {'''', ''m'', ''Mi'', ''Gi''}"
  shows "match_quantity (show_nat n @ s) = Some (show_nat n, [], s)"
proof -
  obtain c t where ct: "show_nat n = c # t" by (cases "show_nat n") simp_all
  have "is_digit c" using show_nat_digits[of n] by (simp add: ct)
  then have nplus: "hd (show_nat n @ s) \<noteq> CHR ''+''" using hd_digit by (simp add: ct)
  have tw: "takeWhile is_digit (show_nat n @ s) = show_nat n"
    and dw: "dropWhile is_digit (show_nat n @ s) = s"
    using assms by (auto simp: takeWhile_digits dropWhile_digits is_digit_def)
  show ?thesis
    unfolding match_quantity_def
    using assms nplus tw dw
    by (auto simp: Let_def decimal_powers_def binary_suffixes_def)
qed

lemma suffix_tables:
  "index_of binary_suffixes ''m'' = None" "index_of binary_suffixes ''Mi'' = Some 1"
  "index_of binary_suffixes ''Gi'' = Some 2" "suffix_exponent ''m'' = Some (- 3)"
  by code_simp+

definition unit_num :: "string \<Rightarrow> int" where
  "unit_num s = (if s = ''m'' then 1 else if s = ''Mi'' then 1024 ^ 2 else 1024 ^ 3)"

definition unit_den :: "string \<Rightarrow> int" where
  "unit_den s = (if s = ''m'' then 1000 else 1)"

lemma rational_printed:
  assumes "s \<in> {''m'', ''Mi'', ''Gi''}" "length (show_nat n) \<le> 126"
  shows "rational (show_nat n @ s) =
    Inr (int n * unit_num s, unit_den s)"
proof -
  have m: "match_quantity (show_nat n @ s) = Some (show_nat n, [], s)"
    by (rule match_printed) (use assms(1) in blast)
  have len: "\<not> 128 < length (show_nat n @ s)"
    using assms by auto
  have exp: "rational (show_nat n @ s) =
     (case index_of binary_suffixes s of
        Some k \<Rightarrow> Inr (int n * 1024 ^ (k + 1), 1)
      | None \<Rightarrow> (case suffix_exponent s of None \<Rightarrow> Inl (JsError ''Invalid resource quantity'')
          | Some ex \<Rightarrow> throw_if (128 < \<bar>ex\<bar>) (JsError ''Invalid resource quantity'')
              (if 0 \<le> ex then Inr (int n * 10 ^ nat ex, 1) else Inr (int n, 1 * 10 ^ nat (- ex)))))"
    unfolding rational_def m using len by (simp add: Let_def split: option.split)
  consider "s = ''m''" | "s = ''Mi''" | "s = ''Gi''" using assms(1) by blast
  then show ?thesis
    unfolding exp by cases (simp_all add: suffix_tables unit_num_def unit_den_def)
qed

lemma rational_unit:
  assumes "s \<in> {''m'', ''Mi'', ''Gi''}"
  shows "rational (''1'' @ s) = Inr (unit_num s, unit_den s)"
proof -
  have one: "''1'' = show_nat 1" by code_simp
  have len: "length (show_nat 1) \<le> 126" by code_simp
  show ?thesis
    unfolding one using rational_printed[OF assms len] by simp
qed

section \<open>Properties\<close>

lemma quantityExceeds_value:
  assumes "quantityExceeds a r = Inr b"
  shows "\<exists>x y. quantity_value a = Some x \<and> quantity_value r = Some y \<and> b = (y < x)"
proof -
  obtain n d m e where n: "rational a = Inr (n, d)" and m: "rational r = Inr (m, e)"
    and b: "b = (m * d < n * e)"
    using assms by (auto simp: quantityExceeds_def rbind_eq_Inr)
  show ?thesis
    using rational_value[OF n] rational_value[OF m] frac_less_iff[of d e m n] b by blast
qed

text \<open>
  C35: \<open>quantityExceeds\<close> decides the strict order of the two denoted rational numbers, for every
  pair of quantities it accepts; no rounding is involved.
\<close>
theorem quantityExceeds_correct:
  assumes "quantityExceeds a r = Inr b"
  shows "\<exists>x y. quantity_value a = Some x \<and> quantity_value r = Some y \<and> b = (y < x)"
  using assms by (rule quantityExceeds_value)

theorem quantityExceeds_correct_witness:
  "\<exists>x y. quantity_value ''1500m'' = Some x \<and> quantity_value ''1'' = Some y \<and> True = (y < x)"
proof -
  have h: "quantityExceeds ''1500m'' ''1'' = Inr True" by code_simp
  show ?thesis using quantityExceeds_correct[OF h] .
qed

lemma quantityCeil_value:
  assumes "quantityCeil a u = Inr k"
  shows "\<exists>x y. quantity_value a = Some x \<and> quantity_value u = Some y \<and> 0 < y \<and>
    k = \<lceil>x / y\<rceil> \<and> 0 \<le> k \<and> k \<le> 2147483647"
proof -
  obtain n d m e where n: "rational a = Inr (n, d)" and m: "rational u = Inr (m, e)"
    and m0: "0 < m" and k: "k = (n * e + d * m - 1) div (d * m)" and kmax: "k \<le> 2147483647"
    using assms by (auto simp: quantityCeil_def rbind_eq_Inr Let_def not_less not_le)
  have pos: "0 \<le> n" "0 < d" "0 < e" "0 < d * m"
    using rational_nonneg[OF n] rational_nonneg[OF m] m0 by simp_all
  have "(of_int n / of_int d) / (of_int m / of_int e) = (of_int (n * e) / of_int (d * m) :: rat)"
    using pos m0 by (simp add: field_simps)
  moreover have "k = \<lceil>of_int (n * e) / (of_int (d * m) :: rat)\<rceil>"
    unfolding k by (rule ceil_div[OF pos(4)])
  moreover have "0 \<le> k"
  proof -
    have "0 \<le> n * e" using pos by simp
    then have "0 \<le> n * e + d * m - 1" using pos(4) by linarith
    then show ?thesis unfolding k using pos(4) by (simp add: pos_imp_zdiv_nonneg_iff)
  qed
  ultimately show ?thesis
    using rational_value[OF n] rational_value[OF m] m0 pos kmax by auto
qed

lemma printed_length: "0 \<le> k \<Longrightarrow> k \<le> 2147483647 \<Longrightarrow> length (show_nat (nat k)) \<le> 126"
  using length_show_nat[of "nat k" 126] by simp

lemma quantityCeil_covers_ge:
  assumes "quantityCeil a (''1'' @ s) = Inr k" and "s \<in> {''m'', ''Mi'', ''Gi''}"
    and "k \<le> m" and "m < 10 ^ 126"
  shows "quantityExceeds a (show_int m @ s) = Inr False"
proof -
  obtain n d where n: "rational a = Inr (n, d)"
    using assms(1) by (auto simp: quantityCeil_def rbind_eq_Inr)
  obtain x y where xy: "quantity_value a = Some x" "quantity_value (''1'' @ s) = Some y" "0 < y"
    "k = \<lceil>x / y\<rceil>" and k: "0 \<le> k"
    using quantityCeil_value[OF assms(1)] by blast
  define u where "u = m * unit_num s"
  have m: "0 \<le> m" "length (show_nat (nat m)) \<le> 126"
    using k assms(3,4) length_show_nat[of "nat m" 126] by (simp_all add: nat_less_iff)
  have r: "rational (show_int m @ s) = Inr (u, unit_den s)"
    using rational_printed[OF assms(2) m(2)] m(1) by (simp add: show_int_def u_def)
  have "of_int u / of_int (unit_den s) = (of_int m * y :: rat)"
    using rational_value[OF rational_unit[OF assms(2)]] xy(2) by (auto simp: u_def)
  moreover have "x \<le> of_int k * y"
    using le_of_int_ceiling[of "x / y"] unfolding xy(4) by (simp only: pos_divide_le_eq[OF xy(3)])
  moreover have "of_int k * y \<le> of_int m * y" using assms(3) xy(3) by simp
  ultimately have "\<not> (u * d < n * unit_den s)"
    using rational_value[OF n] rational_value[OF r] xy(1) frac_less_iff[of d "unit_den s" u n]
    by (metis leD option.inject order_trans)
  then show ?thesis by (simp add: quantityExceeds_def n r)
qed

text \<open>
  A reservation of the rounded amount covers the observed quantity: when an observed quantity
  rounds up to \<open>k\<close> units, the inventory comparison of that quantity with a reservation of \<open>k\<close> of the
  same unit succeeds and reports no excess.
\<close>
lemma quantityCeil_covers:
  assumes "quantityCeil a (''1'' @ s) = Inr k" and "s \<in> {''m'', ''Mi'', ''Gi''}"
  shows "quantityExceeds a (show_int k @ s) = Inr False"
proof -
  have "k \<le> 2147483647" using quantityCeil_value[OF assms(1)] by blast
  then have "k < 10 ^ 126" by simp
  then show ?thesis using quantityCeil_covers_ge[OF assms order_refl] by blast
qed

text \<open>
  Round trip of the reservation columns: a stored number of GiB, milli-CPU or MiB printed with
  its suffix, as the inventory and the reconciliation do, is read back as the same number.
\<close>
lemma quantity_roundtrip_fact:
  assumes "s \<in> {''m'', ''Mi'', ''Gi''}" and "0 \<le> k" and "k \<le> 2147483647"
  shows "quantityCeil (show_int k @ s) (''1'' @ s) = Inr k"
proof -
  have r: "rational (show_int k @ s) = Inr (k * unit_num s, unit_den s)"
    using rational_printed[OF assms(1) printed_length[OF assms(2,3)]] assms(2) by (simp add: show_int_def)
  have u: "0 < unit_num s" and v: "0 < unit_den s" by (simp_all add: unit_num_def unit_den_def)
  have "(k * unit_num s * unit_den s + unit_den s * unit_num s - 1) div (unit_den s * unit_num s) = k"
  proof -
    define w where "w = unit_den s * unit_num s"
    have w: "0 < w" using u v by (simp add: w_def)
    have "k * unit_num s * unit_den s + w - 1 = (w - 1) + k * w"
      by (simp add: w_def algebra_simps)
    then show ?thesis
      using w by (simp only: w_def[symmetric]) (simp add: div_pos_pos_trivial)
  qed
  then show ?thesis
    using u v assms(3) by (simp add: quantityCeil_def r rational_unit[OF assms(1), simplified] Let_def)
qed

lemma digits_val_bound: "list_all is_digit s \<Longrightarrow> digits_val s < 10 ^ length s"
proof (induction s)
  case Nil
  then show ?case by simp
next
  case (Cons c s)
  then have "digit_val c < 10" and s: "digits_val s < 10 ^ length s"
    by (simp_all add: digit_val_less)
  then have "digit_val c * 10 ^ length s \<le> 9 * 10 ^ length s" by simp
  with s have "digit_val c * 10 ^ length s + digits_val s < 10 * 10 ^ length s" by linarith
  then show ?case by (simp add: digits_val_Cons)
qed

lemma match_quantity_parts:
  assumes "match_quantity v = Some (whole, fraction, suffix)"
  shows "list_all is_digit whole \<and> list_all is_digit fraction \<and>
    length whole + length fraction \<le> length v"
proof -
  define v' where "v' = (if v \<noteq> [] \<and> hd v = CHR ''+'' then tl v else v)"
  define rest where "rest = dropWhile is_digit v'"
  have w: "whole = takeWhile is_digit v'"
    and f: "fraction = (if rest \<noteq> [] \<and> hd rest = CHR ''.'' then takeWhile is_digit (tl rest) else [])"
    using assms by (auto simp: match_quantity_def Let_def v'_def rest_def split: if_splits)
  have "length v' \<le> length v" by (simp add: v'_def)
  moreover have "length v' = length whole + length rest"
    unfolding w rest_def by (metis length_append takeWhile_dropWhile_id)
  moreover have "length fraction \<le> length rest"
    unfolding f by (auto intro: le_trans[OF length_takeWhile_le])
  ultimately have "length whole + length fraction \<le> length v" by simp
  then show ?thesis by (auto simp: w f list_all_iff dest: set_takeWhileD)
qed

lemma mult_bound:
  assumes "0 \<le> (a :: int)" "a < 10 ^ 128" "0 \<le> b" "b \<le> 10 ^ 128"
  shows "a * b < 10 ^ 256"
proof -
  have "a * b \<le> a * 10 ^ 128" using assms by (simp add: mult_left_mono)
  also have "\<dots> < 10 ^ 128 * 10 ^ 128" using assms(2) by (rule mult_strict_right_mono) simp
  also have "\<dots> = 10 ^ 256" by (simp only: power_add[symmetric]) simp
  finally show ?thesis .
qed

lemma index_of_less: "index_of xs y = Some k \<Longrightarrow> k < length xs"
  by (induction xs arbitrary: k) (auto split: if_splits)

text \<open>
  Parsing allocates bounded integers whatever the cluster reports: numerator and denominator of
  every accepted quantity are below \<open>10\<^sup>2\<^sup>5\<^sup>6\<close>.
\<close>
lemma rational_bounded:
  assumes "rational v = Inr (n, d)"
  shows "n < 10 ^ 256 \<and> d \<le> 10 ^ 256"
proof -
  have len: "length v \<le> 128" using assms by (auto simp: rational_def)
  obtain whole fraction suffix where m: "match_quantity v = Some (whole, fraction, suffix)"
    using assms by (auto simp: rational_def split: option.splits)
  define num where "num = int (digits_val ((if whole = [] then ''0'' else whole) @ fraction))"
  define den where "den = (10 :: int) ^ length fraction"
  have parts: "list_all is_digit whole" "list_all is_digit fraction"
    "length whole + length fraction \<le> 128"
    using match_quantity_parts[OF m] len by simp_all
  have "digits_val ((if whole = [] then ''0'' else whole) @ fraction) = digits_val (whole @ fraction)"
    by (simp add: digits_val_append digit_val_def)
  also have "\<dots> < 10 ^ length (whole @ fraction)"
    by (rule digits_val_bound) (simp add: parts)
  also have "\<dots> \<le> 10 ^ 128" using parts(3) by (intro power_increasing) simp_all
  finally have num: "0 \<le> num" "num < 10 ^ 128"
    by (simp_all add: num_def)
  have den: "0 < den" "den \<le> 10 ^ 128"
    using parts(3) power_increasing[of "length fraction" 128 "10 :: int"] by (simp_all add: den_def)
  have big: "(10 :: int) ^ 128 \<le> 10 ^ 256" by (rule power_increasing) simp_all
  show ?thesis
  proof (cases "index_of binary_suffixes suffix")
    case (Some k)
    with assms m have nd: "n = num * 1024 ^ (k + 1)" "d = den"
      by (auto simp: rational_def num_def den_def Let_def)
    have "k + 1 \<le> 6" using index_of_less[OF Some] by (simp add: binary_suffixes_def)
    then have "(1024 :: int) ^ (k + 1) \<le> 1024 ^ 6" by (rule power_increasing) simp
    also have "\<dots> \<le> 10 ^ 128" by simp
    finally show ?thesis using nd num den big mult_bound[of num "1024 ^ (k + 1)"] by simp
  next
    case None
    then obtain ex where ex: "suffix_exponent suffix = Some ex" "\<bar>ex\<bar> \<le> 128"
      and nd: "(n, d) = (if 0 \<le> ex then (num * 10 ^ nat ex, den) else (num, den * 10 ^ nat (- ex)))"
      using assms m
      by (auto simp: rational_def num_def den_def Let_def not_less split: option.splits if_splits)
    have p: "(10 :: int) ^ nat \<bar>ex\<bar> \<le> 10 ^ 128" using ex(2) by (intro power_increasing) simp_all
    have "den * 10 ^ nat \<bar>ex\<bar> \<le> 10 ^ 128 * 10 ^ 128" using den p by (intro mult_mono) simp_all
    also have "\<dots> = 10 ^ 256" by (simp only: power_add[symmetric]) simp
    finally show ?thesis
      using nd p num den big mult_bound[of num "10 ^ nat \<bar>ex\<bar>"] by (auto split: if_splits)
  qed
qed

end
