(* ===== verification/Contract.thy ===== *)
theory Contract
  imports Json_Schema Quantities
begin

text \<open>
  The instance contract: the \<open>CacheInstance\<close> object the platform writes and reads
  (src/apps/admin-api/src/instance-contract.ts), the template catalog with its input schemas
  (template-catalog.ts), client profiles (client-profiles.ts) and the client access policy
  (network-policy.ts). \<open>isDeepStrictEqual\<close> on two specs is \<open>spec_eq\<close>.
\<close>

section \<open>The CacheInstance object\<close>

record template_ref =
  tr_name :: string
  tr_version :: string

record reclaim_ref =
  previousInstanceUID :: string
  volumeUID :: string

record storage_spec =
  st_className :: string
  st_capacity :: string
  st_deletionPolicy :: string
  st_reclaim :: "reclaim_ref option"

record access_spec =
  ac_exposure :: string
  ac_credentialsSecretRef :: string
  ac_readOnly :: "bool option"

record eviction_spec =
  ev_maxCacheGiB :: int
  ev_enginePolicy :: string

record resources_spec =
  rs_requests :: strmap
  rs_limits :: strmap

record cache_spec =
  sp_instanceId :: string
  sp_projectId :: string
  sp_imageBindingMode :: "string option"
  sp_templateRef :: template_ref
  sp_desiredState :: string
  sp_storage :: storage_spec
  sp_access :: access_spec
  sp_eviction :: eviction_spec
  sp_resources :: resources_spec

record object_meta =
  om_name :: string
  om_namespace :: string
  om_uid :: "string option"
  om_generation :: "int option"
  om_resourceVersion :: "string option"
  om_labels :: "strmap option"
  om_annotations :: "strmap option"
  om_deletionTimestamp :: "string option"

record condition =
  cn_type :: string
  cn_status :: string
  cn_reason :: string
  cn_message :: "string option"
  cn_observedGeneration :: "int option"

record cache_status =
  cs_observedGeneration :: "int option"
  cs_credentialRevision :: "string option"
  cs_endpoints :: "(string \<times> string) list option"
  cs_conditions :: "condition list option"

record cache_object =
  co_apiVersion :: string
  co_kind :: string
  co_metadata :: object_meta
  co_spec :: cache_spec
  co_status :: "cache_status option"

text \<open>\<open>metadata.labels?.[key]\<close> and \<open>metadata.annotations?.[key]\<close>\<close>

definition prop_of :: "strmap option \<Rightarrow> string \<Rightarrow> string option" where
  "prop_of m k = (case m of None \<Rightarrow> None | Some xs \<Rightarrow> map_of xs k)"

abbreviation annotation :: "cache_object \<Rightarrow> string \<Rightarrow> string option" where
  "annotation c k \<equiv> prop_of (om_annotations (co_metadata c)) k"

abbreviation label_of :: "cache_object \<Rightarrow> string \<Rightarrow> string option" where
  "label_of c k \<equiv> prop_of (om_labels (co_metadata c)) k"

abbreviation deleting :: "cache_object \<Rightarrow> bool" where
  "deleting c \<equiv> truthy (om_deletionTimestamp (co_metadata c))"

definition resources_eq :: "resources_spec \<Rightarrow> resources_spec \<Rightarrow> bool" where
  "resources_eq a b \<longleftrightarrow> strmap_eq (rs_requests a) (rs_requests b) \<and> strmap_eq (rs_limits a) (rs_limits b)"

definition spec_eq :: "cache_spec \<Rightarrow> cache_spec \<Rightarrow> bool" where
  "spec_eq a b \<longleftrightarrow>
     sp_instanceId a = sp_instanceId b \<and> sp_projectId a = sp_projectId b \<and>
     sp_imageBindingMode a = sp_imageBindingMode b \<and> sp_templateRef a = sp_templateRef b \<and>
     sp_desiredState a = sp_desiredState b \<and> sp_storage a = sp_storage b \<and>
     sp_access a = sp_access b \<and> sp_eviction a = sp_eviction b \<and>
     resources_eq (sp_resources a) (sp_resources b)"

lemma spec_eq_refl [simp]: "spec_eq a a"
  by (simp add: spec_eq_def resources_eq_def)

abbreviation projectLabel :: string where "projectLabel \<equiv> ''cache.expbuild.io/project-id''"
abbreviation instanceLabel :: string where "instanceLabel \<equiv> ''cache.expbuild.io/instance-id''"
abbreviation instanceUidLabel :: string where "instanceUidLabel \<equiv> ''cache.expbuild.io/instance-uid''"
abbreviation managedByLabel :: string where "managedByLabel \<equiv> ''app.kubernetes.io/managed-by''"
abbreviation opKey :: string where "opKey \<equiv> ''cache.expbuild.io/operation-id''"
abbreviation hashKey :: string where "hashKey \<equiv> ''cache.expbuild.io/request-hash''"
abbreviation displayNameKey :: string where "displayNameKey \<equiv> ''cache.expbuild.io/display-name''"

definition labels :: "string \<Rightarrow> string option \<Rightarrow> strmap" where
  "labels projectId instanceId =
     [(managedByLabel, ''expbuild''), (projectLabel, projectId)] @
     (if truthy instanceId then [(instanceLabel, the instanceId)] else [])"

text \<open>
  \<open>`${uid}:${generation}`\<close>; a missing part prints as \<open>undefined\<close>.
\<close>

definition revision :: "cache_object \<Rightarrow> string" where
  "revision c =
     (case om_uid (co_metadata c) of None \<Rightarrow> ''undefined'' | Some u \<Rightarrow> u) @ '':'' @
     (case om_generation (co_metadata c) of None \<Rightarrow> ''undefined'' | Some g \<Rightarrow> show_int g)"

section \<open>Creation input\<close>

record instance_input =
  in_template :: string
  in_name :: string
  in_storageGiB :: int
  in_cpuMillis :: int
  in_memoryMiB :: int
  in_exposure :: string
  in_desiredState :: string
  in_deletionPolicy :: string
  in_cacheGiB :: int
  in_readOnly :: "bool option"

definition common_keys :: "string list" where
  "common_keys = [''name'', ''storageGiB'', ''cpuMillis'', ''memoryMiB'', ''exposure'',
     ''desiredState'', ''deletionPolicy'']"

text \<open>\<open>z.string().trim().min(1).max(100)\<close>\<close>

definition z_name :: "string schema" where
  "z_name v = (case z_string v of None \<Rightarrow> None
     | Some s \<Rightarrow> let t = js_trim s in if 1 \<le> length t \<and> length t \<le> 100 then Some t else None)"

text \<open>
  \<open>commonInput.extend({template, cacheGiB, ...})\<close>: strict, with the defaults of the common fields.
  The template and cache schemas, the extra keys and the read-only schema are those of each
  template.
\<close>

definition commonInput ::
  "string list \<Rightarrow> string schema \<Rightarrow> int schema \<Rightarrow> bool option schema \<Rightarrow> instance_input schema" where
  "commonInput extra template cache readOnly v =
     (case z_strict (common_keys @ [''template'', ''cacheGiB''] @ extra) v of
        None \<Rightarrow> None
      | Some fs \<Rightarrow>
          (case (z_field fs ''name'' z_name,
                 z_field fs ''storageGiB'' (z_int 2 1048576),
                 z_field fs ''cpuMillis'' (z_default 500 (z_int 100 64000)),
                 z_field fs ''memoryMiB'' (z_default 512 (z_int 128 262144)),
                 z_field fs ''exposure'' (z_default ''ClusterInternal'' (z_enum [''ClusterInternal'', ''Gateway''])),
                 z_field fs ''desiredState'' (z_default ''Running'' (z_enum [''Running'', ''Suspended''])),
                 z_field fs ''deletionPolicy'' (z_default ''Retain'' (z_enum [''Retain'', ''Delete''])),
                 z_field fs ''template'' template,
                 z_field fs ''cacheGiB'' cache,
                 z_field fs ''readOnly'' readOnly) of
             (Some nm, Some st, Some cpu, Some mem, Some ex, Some ds, Some dp, Some tp, Some ca, Some ro) \<Rightarrow>
               Some \<lparr>in_template = tp, in_name = nm, in_storageGiB = st, in_cpuMillis = cpu,
                 in_memoryMiB = mem, in_exposure = ex, in_desiredState = ds, in_deletionPolicy = dp,
                 in_cacheGiB = ca, in_readOnly = ro\<rparr>
           | _ \<Rightarrow> None))"

text \<open>A template without a \<open>readOnly\<close> field: the strict schema has no such key.\<close>

definition no_readOnly :: "bool option schema" where
  "no_readOnly v = Some None"

text \<open>\<open>.refine(x => x.cacheGiB < x.storageGiB)\<close>\<close>

definition leaves_space :: "instance_input \<Rightarrow> bool" where
  "leaves_space x \<longleftrightarrow> in_cacheGiB x < in_storageGiB x"

definition bazelInput :: "instance_input schema" where
  "bazelInput = z_check (commonInput [] (z_default ''bazel-remote'' (z_literal ''bazel-remote''))
     (z_int 1 1048575) no_readOnly) leaves_space"

definition webdavInput :: "instance_input schema" where
  "webdavInput = commonInput [] (z_literal ''webdav-apache'') (z_int 0 0) no_readOnly"

definition gradleInput :: "instance_input schema" where
  "gradleInput = z_check (commonInput [] (z_literal ''gradle-http'') (z_int 1 1048575) no_readOnly) leaves_space"

definition turborepoInput :: "instance_input schema" where
  "turborepoInput = z_check (commonInput [] (z_literal ''turborepo-http'') (z_int 1 1048575) no_readOnly) leaves_space"

definition nxInput :: "instance_input schema" where
  "nxInput = z_check (commonInput [] (z_literal ''nx-http'') (z_int 1 1048575) no_readOnly) leaves_space"

definition goCacheInput :: "instance_input schema" where
  "goCacheInput = z_check (commonInput [''readOnly''] (z_literal ''go-cacheprog'') (z_int 1 1048575)
     (\<lambda>v. map_option Some (z_default True z_bool v))) leaves_space"

definition instanceInput :: "instance_input schema" where
  "instanceInput = z_union [bazelInput, webdavInput, gradleInput, turborepoInput, nxInput, goCacheInput]"

section \<open>Template catalog\<close>

record template_options =
  webdavEnabled :: bool
  gradleEnabled :: bool
  turborepoEnabled :: bool
  nxEnabled :: bool
  goCacheEnabled :: bool
  gatewayEnabled :: bool

record capabilities =
  cap_capacity :: bool
  cap_statistics :: bool
  cap_lookupHistory :: bool
  cap_lru :: bool
  cap_ttl :: bool
  cap_replicas :: int
  cap_policyApplyMode :: string
  cap_policyCondition :: string

record template_def =
  td_name :: string
  td_version :: string
  td_enginePolicy :: string
  td_protocols :: "string list"
  td_input :: "instance_input schema"
  td_capabilities :: capabilities
  td_enabled :: "template_options \<Rightarrow> bool"

abbreviation caps :: "bool \<Rightarrow> bool \<Rightarrow> bool \<Rightarrow> bool \<Rightarrow> string \<Rightarrow> capabilities" where
  "caps c s h l m \<equiv> \<lparr>cap_capacity = c, cap_statistics = s, cap_lookupHistory = h, cap_lru = l,
     cap_ttl = False, cap_replicas = 1, cap_policyApplyMode = m, cap_policyCondition = ''PolicyApplied''\<rparr>"

definition bazel_0_1_0 :: template_def where
  "bazel_0_1_0 = \<lparr>td_name = ''bazel-remote'', td_version = ''0.1.0'', td_enginePolicy = ''lru'',
     td_protocols = [''reapi'', ''bazel-http''], td_input = bazelInput,
     td_capabilities = caps True True True True ''restart'', td_enabled = (\<lambda>_. True)\<rparr>"

definition webdav_0_2_0 :: template_def where
  "webdav_0_2_0 = \<lparr>td_name = ''webdav-apache'', td_version = ''0.2.0'', td_enginePolicy = ''none'',
     td_protocols = [''webdav'', ''http''], td_input = webdavInput,
     td_capabilities = caps False True False False ''unsupported'', td_enabled = webdavEnabled\<rparr>"

definition webdav_0_1_0 :: template_def where
  "webdav_0_1_0 = \<lparr>td_name = ''webdav-apache'', td_version = ''0.1.0'', td_enginePolicy = ''none'',
     td_protocols = [''webdav'', ''http''], td_input = webdavInput,
     td_capabilities = caps False False False False ''unsupported'', td_enabled = (\<lambda>_. False)\<rparr>"

definition gradle_0_2_0 :: template_def where
  "gradle_0_2_0 = \<lparr>td_name = ''gradle-http'', td_version = ''0.2.0'', td_enginePolicy = ''lru'',
     td_protocols = [''gradle-http''], td_input = gradleInput,
     td_capabilities = caps True True False True ''restart'', td_enabled = gradleEnabled\<rparr>"

definition gradle_0_1_0 :: template_def where
  "gradle_0_1_0 = \<lparr>td_name = ''gradle-http'', td_version = ''0.1.0'', td_enginePolicy = ''lru'',
     td_protocols = [''gradle-http''], td_input = gradleInput,
     td_capabilities = caps True True False True ''restart'', td_enabled = (\<lambda>_. False)\<rparr>"

definition turborepo_0_1_0 :: template_def where
  "turborepo_0_1_0 = \<lparr>td_name = ''turborepo-http'', td_version = ''0.1.0'', td_enginePolicy = ''lru'',
     td_protocols = [''turborepo-http''], td_input = turborepoInput,
     td_capabilities = caps True False False True ''restart'', td_enabled = turborepoEnabled\<rparr>"

definition nx_0_1_0 :: template_def where
  "nx_0_1_0 = \<lparr>td_name = ''nx-http'', td_version = ''0.1.0'', td_enginePolicy = ''lru'',
     td_protocols = [''nx-http''], td_input = nxInput,
     td_capabilities = caps True False False True ''restart'', td_enabled = nxEnabled\<rparr>"

definition goCache_0_1_0 :: template_def where
  "goCache_0_1_0 = \<lparr>td_name = ''go-cacheprog'', td_version = ''0.1.0'', td_enginePolicy = ''lru'',
     td_protocols = [''go-cacheprog''], td_input = goCacheInput,
     td_capabilities = caps True False False True ''restart'', td_enabled = goCacheEnabled\<rparr>"

lemmas template_defs = bazel_0_1_0_def webdav_0_2_0_def webdav_0_1_0_def gradle_0_2_0_def
  gradle_0_1_0_def turborepo_0_1_0_def nx_0_1_0_def goCache_0_1_0_def

definition templates :: "template_def list" where
  "templates = [bazel_0_1_0, webdav_0_2_0, webdav_0_1_0, gradle_0_2_0,
     gradle_0_1_0, turborepo_0_1_0, nx_0_1_0, goCache_0_1_0]"

lemma template_identity [simp]:
  "td_name bazel_0_1_0 = ''bazel-remote''" "td_version bazel_0_1_0 = ''0.1.0''"
  "td_name webdav_0_2_0 = ''webdav-apache''" "td_version webdav_0_2_0 = ''0.2.0''"
  "td_name webdav_0_1_0 = ''webdav-apache''" "td_version webdav_0_1_0 = ''0.1.0''"
  "td_name gradle_0_2_0 = ''gradle-http''" "td_version gradle_0_2_0 = ''0.2.0''"
  "td_name gradle_0_1_0 = ''gradle-http''" "td_version gradle_0_1_0 = ''0.1.0''"
  "td_name turborepo_0_1_0 = ''turborepo-http''" "td_version turborepo_0_1_0 = ''0.1.0''"
  "td_name nx_0_1_0 = ''nx-http''" "td_version nx_0_1_0 = ''0.1.0''"
  "td_name goCache_0_1_0 = ''go-cacheprog''" "td_version goCache_0_1_0 = ''0.1.0''"
  by (simp_all add: template_defs)

lemma template_enabled [simp]:
  "td_enabled bazel_0_1_0 = (\<lambda>_. True)" "td_enabled webdav_0_2_0 = webdavEnabled"
  "td_enabled webdav_0_1_0 = (\<lambda>_. False)" "td_enabled gradle_0_2_0 = gradleEnabled"
  "td_enabled gradle_0_1_0 = (\<lambda>_. False)" "td_enabled turborepo_0_1_0 = turborepoEnabled"
  "td_enabled nx_0_1_0 = nxEnabled" "td_enabled goCache_0_1_0 = goCacheEnabled"
  by (simp_all add: template_defs)

definition templateDefinition :: "string \<Rightarrow> string option \<Rightarrow> template_def result" where
  "templateDefinition name version =
     (case sql_first (\<lambda>t. td_name t = name \<and> (version = None \<or> Some (td_version t) = version)) templates of
        None \<Rightarrow> Inl (JsError ''Unsupported template or version'')
      | Some t \<Rightarrow> Inr t)"

definition templateEnabled :: "string \<Rightarrow> template_options \<Rightarrow> bool result" where
  "templateEnabled name options = rbind (templateDefinition name None) (\<lambda>t. Inr (td_enabled t options))"

record client_profile =
  cp_id :: string
  cp_protocol :: string
  cp_version :: string
  cp_status :: string

abbreviation experimental :: "string \<Rightarrow> string \<Rightarrow> string \<Rightarrow> client_profile" where
  "experimental i p v \<equiv> \<lparr>cp_id = i, cp_protocol = p, cp_version = v, cp_status = ''experimental''\<rparr>"

definition clientProfiles :: "string \<Rightarrow> string option \<Rightarrow> client_profile list" where
  "clientProfiles name version =
     (if name = ''bazel-remote'' \<and> version = Some ''0.1.0'' then
        [experimental ''pants'' ''reapi'' ''2.33.1'', experimental ''moonrepo'' ''reapi'' ''2.5.6'']
      else if name = ''webdav-apache'' \<and>
          (case version of None \<Rightarrow> '''' | Some v \<Rightarrow> v) \<in> {''0.1.0'', ''0.2.0''} then
        [experimental ''sccache'' ''webdav'' ''0.18.0'', experimental ''maven-build-cache'' ''webdav'' ''1.3.0'']
      else if name = ''turborepo-http'' \<and> version = Some ''0.1.0'' then
        [experimental ''turborepo'' ''turborepo-http'' ''2.11.7'']
      else if name = ''nx-http'' \<and> version = Some ''0.1.0'' then
        [experimental ''nx'' ''nx-http'' ''22.7.12'']
      else if name = ''go-cacheprog'' \<and> version = Some ''0.1.0'' then
        [experimental ''go-cacheprog'' ''go-cacheprog'' ''1.3.0'']
      else [])"

record catalog_entry =
  ce_name :: string
  ce_version :: string
  ce_exposures :: "string list"
  ce_clientProfiles :: "client_profile list"
  ce_protocols :: "string list"
  ce_capabilities :: capabilities
  ce_inputSchema :: json

text \<open>\<open>z.toJSONSchema\<close> is zod's own renderer, a parameter.\<close>

definition templateCatalog ::
  "(instance_input schema \<Rightarrow> json) \<Rightarrow> template_options \<Rightarrow> catalog_entry list" where
  "templateCatalog toJSONSchema options =
     map (\<lambda>t. \<lparr>ce_name = td_name t, ce_version = td_version t,
        ce_exposures = (if gatewayEnabled options then [''ClusterInternal'', ''Gateway''] else [''ClusterInternal'']),
        ce_clientProfiles = clientProfiles (td_name t) (Some (td_version t)),
        ce_protocols = td_protocols t, ce_capabilities = td_capabilities t,
        ce_inputSchema = toJSONSchema (td_input t)\<rparr>)
       (filter (\<lambda>t. td_enabled t options) templates)"

definition instanceCapabilities :: "string \<Rightarrow> string option \<Rightarrow> capabilities option" where
  "instanceCapabilities name version =
     (if \<not> truthy version then None
      else map_option td_capabilities
        (sql_first (\<lambda>t. td_name t = name \<and> Some (td_version t) = version) templates))"

section \<open>Desired object and client access\<close>

definition desiredObject ::
  "instance_input \<Rightarrow> string \<Rightarrow> string \<Rightarrow> string \<Rightarrow> string \<Rightarrow> string \<Rightarrow> string \<Rightarrow> cache_object result" where
  "desiredObject input projectId namespace iid storageClass operationId requestHash =
     rbind (templateDefinition (in_template input) None) (\<lambda>template.
       let resources = [(''cpu'', show_int (in_cpuMillis input) @ ''m''),
                        (''memory'', show_int (in_memoryMiB input) @ ''Mi'')]
       in Inr \<lparr>co_apiVersion = ''cache.expbuild.io/v1alpha1'', co_kind = ''CacheInstance'',
            co_metadata = \<lparr>om_name = ''c-'' @ iid, om_namespace = namespace, om_uid = None,
              om_generation = None, om_resourceVersion = None,
              om_labels = Some (labels projectId (Some iid)),
              om_annotations = Some [(opKey, operationId), (hashKey, requestHash), (displayNameKey, in_name input)],
              om_deletionTimestamp = None\<rparr>,
            co_spec = \<lparr>sp_instanceId = iid, sp_projectId = projectId,
              sp_imageBindingMode = Some ''PinnedV1'',
              sp_templateRef = \<lparr>tr_name = td_name template, tr_version = td_version template\<rparr>,
              sp_desiredState = in_desiredState input,
              sp_storage = \<lparr>st_className = storageClass, st_capacity = show_int (in_storageGiB input) @ ''Gi'',
                st_deletionPolicy = in_deletionPolicy input, st_reclaim = None\<rparr>,
              sp_access = \<lparr>ac_exposure = in_exposure input, ac_credentialsSecretRef = ''c-'' @ iid @ ''-auth'',
                ac_readOnly = (if in_template input = ''go-cacheprog'' then in_readOnly input else None)\<rparr>,
              sp_eviction = \<lparr>ev_maxCacheGiB = in_cacheGiB input, ev_enginePolicy = td_enginePolicy template\<rparr>,
              sp_resources = \<lparr>rs_requests = resources, rs_limits = resources\<rparr>\<rparr>,
            co_status = None\<rparr>)"

record network_policy =
  np_name :: string
  np_namespace :: string
  np_labels :: strmap
  np_podSelector :: strmap
  np_policyTypes :: "string list"
  np_fromNamespaces :: strmap
  np_fromPods :: strmap
  np_ports :: "(string \<times> int) list"

text \<open>\<open>/^[a-zA-Z0-9][a-zA-Z0-9-]{0,47}$/\<close>\<close>

definition valid_project_identity :: "string \<Rightarrow> bool" where
  "valid_project_identity s \<longleftrightarrow>
     s \<noteq> [] \<and> is_alnum (hd s) \<and> length s \<le> 48 \<and> list_all (\<lambda>c. is_alnum c \<or> c = CHR ''-'') (tl s)"

definition clientAccessPolicy :: "string \<Rightarrow> string \<Rightarrow> network_policy result" where
  "clientAccessPolicy namespace projectId =
     throw_if (\<not> valid_project_identity projectId) (JsError ''Invalid project identity for network access'')
       (Inr \<lparr>np_name = ''expbuild-client-access'', np_namespace = namespace,
          np_labels = labels projectId None, np_podSelector = labels projectId None,
          np_policyTypes = [''Ingress''],
          np_fromNamespaces = [(''cache.expbuild.io/access-'' @ projectId, ''true'')],
          np_fromPods = [(''cache.expbuild.io/client'', ''true'')],
          np_ports = [(''TCP'', 8080), (''TCP'', 9092)]\<rparr>)"

section \<open>Well-formed input\<close>

definition valid_input :: "instance_input \<Rightarrow> bool" where
  "valid_input x \<longleftrightarrow>
     1 \<le> length (in_name x) \<and> length (in_name x) \<le> 100 \<and>
     2 \<le> in_storageGiB x \<and> in_storageGiB x \<le> 1048576 \<and>
     100 \<le> in_cpuMillis x \<and> in_cpuMillis x \<le> 64000 \<and>
     128 \<le> in_memoryMiB x \<and> in_memoryMiB x \<le> 262144 \<and>
     in_exposure x \<in> {''ClusterInternal'', ''Gateway''} \<and>
     in_desiredState x \<in> {''Running'', ''Suspended''} \<and>
     in_deletionPolicy x \<in> {''Retain'', ''Delete''} \<and>
     in_template x \<in> td_name ` set templates \<and>
     (if in_template x = ''webdav-apache'' then in_cacheGiB x = 0
      else 1 \<le> in_cacheGiB x \<and> in_cacheGiB x < in_storageGiB x) \<and>
     (in_readOnly x \<noteq> None \<longleftrightarrow> in_template x = ''go-cacheprog'')"

definition common_ok :: "instance_input \<Rightarrow> bool" where
  "common_ok x \<longleftrightarrow>
     1 \<le> length (in_name x) \<and> length (in_name x) \<le> 100 \<and>
     2 \<le> in_storageGiB x \<and> in_storageGiB x \<le> 1048576 \<and>
     100 \<le> in_cpuMillis x \<and> in_cpuMillis x \<le> 64000 \<and>
     128 \<le> in_memoryMiB x \<and> in_memoryMiB x \<le> 262144 \<and>
     in_exposure x \<in> {''ClusterInternal'', ''Gateway''} \<and>
     in_desiredState x \<in> {''Running'', ''Suspended''} \<and>
     in_deletionPolicy x \<in> {''Retain'', ''Delete''}"

lemma z_name_Some: "z_name v = Some s \<Longrightarrow> 1 \<le> length s \<and> length s \<le> 100"
  by (auto simp: z_name_def Let_def split: option.splits if_splits)

lemma z_default_int: "z_default d (z_int lo hi) v = Some n \<Longrightarrow> lo \<le> d \<Longrightarrow> d \<le> hi \<Longrightarrow> lo \<le> n \<and> n \<le> hi"
  by (auto simp: z_default_def split: option.splits dest: z_int_Some)

lemma z_default_enum: "z_default d (z_enum xs) v = Some s \<Longrightarrow> d \<in> set xs \<Longrightarrow> s \<in> set xs"
  by (auto simp: z_default_def split: option.splits dest: z_enum_Some)

lemma commonInput_Some:
  assumes "commonInput extra template cache readOnly v = Some x"
  shows "common_ok x \<and> (\<exists>u. template u = Some (in_template x)) \<and> (\<exists>u. cache u = Some (in_cacheGiB x)) \<and>
    (\<exists>u. readOnly u = Some (in_readOnly x))"
proof -
  obtain fs nm st cpu mem ex ds dp tp ca ro where
    nm: "z_field fs ''name'' z_name = Some nm" and
    st: "z_field fs ''storageGiB'' (z_int 2 1048576) = Some st" and
    cpu: "z_field fs ''cpuMillis'' (z_default 500 (z_int 100 64000)) = Some cpu" and
    mem: "z_field fs ''memoryMiB'' (z_default 512 (z_int 128 262144)) = Some mem" and
    ex: "z_field fs ''exposure'' (z_default ''ClusterInternal'' (z_enum [''ClusterInternal'', ''Gateway''])) = Some ex" and
    ds: "z_field fs ''desiredState'' (z_default ''Running'' (z_enum [''Running'', ''Suspended''])) = Some ds" and
    dp: "z_field fs ''deletionPolicy'' (z_default ''Retain'' (z_enum [''Retain'', ''Delete''])) = Some dp" and
    rest: "z_field fs ''template'' template = Some tp" "z_field fs ''cacheGiB'' cache = Some ca"
      "z_field fs ''readOnly'' readOnly = Some ro" and
    x: "x = \<lparr>in_template = tp, in_name = nm, in_storageGiB = st, in_cpuMillis = cpu, in_memoryMiB = mem,
      in_exposure = ex, in_desiredState = ds, in_deletionPolicy = dp, in_cacheGiB = ca, in_readOnly = ro\<rparr>"
    using assms unfolding commonInput_def by (simp split: option.splits)
  have "common_ok x"
    unfolding common_ok_def x
    using z_name_Some[OF nm[unfolded z_field_def]] z_int_Some[OF st[unfolded z_field_def]]
      z_default_int[OF cpu[unfolded z_field_def]] z_default_int[OF mem[unfolded z_field_def]]
      z_default_enum[OF ex[unfolded z_field_def]] z_default_enum[OF ds[unfolded z_field_def]]
      z_default_enum[OF dp[unfolded z_field_def]]
    by simp
  with rest show ?thesis unfolding x z_field_def by auto
qed

lemma refined_Some:
  assumes "z_check (commonInput extra template (z_int 1 1048575) readOnly) leaves_space v = Some x"
  shows "common_ok x \<and> (\<exists>u. template u = Some (in_template x)) \<and> (\<exists>u. readOnly u = Some (in_readOnly x)) \<and>
    1 \<le> in_cacheGiB x \<and> in_cacheGiB x < in_storageGiB x"
proof -
  have c: "commonInput extra template (z_int 1 1048575) readOnly v = Some x" and s: "leaves_space x"
    using assms by (auto simp: z_check_def split: option.splits if_splits)
  show ?thesis
    using commonInput_Some[OF c] s by (auto simp: leaves_space_def dest: z_int_Some)
qed

lemma template_names:
  "td_name ` set templates =
    {''bazel-remote'', ''webdav-apache'', ''gradle-http'', ''turborepo-http'', ''nx-http'', ''go-cacheprog''}"
  by (simp add: templates_def insert_commute)

lemma valid_inputI:
  assumes "common_ok x" "in_template x \<in> td_name ` set templates"
    "if in_template x = ''webdav-apache'' then in_cacheGiB x = 0
     else 1 \<le> in_cacheGiB x \<and> in_cacheGiB x < in_storageGiB x"
    "in_readOnly x \<noteq> None \<longleftrightarrow> in_template x = ''go-cacheprog''"
  shows "valid_input x"
  using assms unfolding valid_input_def common_ok_def by blast

lemma instanceInput_valid_input:
  assumes "instanceInput v = Some x"
  shows "valid_input x"
proof -
  have lit: "\<exists>u. z_literal t u = Some s \<Longrightarrow> s = t" for t s
    by (auto dest: z_literal_Some)
  have dlit: "\<exists>u. z_default t (z_literal t) u = Some s \<Longrightarrow> s = t" for t s
    by (auto simp: z_default_def dest: z_literal_Some split: option.splits)
  have nro: "\<exists>u. no_readOnly u = Some s \<Longrightarrow> s = None" for s
    by (auto simp: no_readOnly_def)
  have gro: "\<exists>u. map_option Some (z_default True z_bool u) = Some s \<Longrightarrow> s \<noteq> None" for s
    by auto
  consider (bazel) "bazelInput v = Some x" | (webdav) "webdavInput v = Some x"
    | (gradle) "gradleInput v = Some x" | (turbo) "turborepoInput v = Some x"
    | (nx) "nxInput v = Some x" | (go) "goCacheInput v = Some x"
    using z_union_Some[OF assms[unfolded instanceInput_def]] by auto
  then show ?thesis
  proof cases
    case bazel
    from refined_Some[OF this[unfolded bazelInput_def]] show ?thesis
      by (auto intro!: valid_inputI simp: template_names dest!: dlit nro)
  next
    case webdav
    from commonInput_Some[OF this[unfolded webdavInput_def]] show ?thesis
      by (auto intro!: valid_inputI simp: template_names dest!: lit nro dest: z_int_Some)
  next
    case gradle
    from refined_Some[OF this[unfolded gradleInput_def]] show ?thesis
      by (auto intro!: valid_inputI simp: template_names dest!: lit nro)
  next
    case turbo
    from refined_Some[OF this[unfolded turborepoInput_def]] show ?thesis
      by (auto intro!: valid_inputI simp: template_names dest!: lit nro)
  next
    case nx
    from refined_Some[OF this[unfolded nxInput_def]] show ?thesis
      by (auto intro!: valid_inputI simp: template_names dest!: lit nro)
  next
    case go
    from refined_Some[OF this[unfolded goCacheInput_def]]
    have "in_readOnly x \<noteq> None" "in_template x = ''go-cacheprog''" "common_ok x"
      "1 \<le> in_cacheGiB x \<and> in_cacheGiB x < in_storageGiB x"
      using gro lit by blast+
    then show ?thesis by (auto intro!: valid_inputI simp: template_names)
  qed
qed

end
