(* ===== verification/Database.thy ===== *)
theory Database
  imports Contract
begin

text \<open>
  The PostgreSQL schema of src/apps/admin-api/migrations as a record of tables, and the transaction
  wrapper of db.ts. A table is the list of its rows; a column with a CHECK constraint is a datatype
  of the values it allows; \<open>timestamptz\<close> is an integer number of milliseconds. Uniqueness
  constraints that the code relies on (the idempotency key, one unfinished operation per instance,
  one unfinished initialization per project, primary keys) are checked where rows are inserted or
  change state, and raise SQLSTATE 23505. The random primary keys of \<open>audit_events\<close> and
  \<open>instance_credentials\<close>, which nothing reads, are left out. \<open>now()\<close> is the start time of the
  transaction, so a transaction body gets it as an argument.
\<close>

section \<open>Columns\<close>

datatype project_state = PPending | PReady | PFailed | PDeleting

datatype lifecycle = Pending | Active | Deleting | Deleted | Detached | Failed

datatype op_state = OpPending | Applying | Reconciling | Succeeded | OpFailed | Superseded

datatype op_kind =
    ProjectCreate | InstanceCreate | InstanceReclaim | InstanceUpdate | InstanceRotate
  | InstanceDelete | VolumeDelete | OtherKind string

datatype cred_state = CredPending | CredActive | CredRevoking | CredRevoked

datatype role = Admin | Maintainer | Viewer

definition unfinished :: "op_state \<Rightarrow> bool" where
  "unfinished st \<longleftrightarrow> st = OpPending \<or> st = Applying \<or> st = Reconciling"

record user_row =
  u_id :: string
  u_email :: string
  u_password_hash :: string
  u_platform_admin :: bool
  u_active :: bool

record session_row =
  s_token_hash :: string
  s_user_id :: string
  s_csrf_hash :: string
  s_expires_at :: int

record member_row =
  m_project_id :: string
  m_user_id :: string
  m_role :: role

datatype issue_kind = KCacheInstance | KVolumeClaim

record inventory_issue =
  is_code :: string
  is_kind :: issue_kind
  is_resourceName :: string
  is_instanceId :: "string option"

record inventory_result =
  ir_state :: string
  ir_error :: "string option"
  ir_issues :: "inventory_issue list"
  ir_issueCount :: nat
  ir_truncated :: bool
  ir_busyInstances :: nat
  ir_counts :: "(nat \<times> nat) option"

record project_row =
  p_id :: string
  p_name :: string
  p_namespace :: string
  p_state :: project_state
  p_created_by :: string
  p_quota_limits :: json
  p_quota_revision :: int
  p_quota_observed_revision :: "int option"
  p_quota_checked_at :: "int option"
  p_quota_sync_error :: "string option"
  p_quota_next_sync :: int
  p_inventory_result :: "inventory_result option"
  p_inventory_checked_at :: "int option"
  p_inventory_next_scan :: int
  p_inventory_worker_id :: "string option"
  p_inventory_lease_until :: "int option"

record binding_row =
  b_id :: string
  b_project_id :: string
  b_resource_name :: string
  b_kubernetes_uid :: "string option"
  b_lifecycle :: lifecycle
  b_created_by :: string
  b_created_at :: int
  b_display_name :: string
  b_template_name :: string
  b_template_version :: "string option"
  b_reserved_storage_gib :: "int option"
  b_reserved_cpu_millis :: "int option"
  b_reserved_memory_mib :: "int option"

record op_request =
  rq_namespace :: "string option"
  rq_desired :: "cache_object option"
  rq_expectedRevision :: "string option"
  rq_uid :: "string option"
  rq_instanceUid :: "string option"
  rq_previousInstanceUID :: "string option"
  rq_volumeUid :: "string option"
  rq_name :: "string option"
  rq_deletionPolicy :: "string option"

definition empty_request :: op_request where
  "empty_request = \<lparr>rq_namespace = None, rq_desired = None, rq_expectedRevision = None, rq_uid = None,
     rq_instanceUid = None, rq_previousInstanceUID = None, rq_volumeUid = None, rq_name = None,
     rq_deletionPolicy = None\<rparr>"

record op_row =
  o_id :: string
  o_project_id :: string
  o_instance_id :: "string option"
  o_kind :: op_kind
  o_idempotency_key :: string
  o_request_hash :: string
  o_request :: op_request
  o_state :: op_state
  o_target_generation :: "int option"
  o_worker_id :: "string option"
  o_lease_until :: "int option"
  o_error_code :: "string option"
  o_created_by :: string
  o_created_at :: int
  o_updated_at :: int
  o_secret_payload :: "string option"
  o_next_attempt_at :: int
  o_attempts :: int
  o_deadline_at :: int

record cred_row =
  c_instance_id :: string
  c_name :: string
  c_secret_name :: string
  c_revision :: int
  c_state :: cred_state

record audit_row =
  a_actor :: "string option"
  a_project :: "string option"
  a_instance :: "string option"
  a_operation :: "string option"
  a_action :: string
  a_details :: json

record retry_row =
  rt_project_id :: string
  rt_idempotency_key :: string
  rt_operation_id :: string

section \<open>Observations\<close>

record request_counts =
  rc_getHits :: int
  rc_getMisses :: int
  rc_putSuccess :: int
  rc_putRejected :: int

text \<open>InstanceStatistics of statistics.ts; the text of a time is represented by the instant.\<close>

record instance_statistics =
  sx_observedAt :: int
  sx_source :: string
  sx_usedBytes :: int
  sx_capacityBytes :: int
  sx_itemCount :: int
  sx_reservedBytes :: "int option"
  sx_uncompressedBytes :: "int option"
  sx_requestCounts :: "request_counts option"

datatype phase = PhReady | PhStarting | PhSuspended | PhDeleting | PhUnknown

datatype collection = ColOk | ColError | ColUnsupported | ColSuspended

record condition_view =
  cv_type :: string
  cv_status :: string
  cv_reason :: string
  cv_current :: bool

record instance_snapshot =
  ss_phase :: phase
  ss_collection :: collection
  ss_generation :: "int option"
  ss_conditions :: "condition_view list"
  ss_statistics :: "instance_statistics option"
  ss_eventsCollection :: "string option"

record diagnostic_event =
  de_uid :: string
  de_resourceUID :: string
  de_kind :: string
  de_reason :: string
  de_type :: string
  de_count :: int
  de_lastOccurred :: "int option"

record snapshot_row =
  sr_instance_id :: string
  sr_project_id :: string
  sr_instance_uid :: string
  sr_observed_at :: int
  sr_payload :: instance_snapshot

datatype event_details = Observed phase "int option" "condition_view list" | Diagnosed diagnostic_event

record event_row =
  er_id :: string
  er_project_id :: string
  er_instance_id :: string
  er_instance_uid :: string
  er_observed_at :: int
  er_code :: string
  er_source_uid :: "string option"
  er_details :: event_details

datatype alert_state = Firing | Resolved

record alert_summary =
  am_name :: string
  am_severity :: string
  am_summary :: string

record alert_row =
  al_project_id :: string
  al_instance_uid :: string
  al_fingerprint :: string
  al_starts_at :: int
  al_ends_at :: "int option"
  al_received_at :: int
  al_state :: alert_state
  al_active_confirmed :: "bool option"
  al_checked_at :: "int option"
  al_payload :: alert_summary

section \<open>The tables\<close>

record database =
  db_users :: "user_row list"
  db_sessions :: "session_row list"
  db_projects :: "project_row list"
  db_members :: "member_row list"
  db_bindings :: "binding_row list"
  db_operations :: "op_row list"
  db_credentials :: "cred_row list"
  db_audit :: "audit_row list"
  db_retries :: "retry_row list"
  db_snapshots :: "snapshot_row list"
  db_events :: "event_row list"
  db_alerts :: "alert_row list"

definition empty_db :: database where
  "empty_db = \<lparr>db_users = [], db_sessions = [], db_projects = [], db_members = [], db_bindings = [],
     db_operations = [], db_credentials = [], db_audit = [], db_retries = [], db_snapshots = [], db_events = [], db_alerts = []\<rparr>"

section \<open>The running system and transactions\<close>

text \<open>
  \<open>sys_world\<close> is everything outside the database: the cluster and other services. A call to it is a
  function on the whole system, so that time passes and other replicas commit their own
  transactions while the call runs.
\<close>

record 'w sys =
  sys_db :: database
  sys_now :: int
  sys_world :: 'w

definition transaction :: "(int \<Rightarrow> (database, 'a) action) \<Rightarrow> ('w sys, 'a) action" where
  "transaction run s =
     (case run (sys_now s) (sys_db s) of
        (d, Inr x) \<Rightarrow> (s\<lparr>sys_db := d\<rparr>, Inr x)
      | (_, Inl e) \<Rightarrow> (s, Inl e))"

text \<open>\<open>pool.query\<close> outside a transaction: one statement, committed by itself.\<close>

definition query :: "(int \<Rightarrow> database \<Rightarrow> 'a) \<Rightarrow> ('w sys, 'a) action" where
  "query q s = (s, Inr (q (sys_now s) (sys_db s)))"

definition exec_sql :: "(int \<Rightarrow> database \<Rightarrow> database) \<Rightarrow> ('w sys, unit) action" where
  "exec_sql f s = (s\<lparr>sys_db := f (sys_now s) (sys_db s)\<rparr>, Inr ())"

lemma transaction_Inr:
  "transaction run s = (s', Inr x) \<longleftrightarrow>
     (\<exists>d. run (sys_now s) (sys_db s) = (d, Inr x) \<and> s' = s\<lparr>sys_db := d\<rparr>)"
  by (auto simp: transaction_def split: prod.splits sum.splits)

lemma transaction_Inl:
  "transaction run s = (s', Inl e) \<longleftrightarrow> s' = s \<and> (\<exists>d. run (sys_now s) (sys_db s) = (d, Inl e))"
  by (auto simp: transaction_def split: prod.splits sum.splits)

text \<open>Inside a transaction: reading and changing the tables.\<close>

abbreviation tx_get :: "(database \<Rightarrow> 'a) \<Rightarrow> (database, 'a) action" where
  "tx_get \<equiv> mget"

abbreviation tx_put :: "(database \<Rightarrow> database) \<Rightarrow> (database, unit) action" where
  "tx_put \<equiv> mput"

section \<open>Constraints of the operations table\<close>

definition op_keys_unique :: "op_row list \<Rightarrow> bool" where
  "op_keys_unique rows \<longleftrightarrow>
     distinct (map o_id rows) \<and>
     distinct (map (\<lambda>r. (o_project_id r, o_kind r, o_idempotency_key r)) rows)"

definition one_unfinished :: "op_row list \<Rightarrow> bool" where
  "one_unfinished rows \<longleftrightarrow>
     distinct (map o_instance_id (filter (\<lambda>r. unfinished (o_state r) \<and> o_instance_id r \<noteq> None) rows)) \<and>
     distinct (map o_project_id (filter (\<lambda>r. unfinished (o_state r) \<and> o_kind r = ProjectCreate) rows))"

text \<open>An INSERT or UPDATE of the table that would break a unique index raises 23505.\<close>

definition write_operations :: "(op_row list \<Rightarrow> op_row list) \<Rightarrow> (database, unit) action" where
  "write_operations f d =
     (let rows = f (db_operations d)
      in if op_keys_unique rows \<and> one_unfinished rows
         then (d\<lparr>db_operations := rows\<rparr>, Inr ()) else (d, Inl (PgError ''23505'')))"

definition new_operation ::
  "string \<Rightarrow> string \<Rightarrow> string option \<Rightarrow> op_kind \<Rightarrow> string \<Rightarrow> string \<Rightarrow> op_request \<Rightarrow> string option \<Rightarrow>
   string \<Rightarrow> int \<Rightarrow> op_row" where
  "new_operation oid pid iid kind key h req secret actor now =
     \<lparr>o_id = oid, o_project_id = pid, o_instance_id = iid, o_kind = kind, o_idempotency_key = key,
      o_request_hash = h, o_request = req, o_state = OpPending, o_target_generation = None,
      o_worker_id = None, o_lease_until = None, o_error_code = None, o_created_by = actor,
      o_created_at = now, o_updated_at = now, o_secret_payload = secret, o_next_attempt_at = now,
      o_attempts = 0, o_deadline_at = now + 1200000\<rparr>"

definition insert_operation :: "op_row \<Rightarrow> (database, unit) action" where
  "insert_operation row = write_operations (\<lambda>rows. rows @ [row])"

definition audit ::
  "string option \<Rightarrow> string option \<Rightarrow> string option \<Rightarrow> string option \<Rightarrow> string \<Rightarrow> json \<Rightarrow> (database, unit) action" where
  "audit actor pid iid oid act details =
     tx_put (\<lambda>d. d\<lparr>db_audit := db_audit d @ [\<lparr>a_actor = actor, a_project = pid, a_instance = iid,
       a_operation = oid, a_action = act, a_details = details\<rparr>]\<rparr>)"

lemma write_operations_Inr:
  "write_operations f d = (d', Inr ()) \<longleftrightarrow>
     d' = d\<lparr>db_operations := f (db_operations d)\<rparr> \<and>
     op_keys_unique (f (db_operations d)) \<and> one_unfinished (f (db_operations d))"
  by (auto simp: write_operations_def Let_def)

section \<open>Keyed tables\<close>

text \<open>
  The interface every table with a primary key offers its clients: a lens on the database and the
  key of a row. Updating the row with one key changes what that key finds and nothing else.
\<close>

locale keyed_table =
  fixes get :: "database \<Rightarrow> 'r list"
    and upd :: "('r list \<Rightarrow> 'r list) \<Rightarrow> database \<Rightarrow> database"
    and key :: "'r \<Rightarrow> 'k"
  assumes get_upd: "get (upd f d) = f (get d)"
    and upd_upd: "upd f (upd g d) = upd (\<lambda>rows. f (g rows)) d"
begin

lemma find_row_update:
  assumes "\<And>r. key r = k \<Longrightarrow> key (f r) = k"
  shows "sql_first (\<lambda>r. key r = k') (sql_update (\<lambda>r. key r = k \<and> p r) f rows) =
    (case sql_first (\<lambda>r. key r = k') rows of
       None \<Rightarrow> None
     | Some r \<Rightarrow> Some (if k' = k \<and> p r then f r else r))"
  by (induction rows) (auto simp: assms)

lemma find_row_set:
  assumes "\<And>r. key r = k \<Longrightarrow> key (f r) = k"
  shows "sql_first (\<lambda>r. key r = k') (get (upd (sql_update (\<lambda>r. key r = k) f) d)) =
    (if k' = k then map_option f (sql_first (\<lambda>r. key r = k) (get d))
     else sql_first (\<lambda>r. key r = k') (get d))"
  using find_row_update[of k f k' "\<lambda>_. True" "get d"] assms
  by (auto simp: get_upd split: option.splits)

lemma keys_update:
  assumes "\<And>r. p r \<Longrightarrow> key (f r) = key r"
  shows "map key (get (upd (sql_update p f) d)) = map key (get d)"
  by (simp add: get_upd map_sql_update assms)

lemma distinct_find:
  assumes "distinct (map key rows)" "r \<in> set rows"
  shows "sql_first (\<lambda>x. key x = key r) rows = Some r"
  using assms by (induction rows) (auto simp: rev_image_eqI)

end

interpretation project_table: keyed_table db_projects db_projects_update p_id
  by unfold_locales simp_all

interpretation binding_table: keyed_table db_bindings db_bindings_update b_id
  by unfold_locales simp_all

interpretation operation_table: keyed_table db_operations db_operations_update o_id
  by unfold_locales simp_all

interpretation user_table: keyed_table db_users db_users_update u_id
  by unfold_locales simp_all

end
