(* ===== verification/Secrets.thy ===== *)
theory Secrets
  imports Database
begin

text \<open>
  Operation secrets (secrets.ts) and passwords (security.ts). A Buffer is a list of bytes, written
  as characters. AES-256-GCM and scrypt are parameters: \<open>encrypt key nonce aad plain\<close> gives the
  authentication tag and the ciphertext, \<open>decrypt key nonce aad tag cipher\<close> the plaintext when the
  tag is right, \<open>derive password salt\<close> the 64 derived bytes; the random nonce and salt are arguments.
  The JSON text of a credential (an object of strings) is modelled; characters are those of the
  ASCII range, where UTF-8 is the identity.
\<close>

section \<open>Hexadecimal text\<close>

definition nibble_char :: "nat \<Rightarrow> char" where
  "nibble_char n = (if n < 10 then char_of (48 + n) else char_of (87 + n))"

definition nibble_val :: "char \<Rightarrow> nat" where
  "nibble_val c = (let k = of_char c :: nat in
     if k < 58 then k - 48 else if k < 71 then k - 55 else k - 87)"

definition to_hex :: "string \<Rightarrow> string" where
  "to_hex bs = concat (map (\<lambda>b. [nibble_char (of_char b div 16), nibble_char (of_char b mod 16)]) bs)"

fun from_hex :: "string \<Rightarrow> string" where
  "from_hex (a # b # s) = char_of (nibble_val a * 16 + nibble_val b) # from_hex s"
| "from_hex _ = []"

lemma nibble_roundtrip: "n < 16 \<Longrightarrow> nibble_val (nibble_char n) = n"
proof -
  assume "n < 16"
  then have "n \<in> set [0..<16]" by simp
  then show ?thesis by (simp add: upt_rec, elim disjE) (simp_all add: nibble_val_def nibble_char_def)
qed

lemma nibble_is_hex: "n < 16 \<Longrightarrow> is_hex_lower (nibble_char n)"
proof -
  assume "n < 16"
  then have "n \<in> set [0..<16]" by simp
  then show ?thesis by (simp add: upt_rec, elim disjE) (simp_all add: is_hex_lower_def nibble_char_def is_digit_def)
qed

lemma char_less_256: "(of_char c :: nat) < 256"
  by (cases c) (simp add: of_char_def less_le_trans[OF horner_sum_of_bool_2_less])

lemma from_hex_to_hex: "from_hex (to_hex bs) = bs"
proof (induction bs)
  case (Cons b bs)
  have "(of_char b :: nat) div 16 < 16" using char_less_256[of b] by (simp add: less_mult_imp_div_less)
  then have "char_of (nibble_val (nibble_char (of_char b div 16)) * 16 + nibble_val (nibble_char (of_char b mod 16))) = b"
    by (simp add: nibble_roundtrip div_mult_mod_eq)
  then show ?case using Cons by (simp add: to_hex_def)
qed (simp add: to_hex_def)

lemma length_to_hex: "length (to_hex bs) = 2 * length bs"
  by (induction bs) (simp_all add: to_hex_def)

lemma to_hex_chars: "list_all is_hex_lower (to_hex bs)"
proof (induction bs)
  case (Cons b bs)
  have "(of_char b :: nat) div 16 < 16" using char_less_256[of b] by (simp add: less_mult_imp_div_less)
  then show ?case using Cons by (simp add: to_hex_def nibble_is_hex)
qed (simp add: to_hex_def)

section \<open>JSON text of an object of strings\<close>

abbreviation quote_char :: char where "quote_char \<equiv> CHR 0x22"
abbreviation backslash :: char where "backslash \<equiv> CHR 0x5C"

text \<open>The escapes of JSON.stringify: the short forms, and \<open>\u00xx\<close> for other control characters.\<close>

definition short_escapes :: "(char \<times> char) list" where
  "short_escapes = [(quote_char, quote_char), (backslash, backslash), (CHR 0x08, CHR ''b''),
     (CHR 0x09, CHR ''t''), (CHR 0x0A, CHR ''n''), (CHR 0x0C, CHR ''f''),
     (CHR 0x0D, CHR ''r'')]"

definition json_escape :: "char \<Rightarrow> string" where
  "json_escape c =
     (case map_of short_escapes c of
        Some e \<Rightarrow> [backslash, e]
      | None \<Rightarrow> if (of_char c :: nat) < 32 then backslash # ''u00'' @ to_hex [c] else [c])"

definition json_string :: "string \<Rightarrow> string" where
  "json_string s = quote_char # concat (map json_escape s) @ [quote_char]"

definition json_member :: "string \<times> string \<Rightarrow> string" where
  "json_member kv = json_string (fst kv) @ '':'' @ json_string (snd kv)"

fun json_members :: "strmap \<Rightarrow> string" where
  "json_members [] = ''}''"
| "json_members [kv] = json_member kv @ ''}''"
| "json_members (kv # kvs) = json_member kv @ '','' @ json_members kvs"

definition json_stringify :: "strmap \<Rightarrow> string" where
  "json_stringify data = ''{'' @ json_members data"

definition unescape :: "char \<Rightarrow> char option" where
  "unescape e = (if e = CHR ''/'' then Some e else map_of (map (\<lambda>(c, e). (e, c)) short_escapes) e)"

definition push_char :: "char \<Rightarrow> (string \<times> string) option \<Rightarrow> (string \<times> string) option" where
  "push_char c r = map_option (\<lambda>(s, rest). (c # s, rest)) r"

fun parse_chars :: "string \<Rightarrow> (string \<times> string) option" where
  "parse_chars [] = None"
| "parse_chars [c] = (if c = quote_char then Some ([], []) else None)"
| "parse_chars (c # d # s) =
     (if c = quote_char then Some ([], d # s)
      else if c \<noteq> backslash then
        (if (of_char c :: nat) < 32 then None else push_char c (parse_chars (d # s)))
      else if d = CHR ''u'' then
        (case s of
           p # q # x # y # rest \<Rightarrow>
             if p = CHR ''0'' \<and> q = CHR ''0'' \<and> is_hex x \<and> is_hex y
             then push_char (char_of (nibble_val x * 16 + nibble_val y)) (parse_chars rest) else None
         | _ \<Rightarrow> None)
      else (case unescape d of None \<Rightarrow> None | Some e \<Rightarrow> push_char e (parse_chars s)))"

fun parse_string :: "string \<Rightarrow> (string \<times> string) option" where
  "parse_string [] = None"
| "parse_string (c # s) = (if c = quote_char then parse_chars s else None)"

fun parse_members :: "nat \<Rightarrow> string \<Rightarrow> strmap option" where
  "parse_members 0 s = None"
| "parse_members (Suc n) s =
     (if s = ''}'' then Some []
      else (case parse_string s of
              Some (k, c # s') \<Rightarrow>
                if c \<noteq> CHR '':'' then None
                else (case parse_string s' of
                        Some (v, d # s'') \<Rightarrow>
                          if d = CHR '','' \<and> s'' \<noteq> ''}'' then map_option (\<lambda>kvs. (k, v) # kvs) (parse_members n s'')
                          else if d = CHR ''}'' \<and> s'' = [] then Some [(k, v)] else None
                      | _ \<Rightarrow> None)
            | _ \<Rightarrow> None))"

definition json_parse :: "string \<Rightarrow> strmap option" where
  "json_parse s = (case s of c # s' \<Rightarrow> if c = CHR ''{'' then parse_members (length s) s' else None | [] \<Rightarrow> None)"

section \<open>Round trip of the JSON text\<close>

lemma escapes_inverse: "map_of short_escapes c = Some e \<Longrightarrow> e \<noteq> CHR ''u'' \<and> unescape e = Some c"
  by (auto simp: short_escapes_def unescape_def split: if_splits)

lemma escapes_none:
  "map_of short_escapes c = None \<Longrightarrow> c \<noteq> quote_char \<and> c \<noteq> backslash"
  by (auto simp: short_escapes_def split: if_splits)

lemma parse_chars_escape:
  assumes "t \<noteq> []"
  shows "parse_chars (json_escape c @ t) = push_char c (parse_chars t)"
proof (cases "map_of short_escapes c")
  case (Some e)
  then show ?thesis using escapes_inverse[OF Some] by (simp add: json_escape_def)
next
  case None
  note n = escapes_none[OF None]
  show ?thesis
  proof (cases "(of_char c :: nat) < 32")
    case True
    have "(of_char c :: nat) div 16 < 16" using True by simp
    then have h: "is_hex (nibble_char (of_char c div 16))" "is_hex (nibble_char (of_char c mod 16))"
      "char_of (nibble_val (nibble_char (of_char c div 16)) * 16 + nibble_val (nibble_char (of_char c mod 16))) = c"
      by (simp_all add: is_hex_def nibble_is_hex nibble_roundtrip div_mult_mod_eq)
    show ?thesis using None True h by (simp add: json_escape_def to_hex_def)
  next
    case False
    obtain d s where "t = d # s" using assms by (cases t) auto
    then show ?thesis using None False n by (simp add: json_escape_def)
  qed
qed

lemma parse_string_json: "parse_string (json_string s @ rest) = Some (s, rest)"
proof -
  have "parse_chars (concat (map json_escape s) @ quote_char # rest) = Some (s, rest)"
  proof (induction s)
    case Nil
    then show ?case by (cases rest) simp_all
  next
    case (Cons c s)
    then show ?case by (simp add: parse_chars_escape push_char_def)
  qed
  then show ?thesis by (simp add: json_string_def)
qed

lemma json_members_not_close: "kvs \<noteq> [] \<Longrightarrow> json_members kvs \<noteq> ''}''"
  by (cases kvs rule: json_members.cases) (simp_all add: json_member_def json_string_def)

lemma parse_members_json: "length kvs < n \<Longrightarrow> parse_members n (json_members kvs) = Some kvs"
proof (induction kvs arbitrary: n rule: json_members.induct)
  case 1
  then show ?case by (cases n) simp_all
next
  case (2 kv)
  then obtain m where n: "n = Suc m" by (cases n) simp_all
  have "json_members [kv] \<noteq> ''}''" by (rule json_members_not_close) simp
  then show ?case unfolding n by (simp add: json_member_def parse_string_json)
next
  case (3 kv kv' kvs)
  then obtain m where n: "n = Suc m" by (cases n) simp_all
  have "json_members (kv # kv' # kvs) \<noteq> ''}''" by (rule json_members_not_close) simp
  moreover have "json_members (kv' # kvs) \<noteq> ''}''" by (rule json_members_not_close) simp
  ultimately show ?case using 3 unfolding n by (simp add: json_member_def parse_string_json)
qed

lemma length_json_members: "length kvs < length (json_members kvs)"
  by (induction kvs rule: json_members.induct) (simp_all add: json_member_def)

lemma json_roundtrip: "json_parse (json_stringify data) = Some data"
  using parse_members_json[of data "length (json_stringify data)"] length_json_members[of data]
  by (simp add: json_parse_def json_stringify_def)

section \<open>Sealed payloads\<close>

type_synonym cipher = "string \<Rightarrow> string \<Rightarrow> string \<Rightarrow> string \<Rightarrow> string \<times> string"
type_synonym decipher = "string \<Rightarrow> string \<Rightarrow> string \<Rightarrow> string \<Rightarrow> string \<Rightarrow> string option"

definition encryptionKey :: "string \<Rightarrow> string result" where
  "encryptionKey value =
     throw_if (\<not> (length value = 64 \<and> list_all is_hex value))
       (JsError ''OPERATION_ENCRYPTION_KEY must be 32 bytes encoded as hex'') (Inr (from_hex value))"

definition seal :: "cipher \<Rightarrow> string \<Rightarrow> string \<Rightarrow> strmap \<Rightarrow> string \<Rightarrow> string" where
  "seal encrypt key operationId data nonce =
     (case encrypt key nonce operationId (json_stringify data) of (tag, encrypted) \<Rightarrow> nonce @ tag @ encrypted)"

definition unseal :: "decipher \<Rightarrow> string \<Rightarrow> string \<Rightarrow> string \<Rightarrow> strmap result" where
  "unseal decrypt key operationId payload =
     throw_if (length payload < 28) (JsError ''Invalid encrypted payload'')
       (case decrypt key (take 12 payload) operationId (take 16 (drop 12 payload)) (drop 28 payload) of
          None \<Rightarrow> Inl (JsError ''Unsupported state or unable to authenticate data'')
        | Some plain \<Rightarrow> (case json_parse plain of
                          None \<Rightarrow> Inl (JsError ''SyntaxError'') | Some data \<Rightarrow> Inr data))"

text \<open>What the code relies on of AES-256-GCM with 16-byte tags: decryption accepts exactly what
  encryption with the same key, nonce and additional data produces.\<close>

definition gcm :: "cipher \<Rightarrow> decipher \<Rightarrow> bool" where
  "gcm encrypt decrypt \<longleftrightarrow>
     (\<forall>k n a p. length (fst (encrypt k n a p)) = 16) \<and>
     (\<forall>k n a t c p. decrypt k n a t c = Some p \<longleftrightarrow> encrypt k n a p = (t, c))"



section \<open>Passwords\<close>

fun split_dollar :: "string \<Rightarrow> string list" where
  "split_dollar [] = [[]]"
| "split_dollar (c # s) =
     (if c = CHR ''$'' then [] # split_dollar s
      else (case split_dollar s of [] \<Rightarrow> [[c]] | w # ws \<Rightarrow> (c # w) # ws))"

definition hashPassword :: "(string \<Rightarrow> string \<Rightarrow> string) \<Rightarrow> string \<Rightarrow> string \<Rightarrow> string" where
  "hashPassword derive password random =
     (let salt = to_hex random in ''scrypt$'' @ salt @ ''$'' @ to_hex (derive password salt))"

definition nth_part :: "string list \<Rightarrow> nat \<Rightarrow> string option" where
  "nth_part ws i = (if i < length ws then Some (ws ! i) else None)"

definition timingSafeEqual :: "string \<Rightarrow> string \<Rightarrow> bool result" where
  "timingSafeEqual a b = throw_if (length a \<noteq> length b) (JsError ''Input buffers must have the same byte length'') (Inr (a = b))"

definition verifyPassword :: "(string \<Rightarrow> string \<Rightarrow> string) \<Rightarrow> string \<Rightarrow> string \<Rightarrow> bool result" where
  "verifyPassword derive password encoded =
     (let parts = split_dollar encoded; algorithm = nth_part parts 0; salt = nth_part parts 1; key = nth_part parts 2 in
      case (salt, key) of
        (Some s, Some k) \<Rightarrow>
          if algorithm \<noteq> Some ''scrypt'' \<or> s = [] \<or> k = [] \<or> \<not> (length k = 128 \<and> list_all is_hex_lower k)
          then Inr False else timingSafeEqual (derive password s) (from_hex k)
      | _ \<Rightarrow> Inr False)"

lemma split_dollar_append:
  "list_all (\<lambda>c. c \<noteq> CHR ''$'') w \<Longrightarrow> split_dollar (w @ CHR ''$'' # s) = w # split_dollar s"
  by (induction w) simp_all

lemma split_dollar_word: "list_all (\<lambda>c. c \<noteq> CHR ''$'') w \<Longrightarrow> split_dollar w = [w]"
  by (induction w) simp_all

lemma hex_no_dollar: "list_all (\<lambda>c. c \<noteq> CHR ''$'') (to_hex bs)"
proof -
  have "\<not> is_hex_lower CHR ''$''" by (simp add: is_hex_lower_def is_digit_def)
  then show ?thesis using to_hex_chars[of bs] by (auto simp: list_all_iff)
qed

lemma split_hash: "split_dollar (hashPassword derive password random) =
    [''scrypt'', to_hex random, to_hex (derive password (to_hex random))]"
proof -
  have "split_dollar (''scrypt'' @ CHR ''$'' # to_hex random @ CHR ''$'' # to_hex (derive password (to_hex random))) =
      [''scrypt'', to_hex random, to_hex (derive password (to_hex random))]"
    by (subst split_dollar_append, simp)
      (simp add: split_dollar_append[OF hex_no_dollar] split_dollar_word[OF hex_no_dollar])
  then show ?thesis by (simp add: hashPassword_def Let_def)
qed

lemma verify_hash:
  assumes "\<And>p s. length (derive p s) = 64" and "random \<noteq> []"
  shows "verifyPassword derive candidate (hashPassword derive password random) =
    Inr (derive candidate (to_hex random) = derive password (to_hex random))"
proof -
  have ne: "to_hex bs = [] \<longleftrightarrow> bs = []" for bs
    using length_to_hex[of bs] by (metis length_0_conv mult_is_0 numeral_eq_Suc nat.distinct(1) zero_neq_numeral)
  have "derive password (to_hex random) \<noteq> []" using assms(1) by (metis list.size(3) zero_neq_numeral)
  then show ?thesis
    using assms ne by (simp add: verifyPassword_def split_hash nth_part_def length_to_hex to_hex_chars
        from_hex_to_hex timingSafeEqual_def Let_def)
qed

end
