(* ===== verification/Json_Text.thy ===== *)
theory Json_Text
  imports Json_Schema Secrets "HOL-Library.AList" "HOL-Library.Log_Nat"
begin

text \<open>
  JavaScript's own reading of numbers and JSON text, which the clients of the metric, log, alert and
  engine services use on every response: rounding to a double, \<open>Number(text)\<close>, \<open>JSON.parse\<close> and
  \<open>JSON.stringify\<close>. A number that rounds beyond the largest double is Infinity, and text that is no
  number is NaN; the sources test both with \<open>Number.isFinite\<close> or a schema that refuses them, so both
  are \<open>None\<close>. The parser runs on fuel; the length of its text is enough, because every call consumes
  a character.
\<close>

section \<open>Rounding to a double\<close>

text \<open>The exponent of the unit in the last place of a positive number: 53 significant bits, and
  not below the smallest denormal.\<close>

definition ulp_exponent :: "rat \<Rightarrow> int" where
  "ulp_exponent r =
     (let (n, d) = quotient_of r;
          e0 = int (floorlog 2 (nat n)) - int (floorlog 2 (nat d));
          e = (if 2 powi e0 \<le> r then e0 else e0 - 1)
      in max (e - 52) (- 1074))"

definition round_even :: "rat \<Rightarrow> int" where
  "round_even q =
     (let f = q - of_int \<lfloor>q\<rfloor> in if f < 1 / 2 \<or> (f = 1 / 2 \<and> even \<lfloor>q\<rfloor>) then \<lfloor>q\<rfloor> else \<lfloor>q\<rfloor> + 1)"

definition to_double :: "rat \<Rightarrow> rat option" where
  "to_double r =
     (if r = 0 then Some 0
      else let u = 2 powi ulp_exponent \<bar>r\<bar>;
               x = of_int (round_even (\<bar>r\<bar> / u)) * u
           in if 2 ^ 1024 \<le> x then None else Some (if r < 0 then - x else x))"

lemma round_even_int [simp]: "round_even (of_int n) = n"
  by (simp add: round_even_def)

lemma round_even_nonneg: "0 \<le> q \<Longrightarrow> 0 \<le> round_even q"
  by (simp add: round_even_def Let_def)

lemma to_double_nonneg: "to_double r = Some x \<Longrightarrow> 0 \<le> r \<Longrightarrow> 0 \<le> x"
  by (auto simp: to_double_def Let_def round_even_nonneg split: if_splits)

lemma ulp_exponent_int:
  assumes "0 < n" "n < 2 ^ 53"
  shows "ulp_exponent (of_int n) \<le> 0"
proof -
  have q: "quotient_of (of_int n) = (n, 1)" by (simp add: of_int_rat quotient_of_Fract)
  have "floorlog 2 (nat n) \<le> 53"
    using assms by (intro floorlog_leI) (simp_all add: nat_less_iff)
  then show ?thesis by (simp add: ulp_exponent_def q Let_def floorlog_def)
qed

text \<open>Whole numbers below \<open>2\<^sup>5\<^sup>3\<close> are doubles.\<close>

lemma to_double_int:
  assumes "\<bar>n\<bar> < 2 ^ 53"
  shows "to_double (of_int n) = Some (of_int n)"
proof (cases "n = 0")
  case False
  define k where "k = nat (- ulp_exponent (of_int \<bar>n\<bar>))"
  have e: "ulp_exponent (of_int \<bar>n\<bar>) = - int k"
    using ulp_exponent_int[of "\<bar>n\<bar>"] assms False by (simp add: k_def)
  have u: "(2 :: rat) powi ulp_exponent (of_int \<bar>n\<bar>) = inverse (2 ^ k)"
    unfolding e by (simp add: power_int_minus)
  have "(of_int \<bar>n\<bar> :: rat) / inverse (2 ^ k) = of_int (\<bar>n\<bar> * 2 ^ k)" by (simp add: divide_inverse)
  then have "round_even (of_int \<bar>n\<bar> / inverse (2 ^ k)) = \<bar>n\<bar> * 2 ^ k" by (simp only: round_even_int)
  then have x: "of_int (round_even (\<bar>of_int n :: rat\<bar> / 2 powi ulp_exponent \<bar>of_int n\<bar>)) * 2 powi ulp_exponent \<bar>of_int n\<bar> = (of_int \<bar>n\<bar> :: rat)"
    using u by simp
  have "(of_int \<bar>n\<bar> :: rat) < of_int (2 ^ 53)" using assms by (simp only: of_int_less_iff)
  also have "(of_int (2 ^ 53) :: rat) \<le> 2 ^ 1024" by simp
  finally have "\<not> (2 :: rat) ^ 1024 \<le> of_int \<bar>n\<bar>" by simp
  then show ?thesis unfolding to_double_def Let_def x using False by (cases "n < 0") simp_all
qed (simp add: to_double_def)


section \<open>Decimal text\<close>

definition is_sign :: "char \<Rightarrow> bool" where
  "is_sign c \<longleftrightarrow> c = CHR ''+'' \<or> c = CHR ''-''"

text \<open>\<open>(?:[eE][+-]?\d+)?\<close>: the exponent, and the text after it.\<close>

definition scan_exponent :: "string \<Rightarrow> int \<times> string" where
  "scan_exponent s =
     (case s of
        [] \<Rightarrow> (0, s)
      | c # r \<Rightarrow>
          let signed = (r \<noteq> [] \<and> is_sign (hd r)); t = (if signed then tl r else r); ds = takeWhile is_digit t
          in if (c = CHR ''e'' \<or> c = CHR ''E'') \<and> ds \<noteq> []
             then ((if signed \<and> hd r = CHR ''-'' then - int (digits_val ds) else int (digits_val ds)), dropWhile is_digit t)
             else (0, s))"

definition decimal_value :: "string \<Rightarrow> string \<Rightarrow> int \<Rightarrow> rat" where
  "decimal_value whole fraction e =
     of_nat (digits_val (whole @ fraction)) * 10 powi (e - int (length fraction))"

text \<open>The fraction after the whole part: \<open>\.\d*\<close>, if there is a point.\<close>

definition scan_fraction :: "string \<Rightarrow> string option \<times> string" where
  "scan_fraction s =
     (case s of [] \<Rightarrow> (None, s)
      | c # r \<Rightarrow> if c = CHR ''.'' then (Some (takeWhile is_digit r), dropWhile is_digit r) else (None, s))"

text \<open>An unsigned decimal literal of \<open>Number(text)\<close>: \<open>5\<close>, \<open>5.\<close>, \<open>.5\<close>, \<open>5e-1\<close>.\<close>

definition number_literal :: "string \<Rightarrow> rat option" where
  "number_literal s =
     (let whole = takeWhile is_digit s; (f, r) = scan_fraction (dropWhile is_digit s);
          fraction = (case f of None \<Rightarrow> [] | Some ds \<Rightarrow> ds); (e, rest) = scan_exponent r
      in if whole @ fraction = [] \<or> rest \<noteq> [] then None else Some (decimal_value whole fraction e))"

definition radix_value :: "nat \<Rightarrow> string \<Rightarrow> nat" where
  "radix_value b s = foldl (\<lambda>n c. b * n + nibble_val c) 0 s"

definition radix_literal :: "string \<Rightarrow> rat option" where
  "radix_literal s =
     (case s of
        z # x # ds \<Rightarrow>
          if z = CHR ''0'' \<and> ds \<noteq> [] \<and> (x = CHR ''x'' \<or> x = CHR ''X'') \<and> list_all is_hex ds
          then Some (of_nat (radix_value 16 ds))
          else if z = CHR ''0'' \<and> ds \<noteq> [] \<and> (x = CHR ''o'' \<or> x = CHR ''O'') \<and> list_all (\<lambda>c. is_digit c \<and> digit_val c < 8) ds
          then Some (of_nat (radix_value 8 ds))
          else if z = CHR ''0'' \<and> ds \<noteq> [] \<and> (x = CHR ''b'' \<or> x = CHR ''B'') \<and> list_all (\<lambda>c. is_digit c \<and> digit_val c < 2) ds
          then Some (of_nat (radix_value 2 ds))
          else None
      | _ \<Rightarrow> None)"

text \<open>\<open>Number(text)\<close>, when it is finite.\<close>

definition finite_number :: "string \<Rightarrow> rat option" where
  "finite_number s =
     (let t = js_trim s in
      if t = [] then Some 0
      else case radix_literal t of
        Some r \<Rightarrow> to_double r
      | None \<Rightarrow>
          let u = (if is_sign (hd t) then tl t else t)
          in case number_literal u of
               None \<Rightarrow> None
             | Some r \<Rightarrow> to_double (if hd t = CHR ''-'' then - r else r))"

section \<open>JSON.parse\<close>

definition skip_space :: "string \<Rightarrow> string" where
  "skip_space s = dropWhile (\<lambda>c. (of_char c :: nat) \<in> {9, 10, 13, 32}) s"

definition starts :: "string \<Rightarrow> string \<Rightarrow> bool" where
  "starts p s \<longleftrightarrow> take (length p) s = p"

text \<open>\<open>-?(0|[1-9]\d*)(\.\d+)?([eE][+-]?\d+)?\<close>\<close>

definition unsigned_number :: "string \<Rightarrow> (rat \<times> string) option" where
  "unsigned_number t =
     (let whole = (if starts ''0'' t then ''0'' else takeWhile is_digit t);
          (f, r) = scan_fraction (drop (length whole) t);
          fraction = (case f of None \<Rightarrow> [] | Some ds \<Rightarrow> ds); (e, rest) = scan_exponent r
      in if whole = [] \<or> f = Some [] then None else Some (decimal_value whole fraction e, rest))"

definition parse_number :: "string \<Rightarrow> (json \<times> string) option" where
  "parse_number s =
     (let minus = starts ''-'' s in
      case unsigned_number (if minus then tl s else s) of
        None \<Rightarrow> None
      | Some (x, rest) \<Rightarrow> map_option (\<lambda>d. (JNum d, rest)) (to_double (if minus then - x else x)))"

definition parse_word :: "string \<Rightarrow> (json \<times> string) option" where
  "parse_word s =
     (if starts ''true'' s then Some (JBool True, drop 4 s)
      else if starts ''false'' s then Some (JBool False, drop 5 s)
      else if starts ''null'' s then Some (JNull, drop 4 s)
      else parse_number s)"

text \<open>A repeated key keeps its place and takes the last value.\<close>

definition object_of :: "(string \<times> json) list \<Rightarrow> (string \<times> json) list" where
  "object_of fs = fold (\<lambda>(k, v). AList.update k v) fs []"

fun parse_value :: "nat \<Rightarrow> string \<Rightarrow> (json \<times> string) option"
and parse_items :: "nat \<Rightarrow> string \<Rightarrow> (json list \<times> string) option"
and parse_fields :: "nat \<Rightarrow> string \<Rightarrow> ((string \<times> json) list \<times> string) option" where
  "parse_value 0 s = None"
| "parse_value (Suc n) s =
     (let t = skip_space s in
      if starts [quote_char] t then map_option (\<lambda>(x, r). (JStr x, r)) (parse_chars (tl t))
      else if starts ''['' t then
        (if starts '']'' (skip_space (tl t)) then Some (JArr [], tl (skip_space (tl t)))
         else map_option (\<lambda>(xs, r). (JArr xs, r)) (parse_items n (tl t)))
      else if starts ''{'' t then
        (if starts ''}'' (skip_space (tl t)) then Some (JObj [], tl (skip_space (tl t)))
         else map_option (\<lambda>(fs, r). (JObj (object_of fs), r)) (parse_fields n (tl t)))
      else parse_word t)"
| "parse_items 0 s = None"
| "parse_items (Suc n) s =
     (case parse_value n s of
        None \<Rightarrow> None
      | Some (v, r) \<Rightarrow>
          let t = skip_space r in
          if starts '']'' t then Some ([v], tl t)
          else if starts '','' t then map_option (\<lambda>(vs, r'). (v # vs, r')) (parse_items n (tl t))
          else None)"
| "parse_fields 0 s = None"
| "parse_fields (Suc n) s =
     (case parse_string (skip_space s) of
        None \<Rightarrow> None
      | Some (k, r) \<Rightarrow>
          if \<not> starts '':'' (skip_space r) then None
          else case parse_value n (tl (skip_space r)) of
            None \<Rightarrow> None
          | Some (v, r') \<Rightarrow>
              let t = skip_space r' in
              if starts ''}'' t then Some ([(k, v)], tl t)
              else if starts '','' t then map_option (\<lambda>(fs, r''). ((k, v) # fs, r'')) (parse_fields n (tl t))
              else None)"

definition JSON_parse :: "string \<Rightarrow> json result" where
  "JSON_parse s =
     (case parse_value (Suc (length s)) s of
        Some (v, r) \<Rightarrow> if skip_space r = [] then Inr v else Inl (JsError ''SyntaxError'')
      | None \<Rightarrow> Inl (JsError ''SyntaxError''))"


section \<open>JSON.stringify\<close>

text \<open>The text of a JSON value whose numbers are whole, as those of a parsed input are.\<close>

fun json_text :: "json \<Rightarrow> string" and json_items :: "json list \<Rightarrow> string" and json_fields :: "(string \<times> json) list \<Rightarrow> string" where
  "json_text JNull = ''null''"
| "json_text (JBool b) = (if b then ''true'' else ''false'')"
| "json_text (JNum n) = show_int \<lfloor>n\<rfloor>"
| "json_text (JStr s) = json_string s"
| "json_text (JArr xs) = ''['' @ json_items xs @ '']''"
| "json_text (JObj fs) = ''{'' @ json_fields fs @ ''}''"
| "json_items [] = []"
| "json_items [x] = json_text x"
| "json_items (x # y # xs) = json_text x @ '','' @ json_items (y # xs)"
| "json_fields [] = []"
| "json_fields [(k, v)] = json_string k @ '':'' @ json_text v"
| "json_fields ((k, v) # f # fs) = json_string k @ '':'' @ json_text v @ '','' @ json_fields (f # fs)"


section \<open>Round trip\<close>

text \<open>Values whose text is faithful: whole numbers that are doubles, objects without repeated keys.\<close>

fun plain :: "json \<Rightarrow> bool" where
  "plain (JNum r) \<longleftrightarrow> of_int \<lfloor>r\<rfloor> = r \<and> \<bar>\<lfloor>r\<rfloor>\<bar> < 2 ^ 53"
| "plain (JArr xs) \<longleftrightarrow> (\<forall>x \<in> set xs. plain x)"
| "plain (JObj fs) \<longleftrightarrow> distinct (map fst fs) \<and> (\<forall>(k, v) \<in> set fs. plain v)"
| "plain _ \<longleftrightarrow> True"

text \<open>What follows a value inside a document.\<close>

definition delimited :: "string \<Rightarrow> bool" where
  "delimited s \<longleftrightarrow> s = [] \<or> hd s = CHR '','' \<or> hd s = CHR '']'' \<or> hd s = CHR ''}''"

lemma delimited_simps [simp]:
  "delimited []" "delimited (CHR '','' # s)" "delimited (CHR '']'' # s)" "delimited (CHR ''}'' # s)"
  by (simp_all add: delimited_def)

lemma update_new: "k \<notin> fst ` set m \<Longrightarrow> AList.update k v m = m @ [(k, v)]"
  by (induction m) auto

lemma object_of_distinct: "distinct (map fst fs) \<Longrightarrow> object_of fs = fs"
proof -
  have "distinct (map fst (m @ fs)) \<Longrightarrow> fold (\<lambda>(k, v). AList.update k v) fs m = m @ fs" for m
  proof (induction fs arbitrary: m)
    case (Cons f fs)
    obtain k v where f: "f = (k, v)" by (cases f)
    have "AList.update k v m = m @ [(k, v)]" using Cons.prems f by (intro update_new) auto
    then show ?case using Cons.IH[of "m @ [(k, v)]"] Cons.prems f by simp
  qed simp
  from this[of "[]"] show "distinct (map fst fs) \<Longrightarrow> ?thesis" by (simp add: object_of_def)
qed

lemma starts_Nil [simp]: "starts p [] \<longleftrightarrow> p = []" and starts_Cons [simp]: "starts (c # p) (d # s) \<longleftrightarrow> c = d \<and> starts p s"
  and starts_empty [simp]: "starts [] s"
  by (auto simp: starts_def)

lemma skip_space_Cons: "\<not> (of_char c :: nat) \<in> {9, 10, 13, 32} \<Longrightarrow> skip_space (c # s) = c # s"
  by (simp add: skip_space_def)

lemma skip_space_simps [simp]:
  "skip_space [] = []" "skip_space (CHR '','' # s) = CHR '','' # s" "skip_space (CHR '']'' # s) = CHR '']'' # s"
  "skip_space (CHR ''}'' # s) = CHR ''}'' # s" "skip_space (CHR '':'' # s) = CHR '':'' # s"
  "skip_space (CHR ''['' # s) = CHR ''['' # s" "skip_space (CHR ''{'' # s) = CHR ''{'' # s"
  "skip_space (quote_char # s) = quote_char # s"
  by (simp_all add: skip_space_def)


lemma show_nat_0 [simp]: "show_nat 0 = ''0''"
  by code_simp

lemma whole_part:
  assumes "delimited r"
  shows "(if starts ''0'' (show_nat n @ r) then ''0'' else takeWhile is_digit (show_nat n @ r)) = show_nat n"
proof -
  have t: "takeWhile is_digit r = []" using assms by (cases r) (auto simp: delimited_def is_digit_def)
  have d: "takeWhile is_digit (show_nat n @ r) = show_nat n @ takeWhile is_digit r"
    by (rule takeWhile_append2) (use show_nat_digits[of n] in \<open>simp add: list_all_iff\<close>)
  have z: "starts ''0'' (show_nat n @ r) \<longleftrightarrow> n = 0"
  proof (cases "n = 0")
    case True
    then show ?thesis by simp
  next
    case False
    then show ?thesis using show_nat_no_leading_zero[of n] by (cases "show_nat n") simp_all
  qed
  show ?thesis
  proof (cases "n = 0")
    case True
    then show ?thesis by simp
  next
    case False
    then show ?thesis using d t z by simp
  qed
qed

lemma scan_delimited: "delimited r \<Longrightarrow> scan_fraction r = (None, r)" "delimited r \<Longrightarrow> scan_exponent r = (0, r)"
  by (cases r; auto simp: delimited_def scan_fraction_def scan_exponent_def Let_def)+

lemma show_nat_no_minus: "\<not> starts ''-'' (show_nat n @ r)"
proof -
  obtain c s where c: "show_nat n = c # s" using show_nat_nonempty[of n] by (cases "show_nat n") auto
  then have "is_digit c" using show_nat_digits[of n] by simp
  then show ?thesis using c by (auto simp: is_digit_def)
qed

lemma unsigned_number_show: "delimited r \<Longrightarrow> unsigned_number (show_nat k @ r) = Some (of_nat k, r)"
  unfolding unsigned_number_def whole_part by (simp add: scan_delimited decimal_value_def)

lemma parse_number_show:
  assumes "\<bar>m\<bar> < 2 ^ 53" "delimited r"
  shows "parse_number (show_int m @ r) = Some (JNum (of_int m), r)"
  using unsigned_number_show[OF assms(2), of "nat \<bar>m\<bar>"] to_double_int[OF assms(1)]
  by (cases "m < 0") (simp_all add: parse_number_def show_int_def Let_def show_nat_no_minus)

text \<open>The first character of a printed number.\<close>

lemma show_int_head: "\<exists>c s. show_int m = c # s \<and> (is_digit c \<or> c = CHR ''-'')"
proof (cases "m < 0")
  case False
  then show ?thesis using show_nat_digits[of "nat m"] show_nat_nonempty[of "nat m"]
    by (cases "show_nat (nat m)") (auto simp: show_int_def)
qed (simp add: show_int_def)

lemma parse_value_number:
  assumes "\<bar>m\<bar> < 2 ^ 53" "delimited r"
  shows "parse_value (Suc n) (show_int m @ r) = Some (JNum (of_int m), r)"
proof -
  obtain c s where c: "show_int m = c # s" "is_digit c \<or> c = CHR ''-''" using show_int_head by blast
  have "skip_space (show_int m @ r) = show_int m @ r"
    using c by (auto simp: is_digit_def intro!: skip_space_Cons)
  moreover have "quote_char \<noteq> c" "CHR ''['' \<noteq> c" "CHR ''{'' \<noteq> c" "CHR ''t'' \<noteq> c" "CHR ''f'' \<noteq> c" "CHR ''n'' \<noteq> c"
    using c(2) by (auto simp: is_digit_def)
  ultimately show ?thesis
    using parse_number_show[OF assms] c(1) by (simp add: Let_def parse_word_def)
qed

lemma json_text_head:
  "\<exists>c s. json_text v = c # s \<and> (of_char c :: nat) \<notin> {9, 10, 13, 32} \<and> CHR '']'' \<noteq> c"
proof (cases v)
  case (JNum x)
  then show ?thesis using show_int_head[of "\<lfloor>x\<rfloor>"] by (auto simp: is_digit_def)
next
  case (JBool b)
  then show ?thesis by (cases b) simp_all
qed (simp_all add: json_string_def)

lemma skip_space_text: "skip_space (json_text v @ r) = json_text v @ r"
  using json_text_head[of v] by (auto intro!: skip_space_Cons)

lemma skip_space_items: "xs \<noteq> [] \<Longrightarrow> skip_space (json_items xs @ r) = json_items xs @ r \<and> \<not> starts '']'' (json_items xs @ r)"
  using json_text_head[of "hd xs"] by (cases xs rule: json_items.cases) (auto intro!: skip_space_Cons)

lemma skip_space_fields: "fs \<noteq> [] \<Longrightarrow> skip_space (json_fields fs @ r) = json_fields fs @ r \<and> \<not> starts ''}'' (json_fields fs @ r)"
  by (cases fs rule: json_fields.cases) (simp_all add: json_string_def)

lemma parse_string_chars: "parse_chars (concat (map json_escape s) @ quote_char # rest) = Some (s, rest)"
  using parse_string_json[of s rest] by (simp add: json_string_def)

lemma parse_value_text:
  "plain v \<Longrightarrow> delimited r \<Longrightarrow> length (json_text v) < n \<Longrightarrow> parse_value n (json_text v @ r) = Some (v, r)"
  "\<forall>x \<in> set xs. plain x \<Longrightarrow> xs \<noteq> [] \<Longrightarrow> length (json_items xs) + 1 < n \<Longrightarrow> parse_items n (json_items xs @ CHR '']'' # r) = Some (xs, r)"
  "\<forall>(k, x) \<in> set fs. plain x \<Longrightarrow> fs \<noteq> [] \<Longrightarrow> length (json_fields fs) + 1 < n \<Longrightarrow>
     parse_fields n (json_fields fs @ CHR ''}'' # r) = Some (fs, r)"
proof (induction v and xs and fs arbitrary: n r and n r and n r rule: json_text_json_items_json_fields.induct)
  case 1
  then show ?case by (cases n) (simp_all add: skip_space_def parse_word_def Let_def)
next
  case (2 b)
  then show ?case by (cases n) (auto simp: skip_space_def parse_word_def Let_def)
next
  case (3 x)
  then obtain m where n: "n = Suc m" by (cases n) simp_all
  have "of_int \<lfloor>x\<rfloor> = x" using 3 by simp
  then show ?case using 3 parse_value_number[of "\<lfloor>x\<rfloor>" r m] by (simp add: n del: parse_value.simps)
next
  case (4 s)
  then show ?case by (cases n) (simp_all add: json_string_def parse_string_chars Let_def)
next
  case (5 xs)
  then obtain m where n: "n = Suc m" by (cases n) simp_all
  show ?case
  proof (cases "xs = []")
    case False
    then show ?thesis using 5 skip_space_items[OF False, of "CHR '']'' # r"] by (simp add: n Let_def)
  qed (simp add: n Let_def)
next
  case (6 fs)
  then obtain m where n: "n = Suc m" by (cases n) simp_all
  show ?case
  proof (cases "fs = []")
    case False
    then show ?thesis using 6 skip_space_fields[OF False, of "CHR ''}'' # r"] by (simp add: n Let_def object_of_distinct)
  qed (simp add: n Let_def)
next
  case 7
  then show ?case by simp
next
  case (8 x)
  then obtain m where n: "n = Suc m" by (cases n) simp_all
  then show ?case using 8 by (simp add: Let_def)
next
  case (9 x y xs)
  then obtain m where n: "n = Suc m" by (cases n) simp_all
  have "parse_value m (json_text x @ CHR '','' # json_items (y # xs) @ CHR '']'' # r) = Some (x, CHR '','' # json_items (y # xs) @ CHR '']'' # r)"
    using 9 n by simp
  moreover have "parse_items m (json_items (y # xs) @ CHR '']'' # r) = Some (y # xs, r)" using 9 n by simp
  ultimately show ?case by (simp add: n Let_def)
next
  case 10
  then show ?case by simp
next
  case (11 k v)
  then obtain m where n: "n = Suc m" by (cases n) simp_all
  have "skip_space (json_string k @ t) = json_string k @ t" for t by (simp add: json_string_def)
  moreover have "parse_value m (json_text v @ CHR ''}'' # r) = Some (v, CHR ''}'' # r)" using 11 n by simp
  ultimately show ?case by (simp add: n Let_def parse_string_json)
next
  case (12 k v f fs)
  then obtain m where n: "n = Suc m" by (cases n) simp_all
  have "skip_space (json_string k @ t) = json_string k @ t" for t by (simp add: json_string_def)
  moreover have "parse_value m (json_text v @ CHR '','' # json_fields (f # fs) @ CHR ''}'' # r) = Some (v, CHR '','' # json_fields (f # fs) @ CHR ''}'' # r)"
    using 12 n by simp
  moreover have "parse_fields m (json_fields (f # fs) @ CHR ''}'' # r) = Some (f # fs, r)" using 12 n by simp
  ultimately show ?case by (simp add: n Let_def parse_string_json)
qed

theorem JSON_roundtrip: "plain v \<Longrightarrow> JSON_parse (json_text v) = Inr v"
  using parse_value_text(1)[of v "[]" "Suc (length (json_text v))"] by (simp add: JSON_parse_def)

end
