(* ===== verification/Contract_Props.thy ===== *)
theory Contract_Props
  imports Contract
begin

text \<open>
  Properties of the contract: what an accepted creation request guarantees, that the object built
  from it reads back as the requested resources, and that the public catalog, the version pinned at
  creation and the recorded capabilities agree.
\<close>

section \<open>Desired objects\<close>

lemma templateDefinition_known:
  assumes "name \<in> td_name ` set templates"
  obtains t where "templateDefinition name None = Inr t" "td_name t = name" "t \<in> set templates"
proof -
  have "sql_first (\<lambda>t. td_name t = name) templates \<noteq> None"
    using assms by (auto simp: sql_first_None)
  then obtain t where t: "sql_first (\<lambda>t. td_name t = name) templates = Some t" by blast
  show thesis
    by (rule that[of t]) (use t sql_first_Some[OF t] in \<open>auto simp: templateDefinition_def\<close>)
qed

lemma desiredObject_total:
  assumes "valid_input x"
  shows "\<exists>d. desiredObject x pid ns iid sc oid h = Inr d"
proof -
  have "in_template x \<in> td_name ` set templates"
    using assms by (simp add: valid_input_def)
  then show ?thesis
    by (elim templateDefinition_known) (simp add: desiredObject_def Let_def)
qed

lemma desiredObject_fields:
  assumes "desiredObject x pid ns iid sc oid h = Inr d"
  shows "om_name (co_metadata d) = ''c-'' @ iid \<and> om_namespace (co_metadata d) = ns \<and>
    om_labels (co_metadata d) = Some (labels pid (Some iid)) \<and>
    annotation d opKey = Some oid \<and> annotation d hashKey = Some h \<and>
    annotation d displayNameKey = Some (in_name x) \<and>
    sp_instanceId (co_spec d) = iid \<and> sp_projectId (co_spec d) = pid \<and>
    st_capacity (sp_storage (co_spec d)) = show_int (in_storageGiB x) @ ''Gi'' \<and>
    st_className (sp_storage (co_spec d)) = sc \<and>
    rs_requests (sp_resources (co_spec d)) =
      [(''cpu'', show_int (in_cpuMillis x) @ ''m''), (''memory'', show_int (in_memoryMiB x) @ ''Mi'')] \<and>
    rs_limits (sp_resources (co_spec d)) = rs_requests (sp_resources (co_spec d)) \<and>
    tr_name (sp_templateRef (co_spec d)) = in_template x"
  using assms
  by (auto simp: desiredObject_def rbind_eq_Inr Let_def templateDefinition_def prop_of_def
      split: option.splits dest: sql_first_Some)

section \<open>Properties\<close>

text \<open>
  C34: Every request body the creation schema accepts is well formed: the resource numbers are in
  their documented ranges, the template is one of the catalog, a cache budget leaves room in the
  volume (and is 0 for WebDAV), and the read-only flag is set exactly for Go. Building the desired
  object from it never throws.
\<close>
theorem instanceInput_sound:
  assumes "z_parse instanceInput body = Inr x"
  shows "valid_input x \<and> (\<exists>d. desiredObject x pid ns iid sc oid h = Inr d)"
proof -
  have "valid_input x"
    using assms by (simp add: z_parse_Inr instanceInput_valid_input)
  then show ?thesis using desiredObject_total by blast
qed

definition sample_body :: json where
  "sample_body = JObj [(''name'', JStr '' cache ''), (''storageGiB'', JNum 10), (''cacheGiB'', JNum 8),
     (''template'', JStr ''gradle-http'')]"

definition sample_input :: instance_input where
  "sample_input = \<lparr>in_template = ''gradle-http'', in_name = ''cache'', in_storageGiB = 10,
     in_cpuMillis = 500, in_memoryMiB = 512, in_exposure = ''ClusterInternal'',
     in_desiredState = ''Running'', in_deletionPolicy = ''Retain'', in_cacheGiB = 8, in_readOnly = None\<rparr>"

lemma sample_parses: "z_parse instanceInput sample_body = Inr sample_input"
  by code_simp

theorem instanceInput_sound_witness:
  "valid_input sample_input \<and>
   (\<exists>d. desiredObject sample_input ''p'' ''ns'' ''i'' ''fast'' ''op'' ''h'' = Inr d)"
  using instanceInput_sound[OF sample_parses] .

text \<open>
  The desired object asks Kubernetes for exactly the requested amounts: storage capacity, CPU
  and memory, as requests and as limits, round back to the numbers of the request, so the
  reservation made in the database and the object agree.
\<close>
theorem desiredObject_amounts:
  assumes "valid_input x" and "desiredObject x pid ns iid sc oid h = Inr d"
  shows "quantityCeil (st_capacity (sp_storage (co_spec d))) ''1Gi'' = Inr (in_storageGiB x) \<and>
    rs_limits (sp_resources (co_spec d)) = rs_requests (sp_resources (co_spec d)) \<and>
    map_option (\<lambda>q. quantityCeil q ''1m'') (map_of (rs_requests (sp_resources (co_spec d))) ''cpu'')
      = Some (Inr (in_cpuMillis x)) \<and>
    map_option (\<lambda>q. quantityCeil q ''1Mi'') (map_of (rs_requests (sp_resources (co_spec d))) ''memory'')
      = Some (Inr (in_memoryMiB x))"
proof -
  have rt: "s \<in> {''m'', ''Mi'', ''Gi''} \<Longrightarrow> 0 \<le> k \<Longrightarrow> k \<le> 2147483647 \<Longrightarrow>
      quantityCeil (show_int k @ s) (CHR ''1'' # s) = Inr k" for s k
    using quantity_roundtrip_fact[of s k] by simp
  show ?thesis
    using assms(1) desiredObject_fields[OF assms(2)]
    by (auto simp: valid_input_def intro!: rt)
qed

theorem desiredObject_amounts_witness:
  "\<exists>d. desiredObject sample_input ''p'' ''ns'' ''i'' ''fast'' ''op'' ''h'' = Inr d \<and>
     quantityCeil (st_capacity (sp_storage (co_spec d))) ''1Gi'' = Inr 10"
proof -
  have v: "valid_input sample_input" using sample_parses by (auto simp: z_parse_Inr intro: instanceInput_valid_input)
  obtain d where d: "desiredObject sample_input ''p'' ''ns'' ''i'' ''fast'' ''op'' ''h'' = Inr d"
    using desiredObject_total[OF v] by blast
  show ?thesis
    using desiredObject_amounts[OF v d] d by (auto simp: sample_input_def)
qed

lemma enabled_template_is_first:
  assumes "t \<in> set templates" "td_enabled t options"
  shows "templateDefinition (td_name t) None = Inr t \<and>
    sql_first (\<lambda>u. td_name u = td_name t \<and> Some (td_version u) = Some (td_version t)) templates = Some t \<and>
    td_version t \<noteq> ''''"
proof -
  have "t \<in> {bazel_0_1_0, webdav_0_2_0, gradle_0_2_0, turborepo_0_1_0, nx_0_1_0, goCache_0_1_0}"
    using assms by (auto simp: templates_def)
  then show ?thesis
    by (elim insertE emptyE) (simp_all add: templates_def templateDefinition_def)
qed

text \<open>
  Catalog, creation and history agree: every listed entry is a template whose creation is
  enabled, creating an instance by its name pins exactly the listed version, protocols and policy,
  and looking the recorded name and version up later gives the listed capabilities. Entries are
  listed once.
\<close>
lemma templateCatalog_consistent:
  "distinct (map (\<lambda>e. (ce_name e, ce_version e)) (templateCatalog render options)) \<and>
   (\<forall>e \<in> set (templateCatalog render options).
      templateEnabled (ce_name e) options = Inr True \<and>
      instanceCapabilities (ce_name e) (Some (ce_version e)) = Some (ce_capabilities e) \<and>
      (\<exists>t. templateDefinition (ce_name e) None = Inr t \<and> td_version t = ce_version e \<and>
         td_protocols t = ce_protocols e))"
proof -
  have "distinct (map (\<lambda>t. (td_name t, td_version t)) templates)"
    by (simp add: templates_def)
  then have "distinct (map (\<lambda>t. (td_name t, td_version t)) (filter (\<lambda>t. td_enabled t options) templates))"
    by (rule distinct_map_filter)
  then have "distinct (map (\<lambda>e. (ce_name e, ce_version e)) (templateCatalog render options))"
    by (simp add: templateCatalog_def comp_def)
  moreover have "templateEnabled (ce_name e) options = Inr True \<and>
      instanceCapabilities (ce_name e) (Some (ce_version e)) = Some (ce_capabilities e) \<and>
      (\<exists>t. templateDefinition (ce_name e) None = Inr t \<and> td_version t = ce_version e \<and>
         td_protocols t = ce_protocols e)"
    if e: "e \<in> set (templateCatalog render options)" for e
  proof -
    obtain t where t: "t \<in> set templates" "td_enabled t options"
      and f: "ce_name e = td_name t" "ce_version e = td_version t"
        "ce_capabilities e = td_capabilities t" "ce_protocols e = td_protocols t"
      using e by (auto simp: templateCatalog_def)
    show ?thesis
      unfolding f using enabled_template_is_first[OF t] t(2)
      by (auto simp: templateEnabled_def instanceCapabilities_def)
  qed
  ultimately show ?thesis by blast
qed

lemma templateCatalog_consistent_sample:
  "ce_version (hd (templateCatalog (\<lambda>_. JNull)
     \<lparr>webdavEnabled = True, gradleEnabled = False, turborepoEnabled = False, nxEnabled = False,
      goCacheEnabled = False, gatewayEnabled = False\<rparr>)) = ''0.1.0'' \<and>
   templateEnabled ''bazel-remote'' \<lparr>webdavEnabled = True, gradleEnabled = False,
     turborepoEnabled = False, nxEnabled = False, goCacheEnabled = False, gatewayEnabled = False\<rparr> = Inr True"
proof -
  define opts where "opts = \<lparr>webdavEnabled = True, gradleEnabled = False, turborepoEnabled = False,
     nxEnabled = False, goCacheEnabled = False, gatewayEnabled = False\<rparr>"
  define e where "e = hd (templateCatalog (\<lambda>_. JNull) opts)"
  have e: "e \<in> set (templateCatalog (\<lambda>_. JNull) opts)" "ce_name e = ''bazel-remote''"
    "ce_version e = ''0.1.0''"
    by (simp_all add: e_def templateCatalog_def templates_def)
  have "templateEnabled (ce_name e) opts = Inr True"
    using templateCatalog_consistent[of "\<lambda>_. JNull" opts] e(1) by blast
  with e show ?thesis by (simp add: opts_def e_def)
qed

end
