(* ===== verification/Quotas.thy ===== *)
theory Quotas
  imports Database Contract_Props
begin

text \<open>
  Project quotas (src/apps/admin-api/src/quotas.ts): the quota schema, the snapshot of limits and
  reservations, the admission check, the reservation made at admission and its settlement when an
  operation succeeds. All run inside a transaction that holds the project row lock, so each is an
  atomic step on the database. Sums of reservations reach JavaScript through \<open>Number\<close>, which
  rounds above \<open>2\<^sup>5\<^sup>3\<close>: the model rounds too, and the lemmas show that the admission decision is
  still the decision on the exact sums.
\<close>

section \<open>Quota limits\<close>

record quota =
  q_instances :: "int option"
  q_storageGiB :: "int option"
  q_cpuMillis :: "int option"
  q_memoryMiB :: "int option"

definition limit :: "int option schema" where
  "limit = z_nullable (z_int 0 2147483647)"

definition quotaInput :: "quota schema" where
  "quotaInput v =
     (case z_strict [''instances'', ''storageGiB'', ''cpuMillis'', ''memoryMiB''] v of
        None \<Rightarrow> None
      | Some fs \<Rightarrow>
          (case (z_field fs ''instances'' limit, z_field fs ''storageGiB'' limit,
                 z_field fs ''cpuMillis'' limit, z_field fs ''memoryMiB'' limit) of
             (Some a, Some b, Some c, Some d) \<Rightarrow>
               Some \<lparr>q_instances = a, q_storageGiB = b, q_cpuMillis = c, q_memoryMiB = d\<rparr>
           | _ \<Rightarrow> None))"

text \<open>\<open>JSON.stringify(limits)\<close>, as stored in the jsonb column.\<close>

definition json_limit :: "int option \<Rightarrow> json" where
  "json_limit v = (case v of None \<Rightarrow> JNull | Some n \<Rightarrow> JNum (of_int n))"

definition json_quota :: "quota \<Rightarrow> json" where
  "json_quota q = JObj [(''instances'', json_limit (q_instances q)), (''storageGiB'', json_limit (q_storageGiB q)),
     (''cpuMillis'', json_limit (q_cpuMillis q)), (''memoryMiB'', json_limit (q_memoryMiB q))]"

record resources =
  rs_storageGiB :: int
  rs_cpuMillis :: int
  rs_memoryMiB :: int

definition input_resources :: "instance_input \<Rightarrow> resources" where
  "input_resources x = \<lparr>rs_storageGiB = in_storageGiB x, rs_cpuMillis = in_cpuMillis x, rs_memoryMiB = in_memoryMiB x\<rparr>"

section \<open>Snapshot\<close>

text \<open>\<open>coalesce(sum(column) FILTER (WHERE p), 0)\<close>: NULLs are skipped.\<close>

definition sql_sum :: "('r \<Rightarrow> bool) \<Rightarrow> ('r \<Rightarrow> int option) \<Rightarrow> 'r list \<Rightarrow> int" where
  "sql_sum p c rows = sum_list (map (\<lambda>r. case c r of None \<Rightarrow> 0 | Some n \<Rightarrow> n) (filter p rows))"

definition project_bindings :: "database \<Rightarrow> string \<Rightarrow> binding_row list" where
  "project_bindings d pid = filter (\<lambda>r. b_project_id r = pid) (db_bindings d)"

definition counted :: "binding_row \<Rightarrow> bool" where
  "counted r \<longleftrightarrow> b_lifecycle r \<noteq> Deleted \<and> b_lifecycle r \<noteq> Detached"

definition total_instances :: "database \<Rightarrow> string \<Rightarrow> int" where
  "total_instances d pid = int (length (filter counted (project_bindings d pid)))"

definition total_storage :: "database \<Rightarrow> string \<Rightarrow> int" where
  "total_storage d pid =
     sql_sum (\<lambda>r. b_lifecycle r \<noteq> Deleted) b_reserved_storage_gib (project_bindings d pid)"

definition total_cpu :: "database \<Rightarrow> string \<Rightarrow> int" where
  "total_cpu d pid = sql_sum counted b_reserved_cpu_millis (project_bindings d pid)"

definition total_memory :: "database \<Rightarrow> string \<Rightarrow> int" where
  "total_memory d pid = sql_sum counted b_reserved_memory_mib (project_bindings d pid)"

definition unknown_reservation :: "binding_row \<Rightarrow> bool" where
  "unknown_reservation r \<longleftrightarrow>
     b_lifecycle r \<noteq> Deleted \<and>
     (b_reserved_storage_gib r = None \<or>
      (b_lifecycle r \<noteq> Detached \<and> (b_reserved_cpu_millis r = None \<or> b_reserved_memory_mib r = None)))"

definition total_unknown :: "database \<Rightarrow> string \<Rightarrow> int" where
  "total_unknown d pid = int (length (filter unknown_reservation (project_bindings d pid)))"

text \<open>\<open>Number(x)\<close> of a non-negative count or sum.\<close>

definition js_num :: "int \<Rightarrow> int" where
  "js_num n = int (js_number (nat n))"

record reserved =
  re_instances :: int
  re_storageGiB :: int
  re_cpuMillis :: int
  re_memoryMiB :: int

record snapshot =
  sn_syncState :: string
  sn_observedRevision :: "string option"
  sn_checkedAt :: "int option"
  sn_error :: "string option"
  sn_limits :: quota
  sn_revision :: string
  sn_reserved :: reserved
  sn_unknown :: int

definition quotaSnapshot :: "string \<Rightarrow> (database, snapshot) action" where
  "quotaSnapshot pid d =
     (case sql_first (\<lambda>p. p_id p = pid) (db_projects d) of
        None \<Rightarrow> (d, Inl (HttpError 404 ''Project not found''))
      | Some p \<Rightarrow>
          (d, rbind (z_parse quotaInput (p_quota_limits p)) (\<lambda>limits.
            Inr \<lparr>sn_syncState =
                   (if truthy (p_quota_sync_error p) then ''Failed''
                    else if p_quota_observed_revision p = Some (p_quota_revision p) then ''Applied''
                    else ''Pending''),
                 sn_observedRevision = map_option show_int (p_quota_observed_revision p),
                 sn_checkedAt = p_quota_checked_at p,
                 sn_error = p_quota_sync_error p,
                 sn_limits = limits,
                 sn_revision = show_int (p_quota_revision p),
                 sn_reserved = \<lparr>re_instances = js_num (total_instances d pid),
                   re_storageGiB = js_num (total_storage d pid),
                   re_cpuMillis = js_num (total_cpu d pid),
                   re_memoryMiB = js_num (total_memory d pid)\<rparr>,
                 sn_unknown = js_num (total_unknown d pid)\<rparr>)))"

section \<open>Admission\<close>

definition quota_entries :: "quota \<Rightarrow> reserved \<Rightarrow> (string \<times> int option \<times> int) list" where
  "quota_entries q r =
     [(''instances'', q_instances q, re_instances r), (''storageGiB'', q_storageGiB q, re_storageGiB r),
      (''cpuMillis'', q_cpuMillis q, re_cpuMillis r), (''memoryMiB'', q_memoryMiB q, re_memoryMiB r)]"

definition exceeded :: "string \<times> int option \<times> int \<Rightarrow> bool" where
  "exceeded e = (case e of (_, None, _) \<Rightarrow> False | (_, Some l, n) \<Rightarrow> l < n)"

definition checkQuota :: "quota \<Rightarrow> reserved \<Rightarrow> int \<Rightarrow> unit result" where
  "checkQuota limits reserved unknown =
     throw_if (unknown \<noteq> 0 \<and> list_ex (\<lambda>(_, l, _). l \<noteq> None) (quota_entries limits reserved))
       (HttpError 409 ''Project has unresolved resource reservations'')
       (case sql_first exceeded (quota_entries limits reserved) of
          None \<Rightarrow> Inr ()
        | Some (k, _, _) \<Rightarrow> Inl (HttpError 409 (''Project quota exceeded: '' @ k)))"

text \<open>\<open>greatest(coalesce(column, 0), n)\<close>\<close>

definition raise_to :: "int option \<Rightarrow> int \<Rightarrow> int option" where
  "raise_to c n = Some (max (case c of None \<Rightarrow> 0 | Some m \<Rightarrow> m) n)"

definition raise_row :: "resources \<Rightarrow> binding_row \<Rightarrow> binding_row" where
  "raise_row input r = r\<lparr>
     b_reserved_storage_gib := raise_to (b_reserved_storage_gib r) (rs_storageGiB input),
     b_reserved_cpu_millis := raise_to (b_reserved_cpu_millis r) (rs_cpuMillis input),
     b_reserved_memory_mib := raise_to (b_reserved_memory_mib r) (rs_memoryMiB input)\<rparr>"

definition admit_quota :: "string \<Rightarrow> (database, unit) action" where
  "admit_quota pid = mbind (quotaSnapshot pid) (\<lambda>sn.
     mlift (checkQuota (sn_limits sn) (sn_reserved sn) (sn_unknown sn)))"

definition reserveResources ::
  "string \<Rightarrow> string \<Rightarrow> resources \<Rightarrow> bool \<Rightarrow> (database, unit) action" where
  "reserveResources pid iid input creating =
     mbind
       (if creating then mret ()
        else mbind (tx_get (\<lambda>d. sql_first (\<lambda>r. b_id r = iid \<and> b_project_id r = pid) (db_bindings d))) (\<lambda>row.
          mthrow_if
            (case row of None \<Rightarrow> True
             | Some r \<Rightarrow> b_reserved_storage_gib r = None \<or> b_reserved_cpu_millis r = None \<or>
                 b_reserved_memory_mib r = None)
            (HttpError 409 ''Instance has unresolved resource reservations''))) (\<lambda>_.
     mbind (tx_get (\<lambda>d. length (filter (\<lambda>r. b_project_id r = pid \<and> b_id r = iid \<and> counted r) (db_bindings d)))) (\<lambda>rowCount.
     mbind (tx_put (\<lambda>d. d\<lparr>db_bindings :=
        sql_update (\<lambda>r. b_project_id r = pid \<and> b_id r = iid \<and> counted r) (raise_row input) (db_bindings d)\<rparr>)) (\<lambda>_.
     mbind (mthrow_if (rowCount \<noteq> 1) (HttpError 409 ''Instance cannot reserve resources'')) (\<lambda>_.
     admit_quota pid))))"

text \<open>\<open>/^(\d+)Gi$/\<close> and its kin: the number before a suffix.\<close>

definition leading_number :: "string \<Rightarrow> string \<Rightarrow> nat option" where
  "leading_number suffix s =
     (let ds = takeWhile is_digit s
      in if ds \<noteq> [] \<and> dropWhile is_digit s = suffix then Some (digits_val ds) else None)"

text \<open>\<open>greatest(column, n)\<close>: a NULL argument is ignored.\<close>

definition greatest :: "int option \<Rightarrow> int \<Rightarrow> int option" where
  "greatest c n = Some (case c of None \<Rightarrow> n | Some m \<Rightarrow> max m n)"

definition settleResources :: "string \<Rightarrow> cache_object \<Rightarrow> (database, unit) action" where
  "settleResources iid desired =
     (let spec = co_spec desired;
          request = (\<lambda>k. case map_of (rs_requests (sp_resources spec)) k of None \<Rightarrow> '''' | Some q \<Rightarrow> q)
      in case (leading_number ''Gi'' (st_capacity (sp_storage spec)),
               leading_number ''m'' (request ''cpu''), leading_number ''Mi'' (request ''memory'')) of
           (Some st, Some cpu, Some mem) \<Rightarrow>
             tx_put (\<lambda>d. d\<lparr>db_bindings := sql_update (\<lambda>r. b_id r = iid)
               (\<lambda>r. r\<lparr>b_reserved_storage_gib := greatest (b_reserved_storage_gib r) (js_num (int st)),
                     b_reserved_cpu_millis := Some (js_num (int cpu)),
                     b_reserved_memory_mib := Some (js_num (int mem))\<rparr>) (db_bindings d)\<rparr>)
         | _ \<Rightarrow> mthrow (JsError ''Unsupported reservation units''))"

section \<open>The quota promise\<close>

text \<open>A project respects its quota: no limit is exceeded by the exact sums, and nothing is unknown
  once some limit is set.\<close>

definition has_limit :: "quota \<Rightarrow> bool" where
  "has_limit q \<longleftrightarrow> q_instances q \<noteq> None \<or> q_storageGiB q \<noteq> None \<or> q_cpuMillis q \<noteq> None \<or> q_memoryMiB q \<noteq> None"

definition below :: "int \<Rightarrow> int option \<Rightarrow> bool" where
  "below n l = (case l of None \<Rightarrow> True | Some m \<Rightarrow> n \<le> m)"

definition obeys :: "quota \<Rightarrow> database \<Rightarrow> string \<Rightarrow> bool" where
  "obeys q d pid \<longleftrightarrow>
     below (total_instances d pid) (q_instances q) \<and> below (total_storage d pid) (q_storageGiB q) \<and>
     below (total_cpu d pid) (q_cpuMillis q) \<and> below (total_memory d pid) (q_memoryMiB q) \<and>
     (has_limit q \<longrightarrow> total_unknown d pid = 0)"

definition project_quota :: "database \<Rightarrow> string \<Rightarrow> quota option" where
  "project_quota d pid =
     (case sql_first (\<lambda>p. p_id p = pid) (db_projects d) of
        None \<Rightarrow> None | Some p \<Rightarrow> quotaInput (Some (p_quota_limits p)))"

definition within_quota :: "database \<Rightarrow> string \<Rightarrow> bool" where
  "within_quota d pid \<longleftrightarrow> (\<exists>q. project_quota d pid = Some q \<and> obeys q d pid)"

definition valid_limit :: "int option \<Rightarrow> bool" where
  "valid_limit l = (case l of None \<Rightarrow> True | Some m \<Rightarrow> 0 \<le> m \<and> m \<le> 2147483647)"

lemma limit_valid: "limit v = Some l \<Longrightarrow> valid_limit l"
  by (auto simp: limit_def z_nullable_def valid_limit_def split: if_splits dest: z_int_Some)

definition valid_quota :: "quota \<Rightarrow> bool" where
  "valid_quota q \<longleftrightarrow> valid_limit (q_instances q) \<and> valid_limit (q_storageGiB q) \<and>
     valid_limit (q_cpuMillis q) \<and> valid_limit (q_memoryMiB q)"

lemma quotaInput_valid: "quotaInput v = Some q \<Longrightarrow> valid_quota q"
  unfolding quotaInput_def z_field_def
  by (auto simp: valid_quota_def split: option.splits dest: limit_valid)

lemma limit_json: "valid_limit l \<Longrightarrow> limit (Some (json_limit l)) = Some l"
  by (cases l) (simp_all add: limit_def z_nullable_def json_limit_def valid_limit_def z_int_JNum)

lemma quotaInput_json: "valid_quota q \<Longrightarrow> quotaInput (Some (json_quota q)) = Some q"
  by (simp add: quotaInput_def json_quota_def z_strict_def z_check_def z_field_def valid_quota_def limit_json)

lemma js_num_less: "0 \<le> l \<Longrightarrow> l \<le> 2147483647 \<Longrightarrow> l < js_num n \<longleftrightarrow> l < n"
proof -
  assume l: "0 \<le> l" "l \<le> 2147483647"
  then have "nat l < 2 ^ 53" by simp
  from js_number_compare[OF this, of "nat n"] l show ?thesis
    by (simp add: js_num_def nat_less_iff zless_nat_eq_int_zless)
qed

lemma js_num_exact: "0 \<le> n \<Longrightarrow> n < 2 ^ 53 \<Longrightarrow> js_num n = n"
  by (simp add: js_num_def js_number_exact)

lemma js_num_zero: "0 \<le> n \<Longrightarrow> js_num n = 0 \<longleftrightarrow> n = 0"
  using js_num_less[of 0 n] js_num_exact[of 0] by (auto simp: js_num_def)

lemma exceeded_below: "valid_limit l \<Longrightarrow> exceeded (k, l, js_num n) \<longleftrightarrow> \<not> below n l"
  by (cases l) (auto simp: exceeded_def below_def valid_limit_def js_num_less)

lemma total_unknown_nonneg: "0 \<le> total_unknown d pid"
  by (simp add: total_unknown_def)

abbreviation current_reserved :: "database \<Rightarrow> string \<Rightarrow> reserved" where
  "current_reserved d pid \<equiv> \<lparr>re_instances = js_num (total_instances d pid),
     re_storageGiB = js_num (total_storage d pid), re_cpuMillis = js_num (total_cpu d pid),
     re_memoryMiB = js_num (total_memory d pid)\<rparr>"

lemma checkQuota_iff:
  assumes "valid_quota q"
  shows "checkQuota q (current_reserved d pid) (js_num (total_unknown d pid)) = Inr () \<longleftrightarrow> obeys q d pid"
proof -
  have some: "list_ex (\<lambda>(_, l, _). l \<noteq> None) (quota_entries q r) \<longleftrightarrow> has_limit q" for r
    by (auto simp: quota_entries_def has_limit_def)
  have none: "sql_first exceeded (quota_entries q (current_reserved d pid)) = None \<longleftrightarrow>
      below (total_instances d pid) (q_instances q) \<and> below (total_storage d pid) (q_storageGiB q) \<and>
      below (total_cpu d pid) (q_cpuMillis q) \<and> below (total_memory d pid) (q_memoryMiB q)"
    using assms by (simp add: sql_first_None quota_entries_def exceeded_below valid_quota_def)
  have "checkQuota q (current_reserved d pid) (js_num (total_unknown d pid)) = Inr () \<longleftrightarrow>
      \<not> (js_num (total_unknown d pid) \<noteq> 0 \<and> has_limit q) \<and>
      sql_first exceeded (quota_entries q (current_reserved d pid)) = None"
    unfolding checkQuota_def some by (auto split: option.splits)
  then show ?thesis
    unfolding none obeys_def by (auto simp: js_num_zero total_unknown_nonneg)
qed

lemma quotaSnapshot_Inr:
  "quotaSnapshot pid d = (d', Inr sn) \<longleftrightarrow>
     d' = d \<and> (\<exists>p q. sql_first (\<lambda>p. p_id p = pid) (db_projects d) = Some p \<and>
       quotaInput (Some (p_quota_limits p)) = Some q \<and>
       sn = \<lparr>sn_syncState = (if truthy (p_quota_sync_error p) then ''Failed''
                else if p_quota_observed_revision p = Some (p_quota_revision p) then ''Applied'' else ''Pending''),
              sn_observedRevision = map_option show_int (p_quota_observed_revision p),
              sn_checkedAt = p_quota_checked_at p, sn_error = p_quota_sync_error p, sn_limits = q,
              sn_revision = show_int (p_quota_revision p), sn_reserved = current_reserved d pid,
              sn_unknown = js_num (total_unknown d pid)\<rparr>)"
  by (auto simp: quotaSnapshot_def rbind_eq_Inr z_parse_Inr split: option.splits)

lemma quotaSnapshot_same: "fst (quotaSnapshot pid d) = d"
  by (simp add: quotaSnapshot_def split: option.splits)

lemma admit_quota_iff: "admit_quota pid d = (d', Inr ()) \<longleftrightarrow> d' = d \<and> within_quota d pid"
proof
  assume "admit_quota pid d = (d', Inr ())"
  then obtain sn d1 where sn: "quotaSnapshot pid d = (d1, Inr sn)" and d': "d' = d1"
    and c: "checkQuota (sn_limits sn) (sn_reserved sn) (sn_unknown sn) = Inr ()"
    by (auto simp: admit_quota_def mbind_Inr)
  from sn obtain p q where p: "sql_first (\<lambda>p. p_id p = pid) (db_projects d) = Some p"
    "quotaInput (Some (p_quota_limits p)) = Some q" and f: "d1 = d" "sn_limits sn = q"
    "sn_reserved sn = current_reserved d pid" "sn_unknown sn = js_num (total_unknown d pid)"
    unfolding quotaSnapshot_Inr by auto
  then have "obeys q d pid"
    using c checkQuota_iff[OF quotaInput_valid[OF p(2)]] by simp
  then show "d' = d \<and> within_quota d pid"
    using p d' f by (auto simp: within_quota_def project_quota_def)
next
  assume r: "d' = d \<and> within_quota d pid"
  then obtain p q where p: "sql_first (\<lambda>p. p_id p = pid) (db_projects d) = Some p"
    "quotaInput (Some (p_quota_limits p)) = Some q" "obeys q d pid"
    by (auto simp: within_quota_def project_quota_def split: option.splits)
  then obtain sn where sn: "quotaSnapshot pid d = (d, Inr sn)" "sn_limits sn = q"
    "sn_reserved sn = current_reserved d pid" "sn_unknown sn = js_num (total_unknown d pid)"
    using quotaSnapshot_Inr[of pid d d] by auto
  have "checkQuota (sn_limits sn) (sn_reserved sn) (sn_unknown sn) = Inr ()"
    using sn p(3) checkQuota_iff[OF quotaInput_valid[OF p(2)], of d pid] by simp
  then show "admit_quota pid d = (d', Inr ())"
    using r sn(1) by (simp add: admit_quota_def mbind_def)
qed

section \<open>Reservation and settlement\<close>

definition resv :: "int option \<Rightarrow> int" where
  "resv c = (case c of None \<Rightarrow> 0 | Some n \<Rightarrow> n)"

lemma sql_sum_resv: "sql_sum p c rows = sum_list (map (\<lambda>r. resv (c r)) (filter p rows))"
  by (simp add: sql_sum_def resv_def)

lemma sql_sum_update_mono:
  assumes "\<And>r. r \<in> set rows \<Longrightarrow> u r \<Longrightarrow> p (f r) = p r"
    and "\<And>r. r \<in> set rows \<Longrightarrow> u r \<Longrightarrow> resv (c (f r)) \<le> resv (c r)"
  shows "sql_sum p c (sql_update u f rows) \<le> sql_sum p c rows"
  using assms
proof (induction rows)
  case (Cons r rows)
  then have "sql_sum p c (sql_update u f rows) \<le> sql_sum p c rows" by simp
  moreover have "u r \<Longrightarrow> p (f r) = p r" "u r \<Longrightarrow> resv (c (f r)) \<le> resv (c r)"
    using Cons.prems by simp_all
  ultimately show ?case by (auto simp: sql_sum_resv)
qed (simp add: sql_sum_def)

text \<open>The identity of a row: everything but its reservations and its display name.\<close>

definition row_identity :: "binding_row \<Rightarrow> string \<times> string \<times> string \<times> string option \<times> lifecycle \<times> string \<times> string option" where
  "row_identity r = (b_id r, b_project_id r, b_resource_name r, b_kubernetes_uid r, b_lifecycle r,
     b_template_name r, b_template_version r)"

lemma raise_row_identity [simp]: "row_identity (raise_row input r) = row_identity r"
  by (simp add: raise_row_def row_identity_def)

definition reserves_at_least :: "resources \<Rightarrow> binding_row \<Rightarrow> bool" where
  "reserves_at_least input r \<longleftrightarrow>
     (\<exists>s c m. b_reserved_storage_gib r = Some s \<and> b_reserved_cpu_millis r = Some c \<and>
        b_reserved_memory_mib r = Some m \<and>
        rs_storageGiB input \<le> s \<and> rs_cpuMillis input \<le> c \<and> rs_memoryMiB input \<le> m)"

definition reservation_le :: "binding_row \<Rightarrow> binding_row \<Rightarrow> bool" where
  "reservation_le r r' \<longleftrightarrow>
     resv (b_reserved_storage_gib r) \<le> resv (b_reserved_storage_gib r') \<and>
     resv (b_reserved_cpu_millis r) \<le> resv (b_reserved_cpu_millis r') \<and>
     resv (b_reserved_memory_mib r) \<le> resv (b_reserved_memory_mib r')"

lemma raise_row_reserves: "reserves_at_least input (raise_row input r)"
  by (simp add: raise_row_def raise_to_def reserves_at_least_def)

lemma raise_row_le: "reservation_le r (raise_row input r)"
  by (auto simp: raise_row_def raise_to_def reservation_le_def resv_def split: option.splits)

abbreviation reserving :: "string \<Rightarrow> string \<Rightarrow> binding_row \<Rightarrow> bool" where
  "reserving pid iid r \<equiv> b_project_id r = pid \<and> b_id r = iid \<and> counted r"

lemma reserveResources_Inr:
  assumes "reserveResources pid iid input creating d = (d', Inr ())"
  shows "d' = d\<lparr>db_bindings := sql_update (reserving pid iid) (raise_row input) (db_bindings d)\<rparr> \<and>
    length (filter (reserving pid iid) (db_bindings d)) = 1 \<and> within_quota d' pid"
proof -
  let ?d = "d\<lparr>db_bindings := sql_update (reserving pid iid) (raise_row input) (db_bindings d)\<rparr>"
  have "length (filter (reserving pid iid) (db_bindings d)) = 1 \<and> admit_quota pid ?d = (d', Inr ())"
    using assms unfolding reserveResources_def
    by (auto simp: mbind_Inr mthrow_if_def split: if_splits option.splits)
  then show ?thesis using admit_quota_iff[of pid ?d d'] by auto
qed

lemma reserveResources_creating:
  assumes "length (filter (reserving pid iid) (db_bindings d)) = 1"
    and "d' = d\<lparr>db_bindings := sql_update (reserving pid iid) (raise_row input) (db_bindings d)\<rparr>"
    and "within_quota d' pid"
  shows "reserveResources pid iid input True d = (d', Inr ())"
  using assms admit_quota_iff[of pid d' d']
  by (simp add: reserveResources_def mbind_def)

lemma leading_number_printed:
  "s \<in> {''Gi'', ''m'', ''Mi''} \<Longrightarrow> leading_number s (show_nat n @ s) = Some n"
  by (auto simp: leading_number_def Let_def takeWhile_digits dropWhile_digits is_digit_def)

lemma settleResources_desired:
  assumes "valid_input x" "desiredObject x pid ns iid sc oid h = Inr desired"
  shows "settleResources i desired = tx_put (\<lambda>d. d\<lparr>db_bindings := sql_update (\<lambda>r. b_id r = i)
     (\<lambda>r. r\<lparr>b_reserved_storage_gib := greatest (b_reserved_storage_gib r) (in_storageGiB x),
           b_reserved_cpu_millis := Some (in_cpuMillis x),
           b_reserved_memory_mib := Some (in_memoryMiB x)\<rparr>) (db_bindings d)\<rparr>)"
proof -
  have num: "leading_number s (show_int n @ s) = Some (nat n)"
    if "0 \<le> n" "n \<le> 2147483647" "s \<in> {''Gi'', ''m'', ''Mi''}" for n s
    using that leading_number_printed[of s "nat n"] by (simp_all add: show_int_def js_num_exact)
  have f: "st_capacity (sp_storage (co_spec desired)) = show_int (in_storageGiB x) @ ''Gi''"
    "map_of (rs_requests (sp_resources (co_spec desired))) ''cpu'' = Some (show_int (in_cpuMillis x) @ ''m'')"
    "map_of (rs_requests (sp_resources (co_spec desired))) ''memory'' = Some (show_int (in_memoryMiB x) @ ''Mi'')"
    using assms(2) by (auto simp: desiredObject_def rbind_eq_Inr Let_def)
  have b: "0 \<le> in_storageGiB x" "in_storageGiB x \<le> 2147483647" "0 \<le> in_cpuMillis x"
    "in_cpuMillis x \<le> 2147483647" "0 \<le> in_memoryMiB x" "in_memoryMiB x \<le> 2147483647"
    using assms(1) by (simp_all add: valid_input_def)
  show ?thesis
    unfolding settleResources_def Let_def f using num b by (simp add: js_num_exact)
qed

text \<open>
  Settling an operation whose resources were reserved at admission keeps the project within its
  quota: it can only lower the recorded amounts.
\<close>

lemma settle_keeps_quota:
  assumes "within_quota d pid"
    and "\<And>r. r \<in> set (db_bindings d) \<Longrightarrow> b_id r = iid \<Longrightarrow> reserves_at_least \<lparr>rs_storageGiB = st, rs_cpuMillis = cpu, rs_memoryMiB = mem\<rparr> r"
  shows "within_quota (d\<lparr>db_bindings := sql_update (\<lambda>r. b_id r = iid)
     (\<lambda>r. r\<lparr>b_reserved_storage_gib := greatest (b_reserved_storage_gib r) st,
           b_reserved_cpu_millis := Some cpu, b_reserved_memory_mib := Some mem\<rparr>) (db_bindings d)\<rparr>) pid"
proof -
  define f :: "binding_row \<Rightarrow> binding_row" where "f = (\<lambda>r. r\<lparr>b_reserved_storage_gib := greatest (b_reserved_storage_gib r) st,
           b_reserved_cpu_millis := Some cpu, b_reserved_memory_mib := Some mem\<rparr>)"
  define d' where "d' = d\<lparr>db_bindings := sql_update (\<lambda>r. b_id r = iid) f (db_bindings d)\<rparr>"
  have f_id: "row_identity (f r) = row_identity r" for r by (simp add: f_def row_identity_def)
  have f_life: "b_lifecycle (f r) = b_lifecycle r" "b_project_id (f r) = b_project_id r" for r
    by (simp_all add: f_def)
  have pb: "project_bindings d' pid = sql_update (\<lambda>r. b_id r = iid) f (project_bindings d pid)"
    by (simp add: project_bindings_def d'_def filter_sql_update f_life)
  have in_d: "r \<in> set (project_bindings d pid) \<Longrightarrow> r \<in> set (db_bindings d)" for r
    by (simp add: project_bindings_def)
  have le: "resv (b_reserved_storage_gib (f r)) \<le> resv (b_reserved_storage_gib r)"
    "resv (b_reserved_cpu_millis (f r)) \<le> resv (b_reserved_cpu_millis r)"
    "resv (b_reserved_memory_mib (f r)) \<le> resv (b_reserved_memory_mib r)"
    "unknown_reservation (f r) = unknown_reservation r"
    if "r \<in> set (project_bindings d pid)" "b_id r = iid" for r
    using assms(2)[OF in_d[OF that(1)] that(2)]
    by (auto simp: reserves_at_least_def f_def greatest_def resv_def unknown_reservation_def)
  have c: "counted (f r) = counted r" for r by (simp add: counted_def f_life)
  have cnt: "length (filter p (sql_update (\<lambda>r. b_id r = iid) f rows)) = length (filter p rows)"
    if "\<And>r. r \<in> set rows \<Longrightarrow> b_id r = iid \<Longrightarrow> p (f r) = p r" for p rows
    using that by (induction rows) auto
  have "total_storage d' pid \<le> total_storage d pid" "total_cpu d' pid \<le> total_cpu d pid"
    "total_memory d' pid \<le> total_memory d pid"
    unfolding total_storage_def total_cpu_def total_memory_def pb
    by (rule sql_sum_update_mono; simp add: f_life c le)+
  moreover have "total_instances d' pid = total_instances d pid"
    "total_unknown d' pid = total_unknown d pid"
    unfolding total_instances_def total_unknown_def pb by (simp_all add: cnt c le)
  moreover have "project_quota d' pid = project_quota d pid"
    by (simp add: project_quota_def d'_def)
  ultimately have "within_quota d' pid"
    using assms(1) unfolding within_quota_def obeys_def below_def by (fastforce split: option.splits)
  then show ?thesis by (simp add: d'_def f_def)
qed

section \<open>The ledger interface\<close>

text \<open>
  What the instance routes rely on when they admit a request: a reservation that succeeds leaves the
  project within its quota, covers the request on the instance's own row, and leaves every other
  row, table and row identity alone; one that fails promises nothing, because the transaction is
  rolled back.
\<close>

locale reservation_ledger =
  fixes reserve :: "string \<Rightarrow> string \<Rightarrow> 'q \<Rightarrow> bool \<Rightarrow> (database, unit) action"
    and quota_ok :: "database \<Rightarrow> string \<Rightarrow> bool"
    and covers :: "'q \<Rightarrow> binding_row \<Rightarrow> bool"
  assumes admitted: "reserve pid iid x creating d = (d', Inr ()) \<Longrightarrow> quota_ok d' pid"
    and covered: "reserve pid iid x creating d = (d', Inr ()) \<Longrightarrow>
      \<exists>r \<in> set (db_bindings d'). b_id r = iid \<and> b_project_id r = pid \<and> counted r \<and> covers x r"
    and same_rows: "reserve pid iid x creating d = (d', Inr ()) \<Longrightarrow>
      map row_identity (db_bindings d') = map row_identity (db_bindings d)"
    and frame: "reserve pid iid x creating d = (d', Inr ()) \<Longrightarrow> \<exists>rows. d' = d\<lparr>db_bindings := rows\<rparr>"
begin

lemma reserve_keeps_operations:
  "reserve pid iid x creating d = (d', Inr ()) \<Longrightarrow>
     db_operations d' = db_operations d \<and> db_projects d' = db_projects d \<and>
     db_members d' = db_members d \<and> db_audit d' = db_audit d"
  by (drule frame) auto

lemma reserve_keeps_ids:
  assumes "reserve pid iid x creating d = (d', Inr ())"
  shows "map b_id (db_bindings d') = map b_id (db_bindings d)"
proof -
  have "map (fst \<circ> row_identity) (db_bindings d') = map (fst \<circ> row_identity) (db_bindings d)"
    using arg_cong[OF same_rows[OF assms], of "map fst"] by simp
  then show ?thesis by (simp add: row_identity_def comp_def)
qed

end

interpretation quota_ledger: reservation_ledger reserveResources within_quota reserves_at_least
proof
  fix pid iid x creating and d d' :: database
  assume a: "reserveResources pid iid x creating d = (d', Inr ())"
  note r = reserveResources_Inr[OF a]
  show "within_quota d' pid" using r by blast
  show "\<exists>rows. d' = d\<lparr>db_bindings := rows\<rparr>" using r by blast
  show "map row_identity (db_bindings d') = map row_identity (db_bindings d)"
    using r by (simp add: map_sql_update)
  have "filter (reserving pid iid) (db_bindings d) \<noteq> []" using r by auto
  then obtain b where b: "b \<in> set (db_bindings d)" "reserving pid iid b"
    by (auto simp: filter_empty_conv)
  have "raise_row x b \<in> set (db_bindings d')" using r b by (auto simp: set_sql_update)
  moreover have "counted (raise_row x b)" "b_id (raise_row x b) = iid" "b_project_id (raise_row x b) = pid"
    using b by (simp_all add: raise_row_def counted_def)
  ultimately show "\<exists>r \<in> set (db_bindings d'). b_id r = iid \<and> b_project_id r = pid \<and> counted r \<and> reserves_at_least x r"
    using raise_row_reserves by blast
qed

section \<open>Properties\<close>

text \<open>a reservation that succeeds leaves the project within its quota, with the instance's own
  row covering the request; no reservation of any row is lowered, no row changes identity and no
  other table or project is touched.\<close>

theorem reserve_within_quota:
  assumes "reserveResources pid iid input creating d = (d', Inr ())"
  shows "within_quota d' pid \<and>
    (\<exists>r \<in> set (db_bindings d'). b_id r = iid \<and> b_project_id r = pid \<and> counted r \<and> reserves_at_least input r) \<and>
    list_all2 (\<lambda>r r'. row_identity r' = row_identity r \<and> reservation_le r r' \<and>
      (r' \<noteq> r \<longrightarrow> b_id r = iid \<and> b_project_id r = pid)) (db_bindings d) (db_bindings d') \<and>
    d' = d\<lparr>db_bindings := db_bindings d'\<rparr>"
proof (intro conjI)
  note r = reserveResources_Inr[OF assms]
  show "within_quota d' pid" by (rule quota_ledger.admitted[OF assms])
  show "\<exists>r \<in> set (db_bindings d'). b_id r = iid \<and> b_project_id r = pid \<and> counted r \<and> reserves_at_least input r"
    by (rule quota_ledger.covered[OF assms])
  show "d' = d\<lparr>db_bindings := db_bindings d'\<rparr>" using r by simp
  have "reservation_le b b" for b by (simp add: reservation_le_def)
  then show "list_all2 (\<lambda>r r'. row_identity r' = row_identity r \<and> reservation_le r r' \<and>
           (r' \<noteq> r \<longrightarrow> b_id r = iid \<and> b_project_id r = pid)) (db_bindings d) (db_bindings d')"
    using r by (auto simp: sql_update_def list_all2_map2 raise_row_le intro!: list.rel_refl_strong)
qed

definition sample_quota :: quota where
  "sample_quota = \<lparr>q_instances = Some 2, q_storageGiB = Some 30, q_cpuMillis = None, q_memoryMiB = Some 2048\<rparr>"

definition sample_project :: project_row where
  "sample_project = \<lparr>p_id = ''p1'', p_name = ''demo'', p_namespace = ''ns-demo'', p_state = PReady,
     p_created_by = ''u1'', p_quota_limits = json_quota sample_quota, p_quota_revision = 1,
     p_quota_observed_revision = None, p_quota_checked_at = None, p_quota_sync_error = None,
     p_quota_next_sync = 0, p_inventory_result = None, p_inventory_checked_at = None,
     p_inventory_next_scan = 0, p_inventory_worker_id = None, p_inventory_lease_until = None\<rparr>"

definition sample_binding :: binding_row where
  "sample_binding = \<lparr>b_id = ''i1'', b_project_id = ''p1'', b_resource_name = ''cache-a'',
     b_kubernetes_uid = None, b_lifecycle = Pending, b_created_by = ''u1'', b_created_at = 0,
     b_display_name = ''cache'', b_template_name = ''bazel-remote'', b_template_version = Some ''0.1.0'',
     b_reserved_storage_gib = None, b_reserved_cpu_millis = None, b_reserved_memory_mib = None\<rparr>"

definition sample_db :: database where
  "sample_db = empty_db\<lparr>db_projects := [sample_project], db_bindings := [sample_binding]\<rparr>"

definition sample_reserved :: database where
  "sample_reserved = sample_db\<lparr>db_bindings := [raise_row \<lparr>rs_storageGiB = 20, rs_cpuMillis = 500, rs_memoryMiB = 1024\<rparr> sample_binding]\<rparr>"

lemma sample_reservation:
  "reserveResources ''p1'' ''i1'' \<lparr>rs_storageGiB = 20, rs_cpuMillis = 500, rs_memoryMiB = 1024\<rparr> True sample_db =
     (sample_reserved, Inr ())"
proof (rule reserveResources_creating)
  have "valid_quota sample_quota" by (simp add: sample_quota_def valid_quota_def valid_limit_def)
  then have q: "project_quota sample_reserved ''p1'' = Some sample_quota"
    by (simp add: project_quota_def sample_reserved_def sample_db_def sample_project_def quotaInput_json)
  show "within_quota sample_reserved ''p1''"
    unfolding within_quota_def q
    by (simp add: obeys_def below_def sample_quota_def total_instances_def total_storage_def total_cpu_def
        total_memory_def total_unknown_def project_bindings_def sample_reserved_def sample_binding_def
        raise_row_def raise_to_def counted_def sql_sum_def unknown_reservation_def)
qed (simp_all add: sample_db_def sample_reserved_def sample_binding_def counted_def)

theorem reserve_within_quota_witness:
  "within_quota sample_reserved ''p1'' \<and> sample_reserved = sample_db\<lparr>db_bindings := db_bindings sample_reserved\<rparr>"
  using reserve_within_quota[OF sample_reservation] by blast

text \<open>settling keeps the promise. When an operation that was admitted with a reservation for its
  input completes, recording the amounts of the object it applied (parsed back from the printed
  quantities) keeps the project within its quota.\<close>

theorem settle_within_quota:
  assumes "valid_input x" and "desiredObject x pid ns i sc oid h = Inr desired"
    and "within_quota d pid"
    and "\<forall>r \<in> set (db_bindings d). b_id r = iid \<longrightarrow> reserves_at_least (input_resources x) r"
  shows "\<exists>d'. settleResources iid desired d = (d', Inr ()) \<and> within_quota d' pid \<and>
    map row_identity (db_bindings d') = map row_identity (db_bindings d)"
  using settle_keeps_quota[OF assms(3), of iid "in_storageGiB x" "in_cpuMillis x" "in_memoryMiB x"] assms(4)
  unfolding settleResources_desired[OF assms(1,2)]
  by (simp add: input_resources_def) (simp add: row_identity_def map_sql_update)

theorem settle_within_quota_witness:
  "\<exists>desired d'. desiredObject sample_input ''p1'' ''ns-demo'' ''i1'' ''fast'' ''o1'' ''h'' = Inr desired \<and>
     settleResources ''i1'' desired sample_reserved = (d', Inr ()) \<and> within_quota d' ''p1''"
proof -
  have v: "valid_input sample_input" using sample_parses by (auto simp: z_parse_Inr intro: instanceInput_valid_input)
  obtain desired where d: "desiredObject sample_input ''p1'' ''ns-demo'' ''i1'' ''fast'' ''o1'' ''h'' = Inr desired"
    using desiredObject_total[OF v] by blast
  have w: "within_quota sample_reserved ''p1''" using quota_ledger.admitted[OF sample_reservation] .
  have r: "\<forall>r \<in> set (db_bindings sample_reserved). b_id r = ''i1'' \<longrightarrow>
      reserves_at_least (input_resources sample_input) r"
    by (simp add: sample_reserved_def raise_row_def raise_to_def reserves_at_least_def sample_binding_def
        input_resources_def sample_input_def)
  show ?thesis using settle_within_quota[OF v d w r] d by blast
qed

end
