(* ===== verification/Inventory.thy ===== *)
theory Inventory
  imports Quotas "HOL-Library.AList" "HOL-Library.Char_ord" "HOL-Library.List_Lexorder"
    "HOL-Library.Product_Lexorder"
begin

text \<open>
  Resource inventory (inventory.ts): the comparison of the platform's records with what the cluster
  holds, and the scan that runs it under a lease. A JavaScript \<open>Map\<close> is an association list updated
  by \<open>AList.update\<close> (the insertion order is the iteration order). An absent \<open>metadata\<close> of a
  Kubernetes object is one whose fields are all absent. The scan's digest (SHA-256 of the rows'
  JSON text) is a parameter. \<open>ORDER BY ... LIMIT 1\<close> takes the first of equal rows.
\<close>

section \<open>Cluster objects\<close>

record owner_ref =
  ow_uid :: string
  ow_kind :: string
  ow_name :: string

record kube_meta =
  km_name :: "string option"
  km_namespace :: "string option"
  km_uid :: "string option"
  km_resourceVersion :: "string option"
  km_labels :: "strmap option"
  km_annotations :: "strmap option"
  km_deletionTimestamp :: "string option"
  km_ownerReferences :: "owner_ref list"

record volume_claim =
  pv_meta :: kube_meta
  pv_storageClassName :: "string option"
  pv_request :: "string option"
  pv_phase :: "string option"
  pv_capacity :: "string option"

record inventory_resources =
  iv_instances :: "cache_object list"
  iv_volumes :: "volume_claim list"

section \<open>Platform rows\<close>

text \<open>A reservation as the comparison accepts it: the database driver gives \<open>bigint\<close> columns as
  strings.\<close>

datatype reserved_value = RNull | RNum rat | RStr string

record inventory_binding =
  ib_id :: string
  ib_resource_name :: string
  ib_kubernetes_uid :: "string option"
  ib_lifecycle :: lifecycle
  ib_template_name :: string
  ib_template_version :: "string option"
  ib_reserved_storage_gib :: reserved_value
  ib_reserved_cpu_millis :: reserved_value
  ib_reserved_memory_mib :: reserved_value
  ib_busy :: bool
  ib_expected_spec :: "cache_spec option"
  ib_operation_stamp :: "(string \<times> op_state \<times> int) list"

text \<open>\<open>/^(0|[1-9][0-9]*)$/\<close>\<close>

definition canonical_number :: "string \<Rightarrow> bool" where
  "canonical_number s \<longleftrightarrow> s = ''0'' \<or> (s \<noteq> [] \<and> list_all is_digit s \<and> hd s \<noteq> CHR ''0'')"

definition safe_integer :: "rat \<Rightarrow> bool" where
  "safe_integer q \<longleftrightarrow> snd (quotient_of q) = 1 \<and> \<bar>q\<bar> \<le> 2 ^ 53 - 1"

fun reserved_text :: "reserved_value \<Rightarrow> string option" where
  "reserved_text RNull = None"
| "reserved_text (RNum q) = (if safe_integer q \<and> canonical_number (show_int (fst (quotient_of q)))
     then Some (show_int (fst (quotient_of q))) else None)"
| "reserved_text (RStr s) = (if canonical_number s then Some s else None)"

section \<open>The comparison\<close>

type_synonym report = "string \<times> issue_kind"

definition checkReservation ::
  "string option list \<Rightarrow> reserved_value \<Rightarrow> string \<Rightarrow> issue_kind \<Rightarrow> report list" where
  "checkReservation actual reserved suffix kind =
     (case reserved_text reserved of
        None \<Rightarrow> [(''ResourceReservationUnknown'', kind)]
      | Some r \<Rightarrow>
          (case rmap (\<lambda>v. quantityExceeds v (r @ suffix)) (List.map_filter id actual) of
             Inl _ \<Rightarrow> [(''ResourceQuantityInvalid'', kind)]
           | Inr over \<Rightarrow>
               if list_ex id over then [(''ResourceReservationInsufficient'', kind)] else []))"

definition terminal :: "lifecycle \<Rightarrow> bool" where
  "terminal l \<longleftrightarrow> l = Deleted \<or> l = Detached"

definition owned_by_platform :: "string \<Rightarrow> inventory_binding \<Rightarrow> cache_object \<Rightarrow> bool" where
  "owned_by_platform project b x \<longleftrightarrow>
     label_of x projectLabel = Some project \<and> label_of x instanceLabel = Some (ib_id b) \<and>
     label_of x managedByLabel = Some ''expbuild''"

definition identity_issue :: "string \<Rightarrow> inventory_binding \<Rightarrow> cache_object \<Rightarrow> report list" where
  "identity_issue project b x =
     (let spec = co_spec x; meta = co_metadata x in
      if sp_projectId spec \<noteq> project \<or> sp_instanceId spec \<noteq> ib_id b \<or>
         \<not> truthy (ib_kubernetes_uid b) \<or> om_uid meta \<noteq> ib_kubernetes_uid b
      then [(''InstanceIdentityConflict'', KCacheInstance)]
      else if \<not> owned_by_platform project b x then [(''InstanceOwnershipConflict'', KCacheInstance)]
      else if terminal (ib_lifecycle b) then [(''UnexpectedInstance'', KCacheInstance)]
      else if deleting x then [(''UnexpectedInstanceDeletion'', KCacheInstance)]
      else if tr_name (sp_templateRef spec) \<noteq> ib_template_name b \<or>
        (ib_template_version b \<noteq> None \<and> Some (tr_version (sp_templateRef spec)) \<noteq> ib_template_version b)
      then [(''TemplateIdentityConflict'', KCacheInstance)]
      else if ib_template_version b = None then [(''TemplateVersionUnknown'', KCacheInstance)]
      else (case ib_expected_spec b of
              None \<Rightarrow> []
            | Some e \<Rightarrow> if spec_eq spec e then [] else [(''ConfigurationDrift'', KCacheInstance)]))"

definition instance_issues :: "string \<Rightarrow> inventory_binding \<Rightarrow> cache_object option \<Rightarrow> report list" where
  "instance_issues project b found =
     (case found of
        Some x \<Rightarrow>
          (let spec = co_spec x; quantity = (\<lambda>m k. map_of m k); res = sp_resources spec in
           identity_issue project b x @
           (if \<not> terminal (ib_lifecycle b) \<and> om_uid (co_metadata x) \<noteq> None \<and>
               om_uid (co_metadata x) = ib_kubernetes_uid b \<and> sp_projectId spec = project \<and> sp_instanceId spec = ib_id b \<and> owned_by_platform project b x
            then checkReservation [Some (st_capacity (sp_storage spec))] (ib_reserved_storage_gib b) ''Gi'' KCacheInstance @
              checkReservation [quantity (rs_requests res) ''cpu'', quantity (rs_limits res) ''cpu'']
                (ib_reserved_cpu_millis b) ''m'' KCacheInstance @
              checkReservation [quantity (rs_requests res) ''memory'', quantity (rs_limits res) ''memory'']
                (ib_reserved_memory_mib b) ''Mi'' KCacheInstance
            else []))
      | None \<Rightarrow>
          if terminal (ib_lifecycle b) then []
          else if ib_lifecycle b = Active then [(''MissingInstance'', KCacheInstance)]
          else [(''ProvisioningIncomplete'', KCacheInstance)])"

definition volume_conflict :: "string \<Rightarrow> inventory_binding \<Rightarrow> volume_claim \<Rightarrow> bool" where
  "volume_conflict project b v \<longleftrightarrow>
     (let meta = pv_meta v; label = prop_of (km_labels meta); owners = km_ownerReferences meta in
      \<not> truthy (ib_kubernetes_uid b) \<or> label projectLabel \<noteq> Some project \<or>
      label instanceLabel \<noteq> Some (ib_id b) \<or> label instanceUidLabel \<noteq> ib_kubernetes_uid b \<or>
      label managedByLabel \<noteq> Some ''expbuild'' \<or>
      list_ex (\<lambda>ow. Some (ow_uid ow) \<noteq> ib_kubernetes_uid b \<or> ow_kind ow \<noteq> ''CacheInstance'' \<or>
        ow_name ow \<noteq> ib_resource_name b) owners \<or>
      (ib_lifecycle b = Detached \<and> owners \<noteq> []))"

definition volume_issues :: "string \<Rightarrow> inventory_binding \<Rightarrow> volume_claim option \<Rightarrow> report list" where
  "volume_issues project b found =
     (case found of
        Some v \<Rightarrow>
          if volume_conflict project b v then [(''VolumeOwnershipConflict'', KVolumeClaim)]
          else if ib_lifecycle b = Deleted then [(''ResidualVolume'', KVolumeClaim)]
          else if truthy (km_deletionTimestamp (pv_meta v)) then [(''VolumeDeletionInProgress'', KVolumeClaim)]
          else (if pv_phase v \<noteq> Some ''Bound'' then [(''VolumeNotBound'', KVolumeClaim)] else []) @
            checkReservation [pv_request v, pv_capacity v] (ib_reserved_storage_gib b) ''Gi'' KVolumeClaim
      | None \<Rightarrow>
          if ib_lifecycle b = Detached then [(''MissingRetainedVolume'', KVolumeClaim)]
          else if ib_lifecycle b = Active then [(''MissingVolume'', KVolumeClaim)]
          else [])"

text \<open>The closure \<open>issue\<close> reports each kind and code once per binding.\<close>

fun report_once :: "report list \<Rightarrow> report list \<Rightarrow> report list" where
  "report_once reported [] = []"
| "report_once reported (r # rs) =
     (if r \<in> set reported then report_once reported rs else r # report_once (r # reported) rs)"

definition binding_issues ::
  "string \<Rightarrow> inventory_binding \<Rightarrow> cache_object option \<Rightarrow> volume_claim option \<Rightarrow> inventory_issue list" where
  "binding_issues project b x v =
     map (\<lambda>(code, kind). \<lparr>is_code = code, is_kind = kind,
            is_resourceName = ib_resource_name b @ (if kind = KVolumeClaim then ''-data'' else ''''),
            is_instanceId = Some (ib_id b)\<rparr>)
       (report_once [] (instance_issues project b x @ volume_issues project b v))"

record findings =
  fi_issues :: "inventory_issue list"
  fi_count :: nat
  fi_busy :: nat

definition add_issue :: "inventory_issue \<Rightarrow> findings \<Rightarrow> findings" where
  "add_issue i f = f\<lparr>fi_count := fi_count f + 1,
     fi_issues := (if length (fi_issues f) < 200 then fi_issues f @ [i] else fi_issues f)\<rparr>"

type_synonym 'v js_map = "(string option \<times> 'v) list"

definition js_map :: "(string option \<times> 'v) list \<Rightarrow> 'v js_map" where
  "js_map kvs = foldl (\<lambda>m (k, v). AList.update k v m) [] kvs"

fun scan_bindings ::
  "string \<Rightarrow> inventory_binding list \<Rightarrow> cache_object js_map \<Rightarrow> volume_claim js_map \<Rightarrow> findings \<Rightarrow>
   findings \<times> cache_object js_map \<times> volume_claim js_map" where
  "scan_bindings project [] xs vs f = (f, xs, vs)"
| "scan_bindings project (b # bs) xs vs f =
     (let k = Some (ib_resource_name b); kd = Some (ib_resource_name b @ ''-data'');
          x = map_of xs k; v = map_of vs kd;
          xs' = AList.delete k xs; vs' = AList.delete kd vs
      in scan_bindings project bs xs' vs'
           (if ib_busy b then f\<lparr>fi_busy := fi_busy f + 1\<rparr>
            else fold add_issue (binding_issues project b x v) f))"

definition untracked :: "string \<Rightarrow> issue_kind \<Rightarrow> string \<Rightarrow> inventory_issue" where
  "untracked code kind name = \<lparr>is_code = code, is_kind = kind, is_resourceName = name, is_instanceId = None\<rparr>"

definition js_name :: "string option \<Rightarrow> string" where
  "js_name n = (case n of None \<Rightarrow> '''' | Some s \<Rightarrow> s)"

definition compareInventory ::
  "string \<Rightarrow> inventory_binding list \<Rightarrow> inventory_resources \<Rightarrow> inventory_result" where
  "compareInventory project bindings resources =
     (let xs = js_map (map (\<lambda>x. (Some (om_name (co_metadata x)), x)) (iv_instances resources));
          vs = js_map (map (\<lambda>v. (km_name (pv_meta v), v)) (iv_volumes resources));
          (f, xs', vs') = scan_bindings project bindings xs vs \<lparr>fi_issues = [], fi_count = 0, fi_busy = 0\<rparr>;
          f' = fold (\<lambda>(_, x). add_issue (untracked ''UntrackedInstance'' KCacheInstance (om_name (co_metadata x)))) xs' f;
          g = fold (\<lambda>(_, v). add_issue (untracked ''UntrackedVolume'' KVolumeClaim (js_name (km_name (pv_meta v))))) vs' f'
      in \<lparr>ir_state = (if fi_count g \<noteq> 0 then ''Drift'' else if fi_busy g \<noteq> 0 then ''InProgress'' else ''Healthy''),
          ir_error = None, ir_issues = fi_issues g, ir_issueCount = fi_count g,
          ir_truncated = (length (fi_issues g) < fi_count g), ir_busyInstances = fi_busy g,
          ir_counts = Some (length (iv_instances resources), length (iv_volumes resources))\<rparr>)"

section \<open>What the report contains\<close>

definition logs :: "inventory_issue list \<Rightarrow> findings \<Rightarrow> bool" where
  "logs L f \<longleftrightarrow> fi_issues f = take 200 L \<and> fi_count f = length L"

lemma logs_add: "logs L f \<Longrightarrow> logs (L @ [i]) (add_issue i f)"
  by (auto simp: logs_def add_issue_def)

lemma logs_fold: "logs L f \<Longrightarrow> logs (L @ is) (fold add_issue is f)"
proof (induction "is" arbitrary: L f)
  case (Cons i "is")
  then show ?case using Cons.IH[OF logs_add[OF Cons.prems, of i]] by simp
qed simp

lemma add_issue_busy [simp]: "fi_busy (add_issue i f) = fi_busy f"
  by (simp add: add_issue_def)

lemma fold_issue_busy [simp]: "fi_busy (fold add_issue is f) = fi_busy f"
  by (induction "is" arbitrary: f) simp_all

lemma logs_busy: "logs L f \<Longrightarrow> logs L (f\<lparr>fi_busy := n\<rparr>)"
  by (simp add: logs_def)

lemma js_map_lookup: "map_of (js_map kvs) k = map_of (rev kvs) k"
proof (induction kvs rule: rev_induct)
  case (snoc kv kvs)
  obtain k' v where "kv = (k', v)" by (cases kv)
  then have "js_map (kvs @ [kv]) = AList.update k' v (js_map kvs)" by (simp add: js_map_def)
  then show ?case using snoc \<open>kv = (k', v)\<close> by (simp add: update_conv')
qed (simp add: js_map_def)

lemma js_map_keys: "fst ` set (js_map kvs) = fst ` set kvs"
proof -
  have "dom (map_of (js_map kvs)) = dom (map_of (rev kvs))" unfolding dom_def js_map_lookup by (rule refl)
  then show ?thesis by (simp add: dom_map_of_conv_image_fst)
qed

text \<open>The report in full: what each settled binding gives, then what no binding names.\<close>

definition binding_report ::
  "string \<Rightarrow> cache_object js_map \<Rightarrow> volume_claim js_map \<Rightarrow> inventory_binding \<Rightarrow> inventory_issue list" where
  "binding_report project xs vs b =
     (if ib_busy b then []
      else binding_issues project b (map_of xs (Some (ib_resource_name b)))
             (map_of vs (Some (ib_resource_name b @ ''-data''))))"

definition left_over :: "string option set \<Rightarrow> 'v js_map \<Rightarrow> 'v js_map" where
  "left_over names m = filter (\<lambda>(k, _). k \<notin> names) m"

lemma left_over_delete: "left_over names (AList.delete k m) = left_over (insert k names) m"
  by (auto simp: left_over_def AList.delete_eq intro!: filter_cong)

lemma scan_bindings_report:
  assumes "distinct (map ib_resource_name bs)" and "logs L f"
  shows "\<exists>f'. scan_bindings project bs xs vs f =
      (f', left_over ((Some \<circ> ib_resource_name) ` set bs) xs,
       left_over ((\<lambda>b. Some (ib_resource_name b @ ''-data'')) ` set bs) vs) \<and>
    logs (L @ concat (map (binding_report project xs vs) bs)) f' \<and>
    fi_busy f' = fi_busy f + length (filter ib_busy bs)"
  using assms
proof (induction bs arbitrary: xs vs f L)
  case Nil
  then show ?case by (simp add: left_over_def)
next
  case (Cons b bs)
  let ?k = "Some (ib_resource_name b)" and ?kd = "Some (ib_resource_name b @ ''-data'')"
  define f1 where "f1 = (if ib_busy b then f\<lparr>fi_busy := fi_busy f + 1\<rparr>
     else fold add_issue (binding_issues project b (map_of xs ?k) (map_of vs ?kd)) f)"
  have "logs (L @ binding_report project xs vs b) f1"
    using Cons.prems(2) by (simp add: f1_def binding_report_def logs_fold logs_busy)
  from Cons.IH[OF _ this, of "AList.delete ?k xs" "AList.delete ?kd vs"] Cons.prems(1)
  obtain f' where f': "scan_bindings project bs (AList.delete ?k xs) (AList.delete ?kd vs) f1 =
      (f', left_over (insert ?k ((Some \<circ> ib_resource_name) ` set bs)) xs,
       left_over (insert ?kd ((\<lambda>b. Some (ib_resource_name b @ ''-data'')) ` set bs)) vs)"
    "logs ((L @ binding_report project xs vs b) @
       concat (map (binding_report project (AList.delete ?k xs) (AList.delete ?kd vs)) bs)) f'"
    "fi_busy f' = fi_busy f1 + length (filter ib_busy bs)"
    unfolding left_over_delete by auto
  have "binding_report project (AList.delete ?k xs) (AList.delete ?kd vs) c = binding_report project xs vs c"
    if "c \<in> set bs" for c
  proof -
    have "ib_resource_name c \<noteq> ib_resource_name b" using imageI[OF that, of ib_resource_name] Cons.prems(1) by auto
    then show ?thesis by (simp add: binding_report_def delete_conv')
  qed
  then have eqs: "map (binding_report project (AList.delete ?k xs) (AList.delete ?kd vs)) bs =
      map (binding_report project xs vs) bs" by simp
  have "scan_bindings project (b # bs) xs vs f =
      scan_bindings project bs (AList.delete ?k xs) (AList.delete ?kd vs) f1"
    by (simp add: Let_def f1_def)
  moreover have "fi_busy f1 = fi_busy f + length (filter ib_busy [b])" by (simp add: f1_def)
  ultimately show ?case using f'(1,3) f'(2)[unfolded eqs] by (simp add: comp_def)
qed

definition inventory_report ::
  "string \<Rightarrow> inventory_binding list \<Rightarrow> inventory_resources \<Rightarrow> inventory_issue list" where
  "inventory_report project bs res =
     (let xs = js_map (map (\<lambda>x. (Some (om_name (co_metadata x)), x)) (iv_instances res));
          vs = js_map (map (\<lambda>v. (km_name (pv_meta v), v)) (iv_volumes res))
      in concat (map (binding_report project xs vs) bs) @
         map (\<lambda>(_, x). untracked ''UntrackedInstance'' KCacheInstance (om_name (co_metadata x)))
           (left_over ((Some \<circ> ib_resource_name) ` set bs) xs) @
         map (\<lambda>(_, v). untracked ''UntrackedVolume'' KVolumeClaim (js_name (km_name (pv_meta v))))
           (left_over ((\<lambda>b. Some (ib_resource_name b @ ''-data'')) ` set bs) vs))"

lemma fold_add_map: "fold (\<lambda>x. add_issue (g x)) xs f = fold add_issue (map g xs) f"
  by (induction xs arbitrary: f) simp_all

lemma compareInventory_report:
  assumes "distinct (map ib_resource_name bs)"
  shows "compareInventory project bs res =
    (let L = inventory_report project bs res; busy = length (filter ib_busy bs) in
     \<lparr>ir_state = (if L \<noteq> [] then ''Drift'' else if busy \<noteq> 0 then ''InProgress'' else ''Healthy''),
      ir_error = None, ir_issues = take 200 L, ir_issueCount = length L, ir_truncated = (200 < length L),
      ir_busyInstances = busy, ir_counts = Some (length (iv_instances res), length (iv_volumes res))\<rparr>)"
proof -
  define xs where "xs = js_map (map (\<lambda>x. (Some (om_name (co_metadata x)), x)) (iv_instances res))"
  define vs where "vs = js_map (map (\<lambda>v. (km_name (pv_meta v), v)) (iv_volumes res))"
  define f0 where "f0 = \<lparr>fi_issues = [], fi_count = 0, fi_busy = 0\<rparr>"
  define li where "li = left_over ((Some \<circ> ib_resource_name) ` set bs) xs"
  define lv where "lv = left_over ((\<lambda>b. Some (ib_resource_name b @ ''-data'')) ` set bs) vs"
  have "logs [] f0" by (simp add: logs_def f0_def)
  from scan_bindings_report[OF assms this, of project xs vs]
  obtain f where f: "scan_bindings project bs xs vs f0 = (f, li, lv)"
    and lg: "logs (concat (map (binding_report project xs vs) bs)) f"
    and busy: "fi_busy f = length (filter ib_busy bs)"
    by (auto simp: li_def lv_def f0_def)
  define ui where "ui = (\<lambda>p :: string option \<times> cache_object. untracked ''UntrackedInstance'' KCacheInstance (om_name (co_metadata (snd p))))"
  define uv where "uv = (\<lambda>p :: string option \<times> volume_claim. untracked ''UntrackedVolume'' KVolumeClaim (js_name (km_name (pv_meta (snd p)))))"
  define g where "g = fold add_issue (map ui li @ map uv lv) f"
  have rep: "inventory_report project bs res =
      concat (map (binding_report project xs vs) bs) @ map ui li @ map uv lv"
    by (simp add: inventory_report_def xs_def vs_def li_def lv_def ui_def uv_def split_def Let_def)
  have "logs (inventory_report project bs res) g"
    unfolding g_def rep by (rule logs_fold[OF lg])
  moreover have "fi_busy g = length (filter ib_busy bs)" by (simp add: g_def busy)
  moreover have "compareInventory project bs res =
     \<lparr>ir_state = (if fi_count g \<noteq> 0 then ''Drift'' else if fi_busy g \<noteq> 0 then ''InProgress'' else ''Healthy''),
      ir_error = None, ir_issues = fi_issues g, ir_issueCount = fi_count g,
      ir_truncated = (length (fi_issues g) < fi_count g), ir_busyInstances = fi_busy g,
      ir_counts = Some (length (iv_instances res), length (iv_volumes res))\<rparr>"
    unfolding compareInventory_def xs_def[symmetric] vs_def[symmetric] f0_def[symmetric] Let_def f
    by (simp add: split_def g_def ui_def uv_def fold_add_map[of "\<lambda>p. untracked _ _ (_ p)"])
  ultimately show ?thesis by (auto simp: logs_def Let_def min_def)
qed

section \<open>What a clean report means\<close>

lemma report_once_Nil: "report_once reported rs = [] \<longleftrightarrow> set rs \<subseteq> set reported"
proof (induction rs arbitrary: reported)
  case (Cons r rs)
  then show ?case by auto
qed simp

lemma set_report_once: "set (report_once reported rs) = set rs - set reported"
  by (induction rs arbitrary: reported) auto

lemma distinct_report_once: "distinct (report_once reported rs)"
  by (induction rs arbitrary: reported) (auto simp: set_report_once)

lemma binding_issues_Nil:
  "binding_issues project b x v = [] \<longleftrightarrow> instance_issues project b x = [] \<and> volume_issues project b v = []"
  by (simp add: binding_issues_def report_once_Nil)

text \<open>A reservation covers a list of observed quantities when each of them is a number that the
  reserved amount of the unit bounds.\<close>

definition reservation_covers :: "reserved_value \<Rightarrow> string \<Rightarrow> string option list \<Rightarrow> bool" where
  "reservation_covers reserved suffix actual \<longleftrightarrow>
     (\<exists>r. reserved_text reserved = Some r \<and>
        (\<forall>q. Some q \<in> set actual \<longrightarrow>
           (\<exists>x y. quantity_value q = Some x \<and> quantity_value (r @ suffix) = Some y \<and> x \<le> y)))"

lemma checkReservation_Nil:
  assumes "checkReservation actual reserved suffix kind = []"
  shows "reservation_covers reserved suffix actual"
proof -
  obtain r over where r: "reserved_text reserved = Some r"
    and over: "rmap (\<lambda>v. quantityExceeds v (r @ suffix)) (List.map_filter id actual) = Inr over" "\<not> list_ex id over"
    using assms by (auto simp: checkReservation_def split: option.splits sum.splits if_splits)
  have "\<exists>x y. quantity_value q = Some x \<and> quantity_value (r @ suffix) = Some y \<and> x \<le> y"
    if q: "Some q \<in> set actual" for q
  proof -
    have "q \<in> set (List.map_filter id actual)" using q by (force simp: map_filter_def)
    then obtain i where "i < length (List.map_filter id actual)" "List.map_filter id actual ! i = q"
      by (auto simp: in_set_conv_nth)
    then have "quantityExceeds q (r @ suffix) = Inr (over ! i)" "\<not> over ! i"
      using over by (auto simp: rmap_eq_Inr list_all2_conv_all_nth list_ex_iff in_set_conv_nth)
    then show ?thesis using quantityExceeds_value[of q "r @ suffix"] by fastforce
  qed
  then show ?thesis using r by (auto simp: reservation_covers_def)
qed

definition instance_agrees :: "string \<Rightarrow> inventory_binding \<Rightarrow> cache_object \<Rightarrow> bool" where
  "instance_agrees project b x \<longleftrightarrow>
     sp_projectId (co_spec x) = project \<and> sp_instanceId (co_spec x) = ib_id b \<and>
     om_uid (co_metadata x) = ib_kubernetes_uid b \<and> truthy (ib_kubernetes_uid b) \<and>
     owned_by_platform project b x \<and> \<not> deleting x \<and>
     tr_name (sp_templateRef (co_spec x)) = ib_template_name b \<and>
     ib_template_version b = Some (tr_version (sp_templateRef (co_spec x))) \<and>
     (\<forall>e. ib_expected_spec b = Some e \<longrightarrow> spec_eq (co_spec x) e) \<and>
     reservation_covers (ib_reserved_storage_gib b) ''Gi'' [Some (st_capacity (sp_storage (co_spec x)))] \<and>
     reservation_covers (ib_reserved_cpu_millis b) ''m''
       [map_of (rs_requests (sp_resources (co_spec x))) ''cpu'', map_of (rs_limits (sp_resources (co_spec x))) ''cpu''] \<and>
     reservation_covers (ib_reserved_memory_mib b) ''Mi''
       [map_of (rs_requests (sp_resources (co_spec x))) ''memory'', map_of (rs_limits (sp_resources (co_spec x))) ''memory'']"

lemma truthy_Some: "truthy v \<Longrightarrow> v \<noteq> None"
  by (auto simp: truthy_def)

lemma instance_issues_Some:
  assumes "instance_issues project b (Some x) = []"
  shows "\<not> terminal (ib_lifecycle b) \<and> instance_agrees project b x"
proof -
  have i: "identity_issue project b x = []" using assms by (simp add: instance_issues_def Let_def)
  then have id: "sp_projectId (co_spec x) = project" "sp_instanceId (co_spec x) = ib_id b"
    "om_uid (co_metadata x) = ib_kubernetes_uid b" "truthy (ib_kubernetes_uid b)"
    "owned_by_platform project b x" "\<not> deleting x" "\<not> terminal (ib_lifecycle b)"
    "tr_name (sp_templateRef (co_spec x)) = ib_template_name b"
    "ib_template_version b = Some (tr_version (sp_templateRef (co_spec x)))"
    "\<forall>e. ib_expected_spec b = Some e \<longrightarrow> spec_eq (co_spec x) e"
    unfolding identity_issue_def Let_def by (auto split: if_splits option.splits)
  have "om_uid (co_metadata x) \<noteq> None" using id truthy_Some by metis
  then show ?thesis
    using assms id unfolding instance_agrees_def instance_issues_def Let_def
    by (auto intro: checkReservation_Nil)
qed

definition volume_agrees :: "string \<Rightarrow> inventory_binding \<Rightarrow> volume_claim \<Rightarrow> bool" where
  "volume_agrees project b v \<longleftrightarrow>
     \<not> volume_conflict project b v \<and> \<not> truthy (km_deletionTimestamp (pv_meta v)) \<and>
     pv_phase v = Some ''Bound'' \<and>
     reservation_covers (ib_reserved_storage_gib b) ''Gi'' [pv_request v, pv_capacity v]"

lemma volume_issues_Some:
  assumes "volume_issues project b (Some v) = []"
  shows "ib_lifecycle b \<noteq> Deleted \<and> volume_agrees project b v"
  using assms by (auto simp: volume_issues_def volume_agrees_def intro: checkReservation_Nil split: if_splits)

text \<open>What the platform promises of a binding, in each lifecycle state.\<close>

definition binding_agrees ::
  "string \<Rightarrow> inventory_binding \<Rightarrow> cache_object option \<Rightarrow> volume_claim option \<Rightarrow> bool" where
  "binding_agrees project b x v \<longleftrightarrow>
     (case ib_lifecycle b of
        Deleted \<Rightarrow> x = None \<and> v = None
      | Detached \<Rightarrow> x = None \<and> (\<exists>c. v = Some c \<and> volume_agrees project b c \<and> km_ownerReferences (pv_meta c) = [])
      | Active \<Rightarrow> (\<exists>i c. x = Some i \<and> v = Some c \<and> instance_agrees project b i \<and> volume_agrees project b c)
      | _ \<Rightarrow> (\<exists>i. x = Some i \<and> instance_agrees project b i) \<and> (\<forall>c. v = Some c \<longrightarrow> volume_agrees project b c))"

lemma binding_issues_clean:
  assumes "binding_issues project b x v = []"
  shows "binding_agrees project b x v"
proof -
  have x: "instance_issues project b x = []" and v: "volume_issues project b v = []"
    using assms by (simp_all add: binding_issues_Nil)
  have xN: "x = None \<Longrightarrow> terminal (ib_lifecycle b)"
    using x by (auto simp: instance_issues_def split: if_splits)
  have vN: "v = None \<Longrightarrow> ib_lifecycle b \<noteq> Detached \<and> ib_lifecycle b \<noteq> Active"
    using v by (auto simp: volume_issues_def split: if_splits)
  have xS: "x = Some i \<Longrightarrow> \<not> terminal (ib_lifecycle b) \<and> instance_agrees project b i" for i
    using x instance_issues_Some by blast
  have vS: "v = Some c \<Longrightarrow> ib_lifecycle b \<noteq> Deleted \<and> volume_agrees project b c" for c
    using v volume_issues_Some by blast
  have own: "v = Some c \<Longrightarrow> ib_lifecycle b = Detached \<Longrightarrow> km_ownerReferences (pv_meta c) = []" for c
    using vS[of c] by (auto simp: volume_agrees_def volume_conflict_def Let_def)
  show ?thesis
    using xN vN xS vS own unfolding binding_agrees_def terminal_def
    by (cases "ib_lifecycle b"; cases x; cases v; simp)
qed

definition cluster_instance :: "inventory_resources \<Rightarrow> string \<Rightarrow> cache_object option" where
  "cluster_instance res n = sql_first (\<lambda>x. om_name (co_metadata x) = n) (rev (iv_instances res))"

definition cluster_volume :: "inventory_resources \<Rightarrow> string \<Rightarrow> volume_claim option" where
  "cluster_volume res n = sql_first (\<lambda>v. km_name (pv_meta v) = Some n) (rev (iv_volumes res))"

lemma map_of_keyed: "map_of (map (\<lambda>x. (f x, x)) xs) k = sql_first (\<lambda>x. f x = k) xs"
  by (induction xs) auto

lemma instance_lookup:
  "map_of (js_map (map (\<lambda>x. (Some (om_name (co_metadata x)), x)) (iv_instances res))) (Some n) =
     cluster_instance res n"
  by (simp add: js_map_lookup cluster_instance_def map_of_keyed rev_map option.inject)

lemma volume_lookup:
  "map_of (js_map (map (\<lambda>v. (km_name (pv_meta v), v)) (iv_volumes res))) (Some n) = cluster_volume res n"
  by (simp add: js_map_lookup cluster_volume_def map_of_keyed rev_map)

lemma left_over_Nil:
  "left_over names (js_map kvs) = [] \<longleftrightarrow> (\<forall>kv \<in> set kvs. fst kv \<in> names)"
proof -
  have "left_over names (js_map kvs) = [] \<longleftrightarrow> fst ` set (js_map kvs) \<subseteq> names"
    by (auto simp: left_over_def filter_empty_conv)
  then show ?thesis unfolding js_map_keys by auto
qed

lemma inventory_report_Nil:
  assumes "inventory_report project bs res = []"
  shows "(\<forall>b \<in> set bs. ib_busy b \<or> binding_agrees project b (cluster_instance res (ib_resource_name b))
            (cluster_volume res (ib_resource_name b @ ''-data''))) \<and>
    (\<forall>x \<in> set (iv_instances res). om_name (co_metadata x) \<in> ib_resource_name ` set bs) \<and>
    (\<forall>v \<in> set (iv_volumes res). \<exists>b \<in> set bs. km_name (pv_meta v) = Some (ib_resource_name b @ ''-data''))"
proof -
  have "binding_report project (js_map (map (\<lambda>x. (Some (om_name (co_metadata x)), x)) (iv_instances res)))
      (js_map (map (\<lambda>v. (km_name (pv_meta v), v)) (iv_volumes res))) b = []" if "b \<in> set bs" for b
    using assms that by (simp add: inventory_report_def Let_def)
  then have "ib_busy b \<or> binding_agrees project b (cluster_instance res (ib_resource_name b))
            (cluster_volume res (ib_resource_name b @ ''-data''))" if "b \<in> set bs" for b
    using that unfolding binding_report_def instance_lookup volume_lookup
    by (metis binding_issues_clean)
  then show ?thesis
    using assms by (auto simp: inventory_report_def Let_def left_over_Nil)
qed

text \<open>C15: a healthy inventory is a true one. When the comparison says Healthy, no binding has an
  unfinished operation, every binding agrees with the cluster (an active instance exists with the
  recorded identity, ownership labels, template and expected specification, its volume exists, is
  owned and bound, and the reservations cover every observed quantity; a detached one has exactly
  its retained volume without owners; a deleted one has left nothing), and every instance and volume
  of the namespace belongs to a binding.\<close>

theorem healthy_inventory_sound:
  assumes "distinct (map ib_resource_name bs)"
    and "ir_state (compareInventory project bs res) = ''Healthy''"
  shows "(\<forall>b \<in> set bs. \<not> ib_busy b \<and>
      binding_agrees project b (cluster_instance res (ib_resource_name b))
        (cluster_volume res (ib_resource_name b @ ''-data''))) \<and>
    (\<forall>x \<in> set (iv_instances res). om_name (co_metadata x) \<in> ib_resource_name ` set bs) \<and>
    (\<forall>v \<in> set (iv_volumes res). \<exists>b \<in> set bs. km_name (pv_meta v) = Some (ib_resource_name b @ ''-data''))"
proof -
  have "inventory_report project bs res = []" and "filter ib_busy bs = []"
    using assms by (auto simp: compareInventory_report Let_def split: if_splits)
  then show ?thesis using inventory_report_Nil by (metis filter_empty_conv)
qed

definition sample_object :: cache_object where
  "sample_object =
     (let o1 = projr (desiredObject sample_input ''p1'' ''ns-demo'' ''i1'' ''fast'' ''o1'' ''h'')
      in o1\<lparr>co_metadata := (co_metadata o1)\<lparr>om_uid := Some ''u-1'', om_generation := Some 1\<rparr>\<rparr>)"

definition sample_volume :: volume_claim where
  "sample_volume = \<lparr>pv_meta = \<lparr>km_name = Some ''c-i1-data'', km_namespace = Some ''ns-demo'', km_uid = Some ''v-1'',
      km_resourceVersion = Some ''7'',
      km_labels = Some ((instanceUidLabel, ''u-1'') # labels ''p1'' (Some ''i1'')), km_annotations = None,
      km_deletionTimestamp = None,
      km_ownerReferences = [\<lparr>ow_uid = ''u-1'', ow_kind = ''CacheInstance'', ow_name = ''c-i1''\<rparr>]\<rparr>,
    pv_storageClassName = Some ''fast'', pv_request = Some ''10Gi'', pv_phase = Some ''Bound'',
    pv_capacity = Some ''10240Mi''\<rparr>"

definition sample_row :: inventory_binding where
  "sample_row = \<lparr>ib_id = ''i1'', ib_resource_name = ''c-i1'', ib_kubernetes_uid = Some ''u-1'',
     ib_lifecycle = Active, ib_template_name = ''gradle-http'', ib_template_version = Some ''0.2.0'',
     ib_reserved_storage_gib = RStr ''10'', ib_reserved_cpu_millis = RStr ''500'',
     ib_reserved_memory_mib = RStr ''512'', ib_busy = False, ib_expected_spec = Some (co_spec sample_object),
     ib_operation_stamp = [(''o1'', Succeeded, 0)]\<rparr>"

definition sample_cluster :: inventory_resources where
  "sample_cluster = \<lparr>iv_instances = [sample_object], iv_volumes = [sample_volume]\<rparr>"

lemma sample_healthy: "ir_state (compareInventory ''p1'' [sample_row] sample_cluster) = ''Healthy''"
  by code_simp

theorem healthy_inventory_sound_witness:
  "\<not> ib_busy sample_row \<and> binding_agrees ''p1'' sample_row (cluster_instance sample_cluster ''c-i1'')
     (cluster_volume sample_cluster ''c-i1-data'')"
  using healthy_inventory_sound[OF _ sample_healthy] by (simp add: sample_row_def)

end
