(* ===== verification/Inventory_Scan.thy ===== *)
theory Inventory_Scan
  imports Inventory
begin

text \<open>
  The scan loop of the resource inventory (class ResourceInventory of inventory.ts): a due project is
  claimed under a lease of three minutes, compared with the cluster outside any transaction, and the
  result is committed only while the lease is held and the rows have not changed since. The cluster
  listing \<open>inspect\<close>, the digest of the rows and the random worker id are parameters.
\<close>

section \<open>Rows\<close>

definition first_by :: "('r \<Rightarrow> 'k :: linorder) \<Rightarrow> 'r list \<Rightarrow> 'r option" where
  "first_by key rows = first_row (sort_key key rows)"

definition sql_bigint :: "int option \<Rightarrow> reserved_value" where
  "sql_bigint n = (case n of None \<Rightarrow> RNull | Some m \<Rightarrow> RStr (show_int m))"

definition inventory_row :: "database \<Rightarrow> binding_row \<Rightarrow> inventory_binding" where
  "inventory_row d i =
     (let ops = filter (\<lambda>o1. o_instance_id o1 = Some (b_id i)) (db_operations d);
          stamp = (\<lambda>o1. (o_created_at o1, o_id o1))
      in \<lparr>ib_id = b_id i, ib_resource_name = b_resource_name i, ib_kubernetes_uid = b_kubernetes_uid i,
          ib_lifecycle = b_lifecycle i, ib_template_name = b_template_name i,
          ib_template_version = b_template_version i,
          ib_reserved_storage_gib = sql_bigint (b_reserved_storage_gib i),
          ib_reserved_cpu_millis = sql_bigint (b_reserved_cpu_millis i),
          ib_reserved_memory_mib = sql_bigint (b_reserved_memory_mib i),
          ib_busy = list_ex (\<lambda>o1. unfinished (o_state o1)) ops,
          ib_expected_spec =
            (case first_row (rev (sort_key stamp (filter (\<lambda>o1. rq_desired (o_request o1) \<noteq> None) ops))) of
               None \<Rightarrow> None | Some o1 \<Rightarrow> map_option co_spec (rq_desired (o_request o1))),
          ib_operation_stamp = map (\<lambda>o1. (o_id o1, o_state o1, o_updated_at o1)) (sort_key stamp ops)\<rparr>)"

definition bindingSQL :: "database \<Rightarrow> string \<Rightarrow> inventory_binding list" where
  "bindingSQL d pid =
     take 1001 (map (inventory_row d) (sort_key b_id (filter (\<lambda>i. b_project_id i = pid) (db_bindings d))))"

section \<open>The scan\<close>

definition scan_due :: "int \<Rightarrow> project_row \<Rightarrow> bool" where
  "scan_due now p \<longleftrightarrow> p_state p = PReady \<and> p_inventory_next_scan p \<le> now \<and>
     (case p_inventory_lease_until p of None \<Rightarrow> True | Some l \<Rightarrow> l < now)"

definition claim_scan :: "string \<Rightarrow> int \<Rightarrow> (database, project_row option) action" where
  "claim_scan worker now =
     mbind (tx_get (\<lambda>d. first_by p_inventory_next_scan (filter (scan_due now) (db_projects d)))) (\<lambda>found.
       case found of
         None \<Rightarrow> mret None
       | Some p \<Rightarrow> mbind (tx_put (\<lambda>d. d\<lparr>db_projects := sql_update (\<lambda>q. p_id q = p_id p)
             (\<lambda>q. q\<lparr>p_inventory_worker_id := Some worker, p_inventory_lease_until := Some (now + 180000)\<rparr>)
             (db_projects d)\<rparr>)) (\<lambda>_. mret (Some p)))"

definition no_report :: "string \<Rightarrow> string \<Rightarrow> inventory_result" where
  "no_report state err = \<lparr>ir_state = state, ir_error = Some err, ir_issues = [], ir_issueCount = 0,
     ir_truncated = False, ir_busyInstances = 0, ir_counts = None\<rparr>"

definition scan_error :: "error \<Rightarrow> string" where
  "scan_error e = (case e of OperationError c _ \<Rightarrow> c | _ \<Rightarrow> ''kubernetes_unavailable'')"

definition observe ::
  "(string \<Rightarrow> string \<Rightarrow> ('w sys, inventory_resources) action) \<Rightarrow> (inventory_binding list \<Rightarrow> string) \<Rightarrow>
   string \<Rightarrow> string \<Rightarrow> ('w sys, inventory_result \<times> string option) action" where
  "observe inspect fingerprint pid ns =
     mbind (query (\<lambda>_ d. bindingSQL d pid)) (\<lambda>bindings.
       if 1000 < length bindings then mret (no_report ''Unavailable'' ''inventory_limit_exceeded'', None)
       else mbind (mcatch (mbind (inspect ns pid) (\<lambda>res. mret (compareInventory pid bindings res)))
              (\<lambda>e. mret (no_report ''Unavailable'' (scan_error e)))) (\<lambda>result.
            mret (result, Some (fingerprint bindings))))"

definition scan_held :: "string \<Rightarrow> string \<Rightarrow> int \<Rightarrow> project_row \<Rightarrow> bool" where
  "scan_held pid worker now p \<longleftrightarrow> p_id p = pid \<and> p_inventory_worker_id p = Some worker \<and>
     (case p_inventory_lease_until p of None \<Rightarrow> False | Some l \<Rightarrow> now < l)"

definition commit_scan ::
  "(inventory_binding list \<Rightarrow> string) \<Rightarrow> string \<Rightarrow> string \<Rightarrow> inventory_result \<Rightarrow> string option \<Rightarrow> int \<Rightarrow>
   (database, unit) action" where
  "commit_scan fingerprint pid worker result before now =
     mbind (tx_get (\<lambda>d. sql_first (scan_held pid worker now) (db_projects d))) (\<lambda>held.
       if held = None then mret ()
       else mbind (tx_get (\<lambda>d.
              if before \<noteq> None \<and> before \<noteq> Some (fingerprint (bindingSQL d pid))
              then no_report ''InProgress'' ''platform_changed_during_scan'' else result)) (\<lambda>r.
            tx_put (\<lambda>d. d\<lparr>db_projects := sql_update (\<lambda>p. p_id p = pid \<and> p_inventory_worker_id p = Some worker)
              (\<lambda>p. p\<lparr>p_inventory_result := Some r, p_inventory_checked_at := Some now,
                p_inventory_next_scan := now + (if ir_state r = ''InProgress'' then 5000 else 60000),
                p_inventory_worker_id := None, p_inventory_lease_until := None\<rparr>) (db_projects d)\<rparr>)))"

definition inventory_tick ::
  "(string \<Rightarrow> string \<Rightarrow> ('w sys, inventory_resources) action) \<Rightarrow> (inventory_binding list \<Rightarrow> string) \<Rightarrow>
   string \<Rightarrow> ('w sys, bool) action" where
  "inventory_tick inspect fingerprint worker =
     mbind (transaction (claim_scan worker)) (\<lambda>project.
       case project of
         None \<Rightarrow> mret False
       | Some p \<Rightarrow>
           mbind (observe inspect fingerprint (p_id p) (p_namespace p)) (\<lambda>(result, before).
           mbind (transaction (commit_scan fingerprint (p_id p) worker result before)) (\<lambda>_. mret True)))"

section \<open>Claims\<close>

lemma first_by_Some:
  assumes "first_by key rows = Some r"
  shows "r \<in> set rows \<and> (\<forall>r' \<in> set rows. key r \<le> key r')"
proof -
  obtain rest where rest: "sort_key key rows = r # rest"
    using assms by (auto simp: first_by_def first_row_def split: list.splits)
  have "sorted (map key (r # rest))" using sorted_sort_key[of key rows] rest by simp
  moreover have "set rows = set (r # rest)" using rest by (metis set_sort)
  ultimately show ?thesis by auto
qed

lemma first_by_None: "first_by key rows = None \<longleftrightarrow> rows = []"
proof -
  have "first_by key rows = None \<longleftrightarrow> sort_key key rows = []"
    by (simp add: first_by_def first_row_def split: list.splits)
  also have "\<dots> \<longleftrightarrow> length (sort_key key rows) = 0" by (simp only: length_0_conv)
  finally show ?thesis by simp
qed

lemma claim_scan_cases:
  "claim_scan worker now d =
     (case first_by p_inventory_next_scan (filter (scan_due now) (db_projects d)) of
        None \<Rightarrow> (d, Inr None)
      | Some p \<Rightarrow> (d\<lparr>db_projects := sql_update (\<lambda>q. p_id q = p_id p)
             (\<lambda>q. q\<lparr>p_inventory_worker_id := Some worker, p_inventory_lease_until := Some (now + 180000)\<rparr>)
             (db_projects d)\<rparr>, Inr (Some p)))"
  by (simp add: claim_scan_def mbind_def split: option.splits)

lemma commit_scan_cases:
  "commit_scan fingerprint pid worker result before now d =
     (if sql_first (scan_held pid worker now) (db_projects d) = None then (d, Inr ())
      else let r = if before \<noteq> None \<and> before \<noteq> Some (fingerprint (bindingSQL d pid))
                   then no_report ''InProgress'' ''platform_changed_during_scan'' else result
           in (d\<lparr>db_projects := sql_update (\<lambda>p. p_id p = pid \<and> p_inventory_worker_id p = Some worker)
              (\<lambda>p. p\<lparr>p_inventory_result := Some r, p_inventory_checked_at := Some now,
                p_inventory_next_scan := now + (if ir_state r = ''InProgress'' then 5000 else 60000),
                p_inventory_worker_id := None, p_inventory_lease_until := None\<rparr>) (db_projects d)\<rparr>, Inr ()))"
  by (simp add: commit_scan_def mbind_def Let_def)

text \<open>C16: the inventory scan trusts only current rows. A commit changes the database only while the
  project's row still names this worker with an unexpired lease; the report it then stores is the
  comparison made only if the binding rows at commit time digest to the same value as the rows
  compared (for a digest that does not collide on those two, they are the same rows), otherwise the
  project is marked InProgress to be scanned again; the lease is released.\<close>

theorem scan_commit_current:
  assumes "commit_scan fingerprint pid worker result (Some (fingerprint rows)) now d = (d', Inr ())"
    and "distinct (map p_id (db_projects d))"
    and "fingerprint rows = fingerprint (bindingSQL d pid) \<longrightarrow> rows = bindingSQL d pid"
  shows "d' = d \<or>
    (\<exists>p p'. sql_first (\<lambda>p. p_id p = pid) (db_projects d) = Some p \<and> scan_held pid worker now p \<and>
       sql_first (\<lambda>p. p_id p = pid) (db_projects d') = Some p' \<and>
       p_inventory_result p' = Some (if rows = bindingSQL d pid then result
         else no_report ''InProgress'' ''platform_changed_during_scan'') \<and>
       p_inventory_worker_id p' = None \<and> p_inventory_lease_until p' = None \<and> now < p_inventory_next_scan p')"
proof (cases "sql_first (scan_held pid worker now) (db_projects d)")
  case None
  then show ?thesis using assms(1) by (simp add: commit_scan_cases)
next
  case (Some p)
  then have p: "p \<in> set (db_projects d)" "scan_held pid worker now p" by (simp_all add: sql_first_Some)
  then have pid: "p_id p = pid" by (simp add: scan_held_def)
  have find: "sql_first (\<lambda>q. p_id q = pid) (db_projects d) = Some p"
    using project_table.distinct_find[OF assms(2) p(1)] pid by simp
  define r where "r = (if rows = bindingSQL d pid then result
         else no_report ''InProgress'' ''platform_changed_during_scan'')"
  define f :: "project_row \<Rightarrow> project_row" where "f = (\<lambda>p. p\<lparr>p_inventory_result := Some r, p_inventory_checked_at := Some now,
                p_inventory_next_scan := now + (if ir_state r = ''InProgress'' then 5000 else 60000),
                p_inventory_worker_id := None, p_inventory_lease_until := None\<rparr>)"
  have "(if Some (fingerprint rows) \<noteq> None \<and> Some (fingerprint rows) \<noteq> Some (fingerprint (bindingSQL d pid))
        then no_report ''InProgress'' ''platform_changed_during_scan'' else result) = r"
    using assms(3) by (auto simp: r_def)
  then have "d' = d\<lparr>db_projects := sql_update (\<lambda>p. p_id p = pid \<and> p_inventory_worker_id p = Some worker) f (db_projects d)\<rparr>"
    using assms(1) Some unfolding commit_scan_cases Let_def f_def by simp
  moreover have "p_id (f q) = p_id q" for q by (simp add: f_def)
  ultimately have "sql_first (\<lambda>q. p_id q = pid) (db_projects d') = Some (f p)"
    using project_table.find_row_update[of pid f pid "\<lambda>p. p_inventory_worker_id p = Some worker" "db_projects d"] find p(2)
    by (simp add: scan_held_def)
  then show ?thesis using find p(2) by (auto simp: f_def r_def)
qed

definition sample_scanned :: database where
  "sample_scanned = sample_db\<lparr>db_projects :=
     [sample_project\<lparr>p_inventory_worker_id := Some ''w1'', p_inventory_lease_until := Some 180000\<rparr>]\<rparr>"

theorem scan_commit_current_witness:
  "\<exists>p'. sql_first (\<lambda>p. p_id p = ''p1'') (db_projects (fst (commit_scan (\<lambda>rows. show_nat (length rows)) ''p1'' ''w1''
       (no_report ''Unavailable'' ''e'') (Some (show_nat (length (bindingSQL sample_scanned ''p1'')))) 5 sample_scanned))) = Some p' \<and>
     p_inventory_result p' = Some (no_report ''Unavailable'' ''e'') \<and> p_inventory_worker_id p' = None"
proof -
  let ?fp = "\<lambda>rows :: inventory_binding list. show_nat (length rows)"
  let ?rows = "bindingSQL sample_scanned ''p1''"
  define d' where "d' = fst (commit_scan ?fp ''p1'' ''w1'' (no_report ''Unavailable'' ''e'') (Some (?fp ?rows)) 5 sample_scanned)"
  have c: "commit_scan ?fp ''p1'' ''w1'' (no_report ''Unavailable'' ''e'') (Some (?fp ?rows)) 5 sample_scanned = (d', Inr ())"
    by (simp add: d'_def commit_scan_cases Let_def)
  have dist: "distinct (map p_id (db_projects sample_scanned))" by (simp add: sample_scanned_def)
  have "d' \<noteq> sample_scanned"
    by (simp add: d'_def commit_scan_cases sample_scanned_def sample_project_def scan_held_def Let_def sample_db_def empty_db_def)
  then show ?thesis using scan_commit_current[OF c dist] unfolding d'_def[symmetric] by auto
qed

text \<open>The database without the inventory columns.\<close>

definition forget_inventory :: "project_row \<Rightarrow> project_row" where
  "forget_inventory p = p\<lparr>p_inventory_result := None, p_inventory_checked_at := None, p_inventory_next_scan := 0,
     p_inventory_worker_id := None, p_inventory_lease_until := None\<rparr>"

definition platform_view :: "database \<Rightarrow> database" where
  "platform_view d = d\<lparr>db_projects := map forget_inventory (db_projects d)\<rparr>"

abbreviation same_platform :: "'w sys \<Rightarrow> 'w sys \<Rightarrow> bool" where
  "same_platform s s' \<equiv> platform_view (sys_db s') = platform_view (sys_db s)"

lemma same_platform_refl: "reflp same_platform" and same_platform_trans: "transp same_platform"
  by (auto intro: reflpI transpI)

lemma platform_view_update:
  assumes "\<And>p. forget_inventory (f p) = forget_inventory p"
  shows "platform_view (d\<lparr>db_projects := sql_update c f (db_projects d)\<rparr>) = platform_view d"
  by (simp add: platform_view_def map_sql_update[of c forget_inventory f] assms)

lemma keeps_transaction:
  assumes "\<And>now d. platform_view (fst (run now d)) = platform_view d"
  shows "keeps same_platform (transaction run :: ('w sys, 'a) action)"
proof (rule keepsI)
  fix s :: "'w sys"
  show "same_platform s (fst (transaction run s))"
    using assms[of "sys_now s" "sys_db s"] by (auto simp: transaction_def split: prod.splits sum.splits)
qed

text \<open>a scan reads the platform's records and never changes them. Whatever the cluster answers,
  a tick writes no table and no column but the inventory columns of a project (with a listing that
  itself writes none), and it always ends with a result: no failure of the cluster escapes it.\<close>

theorem scan_is_read_only:
  assumes "\<And>ns pid. keeps same_platform (inspect ns pid)"
  shows "keeps same_platform (inventory_tick inspect fingerprint worker) \<and>
    (\<exists>b. snd (inventory_tick inspect fingerprint worker s) = Inr b)"
proof
  have claim: "keeps same_platform (transaction (claim_scan worker))"
    by (rule keeps_transaction)
      (auto simp: claim_scan_cases forget_inventory_def intro!: platform_view_update split: option.splits)
  have commit: "keeps same_platform (transaction (commit_scan fingerprint pid worker result before))" for pid result before
    by (rule keeps_transaction)
      (auto simp: commit_scan_cases Let_def forget_inventory_def intro!: platform_view_update)
  note rules = keeps_mbind[OF same_platform_trans] keeps_mcatch[OF same_platform_trans]
    keeps_mret[OF same_platform_refl]
  have obs: "keeps same_platform (observe inspect fingerprint pid ns)" for pid ns
    unfolding observe_def query_def
    by (intro rules keeps_if assms keepsI) simp_all
  show "keeps same_platform (inventory_tick inspect fingerprint worker)"
    unfolding inventory_tick_def
    by (rule rules(1)[OF claim])
      (auto split: option.splits intro!: rules obs commit simp del: mret_run)
next
  have commit: "snd (transaction (commit_scan fingerprint pid worker result before) t) = Inr ()"
    for pid result before and t :: "'a sys"
    by (simp add: transaction_def commit_scan_cases Let_def)
  have obs: "\<exists>r. snd (observe inspect fingerprint pid ns t) = Inr r" for pid ns and t :: "'a sys"
    by (simp add: observe_def mbind_def mcatch_def query_def split: prod.splits sum.splits) 
  have claim: "\<exists>r. snd (transaction (claim_scan worker) t) = Inr r" for t :: "'a sys"
    by (simp add: transaction_def claim_scan_cases split: option.splits)
  show "\<exists>b. snd (inventory_tick inspect fingerprint worker s) = Inr b"
  proof -
    obtain t p where c: "transaction (claim_scan worker) s = (t, Inr p)"
      using claim[of s] by (metis prod.collapse)
    show ?thesis
    proof (cases p)
      case None
      then have "snd (inventory_tick inspect fingerprint worker s) = Inr False"
        using c by (simp add: inventory_tick_def mbind_def)
      then show ?thesis by blast
    next
      case (Some q)
      obtain t2 result before where o: "observe inspect fingerprint (p_id q) (p_namespace q) t = (t2, Inr (result, before))"
        using obs[of "p_id q" "p_namespace q" t] by (metis prod.collapse)
      obtain t3 where "transaction (commit_scan fingerprint (p_id q) worker result before) t2 = (t3, Inr ())"
        using commit[of "p_id q" result before t2] by (metis prod.collapse)
      then have "snd (inventory_tick inspect fingerprint worker s) = Inr True"
        using c o Some by (simp add: inventory_tick_def mbind_def)
      then show ?thesis by blast
    qed
  qed
qed

theorem scan_is_read_only_witness:
  "keeps same_platform (inventory_tick (\<lambda>_ _. mthrow (ApiError None) :: (unit sys, inventory_resources) action)
     (\<lambda>_. ''d'') ''w1'')"
  using scan_is_read_only[of "\<lambda>_ _. mthrow (ApiError None)" "\<lambda>_. ''d''" "''w1''"]
    keeps_mthrow[OF same_platform_refl] by blast

end
