(* ===== verification/Kube_Port.thy ===== *)
theory Kube_Port
  imports Secrets Inventory_Scan
begin

text \<open>
  The interface KubernetesPort of kubernetes.ts as a record of its methods. Each method acts on the
  whole running system, because time passes and other replicas commit while a call is in flight. An
  optional method is an option. Nothing is assumed here of how a port behaves; Kubernetes.thy models
  the client that implements it.
\<close>

record retained_identity =
  rv_namespace :: string
  rv_name :: string
  rv_projectId :: string
  rv_instanceId :: string
  rv_instanceUid :: string

record retained_volume =
  vo_name :: string
  vo_namespace :: string
  vo_uid :: string
  vo_capacity :: string
  vo_allocatedCapacity :: string
  vo_storageClass :: string
  vo_phase :: string
  vo_deleting :: bool

record 'w kube_port =
  approveRetainedVolumeReclaim :: "(cache_object \<Rightarrow> string \<Rightarrow> ('w sys, unit) action) option"
  inspectProjectResources :: "(string \<Rightarrow> string \<Rightarrow> ('w sys, inventory_resources) action) option"
  getRetainedVolume :: "retained_identity \<Rightarrow> ('w sys, retained_volume option) action"
  deleteRetainedVolume :: "retained_identity \<Rightarrow> string \<Rightarrow> ('w sys, unit) action"
  ensureProject :: "string \<Rightarrow> string \<Rightarrow> ('w sys, unit) action"
  ensureCredentials :: "string \<Rightarrow> string \<Rightarrow> string \<Rightarrow> string \<Rightarrow> string \<Rightarrow> strmap \<Rightarrow> ('w sys, unit) action"
  getInstance :: "string \<Rightarrow> string \<Rightarrow> ('w sys, cache_object option) action"
  createInstance :: "cache_object \<Rightarrow> ('w sys, cache_object) action"
  updateInstance :: "cache_object \<Rightarrow> string \<Rightarrow> ('w sys, cache_object) action"
  deleteInstance :: "string \<Rightarrow> string \<Rightarrow> string \<Rightarrow> ('w sys, unit) action"
  deleteCredentials :: "string \<Rightarrow> string \<Rightarrow> string \<Rightarrow> string \<Rightarrow> ('w sys, unit) action"

end
