(* ===== verification/Access.thy ===== *)
theory Access
  imports Kube_Port
begin

text \<open>
  Requests, authentication and authorization (the first part of \<open>buildApp\<close> in app.ts and
  \<open>authorizedToken\<close> of telemetry.ts). A request is the record of what the handlers read of it. What
  the handlers take from packages outside the repository is a field of \<open>app_env\<close>: the SHA-256 digest,
  scrypt, and zod's recognizers of UUIDs and e-mail addresses. \<open>en_others\<close> is what other requests
  and workers do to the system while a handler waits; a handler is interrupted between any two of
  its statements on the database, never inside a transaction that holds its locks.
\<close>

record http_request =
  hr_method :: string
  hr_route :: string
  hr_ip :: string
  hr_session :: "string option"
  hr_origin :: "string option"
  hr_authorization :: "string option"
  hr_csrf :: "string option"
  hr_if_match :: "string option"
  hr_idempotency_key :: "string option"
  hr_body :: "json option"

record 'w app_env =
  en_digest :: "string \<Rightarrow> string"
  en_derive :: "string \<Rightarrow> string \<Rightarrow> string"
  en_uuid :: "string \<Rightarrow> bool"
  en_email :: "string \<Rightarrow> bool"
  en_others :: "'w sys \<Rightarrow> 'w sys"

definition pause :: "'w app_env \<Rightarrow> ('w sys, unit) action" where
  "pause env = mput (en_others env)"

definition http_error :: "int \<Rightarrow> string \<Rightarrow> ('s, 'a) action" where
  "http_error code message = mthrow (HttpError code message)"

definition parse :: "'a schema \<Rightarrow> json option \<Rightarrow> ('s, 'a) action" where
  "parse sc v = mlift (case sc v of None \<Rightarrow> Inl ZodError | Some x \<Rightarrow> Inr x)"

definition parse_uuid :: "'w app_env \<Rightarrow> string \<Rightarrow> ('s, string) action" where
  "parse_uuid env x = parse (z_check z_string (en_uuid env)) (Some (JStr x))"

section \<open>Every request\<close>

definition safe_method :: "string \<Rightarrow> bool" where
  "safe_method m \<longleftrightarrow> m \<in> {''GET'', ''HEAD'', ''OPTIONS''}"

definition authorizedToken :: "string option \<Rightarrow> string option \<Rightarrow> bool" where
  "authorizedToken actual expected =
     (case (actual, expected) of
        (Some a, Some e) \<Rightarrow>
          a \<noteq> [] \<and> e \<noteq> [] \<and>
          (let b = ''Bearer '' @ e in length a = length b \<and> timingSafeEqual a b = Inr True)
      | _ \<Rightarrow> False)"

definition onRequest :: "string \<Rightarrow> string option \<Rightarrow> http_request \<Rightarrow> unit result" where
  "onRequest origin webhookToken req =
     (if hr_route req = ''/internal/alerts'' \<and> authorizedToken (hr_authorization req) webhookToken then Inr ()
      else throw_if (\<not> safe_method (hr_method req) \<and> hr_origin req \<noteq> Some origin)
        (HttpError 403 ''Invalid origin'') (Inr ()))"

text \<open>
  The error handler: status and message of the reply. A Kubernetes or fetch exception has no
  \<open>statusCode\<close> property and no string \<open>code\<close>.
\<close>

definition hide_internal :: "int \<Rightarrow> string \<Rightarrow> int \<times> string" where
  "hide_internal status message = (status, if status = 500 then ''Internal server error'' else message)"

fun error_reply :: "error \<Rightarrow> int \<times> string" where
  "error_reply ZodError = (400, ''Invalid request'')"
| "error_reply (PgError c) =
     (if c = ''23505'' then (409, ''Resource already exists'') else hide_internal 500 [])"
| "error_reply (OperationError c _) =
     (if c = ''23505'' then (409, ''Resource already exists'') else hide_internal 500 c)"
| "error_reply (HttpError n m) = hide_internal n m"
| "error_reply (ApiError _) = hide_internal 500 []"
| "error_reply (JsError m) = hide_internal 500 m"

section \<open>Authentication and authorization\<close>

record actor =
  ac_id :: string
  ac_email :: string
  ac_platform_admin :: bool

text \<open>\<open>sessions s JOIN users u ON u.id=s.user_id WHERE s.token_hash=$1 AND s.expires_at>now() AND u.active\<close>\<close>

definition live_sessions :: "string \<Rightarrow> int \<Rightarrow> database \<Rightarrow> (session_row \<times> user_row) list" where
  "live_sessions h now d =
     [(s, u). s \<leftarrow> db_sessions d, u \<leftarrow> db_users d,
        u_id u = s_user_id s \<and> s_token_hash s = h \<and> now < s_expires_at s \<and> u_active u]"

definition bad_csrf :: "'w app_env \<Rightarrow> http_request \<Rightarrow> session_row \<Rightarrow> bool" where
  "bad_csrf env req s =
     (\<not> safe_method (hr_method req) \<and>
      (case hr_csrf req of
         None \<Rightarrow> True
       | Some csrf \<Rightarrow> 128 < length csrf \<or> en_digest env csrf \<noteq> s_csrf_hash s))"

definition user :: "'w app_env \<Rightarrow> http_request \<Rightarrow> ('w sys, actor) action" where
  "user env req =
     (case hr_session req of
        None \<Rightarrow> http_error 401 ''Authentication required''
      | Some sessionToken \<Rightarrow>
          if sessionToken = [] \<or> 128 < length sessionToken then http_error 401 ''Authentication required''
          else mbind (query (live_sessions (en_digest env sessionToken))) (\<lambda>rows.
            case first_row rows of
              None \<Rightarrow> http_error 401 ''Authentication required''
            | Some (s, u) \<Rightarrow>
                mbind (mthrow_if (bad_csrf env req s) (HttpError 403 ''Invalid CSRF token'')) (\<lambda>_.
                mret \<lparr>ac_id = u_id u, ac_email = u_email u, ac_platform_admin = u_platform_admin u\<rparr>)))"

definition member_role :: "database \<Rightarrow> string \<Rightarrow> string \<Rightarrow> role option" where
  "member_role d pid uid =
     map_option m_role (sql_first (\<lambda>m. m_project_id m = pid \<and> m_user_id m = uid) (db_members d))"

definition find_project :: "database \<Rightarrow> string \<Rightarrow> project_row option" where
  "find_project d pid = sql_first (\<lambda>p. p_id p = pid) (db_projects d)"

definition projectAccess :: "'w app_env \<Rightarrow> http_request \<Rightarrow> string \<Rightarrow> role list \<Rightarrow> ('w sys, actor) action" where
  "projectAccess env req pid allowed =
     mbind (user env req) (\<lambda>actor.
     mbind (pause env) (\<lambda>_.
     mbind (query (\<lambda>_ d. (find_project d pid, member_role d pid (ac_id actor)))) (\<lambda>(project, role).
     mbind (mthrow_if (project = None \<or> (\<not> ac_platform_admin actor \<and> role = None))
       (HttpError 404 ''Project not found'')) (\<lambda>_.
     mbind (mthrow_if (\<not> ac_platform_admin actor \<and> role \<notin> Some ` set allowed)
       (HttpError 403 ''Permission denied'')) (\<lambda>_.
     mret actor)))))"

text \<open>
  The check made again inside a transaction that holds the authorization lock:
  \<open>users u LEFT JOIN project_members m ON m.user_id=u.id AND m.project_id=$2 WHERE u.id=$1\<close>.
\<close>

definition find_user :: "database \<Rightarrow> string \<Rightarrow> user_row option" where
  "find_user d uid = sql_first (\<lambda>u. u_id u = uid) (db_users d)"

definition may_act :: "database \<Rightarrow> string \<Rightarrow> string \<Rightarrow> role list \<Rightarrow> bool" where
  "may_act d uid pid roles =
     (case find_user d uid of
        None \<Rightarrow> False
      | Some u \<Rightarrow> u_active u \<and> (u_platform_admin u \<or> member_role d pid uid \<in> Some ` set roles))"

definition platform_actor :: "database \<Rightarrow> string \<Rightarrow> bool" where
  "platform_actor d uid = (case find_user d uid of None \<Rightarrow> False | Some u \<Rightarrow> u_active u \<and> u_platform_admin u)"

section \<open>Facts\<close>

lemma authorizedToken_iff:
  "authorizedToken a e \<longleftrightarrow> (\<exists>t. e = Some t \<and> t \<noteq> [] \<and> a = Some (''Bearer '' @ t))"
  by (auto simp: authorizedToken_def timingSafeEqual_def throw_if_def split: option.splits)

lemma pause_run [simp]: "pause env s = (en_others env s, Inr ())"
  by (simp add: pause_def)

lemma http_error_run [simp]: "http_error c m s = (s, Inl (HttpError c m))"
  by (simp add: http_error_def)

lemma parse_run [simp]: "parse sc v s = (s, case sc v of None \<Rightarrow> Inl ZodError | Some x \<Rightarrow> Inr x)"
  by (simp add: parse_def)

lemma query_run [simp]: "query q s = (s, Inr (q (sys_now s) (sys_db s)))"
  by (simp add: query_def)

lemma mthrow_if_run: "mthrow_if c e s = (s, if c then Inl e else Inr ())"
  by (simp add: mthrow_if_def)

lemma live_sessions_Cons:
  "first_row (live_sessions h now d) = Some (s, u) \<Longrightarrow>
   s \<in> set (db_sessions d) \<and> u \<in> set (db_users d) \<and> u_id u = s_user_id s \<and> s_token_hash s = h \<and>
   now < s_expires_at s \<and> u_active u"
proof -
  assume "first_row (live_sessions h now d) = Some (s, u)"
  then have "(s, u) \<in> set (live_sessions h now d)"
    by (cases "live_sessions h now d") (auto simp: first_row_def)
  then show ?thesis by (auto simp: live_sessions_def)
qed

lemma user_same: "fst (user env req s) = s"
  by (auto simp: user_def mbind_def query_def mthrow_if_def split: option.splits prod.splits)

lemma user_Inr:
  assumes "user env req s = (s', Inr actor)"
  shows "s' = s \<and> (\<exists>t x u. hr_session req = Some t \<and> t \<noteq> [] \<and> length t \<le> 128 \<and>
    x \<in> set (db_sessions (sys_db s)) \<and> u \<in> set (db_users (sys_db s)) \<and> s_token_hash x = en_digest env t \<and>
    s_user_id x = u_id u \<and> sys_now s < s_expires_at x \<and> u_active u \<and> \<not> bad_csrf env req x \<and>
    ac_id actor = u_id u \<and> ac_email actor = u_email u \<and> ac_platform_admin actor = u_platform_admin u)"
  using assms
  by (auto simp: user_def mbind_Inr query_def mthrow_if_def split: option.splits if_splits prod.splits
      dest!: live_sessions_Cons) metis

lemma projectAccess_Inr:
  assumes "projectAccess env req pid allowed s = (s', Inr actor)"
  shows "user env req s = (s, Inr actor) \<and> s' = en_others env s \<and>
    (ac_platform_admin actor \<or> member_role (sys_db s') pid (ac_id actor) \<in> Some ` set allowed) \<and>
    find_project (sys_db s') pid \<noteq> None"
proof -
  from assms obtain s1 where u: "user env req s = (s1, Inr actor)"
    and r: "s' = en_others env s1 \<and>
      (ac_platform_admin actor \<or> member_role (sys_db s') pid (ac_id actor) \<in> Some ` set allowed) \<and>
      find_project (sys_db s') pid \<noteq> None"
    unfolding projectAccess_def
    by (auto simp: mbind_Inr query_def mthrow_if_def pause_def split: if_splits prod.splits)
  moreover have "s1 = s" using u user_same[of env req s] by simp
  ultimately show ?thesis by blast
qed

lemma may_act_mono:
  assumes "may_act d uid pid roles" "set roles \<subseteq> set roles'"
  shows "may_act d uid pid roles'"
  using assms by (auto simp: may_act_def split: option.splits)

section \<open>Routes and relations on the running system\<close>

text \<open>
  What a route needs of a relation between the states before and after it: it may be left at any
  point, other requests may run while it waits. The laws of each route are then about its
  transactions alone.
\<close>

locale route_relation =
  fixes R :: "'w sys \<Rightarrow> 'w sys \<Rightarrow> bool" and env :: "'w app_env"
  assumes R_refl: "reflp R"
    and R_trans: "transp R"
    and R_others: "R s (en_others env s)"
begin

lemma keeps_pause: "keeps R (pause env)"
  by (simp add: keeps_def R_others)

lemma keeps_query: "keeps R (query q)"
  using R_refl by (simp add: keeps_def query_def reflp_def)

lemma keeps_http_error: "keeps R (http_error c m)"
  using R_refl by (simp add: keeps_def reflp_def)

lemma keeps_parse: "keeps R (parse sc v)"
  using R_refl by (simp add: keeps_def reflp_def)

lemma keeps_parse_uuid: "keeps R (parse_uuid env x)"
  unfolding parse_uuid_def by (rule keeps_parse)

lemma keeps_user: "keeps R (user env req)"
  using R_refl by (simp add: keeps_def user_same reflp_def)

lemmas steps = keeps_mbind[OF R_trans] keeps_mret[OF R_refl] keeps_mthrow[OF R_refl] keeps_mlift[OF R_refl]
  keeps_mthrow_if[OF R_refl] keeps_pause keeps_query keeps_http_error keeps_parse keeps_parse_uuid keeps_user

lemma keeps_projectAccess: "keeps R (projectAccess env req pid allowed)"
  unfolding projectAccess_def by (intro steps) (auto intro!: steps split: prod.splits)

end

end
