(* ===== verification/Accounts.thy ===== *)
theory Accounts
  imports Access "HOL-Library.AList"
begin

text \<open>
  Accounts, sessions, projects and members (app.ts). Random values (session and CSRF tokens, ids,
  password salts, the hash of the dummy password) are arguments. The bodies of the transactions are
  definitions of their own, named \<open>..._tx\<close>; the advisory lock 73942102 and the row locks they take
  make each an atomic step. The process-local login throttle is a map from client addresses.
\<close>

section \<open>Schemas\<close>

definition js_lower_char :: "char \<Rightarrow> char" where
  "js_lower_char c =
     (let n = (of_char c :: nat)
      in if (65 \<le> n \<and> n \<le> 90) \<or> (192 \<le> n \<and> n \<le> 222 \<and> n \<noteq> 215) then char_of (n + 32) else c)"

definition toLowerCase :: "string \<Rightarrow> string" where
  "toLowerCase = map js_lower_char"

definition text_within :: "nat \<Rightarrow> nat \<Rightarrow> string \<Rightarrow> bool" where
  "text_within lo hi s \<longleftrightarrow> lo \<le> length s \<and> length s \<le> hi"

definition email_schema :: "'w app_env \<Rightarrow> string schema" where
  "email_schema env v = map_option toLowerCase
     (z_check (z_check z_string (en_email env)) (\<lambda>s. length s \<le> 254) v)"

definition password_schema :: "nat \<Rightarrow> string schema" where
  "password_schema lo = z_check z_string (text_within lo 1024)"

record login_body =
  lb_email :: string
  lb_password :: string

definition account_body :: "'w app_env \<Rightarrow> nat \<Rightarrow> login_body schema" where
  "account_body env lo v =
     (case z_strict [''email'', ''password''] v of
        None \<Rightarrow> None
      | Some fs \<Rightarrow>
          (case (z_field fs ''email'' (email_schema env), z_field fs ''password'' (password_schema lo)) of
             (Some e, Some p) \<Rightarrow> Some \<lparr>lb_email = e, lb_password = p\<rparr>
           | _ \<Rightarrow> None))"

definition loginBody :: "'w app_env \<Rightarrow> login_body schema" where
  "loginBody env = account_body env 1"

definition newUserBody :: "'w app_env \<Rightarrow> login_body schema" where
  "newUserBody env = account_body env 12"

definition changePasswordBody :: "(string \<times> string) schema" where
  "changePasswordBody v =
     (case z_strict [''currentPassword'', ''password''] v of
        None \<Rightarrow> None
      | Some fs \<Rightarrow>
          (case (z_field fs ''currentPassword'' (password_schema 1), z_field fs ''password'' (password_schema 12)) of
             (Some c, Some p) \<Rightarrow> Some (c, p)
           | _ \<Rightarrow> None))"

definition single_field :: "string \<Rightarrow> 'a schema \<Rightarrow> 'a schema" where
  "single_field k sc v = (case z_strict [k] v of None \<Rightarrow> None | Some fs \<Rightarrow> z_field fs k sc)"

definition resetPasswordBody :: "string schema" where
  "resetPasswordBody = single_field ''password'' (password_schema 12)"

definition activeBody :: "bool schema" where
  "activeBody = single_field ''active'' z_bool"

definition projectBody :: "string schema" where
  "projectBody = single_field ''name''
     (\<lambda>v. case map_option js_trim (z_string v) of None \<Rightarrow> None
        | Some s \<Rightarrow> if text_within 1 100 s then Some s else None)"

definition role_of :: "string \<Rightarrow> role" where
  "role_of s = (if s = ''admin'' then Admin else if s = ''maintainer'' then Maintainer else Viewer)"

definition role_name :: "role \<Rightarrow> string" where
  "role_name r = (case r of Admin \<Rightarrow> ''admin'' | Maintainer \<Rightarrow> ''maintainer'' | Viewer \<Rightarrow> ''viewer'')"

definition role_schema :: "role schema" where
  "role_schema v = map_option role_of (z_enum [''admin'', ''maintainer'', ''viewer''] v)"

definition memberBody :: "'w app_env \<Rightarrow> (string \<times> role) schema" where
  "memberBody env v =
     (case z_strict [''email'', ''role''] v of
        None \<Rightarrow> None
      | Some fs \<Rightarrow>
          (case (z_field fs ''email'' (email_schema env), z_field fs ''role'' role_schema) of
             (Some e, Some r) \<Rightarrow> Some (e, r)
           | _ \<Rightarrow> None))"

definition roleBody :: "role schema" where
  "roleBody = single_field ''role'' role_schema"

section \<open>Login\<close>

record login_attempt =
  at_count :: nat
  at_until :: int

type_synonym attempts = "(string \<times> login_attempt) list"

definition prune :: "int \<Rightarrow> attempts \<Rightarrow> attempts" where
  "prune now m = filter (\<lambda>(_, a). \<not> at_until a < now) m"

definition throttle :: "int \<Rightarrow> string \<Rightarrow> attempts \<Rightarrow> attempts \<times> unit result" where
  "throttle now key m =
     (let live = prune now m;
          attempt = (case map_of live key of None \<Rightarrow> \<lparr>at_count = 0, at_until = now + 60000\<rparr> | Some a \<Rightarrow> a)
      in if 10 \<le> at_count attempt \<or> (map_of live key = None \<and> 10000 \<le> length live)
         then (live, Inl (HttpError 429 ''Too many login attempts''))
         else (AList.update key (attempt\<lparr>at_count := at_count attempt + 1\<rparr>) live, Inr ()))"

record 'w app =
  ap_attempts :: attempts
  ap_sys :: "'w sys"

definition on_sys :: "('w sys, 'a) action \<Rightarrow> ('w app, 'a) action" where
  "on_sys m a = (case m (ap_sys a) of (s, r) \<Rightarrow> (a\<lparr>ap_sys := s\<rparr>, r))"

definition count_attempt :: "string \<Rightarrow> ('w app, unit) action" where
  "count_attempt ip a =
     (case throttle (sys_now (ap_sys a)) ip (ap_attempts a) of (m, r) \<Rightarrow> (a\<lparr>ap_attempts := m\<rparr>, r))"

definition delete_session :: "string \<Rightarrow> database \<Rightarrow> database" where
  "delete_session h d = d\<lparr>db_sessions := filter (\<lambda>s. s_token_hash s \<noteq> h) (db_sessions d)\<rparr>"

definition delete_user_sessions :: "string \<Rightarrow> database \<Rightarrow> database" where
  "delete_user_sessions uid d = d\<lparr>db_sessions := filter (\<lambda>s. s_user_id s \<noteq> uid) (db_sessions d)\<rparr>"

definition insert_session :: "session_row \<Rightarrow> (database, unit) action" where
  "insert_session row d =
     (if s_token_hash row \<in> s_token_hash ` set (db_sessions d) then (d, Inl (PgError ''23505''))
      else (d\<lparr>db_sessions := db_sessions d @ [row]\<rparr>, Inr ()))"

definition login_tx ::
  "'w app_env \<Rightarrow> user_row \<Rightarrow> string option \<Rightarrow> string \<Rightarrow> string \<Rightarrow> int \<Rightarrow> (database, unit) action" where
  "login_tx env found cookie sessionToken csrf now =
     mbind (tx_get (\<lambda>d. find_user d (u_id found))) (\<lambda>fresh.
     mbind (mthrow_if
       (case fresh of None \<Rightarrow> True | Some f \<Rightarrow> \<not> u_active f \<or> u_password_hash f \<noteq> u_password_hash found)
       (HttpError 401 ''Credentials changed; sign in again'')) (\<lambda>_.
     mbind (case cookie of
              None \<Rightarrow> mret ()
            | Some c \<Rightarrow> if c = [] then mret () else tx_put (delete_session (en_digest env c))) (\<lambda>_.
     mbind (insert_session \<lparr>s_token_hash = en_digest env sessionToken, s_user_id = u_id found,
              s_csrf_hash = en_digest env csrf, s_expires_at = now + 86400000\<rparr>) (\<lambda>_.
     audit (Some (u_id found)) None None None ''auth.login'' (JObj [])))))"

definition authenticate ::
  "'w app_env \<Rightarrow> string \<Rightarrow> string \<Rightarrow> string \<Rightarrow> http_request \<Rightarrow> login_body \<Rightarrow> ('w sys, string \<times> string) action" where
  "authenticate env dummyHash sessionToken csrf req body =
     mbind (query (\<lambda>_ d. sql_first (\<lambda>u. u_email u = lb_email body) (db_users d))) (\<lambda>found.
     mbind (mlift (verifyPassword (en_derive env) (lb_password body)
              (case found of None \<Rightarrow> dummyHash | Some u \<Rightarrow> u_password_hash u))) (\<lambda>valid.
     case found of
       None \<Rightarrow> http_error 401 ''Invalid credentials''
     | Some u \<Rightarrow>
         mbind (mthrow_if (\<not> u_active u \<or> \<not> valid) (HttpError 401 ''Invalid credentials'')) (\<lambda>_.
         mbind (pause env) (\<lambda>_.
         mbind (transaction (login_tx env u (hr_session req) sessionToken csrf)) (\<lambda>_.
         mret (sessionToken, csrf))))))"

definition login ::
  "'w app_env \<Rightarrow> string \<Rightarrow> string \<Rightarrow> string \<Rightarrow> http_request \<Rightarrow> ('w app, string \<times> string) action" where
  "login env dummyHash sessionToken csrf req =
     mbind (parse (loginBody env) (hr_body req)) (\<lambda>body.
     mbind (count_attempt (hr_ip req)) (\<lambda>_.
     on_sys (authenticate env dummyHash sessionToken csrf req body)))"

definition session_text :: "http_request \<Rightarrow> string" where
  "session_text req = (case hr_session req of None \<Rightarrow> [] | Some t \<Rightarrow> t)"

definition logout :: "'w app_env \<Rightarrow> http_request \<Rightarrow> ('w sys, unit) action" where
  "logout env req =
     mbind (user env req) (\<lambda>_.
     mbind (pause env) (\<lambda>_.
     exec_sql (\<lambda>_. delete_session (en_digest env (session_text req)))))"

section \<open>Passwords\<close>

definition session_holders :: "string \<Rightarrow> string \<Rightarrow> int \<Rightarrow> database \<Rightarrow> user_row list" where
  "session_holders uid h now d =
     [u. u \<leftarrow> db_users d, s \<leftarrow> db_sessions d,
        s_user_id s = u_id u \<and> u_id u = uid \<and> s_token_hash s = h \<and> now < s_expires_at s]"

definition set_password :: "string \<Rightarrow> string \<Rightarrow> database \<Rightarrow> database" where
  "set_password uid h d = d\<lparr>db_users :=
     sql_update (\<lambda>u. u_id u = uid) (\<lambda>u. u\<lparr>u_password_hash := h\<rparr>) (db_users d)\<rparr>"

definition wrong_current :: "'w app_env \<Rightarrow> bool \<Rightarrow> string option \<Rightarrow> string \<Rightarrow> bool result" where
  "wrong_current env self currentPassword h =
     (if \<not> self then Inr False
      else case currentPassword of
        None \<Rightarrow> Inr True
      | Some c \<Rightarrow> if c = [] then Inr True
          else rbind (verifyPassword (en_derive env) c h) (\<lambda>ok. Inr (\<not> ok)))"

definition password_tx ::
  "'w app_env \<Rightarrow> actor \<Rightarrow> string \<Rightarrow> string \<Rightarrow> string \<Rightarrow> string option \<Rightarrow> int \<Rightarrow> (database, unit) action" where
  "password_tx env actor sessionHash targetId passwordHash currentPassword now =
     (let self = (targetId = ac_id actor) in
      mbind (tx_get (\<lambda>d. first_row (session_holders (ac_id actor) sessionHash now d))) (\<lambda>fresh.
      mbind (mthrow_if
        (case fresh of None \<Rightarrow> True | Some u \<Rightarrow> \<not> u_active u \<or> (\<not> self \<and> \<not> u_platform_admin u))
        (HttpError 403 ''Permission denied'')) (\<lambda>_.
      mbind (tx_get (\<lambda>d. find_user d targetId)) (\<lambda>target.
      case target of
        None \<Rightarrow> http_error 404 ''User not found''
      | Some t \<Rightarrow>
          mbind (mlift (wrong_current env self currentPassword (u_password_hash t))) (\<lambda>wrong.
          mbind (mthrow_if wrong (HttpError 403 ''Current password is incorrect'')) (\<lambda>_.
          mbind (tx_put (set_password targetId passwordHash)) (\<lambda>_.
          mbind (tx_put (delete_user_sessions targetId)) (\<lambda>_.
          audit (Some (ac_id actor)) None None None
            (if self then ''auth.password.change'' else ''user.password.reset'')
            (JObj [(''userId'', JStr targetId)])))))))))"

definition updatePassword ::
  "'w app_env \<Rightarrow> string \<Rightarrow> http_request \<Rightarrow> string \<Rightarrow> string \<Rightarrow> string option \<Rightarrow> ('w sys, unit) action" where
  "updatePassword env salt req targetId password currentPassword =
     mbind (user env req) (\<lambda>actor.
     mbind (mthrow_if (targetId \<noteq> ac_id actor \<and> \<not> ac_platform_admin actor)
       (HttpError 403 ''Platform administrator required'')) (\<lambda>_.
     mbind (pause env) (\<lambda>_.
     transaction (password_tx env actor (en_digest env (session_text req)) targetId
       (hashPassword (en_derive env) password salt) currentPassword))))"

definition change_password :: "'w app_env \<Rightarrow> string \<Rightarrow> http_request \<Rightarrow> ('w sys, unit) action" where
  "change_password env salt req =
     mbind (user env req) (\<lambda>actor.
     mbind (parse changePasswordBody (hr_body req)) (\<lambda>(current, password).
     mbind (pause env) (\<lambda>_.
     updatePassword env salt req (ac_id actor) password (Some current))))"

definition reset_password :: "'w app_env \<Rightarrow> string \<Rightarrow> http_request \<Rightarrow> string \<Rightarrow> ('w sys, unit) action" where
  "reset_password env salt req userId =
     mbind (user env req) (\<lambda>actor.
     mbind (mthrow_if (\<not> ac_platform_admin actor) (HttpError 403 ''Platform administrator required'')) (\<lambda>_.
     mbind (parse_uuid env userId) (\<lambda>targetId.
     mbind (mthrow_if (targetId = ac_id actor) (HttpError 400 ''Use the account password change endpoint'')) (\<lambda>_.
     mbind (parse resetPasswordBody (hr_body req)) (\<lambda>password.
     mbind (pause env) (\<lambda>_.
     updatePassword env salt req targetId password None))))))"

section \<open>Users\<close>

definition insert_user :: "user_row \<Rightarrow> (database, unit) action" where
  "insert_user row d =
     (if list_ex (\<lambda>u. u_id u = u_id row \<or> u_email u = u_email row) (db_users d) then (d, Inl (PgError ''23505''))
      else (d\<lparr>db_users := db_users d @ [row]\<rparr>, Inr ()))"

definition create_user :: "'w app_env \<Rightarrow> string \<Rightarrow> string \<Rightarrow> http_request \<Rightarrow> ('w sys, string \<times> string) action" where
  "create_user env newId salt req =
     mbind (user env req) (\<lambda>actor.
     mbind (mthrow_if (\<not> ac_platform_admin actor) (HttpError 403 ''Platform administrator required'')) (\<lambda>_.
     mbind (parse (newUserBody env) (hr_body req)) (\<lambda>body.
     mbind (pause env) (\<lambda>_.
     mbind (transaction (\<lambda>now.
       mbind (insert_user \<lparr>u_id = newId, u_email = lb_email body,
         u_password_hash = hashPassword (en_derive env) (lb_password body) salt,
         u_platform_admin = False, u_active = True\<rparr>) (\<lambda>_.
       audit (Some (ac_id actor)) None None None ''user.create'' (JObj [(''userId'', JStr newId)])))) (\<lambda>_.
     mret (newId, lb_email body))))))"

definition active_admin :: "database \<Rightarrow> member_row \<Rightarrow> bool" where
  "active_admin d m \<longleftrightarrow> m_role m = Admin \<and> list_ex (\<lambda>u. u_id u = m_user_id m \<and> u_active u) (db_users d)"

definition orphaned :: "database \<Rightarrow> string \<Rightarrow> member_row list" where
  "orphaned d uid = filter (\<lambda>m. m_user_id m = uid \<and> m_role m = Admin \<and>
     \<not> list_ex (\<lambda>x. m_project_id x = m_project_id m \<and> m_user_id x \<noteq> uid \<and> active_admin d x) (db_members d))
     (db_members d)"

definition other_platform_admins :: "database \<Rightarrow> string \<Rightarrow> user_row list" where
  "other_platform_admins d uid = filter (\<lambda>u. u_platform_admin u \<and> u_active u \<and> u_id u \<noteq> uid) (db_users d)"

definition set_active :: "string \<Rightarrow> bool \<Rightarrow> database \<Rightarrow> database" where
  "set_active uid act d = d\<lparr>db_users :=
     sql_update (\<lambda>u. u_id u = uid) (\<lambda>u. u\<lparr>u_active := act\<rparr>) (db_users d)\<rparr>"

definition update_user_tx :: "string \<Rightarrow> string \<Rightarrow> bool \<Rightarrow> int \<Rightarrow> (database, unit) action" where
  "update_user_tx actorId targetId act now =
     mbind (tx_get (\<lambda>d. find_user d targetId)) (\<lambda>target.
     case target of
       None \<Rightarrow> http_error 404 ''User not found''
     | Some t \<Rightarrow>
         mbind (if act then mret ()
           else
             mbind (tx_get (\<lambda>d. orphaned d targetId)) (\<lambda>rows.
             mbind (mthrow_if (rows \<noteq> []) (HttpError 409 ''Transfer project administration before disabling this account'')) (\<lambda>_.
             mbind (tx_get (\<lambda>d. other_platform_admins d targetId)) (\<lambda>admins.
             mbind (mthrow_if (u_platform_admin t \<and> admins = []) (HttpError 409 ''Platform must retain an administrator'')) (\<lambda>_.
             tx_put (delete_user_sessions targetId)))))) (\<lambda>_.
         mbind (tx_put (set_active targetId act)) (\<lambda>_.
         audit (Some actorId) None None None ''user.update'' (JObj [(''userId'', JStr targetId), (''active'', JBool act)]))))"

definition update_user :: "'w app_env \<Rightarrow> http_request \<Rightarrow> string \<Rightarrow> ('w sys, unit) action" where
  "update_user env req userId =
     mbind (user env req) (\<lambda>actor.
     mbind (mthrow_if (\<not> ac_platform_admin actor) (HttpError 403 ''Platform administrator required'')) (\<lambda>_.
     mbind (parse_uuid env userId) (\<lambda>targetId.
     mbind (parse activeBody (hr_body req)) (\<lambda>act.
     mbind (mthrow_if (targetId = ac_id actor \<and> \<not> act) (HttpError 409 ''Cannot disable your own account'')) (\<lambda>_.
     mbind (pause env) (\<lambda>_.
     transaction (update_user_tx (ac_id actor) targetId act)))))))"

section \<open>Projects and members\<close>

definition unlimited :: json where
  "unlimited = json_quota \<lparr>q_instances = None, q_storageGiB = None, q_cpuMillis = None, q_memoryMiB = None\<rparr>"

definition new_project :: "string \<Rightarrow> string \<Rightarrow> string \<Rightarrow> string \<Rightarrow> int \<Rightarrow> project_row" where
  "new_project pid name ns creator now =
     \<lparr>p_id = pid, p_name = name, p_namespace = ns, p_state = PPending, p_created_by = creator,
      p_quota_limits = unlimited, p_quota_revision = 1, p_quota_observed_revision = None,
      p_quota_checked_at = None, p_quota_sync_error = None, p_quota_next_sync = now,
      p_inventory_result = None, p_inventory_checked_at = None, p_inventory_next_scan = now,
      p_inventory_worker_id = None, p_inventory_lease_until = None\<rparr>"

definition insert_project :: "project_row \<Rightarrow> (database, unit) action" where
  "insert_project row d =
     (if list_ex (\<lambda>p. p_id p = p_id row \<or> p_namespace p = p_namespace row) (db_projects d)
      then (d, Inl (PgError ''23505''))
      else (d\<lparr>db_projects := db_projects d @ [row]\<rparr>, Inr ()))"

definition insert_member :: "member_row \<Rightarrow> (database, unit) action" where
  "insert_member row d =
     (if list_ex (\<lambda>m. m_project_id m = m_project_id row \<and> m_user_id m = m_user_id row) (db_members d)
      then (d, Inl (PgError ''23505''))
      else (d\<lparr>db_members := db_members d @ [row]\<rparr>, Inr ()))"

definition create_project_tx ::
  "'w app_env \<Rightarrow> string \<Rightarrow> string \<Rightarrow> string \<Rightarrow> string \<Rightarrow> int \<Rightarrow> (database, unit) action" where
  "create_project_tx env actorId pid operationId name now =
     (let ns = ''expbuild-'' @ pid in
      mbind (insert_project (new_project pid name ns actorId now)) (\<lambda>_.
      mbind (insert_member \<lparr>m_project_id = pid, m_user_id = actorId, m_role = Admin\<rparr>) (\<lambda>_.
      mbind (insert_operation (new_operation operationId pid None ProjectCreate pid (en_digest env ns)
               (empty_request\<lparr>rq_namespace := Some ns\<rparr>) None actorId now)) (\<lambda>_.
      audit (Some actorId) (Some pid) None None ''project.create'' (JObj [])))))"

definition create_project ::
  "'w app_env \<Rightarrow> string \<Rightarrow> string \<Rightarrow> http_request \<Rightarrow> ('w sys, string \<times> string) action" where
  "create_project env pid operationId req =
     mbind (user env req) (\<lambda>actor.
     mbind (mthrow_if (\<not> ac_platform_admin actor) (HttpError 403 ''Platform administrator required'')) (\<lambda>_.
     mbind (parse projectBody (hr_body req)) (\<lambda>name.
     mbind (pause env) (\<lambda>_.
     mbind (transaction (create_project_tx env (ac_id actor) pid operationId name)) (\<lambda>_.
     mret (pid, ''expbuild-'' @ pid))))))"

datatype member_target = ById string | ByEmail string

definition find_target :: "database \<Rightarrow> member_target \<Rightarrow> user_row option" where
  "find_target d target = (case target of
     ById uid \<Rightarrow> find_user d uid | ByEmail email \<Rightarrow> sql_first (\<lambda>u. u_email u = email) (db_users d))"

text \<open>\<open>INSERT ... ON CONFLICT(project_id,user_id) DO UPDATE SET role\<close>\<close>

definition upsert_member :: "string \<Rightarrow> string \<Rightarrow> role \<Rightarrow> database \<Rightarrow> database" where
  "upsert_member pid uid r d = d\<lparr>db_members :=
     (if list_ex (\<lambda>m. m_project_id m = pid \<and> m_user_id m = uid) (db_members d)
      then sql_update (\<lambda>m. m_project_id m = pid \<and> m_user_id m = uid) (\<lambda>m. m\<lparr>m_role := r\<rparr>) (db_members d)
      else db_members d @ [\<lparr>m_project_id = pid, m_user_id = uid, m_role = r\<rparr>])\<rparr>"

definition remove_member :: "string \<Rightarrow> string \<Rightarrow> database \<Rightarrow> database" where
  "remove_member pid uid d = d\<lparr>db_members :=
     filter (\<lambda>m. \<not> (m_project_id m = pid \<and> m_user_id m = uid)) (db_members d)\<rparr>"

definition active_admins :: "database \<Rightarrow> string \<Rightarrow> member_row list" where
  "active_admins d pid = filter (\<lambda>m. m_project_id m = pid \<and> active_admin d m) (db_members d)"

definition member_tx :: "actor \<Rightarrow> string \<Rightarrow> member_target \<Rightarrow> role option \<Rightarrow> int \<Rightarrow> (database, unit) action" where
  "member_tx actor pid target role now =
     mbind (tx_get (\<lambda>d. may_act d (ac_id actor) pid [Admin])) (\<lambda>allowed.
     mbind (mthrow_if (\<not> allowed) (HttpError 403 ''Permission denied'')) (\<lambda>_.
     mbind (tx_get (\<lambda>d. find_target d target)) (\<lambda>found.
     case found of
       None \<Rightarrow> http_error 404 ''Active user not found''
     | Some member \<Rightarrow>
         mbind (mthrow_if (role \<noteq> None \<and> \<not> u_active member) (HttpError 404 ''Active user not found'')) (\<lambda>_.
         mbind (tx_get (\<lambda>d. active_admins d pid)) (\<lambda>admins.
         mbind (mthrow_if (role \<noteq> Some Admin \<and> map m_user_id admins = [u_id member])
           (HttpError 409 ''Project must retain an administrator'')) (\<lambda>_.
         mbind (tx_put (case role of
                  None \<Rightarrow> remove_member pid (u_id member)
                | Some r \<Rightarrow> upsert_member pid (u_id member) r)) (\<lambda>_.
         audit (Some (ac_id actor)) (Some pid) None None
           (if role = None then ''member.remove'' else ''member.update'')
           (JObj [(''userId'', JStr (u_id member)),
                  (''role'', case role of None \<Rightarrow> JNull | Some r \<Rightarrow> JStr (role_name r))]))))))))"

definition changeMember ::
  "'w app_env \<Rightarrow> http_request \<Rightarrow> string \<Rightarrow> member_target \<Rightarrow> role option \<Rightarrow> ('w sys, unit) action" where
  "changeMember env req pid target role =
     mbind (projectAccess env req pid [Admin]) (\<lambda>actor.
     mbind (pause env) (\<lambda>_.
     transaction (member_tx actor pid target role)))"

definition post_member :: "'w app_env \<Rightarrow> http_request \<Rightarrow> string \<Rightarrow> ('w sys, unit) action" where
  "post_member env req projectId =
     mbind (parse_uuid env projectId) (\<lambda>pid.
     mbind (parse (memberBody env) (hr_body req)) (\<lambda>(email, role).
     changeMember env req pid (ByEmail email) (Some role)))"

definition put_member :: "'w app_env \<Rightarrow> http_request \<Rightarrow> string \<Rightarrow> string \<Rightarrow> ('w sys, unit) action" where
  "put_member env req projectId userId =
     mbind (parse_uuid env projectId) (\<lambda>pid.
     mbind (parse_uuid env userId) (\<lambda>uid.
     mbind (parse roleBody (hr_body req)) (\<lambda>role.
     changeMember env req pid (ById uid) (Some role))))"

definition delete_member :: "'w app_env \<Rightarrow> http_request \<Rightarrow> string \<Rightarrow> string \<Rightarrow> ('w sys, unit) action" where
  "delete_member env req projectId userId =
     mbind (parse_uuid env projectId) (\<lambda>pid.
     mbind (parse_uuid env userId) (\<lambda>uid.
     changeMember env req pid (ById uid) None))"

definition list_members :: "'w app_env \<Rightarrow> http_request \<Rightarrow> string \<Rightarrow> ('w sys, (string \<times> string \<times> role) list) action" where
  "list_members env req projectId =
     mbind (parse_uuid env projectId) (\<lambda>pid.
     mbind (projectAccess env req pid [Admin]) (\<lambda>_.
     mbind (pause env) (\<lambda>_.
     query (\<lambda>_ d. map (\<lambda>(u, m). (u_id u, u_email u, m_role m))
       (sort_key (\<lambda>(u, m). u_email u)
         [(u, m). m \<leftarrow> db_members d, u \<leftarrow> db_users d, u_id u = m_user_id m \<and> m_project_id m = pid])))))"

end
