(* ===== verification/Reservation.thy ===== *)
theory Reservation
  imports Inventory
begin

text \<open>
  Reconciliation of a reservation from observed quantities (reservation-reconcile.ts): the smallest
  whole amounts that cover what the cluster shows for one stable instance, refused when anything
  but the reservation itself is out of order. \<open>Math.max\<close> is taken of non-empty lists only.
\<close>

section \<open>The floor\<close>

definition ceilings :: "string option list \<Rightarrow> string \<Rightarrow> int result" where
  "ceilings qs unit = rbind (rmap (\<lambda>q. quantityCeil q unit) (List.map_filter id qs)) (\<lambda>ns. Inr (Max (set ns)))"

definition measured :: "cache_object option \<Rightarrow> volume_claim \<Rightarrow> resources result" where
  "measured cr pvc =
     (let storage = [pv_request pvc, pv_capacity pvc] in
      throw_if (list_ex (\<lambda>v. \<not> truthy v) storage) (JsError ''Missing volume capacity'')
        (rbind (ceilings (storage @ (case cr of None \<Rightarrow> [] | Some x \<Rightarrow> [Some (st_capacity (sp_storage (co_spec x)))])) ''1Gi'') (\<lambda>st.
         case cr of
           None \<Rightarrow> Inr \<lparr>rs_storageGiB = st, rs_cpuMillis = 0, rs_memoryMiB = 0\<rparr>
         | Some x \<Rightarrow>
             (let res = sp_resources (co_spec x);
                  cpu = [map_of (rs_requests res) ''cpu'', map_of (rs_limits res) ''cpu''];
                  memory = [map_of (rs_requests res) ''memory'', map_of (rs_limits res) ''memory'']
              in throw_if (list_ex (\<lambda>v. \<not> truthy v) cpu \<or> list_ex (\<lambda>v. \<not> truthy v) memory)
                   (JsError ''Missing compute request or limit'')
                   (rbind (ceilings cpu ''1m'') (\<lambda>c. rbind (ceilings memory ''1Mi'') (\<lambda>m.
                      Inr \<lparr>rs_storageGiB = st, rs_cpuMillis = c, rs_memoryMiB = m\<rparr>)))))))"

definition reservationFloor ::
  "string \<Rightarrow> inventory_binding \<Rightarrow> inventory_resources \<Rightarrow> resources result" where
  "reservationFloor project b res =
     throw_if (ib_busy b \<or> \<not> (ib_lifecycle b = Active \<or> ib_lifecycle b = Detached))
       (HttpError 409 ''Instance is not stable enough to reconcile'')
       (let issues = filter (\<lambda>i. is_instanceId i = Some (ib_id b)) (ir_issues (compareInventory project [b] res)) in
        throw_if (list_ex (\<lambda>i. is_code i \<notin> {''ResourceReservationUnknown'', ''ResourceReservationInsufficient''}) issues)
          (HttpError 409 ''Resolve instance identity or configuration drift first'')
          (let cr = sql_first (\<lambda>x. om_name (co_metadata x) = ib_resource_name b) (iv_instances res) in
           case sql_first (\<lambda>v. km_name (pv_meta v) = Some (ib_resource_name b @ ''-data'')) (iv_volumes res) of
             None \<Rightarrow> Inl (HttpError 409 ''Instance or volume is missing or unexpected'')
           | Some pvc \<Rightarrow>
               throw_if ((ib_lifecycle b = Active \<and> cr = None) \<or> (ib_lifecycle b = Detached \<and> cr \<noteq> None))
                 (HttpError 409 ''Instance or volume is missing or unexpected'')
                 (case measured cr pvc of
                    Inl _ \<Rightarrow> Inl (HttpError 409 ''Observed resource quantity cannot be safely reconciled'')
                  | Inr r \<Rightarrow> Inr r)))"

section \<open>Reports of a single binding\<close>

lemma length_report_once: "length (report_once reported rs) \<le> length rs"
proof (induction rs arbitrary: reported)
  case (Cons r rs)
  show ?case using Cons.IH[of reported] Cons.IH[of "r # reported"] by simp
qed simp

lemma length_checkReservation: "length (checkReservation a r s k) \<le> 1"
  by (simp add: checkReservation_def split: option.splits sum.splits)

lemma length_identity_issue: "length (identity_issue project b x) \<le> 1"
  by (simp add: identity_issue_def Let_def split: option.splits)

lemma length_instance_issues: "length (instance_issues project b x) \<le> 4"
proof (cases x)
  case (Some y)
  have four: "length p \<le> 1 \<Longrightarrow> length q \<le> 1 \<Longrightarrow> length r \<le> 1 \<Longrightarrow> length s \<le> 1 \<Longrightarrow>
      length (p @ (if c then q @ r @ s else [])) \<le> 4" for p q r s :: "report list" and c
    by simp
  show ?thesis
    unfolding Some instance_issues_def Let_def option.case
    by (rule four) (rule length_identity_issue length_checkReservation)+
qed (simp add: instance_issues_def)

lemma length_volume_issues: "length (volume_issues project b v) \<le> 2"
proof (cases v)
  case (Some y)
  have "length (checkReservation [pv_request y, pv_capacity y] (ib_reserved_storage_gib b) ''Gi'' KVolumeClaim) \<le> 1"
    by (rule length_checkReservation)
  then show ?thesis unfolding Some volume_issues_def option.case by simp
qed (simp add: volume_issues_def)

lemma single_binding_issues:
  assumes "\<not> ib_busy b"
  shows "filter (\<lambda>i. is_instanceId i = Some (ib_id b)) (ir_issues (compareInventory project [b] res)) =
    binding_issues project b (cluster_instance res (ib_resource_name b))
      (cluster_volume res (ib_resource_name b @ ''-data''))"
proof -
  define L where "L = binding_issues project b (cluster_instance res (ib_resource_name b))
      (cluster_volume res (ib_resource_name b @ ''-data''))"
  define U where "U =
     map (\<lambda>(_, x). untracked ''UntrackedInstance'' KCacheInstance (om_name (co_metadata x)))
       (left_over {Some (ib_resource_name b)}
         (js_map (map (\<lambda>x. (Some (om_name (co_metadata x)), x)) (iv_instances res)))) @
     map (\<lambda>(_, v). untracked ''UntrackedVolume'' KVolumeClaim (js_name (km_name (pv_meta v))))
       (left_over {Some (ib_resource_name b @ ''-data'')}
         (js_map (map (\<lambda>v. (km_name (pv_meta v), v)) (iv_volumes res))))"
  have U: "inventory_report project [b] res = L @ U" "\<forall>i \<in> set U. is_instanceId i = None"
    by (simp add: inventory_report_def Let_def binding_report_def assms instance_lookup volume_lookup L_def U_def)
      (auto simp: untracked_def U_def)
  have "length L \<le> 6"
    using length_report_once[of "[]" "instance_issues project b (cluster_instance res (ib_resource_name b)) @
        volume_issues project b (cluster_volume res (ib_resource_name b @ ''-data''))"]
      length_instance_issues[of project b "cluster_instance res (ib_resource_name b)"]
      length_volume_issues[of project b "cluster_volume res (ib_resource_name b @ ''-data'')"]
    by (simp add: L_def binding_issues_def)
  then have "ir_issues (compareInventory project [b] res) = L @ take (200 - length L) U"
    by (simp add: compareInventory_report Let_def U(1))
  moreover have "filter (\<lambda>i. is_instanceId i = Some (ib_id b)) L = L"
    by (auto simp: L_def binding_issues_def filter_id_conv)
  moreover have "filter (\<lambda>i. is_instanceId i = Some (ib_id b)) (take n U) = []" for n
    using U(2) by (auto simp: filter_empty_conv dest!: in_set_takeD)
  ultimately show ?thesis by (simp add: L_def)
qed

section \<open>Raising the reservation to the floor\<close>

lemma ceilings_bound:
  assumes "ceilings qs unit = Inr n" "Some q \<in> set qs"
  shows "\<exists>k. quantityCeil q unit = Inr k \<and> k \<le> n"
proof -
  obtain ns where ns: "rmap (\<lambda>q. quantityCeil q unit) (List.map_filter id qs) = Inr ns" "n = Max (set ns)"
    using assms(1) by (auto simp: ceilings_def rbind_eq_Inr)
  have "q \<in> set (List.map_filter id qs)" using assms(2) by (force simp: map_filter_def)
  then obtain i where "i < length ns" "quantityCeil q unit = Inr (ns ! i)"
    using ns(1) by (auto simp: rmap_eq_Inr list_all2_conv_all_nth in_set_conv_nth)
  then show ?thesis using ns(2) by (auto intro!: Max_ge)
qed

lemma canonical_show: "0 \<le> n \<Longrightarrow> canonical_number (show_int n)"
  using show_nat_no_leading_zero[of "nat n"]
  by (cases "n = 0") (simp_all add: canonical_number_def show_int_def, simp add: show_nat.simps digit_char_def)

lemma checkReservation_clear:
  assumes "\<And>q. Some q \<in> set actual \<Longrightarrow> quantityExceeds q (show_int n @ suffix) = Inr False" "0 \<le> n"
  shows "checkReservation actual (RStr (show_int n)) suffix kind = []"
proof -
  have "rmap (\<lambda>v. quantityExceeds v (show_int n @ suffix)) (List.map_filter id actual) =
      Inr (map (\<lambda>_. False) (List.map_filter id actual))"
    using assms(1) by (induction actual) (auto simp: map_filter_simps rbind_eq_Inr split: option.splits)
  then show ?thesis by (simp add: checkReservation_def canonical_show[OF assms(2)] list_ex_iff)
qed

lemma measured_storage:
  assumes "measured cr pvc = Inr fl"
    and "Some q \<in> set ([pv_request pvc, pv_capacity pvc] @
      (case cr of None \<Rightarrow> [] | Some x \<Rightarrow> [Some (st_capacity (sp_storage (co_spec x)))]))"
  shows "\<exists>k. quantityCeil q ''1Gi'' = Inr k \<and> k \<le> rs_storageGiB fl"
proof -
  have "ceilings ([pv_request pvc, pv_capacity pvc] @
      (case cr of None \<Rightarrow> [] | Some x \<Rightarrow> [Some (st_capacity (sp_storage (co_spec x)))])) ''1Gi'' = Inr (rs_storageGiB fl)"
    using assms(1) by (auto simp: measured_def Let_def rbind_eq_Inr split: option.splits)
  from ceilings_bound[OF this assms(2)] show ?thesis .
qed

lemma measured_compute:
  assumes "measured (Some x) pvc = Inr fl"
  shows "Some q \<in> {map_of (rs_requests (sp_resources (co_spec x))) ''cpu'', map_of (rs_limits (sp_resources (co_spec x))) ''cpu''}
      \<Longrightarrow> \<exists>k. quantityCeil q ''1m'' = Inr k \<and> k \<le> rs_cpuMillis fl"
    and "Some q \<in> {map_of (rs_requests (sp_resources (co_spec x))) ''memory'', map_of (rs_limits (sp_resources (co_spec x))) ''memory''}
      \<Longrightarrow> \<exists>k. quantityCeil q ''1Mi'' = Inr k \<and> k \<le> rs_memoryMiB fl"
proof -
  let ?cpu = "[map_of (rs_requests (sp_resources (co_spec x))) ''cpu'', map_of (rs_limits (sp_resources (co_spec x))) ''cpu'']"
  let ?mem = "[map_of (rs_requests (sp_resources (co_spec x))) ''memory'', map_of (rs_limits (sp_resources (co_spec x))) ''memory'']"
  have "ceilings ?cpu ''1m'' = Inr (rs_cpuMillis fl)" "ceilings ?mem ''1Mi'' = Inr (rs_memoryMiB fl)"
    using assms by (auto simp: measured_def Let_def rbind_eq_Inr)
  note c = ceilings_bound[OF this(1)] and m = ceilings_bound[OF this(2)]
  show "Some q \<in> {map_of (rs_requests (sp_resources (co_spec x))) ''cpu'', map_of (rs_limits (sp_resources (co_spec x))) ''cpu''}
      \<Longrightarrow> \<exists>k. quantityCeil q ''1m'' = Inr k \<and> k \<le> rs_cpuMillis fl" using c by auto
  show "Some q \<in> {map_of (rs_requests (sp_resources (co_spec x))) ''memory'', map_of (rs_limits (sp_resources (co_spec x))) ''memory''}
      \<Longrightarrow> \<exists>k. quantityCeil q ''1Mi'' = Inr k \<and> k \<le> rs_memoryMiB fl" using m by auto
qed

lemma raised_check_clear:
  assumes "\<And>q. Some q \<in> set actual \<Longrightarrow> \<exists>k. quantityCeil q (''1'' @ s) = Inr k \<and> k \<le> fl"
    and "s \<in> {''m'', ''Mi'', ''Gi''}" "fl \<le> n" "0 \<le> n" "n < 10 ^ 126"
  shows "checkReservation actual (RStr (show_int n)) s kind = []"
proof (rule checkReservation_clear)
  fix q assume "Some q \<in> set actual"
  then obtain k where "quantityCeil q (''1'' @ s) = Inr k" "k \<le> n" using assms(1,3) by (metis order_trans)
  then show "quantityExceeds q (show_int n @ s) = Inr False"
    using quantityCeil_covers_ge assms(2,5) by blast
qed fact

text \<open>Whether a binding's reports, apart from reservations, are clean.\<close>

definition harmless :: "report \<Rightarrow> bool" where
  "harmless r \<longleftrightarrow> fst r \<in> {''ResourceReservationUnknown'', ''ResourceReservationInsufficient''}"

lemma identity_issue_harmless: "list_all harmless (identity_issue project b x) \<Longrightarrow> identity_issue project b x = []"
  by (auto simp: identity_issue_def Let_def harmless_def split: if_splits option.splits)

definition with_reservation :: "int \<Rightarrow> int \<Rightarrow> int \<Rightarrow> inventory_binding \<Rightarrow> inventory_binding" where
  "with_reservation st cpu mem b = b\<lparr>ib_reserved_storage_gib := RStr (show_int st),
     ib_reserved_cpu_millis := RStr (show_int cpu), ib_reserved_memory_mib := RStr (show_int mem)\<rparr>"

lemma with_reservation_fields [simp]:
  "ib_id (with_reservation st cpu mem b) = ib_id b"
  "ib_resource_name (with_reservation st cpu mem b) = ib_resource_name b"
  "ib_kubernetes_uid (with_reservation st cpu mem b) = ib_kubernetes_uid b"
  "ib_lifecycle (with_reservation st cpu mem b) = ib_lifecycle b"
  "ib_template_name (with_reservation st cpu mem b) = ib_template_name b"
  "ib_template_version (with_reservation st cpu mem b) = ib_template_version b"
  "ib_busy (with_reservation st cpu mem b) = ib_busy b"
  "ib_expected_spec (with_reservation st cpu mem b) = ib_expected_spec b"
  "ib_reserved_storage_gib (with_reservation st cpu mem b) = RStr (show_int st)"
  "ib_reserved_cpu_millis (with_reservation st cpu mem b) = RStr (show_int cpu)"
  "ib_reserved_memory_mib (with_reservation st cpu mem b) = RStr (show_int mem)"
  by (simp_all add: with_reservation_def)

lemma identity_issue_reservation [simp]:
  "identity_issue project (with_reservation st cpu mem b) x = identity_issue project b x"
  unfolding identity_issue_def owned_by_platform_def with_reservation_fields ..

lemma volume_conflict_reservation [simp]:
  "volume_conflict project (with_reservation st cpu mem b) v = volume_conflict project b v"
  unfolding volume_conflict_def with_reservation_fields ..

lemma volume_cleared:
  assumes "list_all harmless (volume_issues project b (Some v))"
    and "checkReservation [pv_request v, pv_capacity v] (RStr (show_int st)) ''Gi'' KVolumeClaim = []"
  shows "volume_issues project (with_reservation st cpu mem b) (Some v) = []"
proof -
  have "\<not> volume_conflict project b v" "ib_lifecycle b \<noteq> Deleted" "\<not> truthy (km_deletionTimestamp (pv_meta v))"
    "pv_phase v = Some ''Bound''"
    using assms(1) by (auto simp: volume_issues_def harmless_def split: if_splits)
  then show ?thesis
    unfolding volume_issues_def using assms(2) by simp
qed

lemma instance_cleared:
  assumes "list_all harmless (instance_issues project b (Some x))"
    and "checkReservation [Some (st_capacity (sp_storage (co_spec x)))] (RStr (show_int st)) ''Gi'' KCacheInstance = []"
    and "checkReservation [map_of (rs_requests (sp_resources (co_spec x))) ''cpu'', map_of (rs_limits (sp_resources (co_spec x))) ''cpu'']
      (RStr (show_int cpu)) ''m'' KCacheInstance = []"
    and "checkReservation [map_of (rs_requests (sp_resources (co_spec x))) ''memory'', map_of (rs_limits (sp_resources (co_spec x))) ''memory'']
      (RStr (show_int mem)) ''Mi'' KCacheInstance = []"
  shows "instance_issues project (with_reservation st cpu mem b) (Some x) = []"
proof -
  have "identity_issue project b x = []"
    using assms(1) by (intro identity_issue_harmless) (simp add: instance_issues_def Let_def)
  then show ?thesis
    unfolding instance_issues_def using assms(2-4) by (simp add: Let_def)
qed

section \<open>Properties\<close>

lemma sql_first_rev:
  assumes "distinct (map f xs)"
  shows "sql_first (\<lambda>x. f x = k) (rev xs) = sql_first (\<lambda>x. f x = k) xs"
  using assms
proof (induction xs)
  case (Cons x xs)
  have "f x = k \<Longrightarrow> sql_first (\<lambda>x. f x = k) xs = None"
    using Cons.prems by (simp add: sql_first_None) (metis imageI)
  then show ?case using Cons by (auto simp: sql_first_append split: option.splits)
qed simp

lemma reservationFloor_Inr:
  assumes "reservationFloor project b res = Inr fl"
    and "distinct (map (\<lambda>x. om_name (co_metadata x)) (iv_instances res))"
    and "distinct (map (\<lambda>v. km_name (pv_meta v)) (iv_volumes res))"
  shows "\<exists>cr pvc. cluster_instance res (ib_resource_name b) = cr \<and>
    cluster_volume res (ib_resource_name b @ ''-data'') = Some pvc \<and>
    measured cr pvc = Inr fl \<and> \<not> ib_busy b \<and>
    (ib_lifecycle b = Active \<and> cr \<noteq> None \<or> ib_lifecycle b = Detached \<and> cr = None) \<and>
    list_all harmless (instance_issues project b cr) \<and> list_all harmless (volume_issues project b (Some pvc))"
proof -
  define cr where "cr = cluster_instance res (ib_resource_name b)"
  have busy: "\<not> ib_busy b" using assms(1) by (simp add: reservationFloor_def)
  have cr: "sql_first (\<lambda>x. om_name (co_metadata x) = ib_resource_name b) (iv_instances res) = cr"
    unfolding cr_def cluster_instance_def using assms(2) by (simp add: sql_first_rev)
  have v: "sql_first (\<lambda>v. km_name (pv_meta v) = Some (ib_resource_name b @ ''-data'')) (iv_volumes res) =
      cluster_volume res (ib_resource_name b @ ''-data'')"
    unfolding cluster_volume_def using assms(3) by (simp add: sql_first_rev)
  obtain pvc where pvc: "cluster_volume res (ib_resource_name b @ ''-data'') = Some pvc"
    and m: "measured cr pvc = Inr fl"
    and l: "ib_lifecycle b = Active \<and> cr \<noteq> None \<or> ib_lifecycle b = Detached \<and> cr = None"
    and iss: "\<not> list_ex (\<lambda>i. is_code i \<notin> {''ResourceReservationUnknown'', ''ResourceReservationInsufficient''})
       (binding_issues project b cr (cluster_volume res (ib_resource_name b @ ''-data'')))"
    using assms(1) unfolding reservationFloor_def Let_def single_binding_issues[OF busy] cr v cr_def[symmetric]
    by (auto split: option.splits sum.splits)
  have "list_all harmless (instance_issues project b cr @ volume_issues project b (Some pvc))"
    using iss unfolding pvc binding_issues_def
    by (auto simp: list_ex_iff list_all_iff set_report_once harmless_def split_def)
  then show ?thesis using pvc m l busy by (auto simp: cr_def)
qed

text \<open>reconciliation clears the drift it is asked to clear. When a floor is computed for an
  instance, recording any amounts at or above the floor makes the inventory comparison report
  nothing at all for that instance; with anything but the reservation out of order no floor is
  computed.\<close>

theorem reservation_floor_clears:
  assumes "reservationFloor project b res = Inr fl"
    and "distinct (map (\<lambda>x. om_name (co_metadata x)) (iv_instances res))"
    and "distinct (map (\<lambda>v. km_name (pv_meta v)) (iv_volumes res))"
    and "rs_storageGiB fl \<le> st" "rs_cpuMillis fl \<le> cpu" "rs_memoryMiB fl \<le> mem"
    and "0 \<le> st" "0 \<le> cpu" "0 \<le> mem" "st < 10 ^ 126" "cpu < 10 ^ 126" "mem < 10 ^ 126"
  shows "filter (\<lambda>i. is_instanceId i = Some (ib_id b))
    (ir_issues (compareInventory project [with_reservation st cpu mem b] res)) = []"
proof -
  obtain cr pvc where cr: "cluster_instance res (ib_resource_name b) = cr"
    and pvc: "cluster_volume res (ib_resource_name b @ ''-data'') = Some pvc"
    and m: "measured cr pvc = Inr fl" and busy: "\<not> ib_busy b"
    and l: "ib_lifecycle b = Active \<and> cr \<noteq> None \<or> ib_lifecycle b = Detached \<and> cr = None"
    and h: "list_all harmless (instance_issues project b cr)" "list_all harmless (volume_issues project b (Some pvc))"
    using reservationFloor_Inr[OF assms(1-3)] by blast
  have storage: "set qs \<subseteq> set ([pv_request pvc, pv_capacity pvc] @
        (case cr of None \<Rightarrow> [] | Some x \<Rightarrow> [Some (st_capacity (sp_storage (co_spec x)))])) \<Longrightarrow>
      checkReservation qs (RStr (show_int st)) ''Gi'' kind = []" for qs kind
    by (rule raised_check_clear[of _ "''Gi''" "rs_storageGiB fl"])
      (use measured_storage[OF m] assms(4,7,10) in \<open>auto dest: subsetD\<close>)
  have vol: "volume_issues project (with_reservation st cpu mem b) (Some pvc) = []"
    by (rule volume_cleared[OF h(2) storage]) simp
  have ins: "instance_issues project (with_reservation st cpu mem b) cr = []"
  proof (cases cr)
    case None
    then show ?thesis using l by (simp add: instance_issues_def terminal_def)
  next
    case (Some x)
    note mx = measured_compute[OF m[unfolded Some]]
    have c: "checkReservation [map_of (rs_requests (sp_resources (co_spec x))) ''cpu'', map_of (rs_limits (sp_resources (co_spec x))) ''cpu'']
        (RStr (show_int cpu)) ''m'' KCacheInstance = []"
      by (rule raised_check_clear[of _ "''m''" "rs_cpuMillis fl"]) (use mx(1) assms(5,8,11) in auto)
    have e: "checkReservation [map_of (rs_requests (sp_resources (co_spec x))) ''memory'', map_of (rs_limits (sp_resources (co_spec x))) ''memory'']
        (RStr (show_int mem)) ''Mi'' KCacheInstance = []"
      by (rule raised_check_clear[of _ "''Mi''" "rs_memoryMiB fl"]) (use mx(2) assms(6,9,12) in auto)
    show ?thesis
      unfolding Some by (rule instance_cleared[OF h(1)[unfolded Some] storage c e]) (simp add: Some)
  qed
  show ?thesis
    using single_binding_issues[of "with_reservation st cpu mem b" project res] busy cr pvc vol ins
    by (simp add: binding_issues_def)
qed

theorem reservation_floor_clears_witness:
  "filter (\<lambda>i. is_instanceId i = Some ''i1'')
    (ir_issues (compareInventory ''p1'' [with_reservation 10 500 512 (sample_row\<lparr>ib_reserved_cpu_millis := RNull\<rparr>)] sample_cluster)) = []"
proof -
  have f: "reservationFloor ''p1'' (sample_row\<lparr>ib_reserved_cpu_millis := RNull\<rparr>) sample_cluster =
      Inr \<lparr>rs_storageGiB = 10, rs_cpuMillis = 500, rs_memoryMiB = 512\<rparr>" by code_simp
  have i: "ib_id (sample_row\<lparr>ib_reserved_cpu_millis := RNull\<rparr>) = ''i1''" by (simp add: sample_row_def)
  show ?thesis
    using reservation_floor_clears[OF f, of 10 500 512] unfolding i by (simp add: sample_cluster_def)
qed

end
