(* ===== verification/Project_Routes.thy ===== *)
theory Project_Routes
  imports Accounts Reservation
begin

text \<open>
  The project routes of app.ts: inventory, reconciliation of a reservation, quota, and retry of a
  failed initialization. The fingerprint of the rows of \<open>bindingSQL\<close> (a SHA-256 of their JSON text)
  is an argument, as in the inventory scan.
\<close>

section \<open>Headers\<close>

definition key_char :: "char \<Rightarrow> bool" where
  "key_char c \<longleftrightarrow> is_alnum c \<or> c \<in> {CHR ''.'', CHR ''_'', CHR '':'', CHR ''-''}"

definition header :: "string option \<Rightarrow> json option" where
  "header v = map_option JStr v"

definition idempotencyKey :: "http_request \<Rightarrow> ('s, string) action" where
  "idempotencyKey req = parse
     (z_check z_string (\<lambda>s. text_within 8 128 s \<and> list_all key_char s)) (header (hr_idempotency_key req))"

text \<open>\<open>/^"?[1-9][0-9]*"?$/\<close>\<close>

definition revision_pattern :: "string \<Rightarrow> bool" where
  "revision_pattern s =
     (let t = (if s \<noteq> [] \<and> hd s = dquote then tl s else s);
          u = (if t \<noteq> [] \<and> last t = dquote then butlast t else t)
      in u \<noteq> [] \<and> list_all is_digit u \<and> hd u \<noteq> CHR ''0'')"

section \<open>Inventory\<close>

definition get_inventory ::
  "'w app_env \<Rightarrow> http_request \<Rightarrow> string \<Rightarrow> ('w sys, (inventory_result option \<times> int option)) action" where
  "get_inventory env req projectId =
     mbind (parse_uuid env projectId) (\<lambda>pid.
     mbind (projectAccess env req pid [Admin, Maintainer, Viewer]) (\<lambda>_.
     mbind (pause env) (\<lambda>_.
     mbind (query (\<lambda>_ d. find_project d pid)) (\<lambda>row.
     case row of
       None \<Rightarrow> mthrow (JsError ''Cannot read properties of undefined'')
     | Some p \<Rightarrow> mret (p_inventory_result p, p_inventory_checked_at p)))))"

text \<open>\<open>least(next, greatest(now(), coalesce(checked_at, now()-'10 seconds')+'10 seconds'))\<close>\<close>

definition hasten :: "int \<Rightarrow> project_row \<Rightarrow> project_row" where
  "hasten now p = p\<lparr>p_inventory_next_scan :=
     min (p_inventory_next_scan p)
       (max now ((case p_inventory_checked_at p of None \<Rightarrow> now - 10000 | Some t \<Rightarrow> t) + 10000))\<rparr>"

definition refresh_inventory :: "'w app_env \<Rightarrow> http_request \<Rightarrow> string \<Rightarrow> ('w sys, unit) action" where
  "refresh_inventory env req projectId =
     mbind (parse_uuid env projectId) (\<lambda>pid.
     mbind (projectAccess env req pid [Admin, Maintainer, Viewer]) (\<lambda>_.
     mbind (pause env) (\<lambda>_.
     exec_sql (\<lambda>now d. d\<lparr>db_projects := sql_update (\<lambda>p. p_id p = pid) (hasten now) (db_projects d)\<rparr>))))"

section \<open>Reconciliation of a reservation\<close>

definition raise_reservation :: "resources \<Rightarrow> binding_row \<Rightarrow> binding_row" where
  "raise_reservation low b = b\<lparr>
     b_reserved_storage_gib := raise_to (b_reserved_storage_gib b) (rs_storageGiB low),
     b_reserved_cpu_millis := (if b_lifecycle b = Detached then b_reserved_cpu_millis b
       else raise_to (b_reserved_cpu_millis b) (rs_cpuMillis low)),
     b_reserved_memory_mib := (if b_lifecycle b = Detached then b_reserved_memory_mib b
       else raise_to (b_reserved_memory_mib b) (rs_memoryMiB low))\<rparr>"

definition reconcilable :: "string \<Rightarrow> string \<Rightarrow> binding_row \<Rightarrow> bool" where
  "reconcilable pid iid b \<longleftrightarrow> b_project_id b = pid \<and> b_id b = iid \<and> (b_lifecycle b = Active \<or> b_lifecycle b = Detached)"

definition json_bigint :: "int option \<Rightarrow> json" where
  "json_bigint n = (case n of None \<Rightarrow> JNull | Some m \<Rightarrow> JStr (show_int m))"

definition json_reserved :: "binding_row \<Rightarrow> json" where
  "json_reserved b = JObj [(''storageGiB'', json_bigint (b_reserved_storage_gib b)),
     (''cpuMillis'', json_bigint (b_reserved_cpu_millis b)), (''memoryMiB'', json_bigint (b_reserved_memory_mib b))]"

definition json_value :: "reserved_value \<Rightarrow> json" where
  "json_value v = (case v of RNull \<Rightarrow> JNull | RNum n \<Rightarrow> JNum n | RStr s \<Rightarrow> JStr s)"

definition json_binding :: "inventory_binding \<Rightarrow> json" where
  "json_binding b = JObj [(''storageGiB'', json_value (ib_reserved_storage_gib b)),
     (''cpuMillis'', json_value (ib_reserved_cpu_millis b)), (''memoryMiB'', json_value (ib_reserved_memory_mib b))]"

definition json_resources :: "resources \<Rightarrow> json" where
  "json_resources r = JObj [(''storageGiB'', JNum (of_int (rs_storageGiB r))),
     (''cpuMillis'', JNum (of_int (rs_cpuMillis r))), (''memoryMiB'', JNum (of_int (rs_memoryMiB r)))]"

definition reconcile_tx ::
  "(inventory_binding list \<Rightarrow> string) \<Rightarrow> actor \<Rightarrow> string \<Rightarrow> string \<Rightarrow> string \<Rightarrow> inventory_binding list \<Rightarrow>
   inventory_binding \<Rightarrow> resources \<Rightarrow> int \<Rightarrow> (database, binding_row) action" where
  "reconcile_tx fingerprint actor pid iid namespace before binding low now =
     mbind (tx_get (\<lambda>d. find_project d pid)) (\<lambda>locked.
     mbind (tx_get (\<lambda>d. platform_actor d (ac_id actor))) (\<lambda>allowed.
     mbind (mthrow_if (\<not> allowed) (HttpError 403 ''Platform administrator required'')) (\<lambda>_.
     mbind (mthrow_if (case locked of None \<Rightarrow> True | Some p \<Rightarrow> p_namespace p \<noteq> namespace \<or> p_state p \<noteq> PReady)
       (HttpError 409 ''Project changed during resource scan'')) (\<lambda>_.
     mbind (tx_get (\<lambda>d. bindingSQL d pid)) (\<lambda>current.
     mbind (mthrow_if (1000 < length current \<or> fingerprint current \<noteq> fingerprint before)
       (HttpError 409 ''Project changed during resource scan'')) (\<lambda>_.
     mbind (tx_put (\<lambda>d. d\<lparr>db_bindings := sql_update (reconcilable pid iid) (raise_reservation low) (db_bindings d)\<rparr>)) (\<lambda>_.
     mbind (tx_get (\<lambda>d. sql_first (reconcilable pid iid) (db_bindings d))) (\<lambda>updated.
     case updated of
       None \<Rightarrow> http_error 409 ''Instance changed during resource scan''
     | Some u \<Rightarrow>
         mbind (tx_put (\<lambda>d. d\<lparr>db_projects := sql_update (\<lambda>p. p_id p = pid) (\<lambda>p. p\<lparr>p_inventory_next_scan := now\<rparr>) (db_projects d)\<rparr>)) (\<lambda>_.
         mbind (audit (Some (ac_id actor)) (Some pid) (Some iid) None ''reservation.reconcile''
           (JObj [(''before'', json_binding binding), (''floor'', json_resources low), (''after'', json_reserved u)])) (\<lambda>_.
         mret u))))))))))"

definition reconcile_reservation ::
  "'w app_env \<Rightarrow> 'w kube_port option \<Rightarrow> (inventory_binding list \<Rightarrow> string) \<Rightarrow> http_request \<Rightarrow> string \<Rightarrow> string \<Rightarrow>
   ('w sys, binding_row) action" where
  "reconcile_reservation env kube fingerprint req projectId instanceId =
     mbind (parse_uuid env projectId) (\<lambda>pid.
     mbind (parse_uuid env instanceId) (\<lambda>iid.
     mbind (projectAccess env req pid [Admin]) (\<lambda>actor.
     mbind (mthrow_if (\<not> ac_platform_admin actor) (HttpError 403 ''Platform administrator required'')) (\<lambda>_.
     case (case kube of None \<Rightarrow> None | Some k \<Rightarrow> inspectProjectResources k) of
       None \<Rightarrow> http_error 503 ''Resource inventory is not configured''
     | Some inspect \<Rightarrow>
         mbind (pause env) (\<lambda>_.
         mbind (query (\<lambda>_ d. find_project d pid)) (\<lambda>found.
         case found of
           None \<Rightarrow> http_error 409 ''Project is not ready''
         | Some project \<Rightarrow>
             mbind (mthrow_if (p_state project \<noteq> PReady) (HttpError 409 ''Project is not ready'')) (\<lambda>_.
             mbind (pause env) (\<lambda>_.
             mbind (query (\<lambda>_ d. bindingSQL d pid)) (\<lambda>before.
             mbind (mthrow_if (1000 < length before) (HttpError 409 ''Project inventory exceeds the scan limit'')) (\<lambda>_.
             case sql_first (\<lambda>b. ib_id b = iid) before of
               None \<Rightarrow> http_error 404 ''Instance not found''
             | Some binding \<Rightarrow>
                 mbind (mcatch (inspect (p_namespace project) pid)
                   (\<lambda>_. http_error 503 ''Kubernetes resource inventory is unavailable'')) (\<lambda>observed.
                 mbind (mlift (reservationFloor pid binding observed)) (\<lambda>low.
                 transaction (reconcile_tx fingerprint actor pid iid (p_namespace project) before binding low)))))))))))))"

section \<open>Quota\<close>

definition get_quota :: "'w app_env \<Rightarrow> http_request \<Rightarrow> string \<Rightarrow> ('w sys, snapshot) action" where
  "get_quota env req projectId =
     mbind (parse_uuid env projectId) (\<lambda>pid.
     mbind (projectAccess env req pid [Admin, Maintainer, Viewer]) (\<lambda>_.
     mbind (pause env) (\<lambda>_.
     transaction (\<lambda>now. quotaSnapshot pid))))"

definition set_quota :: "quota \<Rightarrow> int \<Rightarrow> project_row \<Rightarrow> project_row" where
  "set_quota limits now p = p\<lparr>p_quota_limits := json_quota limits, p_quota_revision := p_quota_revision p + 1,
     p_quota_observed_revision := None, p_quota_sync_error := None, p_quota_next_sync := now\<rparr>"

definition quota_tx :: "actor \<Rightarrow> string \<Rightarrow> quota \<Rightarrow> string \<Rightarrow> int \<Rightarrow> (database, snapshot) action" where
  "quota_tx actor pid limits expected now =
     mbind (tx_get (\<lambda>d. platform_actor d (ac_id actor))) (\<lambda>allowed.
     mbind (mthrow_if (\<not> allowed) (HttpError 403 ''Platform administrator required'')) (\<lambda>_.
     mbind (quotaSnapshot pid) (\<lambda>current.
     mbind (mthrow_if (sn_revision current \<noteq> expected) (HttpError 409 ''Project quota changed'')) (\<lambda>_.
     mbind (mlift (checkQuota limits (sn_reserved current) (sn_unknown current))) (\<lambda>_.
     mbind (tx_put (\<lambda>d. d\<lparr>db_projects := sql_update (\<lambda>p. p_id p = pid) (set_quota limits now) (db_projects d)\<rparr>)) (\<lambda>_.
     mbind (audit (Some (ac_id actor)) (Some pid) None None ''quota.update''
       (JObj [(''before'', json_quota (sn_limits current)), (''after'', json_quota limits)])) (\<lambda>_.
     quotaSnapshot pid)))))))"

definition put_quota :: "'w app_env \<Rightarrow> http_request \<Rightarrow> string \<Rightarrow> ('w sys, snapshot) action" where
  "put_quota env req projectId =
     mbind (parse_uuid env projectId) (\<lambda>pid.
     mbind (projectAccess env req pid [Admin]) (\<lambda>actor.
     mbind (mthrow_if (\<not> ac_platform_admin actor) (HttpError 403 ''Platform administrator required'')) (\<lambda>_.
     mbind (parse quotaInput (hr_body req)) (\<lambda>limits.
     mbind (parse (z_check z_string revision_pattern) (header (hr_if_match req))) (\<lambda>ifMatch.
     mbind (pause env) (\<lambda>_.
     transaction (quota_tx actor pid limits (filter (\<lambda>c. c \<noteq> dquote) ifMatch))))))))"

section \<open>Retry of a failed initialization\<close>

definition retry_project_tx ::
  "'w app_env \<Rightarrow> actor \<Rightarrow> string \<Rightarrow> string \<Rightarrow> string \<Rightarrow> int \<Rightarrow> (database, op_row) action" where
  "retry_project_tx env actor pid key operationId now =
     mbind (tx_get (\<lambda>d. (find_project d pid, may_act d (ac_id actor) pid [Admin]))) (\<lambda>(project, allowed).
     mbind (mthrow_if (\<not> allowed) (HttpError 403 ''Permission denied'')) (\<lambda>_.
     case project of
       None \<Rightarrow> http_error 404 ''Project not found''
     | Some p \<Rightarrow>
         mbind (tx_get (\<lambda>d. sql_first (\<lambda>r. o_project_id r = pid \<and> o_kind r = ProjectCreate \<and> o_idempotency_key r = key)
                  (db_operations d))) (\<lambda>previous.
         case previous of
           Some r \<Rightarrow> mret r
         | None \<Rightarrow>
             mbind (mthrow_if (p_state p \<noteq> PFailed) (HttpError 409 ''Only failed project initialization can be retried'')) (\<lambda>_.
             let row = new_operation operationId pid None ProjectCreate key (en_digest env (p_namespace p))
                         (empty_request\<lparr>rq_namespace := Some (p_namespace p)\<rparr>) None (ac_id actor) now in
             mbind (insert_operation row) (\<lambda>_.
             mbind (tx_put (\<lambda>d. d\<lparr>db_projects := sql_update (\<lambda>q. p_id q = pid) (\<lambda>q. q\<lparr>p_state := PPending\<rparr>) (db_projects d)\<rparr>)) (\<lambda>_.
             mbind (audit (Some (ac_id actor)) (Some pid) None (Some operationId) ''project.retry'' (JObj [])) (\<lambda>_.
             mret row)))))))"

definition retry_project :: "'w app_env \<Rightarrow> string \<Rightarrow> http_request \<Rightarrow> string \<Rightarrow> ('w sys, op_row) action" where
  "retry_project env operationId req projectId =
     mbind (parse_uuid env projectId) (\<lambda>pid.
     mbind (projectAccess env req pid [Admin]) (\<lambda>actor.
     mbind (idempotencyKey req) (\<lambda>key.
     mbind (pause env) (\<lambda>_.
     transaction (retry_project_tx env actor pid key operationId)))))"

end
