(* ===== verification/Worker.thy ===== *)
theory Worker
  imports Kube_Port
begin

text \<open>
  The operation worker (worker.ts): a step claims one due operation under a lease of thirty seconds,
  carries it out against the cluster, and finishes, defers or supersedes it. The port, the cipher,
  the encryption key and the quota gate are fields of the worker. The counters \<open>finish\<close> feeds to
  telemetry are not part of this state (\<open>count_completion\<close> of Telemetry). The row returned by the claim is the operation object of the
  code; \<open>bind\<close> updates its state and target generation and so returns it.
\<close>

record 'w worker =
  wk_kube :: "'w kube_port"
  wk_key :: string
  wk_decrypt :: decipher
  wk_quotaGate :: "(string \<Rightarrow> ('w sys, bool) action) option"

definition op_error :: "string \<Rightarrow> ('s, 'a) action" where
  "op_error code = mthrow (OperationError code False)"

section \<open>Claiming and holding an operation\<close>

definition lease_over :: "int \<Rightarrow> int option \<Rightarrow> bool" where
  "lease_over now l = (case l of None \<Rightarrow> True | Some t \<Rightarrow> t < now)"

definition lease_live :: "int \<Rightarrow> int option \<Rightarrow> bool" where
  "lease_live now l = (case l of None \<Rightarrow> False | Some t \<Rightarrow> now < t)"

definition claimable :: "int \<Rightarrow> op_row \<Rightarrow> bool" where
  "claimable now r \<longleftrightarrow> unfinished (o_state r) \<and> o_next_attempt_at r \<le> now \<and> lease_over now (o_lease_until r)"

definition claim_row :: "string \<Rightarrow> int \<Rightarrow> op_row \<Rightarrow> op_row" where
  "claim_row claim now r = r\<lparr>o_worker_id := Some claim, o_lease_until := Some (now + 30000),
     o_attempts := o_attempts r + 1, o_state := (if o_state r = OpPending then Applying else o_state r),
     o_updated_at := now\<rparr>"

definition claim_operation :: "string \<Rightarrow> int \<Rightarrow> (database, op_row option) action" where
  "claim_operation claim now =
     mbind (tx_get (\<lambda>d. first_by o_created_at (filter (claimable now) (db_operations d)))) (\<lambda>selected.
       case selected of
         None \<Rightarrow> mret None
       | Some r \<Rightarrow>
           mbind (tx_put (\<lambda>d. d\<lparr>db_operations := sql_update (\<lambda>x. o_id x = o_id r) (claim_row claim now) (db_operations d)\<rparr>)) (\<lambda>_.
           mret (Some (claim_row claim now r))))"

definition owns :: "op_row \<Rightarrow> op_row \<Rightarrow> bool" where
  "owns op r \<longleftrightarrow> o_id r = o_id op \<and> o_worker_id r \<noteq> None \<and> o_worker_id r = o_worker_id op"

definition held :: "op_row \<Rightarrow> int \<Rightarrow> database \<Rightarrow> bool" where
  "held op now d \<longleftrightarrow> length (filter (\<lambda>r. owns op r \<and> lease_live now (o_lease_until r) \<and>
     (o_state r = Applying \<or> o_state r = Reconciling)) (db_operations d)) = 1"

definition state_name :: "op_state \<Rightarrow> string" where
  "state_name st = (case st of OpPending \<Rightarrow> ''pending'' | Applying \<Rightarrow> ''applying'' | Reconciling \<Rightarrow> ''reconciling''
     | Succeeded \<Rightarrow> ''succeeded'' | OpFailed \<Rightarrow> ''failed'' | Superseded \<Rightarrow> ''superseded'')"

definition set_lifecycle :: "string option \<Rightarrow> lifecycle \<Rightarrow> (database, unit) action" where
  "set_lifecycle iid l = tx_put (\<lambda>d. d\<lparr>db_bindings :=
     sql_update (\<lambda>b. Some (b_id b) = iid) (\<lambda>b. b\<lparr>b_lifecycle := l\<rparr>) (db_bindings d)\<rparr>)"

definition set_project_state :: "string \<Rightarrow> project_state \<Rightarrow> (database, unit) action" where
  "set_project_state pid st = tx_put (\<lambda>d. d\<lparr>db_projects :=
     sql_update (\<lambda>p. p_id p = pid) (\<lambda>p. p\<lparr>p_state := st\<rparr>) (db_projects d)\<rparr>)"

definition mwhen :: "bool \<Rightarrow> ('s, unit) action \<Rightarrow> ('s, unit) action" where
  "mwhen c m = (if c then m else mret ())"

definition finish_row :: "op_state \<Rightarrow> string option \<Rightarrow> int \<Rightarrow> op_row \<Rightarrow> op_row" where
  "finish_row st code now r = r\<lparr>o_state := st, o_error_code := code, o_secret_payload := None,
     o_worker_id := None, o_lease_until := None, o_updated_at := now\<rparr>"

definition finish_tx ::
  "op_row \<Rightarrow> op_state \<Rightarrow> string option \<Rightarrow> (database, unit) action \<Rightarrow> int \<Rightarrow> (database, bool) action" where
  "finish_tx op st code apply_changes now =
     mbind (tx_get (held op now)) (\<lambda>h.
       if \<not> h then mret False
       else
         mbind apply_changes (\<lambda>_.
         mbind (case (o_instance_id op, rq_desired (o_request op)) of
                  (Some iid, Some desired) \<Rightarrow>
                    mwhen (st = Succeeded \<and> iid \<noteq> [] \<and> o_kind op \<in> {InstanceCreate, InstanceReclaim, InstanceUpdate})
                      (settleResources iid desired)
                | _ \<Rightarrow> mret ()) (\<lambda>_.
         mbind (tx_put (\<lambda>d. d\<lparr>db_operations := sql_update (owns op) (finish_row st code now) (db_operations d)\<rparr>)) (\<lambda>_.
         mbind (mwhen (st = OpFailed \<and> o_kind op = ProjectCreate) (set_project_state (o_project_id op) PFailed)) (\<lambda>_.
         mbind (mwhen (st = OpFailed \<and> o_kind op \<in> {InstanceCreate, InstanceReclaim}) (set_lifecycle (o_instance_id op) Failed)) (\<lambda>_.
         mbind (audit None (Some (o_project_id op)) (o_instance_id op) (Some (o_id op)) (''operation.'' @ state_name st)
                  (JObj [(''code'', case code of None \<Rightarrow> JNull | Some c \<Rightarrow> JStr c)])) (\<lambda>_.
         mret True)))))))"

definition finish ::
  "op_row \<Rightarrow> op_state \<Rightarrow> string option \<Rightarrow> (database, unit) action \<Rightarrow> ('w sys, unit) action" where
  "finish op st code apply_changes =
     mbind (transaction (finish_tx op st code apply_changes)) (\<lambda>committed. mret ())"

definition defer_op :: "op_row \<Rightarrow> string option \<Rightarrow> ('w sys, unit) action" where
  "defer_op op code = exec_sql (\<lambda>now d. d\<lparr>db_operations :=
     sql_update (\<lambda>r. owns op r \<and> lease_live now (o_lease_until r))
       (\<lambda>r. r\<lparr>o_lease_until := None, o_worker_id := None, o_next_attempt_at := now + 2000,
             o_error_code := code, o_updated_at := now\<rparr>) (db_operations d)\<rparr>)"

definition bindable :: "op_row \<Rightarrow> string \<Rightarrow> binding_row \<Rightarrow> bool" where
  "bindable op uid b \<longleftrightarrow> Some (b_id b) = o_instance_id op \<and> b_project_id b = o_project_id op \<and>
     (b_kubernetes_uid b = None \<or> b_kubernetes_uid b = Some uid \<or>
      (o_kind op = InstanceReclaim \<and> b_kubernetes_uid b = rq_previousInstanceUID (o_request op) \<and>
       b_kubernetes_uid b \<noteq> Some uid))"

definition bind_tx :: "op_row \<Rightarrow> string \<Rightarrow> int \<Rightarrow> int \<Rightarrow> (database, bool) action" where
  "bind_tx op uid generation now =
     mbind (tx_get (held op now)) (\<lambda>h.
       if \<not> h then mret False
       else
         mbind (tx_get (\<lambda>d. list_ex (bindable op uid) (db_bindings d))) (\<lambda>changed.
         mbind (tx_put (\<lambda>d. d\<lparr>db_bindings := sql_update (bindable op uid)
                  (\<lambda>b. b\<lparr>b_kubernetes_uid := Some uid\<rparr>) (db_bindings d)\<rparr>)) (\<lambda>_.
         mbind (mthrow_if (\<not> changed) (OperationError ''instance_identity_conflict'' False)) (\<lambda>_.
         mbind (tx_put (\<lambda>d. d\<lparr>db_operations := sql_update (owns op)
                  (\<lambda>r. r\<lparr>o_state := Reconciling, o_target_generation := Some generation, o_updated_at := now\<rparr>)
                  (db_operations d)\<rparr>)) (\<lambda>_.
         mret True)))))"

definition bind :: "op_row \<Rightarrow> cache_object \<Rightarrow> ('w sys, op_row) action" where
  "bind op object =
     (case (om_uid (co_metadata object), om_generation (co_metadata object)) of
        (Some uid, Some generation) \<Rightarrow>
          if uid = [] then op_error ''missing_kubernetes_identity''
          else mbind (transaction (bind_tx op uid generation)) (\<lambda>bound.
               if \<not> bound then op_error ''operation_lease_lost''
               else mret (op\<lparr>o_state := Reconciling, o_target_generation := Some generation\<rparr>))
      | _ \<Rightarrow> op_error ''missing_kubernetes_identity'')"

section \<open>Executing an operation\<close>

definition execute_project :: "'w worker \<Rightarrow> op_row \<Rightarrow> ('w sys, unit) action" where
  "execute_project w op =
     (case rq_namespace (o_request op) of
        None \<Rightarrow> op_error ''invalid_operation''
      | Some ns \<Rightarrow>
          if ns = [] then op_error ''invalid_operation''
          else mbind (ensureProject (wk_kube w) ns (o_project_id op)) (\<lambda>_.
               finish op Succeeded None (set_project_state (o_project_id op) PReady)))"

definition volume_binding_ok :: "op_row \<Rightarrow> string \<Rightarrow> string \<Rightarrow> string \<Rightarrow> database \<Rightarrow> bool" where
  "volume_binding_ok op ns name instanceUid d =
     (case sql_first (\<lambda>b. Some (b_id b) = o_instance_id op \<and> b_project_id b = o_project_id op) (db_bindings d) of
        None \<Rightarrow> False
      | Some b \<Rightarrow>
          (case sql_first (\<lambda>p. p_id p = b_project_id b) (db_projects d) of
             None \<Rightarrow> False
           | Some p \<Rightarrow> (b_lifecycle b = Detached \<or> b_lifecycle b = Failed) \<and>
               b_kubernetes_uid b = Some instanceUid \<and> p_namespace p = ns \<and> b_resource_name b = name))"

definition execute_volume_delete :: "'w worker \<Rightarrow> op_row \<Rightarrow> ('w sys, unit) action" where
  "execute_volume_delete w op =
     (let rq = o_request op in
      if \<not> (truthy (rq_namespace rq) \<and> truthy (rq_name rq) \<and> truthy (rq_uid rq) \<and> truthy (rq_instanceUid rq) \<and>
           truthy (o_instance_id op))
      then op_error ''invalid_operation''
      else
        let ns = the (rq_namespace rq); name = the (rq_name rq); uid = the (rq_uid rq);
            iuid = the (rq_instanceUid rq);
            ident = \<lparr>rv_namespace = ns, rv_name = name, rv_projectId = o_project_id op,
                     rv_instanceId = the (o_instance_id op), rv_instanceUid = iuid\<rparr>
        in mbind (query (\<lambda>_ d. volume_binding_ok op ns name iuid d)) (\<lambda>ok.
           mbind (mthrow_if (\<not> ok) (OperationError ''volume_binding_conflict'' False)) (\<lambda>_.
           mbind (getRetainedVolume (wk_kube w) ident) (\<lambda>volume.
             case volume of
               Some v \<Rightarrow>
                 mbind (mthrow_if (vo_uid v \<noteq> uid) (OperationError ''volume_identity_conflict'' False)) (\<lambda>_.
                 mbind (deleteRetainedVolume (wk_kube w) ident uid) (\<lambda>_.
                 defer_op op None))
             | None \<Rightarrow> finish op Succeeded None (set_lifecycle (o_instance_id op) Deleted)))))"

definition delete_all_credentials ::
  "'w worker \<Rightarrow> string \<Rightarrow> op_row \<Rightarrow> string list \<Rightarrow> ('w sys, unit) action" where
  "delete_all_credentials w ns op secrets =
     mfor secrets (\<lambda>s. deleteCredentials (wk_kube w) ns s (o_project_id op) (js_name (o_instance_id op)))"

definition revoke_credentials :: "string option \<Rightarrow> (database, unit) action" where
  "revoke_credentials iid = tx_put (\<lambda>d. d\<lparr>db_credentials :=
     sql_update (\<lambda>c. Some (c_instance_id c) = iid) (\<lambda>c. c\<lparr>c_state := CredRevoked\<rparr>) (db_credentials d)\<rparr>)"

definition record_policy :: "op_row \<Rightarrow> string \<Rightarrow> ('w sys, unit) action" where
  "record_policy op policy = exec_sql (\<lambda>now d. d\<lparr>db_operations :=
     sql_update (\<lambda>r. owns op r \<and> lease_live now (o_lease_until r))
       (\<lambda>r. r\<lparr>o_request := (o_request r)\<lparr>rq_deletionPolicy := Some policy\<rparr>\<rparr>) (db_operations d)\<rparr>)"

definition execute_delete :: "'w worker \<Rightarrow> op_row \<Rightarrow> ('w sys, unit) action" where
  "execute_delete w op =
     (let rq = o_request op in
      if \<not> (truthy (rq_namespace rq) \<and> truthy (rq_name rq) \<and> truthy (rq_uid rq)) then op_error ''invalid_operation''
      else
        let ns = the (rq_namespace rq); name = the (rq_name rq); uid = the (rq_uid rq)
        in mbind (getInstance (wk_kube w) ns name) (\<lambda>current.
             case current of
               Some x \<Rightarrow>
                 mbind (mthrow_if (om_uid (co_metadata x) \<noteq> Some uid) (OperationError ''instance_identity_conflict'' False)) (\<lambda>_.
                 let policy = st_deletionPolicy (sp_storage (co_spec x)) in
                 mbind (mthrow_if (truthy (rq_deletionPolicy rq) \<and> rq_deletionPolicy rq \<noteq> Some policy)
                          (OperationError ''deletion_policy_changed'' False)) (\<lambda>_.
                 mbind (record_policy op policy) (\<lambda>_.
                 mbind (deleteInstance (wk_kube w) ns name uid) (\<lambda>_.
                 defer_op op None))))
             | None \<Rightarrow>
                 let policy = (case rq_deletionPolicy rq of None \<Rightarrow> ''Retain'' | Some p \<Rightarrow> p) in
                 mbind (query (\<lambda>_ d. map c_secret_name (filter (\<lambda>c. Some (c_instance_id c) = o_instance_id op) (db_credentials d)))) (\<lambda>creds.
                 mbind (delete_all_credentials w ns op creds) (\<lambda>_.
                 finish op Succeeded None
                   (mbind (set_lifecycle (o_instance_id op) (if policy = ''Delete'' then Deleted else Detached)) (\<lambda>_.
                    revoke_credentials (o_instance_id op)))))))"

definition creates :: "op_row \<Rightarrow> bool" where
  "creates op \<longleftrightarrow> o_kind op = InstanceCreate \<or> o_kind op = InstanceReclaim"

definition check_reclaim_volume :: "'w worker \<Rightarrow> op_row \<Rightarrow> cache_object \<Rightarrow> ('w sys, unit) action" where
  "check_reclaim_volume w op desired =
     (let rq = o_request op in
      if \<not> (truthy (rq_previousInstanceUID rq) \<and> truthy (rq_volumeUid rq) \<and> truthy (o_instance_id op))
      then op_error ''invalid_reclaim_request''
      else mbind (getRetainedVolume (wk_kube w)
             \<lparr>rv_namespace = om_namespace (co_metadata desired), rv_name = om_name (co_metadata desired),
              rv_projectId = o_project_id op, rv_instanceId = the (o_instance_id op),
              rv_instanceUid = the (rq_previousInstanceUID rq)\<rparr>) (\<lambda>volume.
           mthrow_if (case volume of None \<Rightarrow> True
               | Some v \<Rightarrow> Some (vo_uid v) \<noteq> rq_volumeUid rq \<or> vo_deleting v \<or> vo_phase v \<noteq> ''Bound'' \<or>
                   vo_storageClass v \<noteq> st_className (sp_storage (co_spec desired)))
             (OperationError ''volume_identity_conflict'' False)))"

definition provide_credentials :: "'w worker \<Rightarrow> op_row \<Rightarrow> cache_object \<Rightarrow> ('w sys, unit) action" where
  "provide_credentials w op desired =
     (case o_secret_payload op of
        None \<Rightarrow> op_error ''credentials_unavailable''
      | Some payload \<Rightarrow>
          mbind (mlift (unseal (wk_decrypt w) (wk_key w) (o_id op) payload)) (\<lambda>data.
          ensureCredentials (wk_kube w) (om_namespace (co_metadata desired))
            (ac_credentialsSecretRef (sp_access (co_spec desired))) (o_project_id op)
            (js_name (o_instance_id op)) (o_id op) data))"

definition submit :: "'w worker \<Rightarrow> op_row \<Rightarrow> cache_object \<Rightarrow> ('w sys, op_row \<times> cache_object) action" where
  "submit w op desired =
     mbind (if o_kind op = InstanceReclaim then check_reclaim_volume w op desired else mret ()) (\<lambda>_.
     mbind (if creates op then ensureProject (wk_kube w) (om_namespace (co_metadata desired)) (o_project_id op) else mret ()) (\<lambda>_.
     mbind (if creates op \<or> o_kind op = InstanceRotate then provide_credentials w op desired else mret ()) (\<lambda>_.
     mbind (if creates op then createInstance (wk_kube w) desired
            else (case rq_expectedRevision (o_request op) of
                    None \<Rightarrow> op_error ''invalid_operation''
                  | Some expected \<Rightarrow> if expected = [] then op_error ''invalid_operation''
                                else updateInstance (wk_kube w) desired expected)) (\<lambda>object.
     mbind (bind op object) (\<lambda>op'. mret (op', object))))))"

definition recoverable :: "op_row \<Rightarrow> cache_object \<Rightarrow> cache_object \<Rightarrow> bool" where
  "recoverable op desired current \<longleftrightarrow>
     \<not> deleting current \<and> om_name (co_metadata current) = om_name (co_metadata desired) \<and>
     om_namespace (co_metadata current) = om_namespace (co_metadata desired) \<and>
     co_apiVersion current = co_apiVersion desired \<and> co_kind current = co_kind desired \<and>
     annotation current opKey = Some (o_id op) \<and> annotation current hashKey = annotation desired hashKey \<and>
     list_all (\<lambda>(k, v). label_of current k = Some v)
       (case om_labels (co_metadata desired) of None \<Rightarrow> [] | Some ls \<Rightarrow> ls) \<and>
     spec_eq (co_spec current) (co_spec desired)"

definition resume :: "'w worker \<Rightarrow> op_row \<Rightarrow> cache_object \<Rightarrow> ('w sys, op_row \<times> cache_object) action" where
  "resume w op desired =
     mbind (getInstance (wk_kube w) (om_namespace (co_metadata desired)) (om_name (co_metadata desired))) (\<lambda>current.
       case current of
         None \<Rightarrow> op_error ''instance_disappeared''
       | Some x \<Rightarrow>
           if creates op \<and> o_target_generation op = None then
             mbind (mthrow_if (\<not> recoverable op desired x) (OperationError ''instance_recovery_conflict'' False)) (\<lambda>_.
             mbind (bind op x) (\<lambda>op'. mret (op', x)))
           else mret (op, x))"

definition approve_reclaim :: "'w worker \<Rightarrow> op_row \<Rightarrow> cache_object \<Rightarrow> cache_object \<Rightarrow> ('w sys, unit) action" where
  "approve_reclaim w op desired object =
     (let rc = st_reclaim (sp_storage (co_spec desired)) in
      case approveRetainedVolumeReclaim (wk_kube w) of
        None \<Rightarrow> op_error ''invalid_reclaim_request''
      | Some approve \<Rightarrow>
          if map_option previousInstanceUID rc \<noteq> rq_previousInstanceUID (o_request op) \<or>
             map_option volumeUID rc \<noteq> rq_volumeUid (o_request op) \<or> \<not> truthy (om_uid (co_metadata object))
          then op_error ''invalid_reclaim_request''
          else approve desired (the (om_uid (co_metadata object))))"

definition identity_matches :: "op_row \<Rightarrow> cache_object \<Rightarrow> database \<Rightarrow> bool" where
  "identity_matches op object d \<longleftrightarrow>
     (let row = sql_first (\<lambda>b. Some (b_id b) = o_instance_id op) (db_bindings d) in
      (case (om_uid (co_metadata object), row) of
         (None, None) \<Rightarrow> True
       | (Some u, Some b) \<Rightarrow> b_kubernetes_uid b = Some u
       | _ \<Rightarrow> False) \<and>
      Some (sp_instanceId (co_spec object)) = o_instance_id op \<and> sp_projectId (co_spec object) = o_project_id op)"

definition ready_condition :: "cache_object \<Rightarrow> condition option" where
  "ready_condition object =
     (case co_status object of
        None \<Rightarrow> None
      | Some st \<Rightarrow>
          (case cs_conditions st of
             None \<Rightarrow> None
           | Some cs \<Rightarrow> sql_first (\<lambda>c. cn_type c = ''Ready'' \<and>
               cn_observedGeneration c = om_generation (co_metadata object)) cs))"

definition settled :: "cache_object \<Rightarrow> bool" where
  "settled object \<longleftrightarrow>
     (case co_status object of None \<Rightarrow> None | Some st \<Rightarrow> cs_observedGeneration st) = om_generation (co_metadata object) \<and>
     (if sp_desiredState (co_spec object) = ''Suspended''
      then map_option cn_reason (ready_condition object) = Some ''Suspended''
      else map_option cn_status (ready_condition object) = Some ''True'')"

definition old_secrets :: "op_row \<Rightarrow> string \<Rightarrow> database \<Rightarrow> string list" where
  "old_secrets op secret d =
     (case sql_first (\<lambda>c. Some (c_instance_id c) = o_instance_id op \<and> c_secret_name c = secret) (db_credentials d) of
        None \<Rightarrow> []
      | Some cur \<Rightarrow> map c_secret_name (filter (\<lambda>c. Some (c_instance_id c) = o_instance_id op \<and>
          c_revision c < c_revision cur) (db_credentials d)))"

definition activate :: "op_row \<Rightarrow> cache_object \<Rightarrow> (database, unit) action" where
  "activate op desired =
     mbind (tx_put (\<lambda>d. d\<lparr>db_bindings := sql_update (\<lambda>b. Some (b_id b) = o_instance_id op)
       (\<lambda>b. b\<lparr>b_lifecycle := Active, b_display_name := js_name (annotation desired displayNameKey)\<rparr>) (db_bindings d)\<rparr>)) (\<lambda>_.
     tx_put (\<lambda>d. d\<lparr>db_credentials := sql_update (\<lambda>c. Some (c_instance_id c) = o_instance_id op)
       (\<lambda>c. c\<lparr>c_state := (if c_secret_name c = ac_credentialsSecretRef (sp_access (co_spec desired))
          then CredActive else CredRevoked)\<rparr>) (db_credentials d)\<rparr>))"

definition conclude :: "'w worker \<Rightarrow> op_row \<Rightarrow> cache_object \<Rightarrow> cache_object \<Rightarrow> ('w sys, unit) action" where
  "conclude w op desired object =
     mbind (query (\<lambda>_ d. identity_matches op object d)) (\<lambda>same.
     mbind (mthrow_if (\<not> same) (OperationError ''instance_identity_conflict'' False)) (\<lambda>_.
     mbind (mthrow_if (om_generation (co_metadata object) \<noteq> Some (case o_target_generation op of None \<Rightarrow> 0 | Some g \<Rightarrow> g) \<or>
               annotation object opKey \<noteq> Some (o_id op))
              (OperationError ''instance_configuration_superseded'' True)) (\<lambda>_.
       if settled object then
         mbind (if o_kind op = InstanceRotate \<or> o_kind op = InstanceReclaim
                then mbind (query (\<lambda>_ d. old_secrets op (ac_credentialsSecretRef (sp_access (co_spec desired))) d)) (\<lambda>old.
                     delete_all_credentials w (om_namespace (co_metadata desired)) op old)
                else mret ()) (\<lambda>_.
         finish op Succeeded None (activate op desired))
       else (case ready_condition object of
               Some c \<Rightarrow> if cn_reason c = ''InvalidConfiguration'' \<or> cn_reason c = ''CredentialsRejected''
                          then op_error (''controller_'' @ cn_reason c) else defer_op op None
             | None \<Rightarrow> defer_op op None))))"

definition execute_instance :: "'w worker \<Rightarrow> op_row \<Rightarrow> ('w sys, unit) action" where
  "execute_instance w op =
     (if o_kind op \<notin> {InstanceCreate, InstanceReclaim, InstanceUpdate, InstanceRotate}
      then op_error ''unsupported_operation''
      else
        (case rq_desired (o_request op) of
           None \<Rightarrow> op_error ''invalid_operation''
         | Some desired \<Rightarrow>
             mbind (if o_state op \<noteq> Reconciling then submit w op desired else resume w op desired) (\<lambda>(op', object).
             mbind (if o_kind op = InstanceReclaim then approve_reclaim w op' desired object else mret ()) (\<lambda>_.
             conclude w op' desired object))))"

definition gated :: "op_row \<Rightarrow> bool" where
  "gated op \<longleftrightarrow> o_kind op \<in> {InstanceCreate, InstanceReclaim, InstanceUpdate, InstanceRotate}"

definition execute :: "'w worker \<Rightarrow> op_row \<Rightarrow> ('w sys, unit) action" where
  "execute w op =
     mbind (case wk_quotaGate w of
              Some gate \<Rightarrow> if gated op then gate (o_project_id op) else mret True
            | None \<Rightarrow> mret True) (\<lambda>ready.
       if \<not> ready then defer_op op (Some ''project_quota_not_ready'')
       else if o_kind op = ProjectCreate then execute_project w op
       else if o_kind op = VolumeDelete then execute_volume_delete w op
       else if o_kind op = InstanceDelete then execute_delete w op
       else execute_instance w op)"

section \<open>A step of the worker\<close>

definition handle_error :: "op_row \<Rightarrow> error \<Rightarrow> ('w sys, unit) action" where
  "handle_error op e =
     (case e of
        OperationError code superseded \<Rightarrow>
          finish op (if superseded then Superseded else OpFailed) (Some code) (mret ())
      | _ \<Rightarrow>
          (case statusCode e of
             Some (CodeNum n) \<Rightarrow>
               if n = 400 \<or> n = 403 \<or> n = 422
               then finish op OpFailed (Some (''kubernetes_'' @ show_int n)) (mret ())
               else defer_op op (Some ''kubernetes_unavailable'')
           | _ \<Rightarrow> defer_op op (Some ''kubernetes_unavailable'')))"

text \<open>The \<open>try\<close> block of \<open>tick\<close>.\<close>

definition attempt :: "'w worker \<Rightarrow> op_row \<Rightarrow> ('w sys, unit) action" where
  "attempt w op =
     mcatch
       (mbind (mget sys_now) (\<lambda>now.
        mbind (mthrow_if (o_deadline_at op < now) (OperationError ''operation_deadline_exceeded'' False)) (\<lambda>_.
        execute w op)))
       (handle_error op)"

definition tick :: "'w worker \<Rightarrow> string \<Rightarrow> ('w sys, bool) action" where
  "tick w claim =
     mbind (transaction (claim_operation claim)) (\<lambda>operation.
       case operation of
         None \<Rightarrow> mret False
       | Some op \<Rightarrow> mbind (attempt w op) (\<lambda>_. mret True))"

end
