(* ===== verification/Instance_Routes.thy ===== *)
theory Instance_Routes
  imports Json_Text Project_Routes Worker
begin

text \<open>
  The routes of instance-routes.ts. A handler reads the request, checks access, may look at the
  cluster, and then accepts the request in one transaction that re-checks access under the
  authorization lock, looks for an earlier request with the same idempotency key, and records the
  operation; those transactions are the definitions \<open>..._tx\<close>. Random values are the fields of
  \<open>randoms\<close>; bcrypt and AES-GCM are fields of the options.
\<close>

section \<open>Options, replies and request hashes\<close>

record 'w instance_options =
  io_kube :: "'w kube_port option"
  io_encryptionKey :: "string option"
  io_storageClass :: "string option"
  io_templates :: template_options
  io_hash :: "string \<Rightarrow> string \<Rightarrow> string"
  io_cipher :: cipher

record randoms =
  rn_id :: string
  rn_operationId :: string
  rn_password :: string
  rn_probePassword :: string
  rn_salt :: string
  rn_probeSalt :: string
  rn_nonce :: string

record op_summary =
  os_id :: string
  os_project_id :: string
  os_instance_id :: "string option"
  os_kind :: op_kind
  os_state :: op_state
  os_target_generation :: "int option"
  os_error_code :: "string option"
  os_created_at :: int
  os_updated_at :: int

definition opSummary :: "op_row \<Rightarrow> op_summary" where
  "opSummary r = \<lparr>os_id = o_id r, os_project_id = o_project_id r, os_instance_id = o_instance_id r,
     os_kind = o_kind r, os_state = o_state r, os_target_generation = o_target_generation r,
     os_error_code = o_error_code r, os_created_at = o_created_at r, os_updated_at = o_updated_at r\<rparr>"

record accepted =
  rp_operation :: op_summary
  rp_replayed :: bool
  rp_password :: "string option"

abbreviation replied :: "op_summary \<Rightarrow> accepted" where
  "replied x \<equiv> \<lparr>rp_operation = x, rp_replayed = True, rp_password = None\<rparr>"

abbreviation started :: "op_row \<Rightarrow> string option \<Rightarrow> accepted" where
  "started r pw \<equiv> \<lparr>rp_operation = opSummary r, rp_replayed = False, rp_password = pw\<rparr>"

definition input_json :: "instance_input \<Rightarrow> json" where
  "input_json x = JObj ([(''name'', JStr (in_name x)), (''storageGiB'', JNum (of_int (in_storageGiB x))),
     (''cpuMillis'', JNum (of_int (in_cpuMillis x))), (''memoryMiB'', JNum (of_int (in_memoryMiB x))),
     (''exposure'', JStr (in_exposure x)), (''desiredState'', JStr (in_desiredState x)),
     (''deletionPolicy'', JStr (in_deletionPolicy x)), (''template'', JStr (in_template x))] @
     (case in_readOnly x of None \<Rightarrow> [] | Some b \<Rightarrow> [(''readOnly'', JBool b)]) @
     [(''cacheGiB'', JNum (of_int (in_cacheGiB x)))])"

definition request_hash :: "'w app_env \<Rightarrow> json \<Rightarrow> string" where
  "request_hash env v = en_digest env (json_text v)"

section \<open>Shared steps\<close>

definition kube :: "'w instance_options \<Rightarrow> ('s, 'w kube_port) action" where
  "kube opts = (case io_kube opts of
     None \<Rightarrow> http_error 503 ''Kubernetes connection is not configured'' | Some k \<Rightarrow> mret k)"

definition find_binding :: "database \<Rightarrow> string \<Rightarrow> string \<Rightarrow> (binding_row \<times> project_row) option" where
  "find_binding d pid iid =
     (case sql_first (\<lambda>b. b_project_id b = pid \<and> b_id b = iid) (db_bindings d) of
        None \<Rightarrow> None
      | Some b \<Rightarrow> map_option (\<lambda>p. (b, p)) (find_project d (b_project_id b)))"

definition binding :: "string \<Rightarrow> string \<Rightarrow> ('w sys, binding_row \<times> project_row) action" where
  "binding pid iid =
     mbind (query (\<lambda>_ d. find_binding d pid iid)) (\<lambda>found.
     case found of None \<Rightarrow> http_error 404 ''Instance not found'' | Some bp \<Rightarrow> mret bp)"

definition foreign_object :: "binding_row \<Rightarrow> cache_object \<Rightarrow> bool" where
  "foreign_object b c \<longleftrightarrow>
     sp_instanceId (co_spec c) \<noteq> b_id b \<or> sp_projectId (co_spec c) \<noteq> b_project_id b \<or>
     tr_name (sp_templateRef (co_spec c)) \<noteq> b_template_name b \<or>
     (b_template_version b \<noteq> None \<and> Some (tr_version (sp_templateRef (co_spec c))) \<noteq> b_template_version b) \<or>
     (truthy (b_kubernetes_uid b) \<and> om_uid (co_metadata c) \<noteq> b_kubernetes_uid b)"

definition readOwned :: "'w instance_options \<Rightarrow> binding_row \<times> project_row \<Rightarrow> ('w sys, cache_object option) action" where
  "readOwned opts bp =
     (case bp of (b, p) \<Rightarrow>
       mbind (mcatch (mbind (kube opts) (\<lambda>k. getInstance k (p_namespace p) (b_resource_name b)))
                (\<lambda>_. http_error 503 ''Kubernetes state is temporarily unavailable'')) (\<lambda>c.
       mbind (mthrow_if (case c of None \<Rightarrow> False | Some x \<Rightarrow> foreign_object b x)
         (HttpError 409 ''Kubernetes resource identity conflict'')) (\<lambda>_.
       mret c)))"

definition replay :: "string \<Rightarrow> op_kind \<Rightarrow> string \<Rightarrow> string \<Rightarrow> (database, op_summary option) action" where
  "replay pid kind key requestHash =
     mbind (tx_get (\<lambda>d. sql_first (\<lambda>r. o_project_id r = pid \<and> o_kind r = kind \<and> o_idempotency_key r = key)
              (db_operations d))) (\<lambda>found.
     case found of
       None \<Rightarrow> mret None
     | Some r \<Rightarrow>
         mbind (mthrow_if (o_request_hash r \<noteq> requestHash)
           (HttpError 409 ''Idempotency key was already used for another request'')) (\<lambda>_.
         mret (Some (opSummary r))))"

definition lockProject :: "string \<Rightarrow> actor \<Rightarrow> role list \<Rightarrow> (database, project_row) action" where
  "lockProject pid actor roles =
     mbind (tx_get (\<lambda>d. (find_project d pid, may_act d (ac_id actor) pid roles))) (\<lambda>(project, allowed).
     mbind (mthrow_if (\<not> allowed) (HttpError 403 ''Permission denied'')) (\<lambda>_.
     case project of None \<Rightarrow> http_error 404 ''Project not found'' | Some p \<Rightarrow> mret p))"

text \<open>The transaction that answers an earlier request before the cluster is asked.\<close>

definition replay_tx :: "string \<Rightarrow> actor \<Rightarrow> role list \<Rightarrow> op_kind \<Rightarrow> string \<Rightarrow> string \<Rightarrow> int \<Rightarrow> (database, op_summary option) action" where
  "replay_tx pid actor roles kind key h now =
     mbind (lockProject pid actor roles) (\<lambda>_. replay pid kind key h)"

definition credential_data :: "'w instance_options \<Rightarrow> randoms \<Rightarrow> strmap" where
  "credential_data opts rn =
     [(''htpasswd'', ''cache:'' @ io_hash opts (rn_password rn) (rn_salt rn) @ [CHR 0x0A] @
        ''health:'' @ io_hash opts (rn_probePassword rn) (rn_probeSalt rn) @ [CHR 0x0A]),
      (''probe-username'', ''health''), (''probe-password'', rn_probePassword rn)]"

definition sealed :: "'w instance_options \<Rightarrow> randoms \<Rightarrow> string" where
  "sealed opts rn = seal (io_cipher opts) (case io_encryptionKey opts of None \<Rightarrow> [] | Some k \<Rightarrow> k)
     (rn_operationId rn) (credential_data opts rn) (rn_nonce rn)"

definition insert_credential :: "cred_row \<Rightarrow> (database, unit) action" where
  "insert_credential row d =
     (if list_ex (\<lambda>c. c_instance_id c = c_instance_id row \<and> c_secret_name c = c_secret_name row) (db_credentials d)
      then (d, Inl (PgError ''23505'')) else (d\<lparr>db_credentials := db_credentials d @ [row]\<rparr>, Inr ()))"

text \<open>\<open>INSERT ... SELECT coalesce(max(revision),0)+1 FROM instance_credentials WHERE instance_id=$2\<close>\<close>

definition next_credential :: "string \<Rightarrow> string \<Rightarrow> (database, unit) action" where
  "next_credential iid secretName =
     mbind (tx_get (\<lambda>d. fold max (map c_revision (filter (\<lambda>c. c_instance_id c = iid) (db_credentials d))) 0)) (\<lambda>latest.
     insert_credential \<lparr>c_instance_id = iid, c_name = ''default'', c_secret_name = secretName,
       c_revision = latest + 1, c_state = CredPending\<rparr>)"

definition etag :: "nat \<Rightarrow> http_request \<Rightarrow> ('s, string) action" where
  "etag lo req =
     mbind (parse (z_check z_string (text_within lo 200)) (header (hr_if_match req))) (\<lambda>v. mret (strip_quotes v))"

definition retains_storage :: "binding_row \<Rightarrow> bool" where
  "retains_storage b \<longleftrightarrow> (b_lifecycle b = Detached \<or> b_lifecycle b = Failed) \<and> truthy (b_kubernetes_uid b)"

abbreviation uid_text :: "binding_row \<Rightarrow> string" where
  "uid_text b \<equiv> (case b_kubernetes_uid b of None \<Rightarrow> [] | Some u \<Rightarrow> u)"

definition retained_identity_of :: "binding_row \<times> project_row \<Rightarrow> retained_identity" where
  "retained_identity_of bp = (case bp of (b, p) \<Rightarrow>
     \<lparr>rv_namespace = p_namespace p, rv_name = b_resource_name b, rv_projectId = b_project_id b,
      rv_instanceId = b_id b, rv_instanceUid = uid_text b\<rparr>)"

definition read_volume :: "'w kube_port \<Rightarrow> binding_row \<times> project_row \<Rightarrow> ('w sys, retained_volume option) action" where
  "read_volume k bp = mcatch (getRetainedVolume k (retained_identity_of bp))
     (\<lambda>e. case e of OperationError c _ \<Rightarrow> http_error 409 c
        | _ \<Rightarrow> http_error 503 ''Storage observation is temporarily unavailable'')"

section \<open>Reading routes\<close>

record instance_view =
  iv_binding :: binding_row
  iv_templateVersion :: "string option"
  iv_capabilities :: "capabilities option"
  iv_clientProfiles :: "client_profile list"
  iv_revision :: "string option"
  iv_spec :: "cache_spec option"
  iv_status :: "cache_status option"
  iv_observedAt :: int

abbreviation anyone :: "role list" where "anyone \<equiv> [Admin, Maintainer, Viewer]"

definition list_templates ::
  "'w app_env \<Rightarrow> (instance_input schema \<Rightarrow> json) \<Rightarrow> 'w instance_options \<Rightarrow> http_request \<Rightarrow> ('w sys, catalog_entry list) action" where
  "list_templates env toSchema opts req =
     mbind (user env req) (\<lambda>_. mret (templateCatalog toSchema (io_templates opts)))"

text \<open>\<open>ORDER BY created_at DESC LIMIT n\<close>\<close>

definition newest_first :: "nat \<Rightarrow> ('r \<Rightarrow> int) \<Rightarrow> 'r list \<Rightarrow> 'r list" where
  "newest_first n stamp rows = take n (sort_key (\<lambda>r. - stamp r) rows)"

definition list_instances :: "'w app_env \<Rightarrow> http_request \<Rightarrow> string \<Rightarrow> ('w sys, binding_row list) action" where
  "list_instances env req projectId =
     mbind (parse_uuid env projectId) (\<lambda>pid.
     mbind (projectAccess env req pid anyone) (\<lambda>_.
     mbind (pause env) (\<lambda>_.
     query (\<lambda>_ d. newest_first 200 b_created_at (filter (\<lambda>b. b_project_id b = pid) (db_bindings d))))))"

definition get_instance :: "'w app_env \<Rightarrow> 'w instance_options \<Rightarrow> http_request \<Rightarrow> string \<Rightarrow> string \<Rightarrow> ('w sys, instance_view) action" where
  "get_instance env opts req projectId instanceId =
     mbind (parse_uuid env projectId) (\<lambda>pid.
     mbind (parse_uuid env instanceId) (\<lambda>iid.
     mbind (projectAccess env req pid anyone) (\<lambda>_.
     mbind (pause env) (\<lambda>_.
     mbind (binding pid iid) (\<lambda>bp.
     mbind (readOwned opts bp) (\<lambda>c.
     mbind (query (\<lambda>now _. now)) (\<lambda>now.
     let b = fst bp;
         name = (case c of None \<Rightarrow> b_template_name b | Some x \<Rightarrow> tr_name (sp_templateRef (co_spec x)));
         version = (case c of None \<Rightarrow> b_template_version b | Some x \<Rightarrow> Some (tr_version (sp_templateRef (co_spec x))))
     in mret \<lparr>iv_binding = b, iv_templateVersion = version, iv_capabilities = instanceCapabilities name version,
          iv_clientProfiles = clientProfiles name version, iv_revision = map_option revision c,
          iv_spec = map_option co_spec c, iv_status = (case c of None \<Rightarrow> None | Some x \<Rightarrow> co_status x),
          iv_observedAt = now\<rparr>)))))))"

definition get_retained_volume :: "'w app_env \<Rightarrow> 'w instance_options \<Rightarrow> http_request \<Rightarrow> string \<Rightarrow> string \<Rightarrow> ('w sys, retained_volume) action" where
  "get_retained_volume env opts req projectId instanceId =
     mbind (parse_uuid env projectId) (\<lambda>pid.
     mbind (parse_uuid env instanceId) (\<lambda>iid.
     mbind (projectAccess env req pid anyone) (\<lambda>_.
     mbind (pause env) (\<lambda>_.
     mbind (binding pid iid) (\<lambda>bp.
     mbind (mthrow_if (\<not> retains_storage (fst bp)) (HttpError 409 ''Instance does not have retained storage'')) (\<lambda>_.
     mbind (mcatch (mbind (kube opts) (\<lambda>k. getInstance k (p_namespace (snd bp)) (b_resource_name (fst bp))))
       (\<lambda>_. http_error 503 ''Kubernetes instance observation is unavailable'')) (\<lambda>current.
     mbind (mthrow_if (current \<noteq> None)
       (HttpError 409 ''An instance still exists; recover or remove it before managing retained storage'')) (\<lambda>_.
     mbind (kube opts) (\<lambda>k.
     mbind (read_volume k bp) (\<lambda>volume.
     case volume of None \<Rightarrow> http_error 404 ''Retained volume no longer exists'' | Some v \<Rightarrow> mret v))))))))))"

definition list_operations :: "'w app_env \<Rightarrow> http_request \<Rightarrow> string \<Rightarrow> ('w sys, op_summary list) action" where
  "list_operations env req projectId =
     mbind (parse_uuid env projectId) (\<lambda>pid.
     mbind (projectAccess env req pid anyone) (\<lambda>_.
     mbind (pause env) (\<lambda>_.
     query (\<lambda>_ d. map opSummary (newest_first 100 o_created_at (filter (\<lambda>r. o_project_id r = pid) (db_operations d)))))))"

definition get_operation :: "'w app_env \<Rightarrow> http_request \<Rightarrow> string \<Rightarrow> string \<Rightarrow> ('w sys, op_summary) action" where
  "get_operation env req projectId operationId =
     mbind (parse_uuid env projectId) (\<lambda>pid.
     mbind (parse_uuid env operationId) (\<lambda>oid.
     mbind (projectAccess env req pid anyone) (\<lambda>_.
     mbind (pause env) (\<lambda>_.
     mbind (query (\<lambda>_ d. sql_first (\<lambda>r. o_project_id r = pid \<and> o_id r = oid) (db_operations d))) (\<lambda>found.
     case found of None \<Rightarrow> http_error 404 ''Operation not found'' | Some r \<Rightarrow> mret (opSummary r))))))"

section \<open>Creating an instance\<close>

definition insert_binding :: "binding_row \<Rightarrow> (database, unit) action" where
  "insert_binding row d =
     (if list_ex (\<lambda>b. b_id b = b_id row \<or> (b_project_id b = b_project_id row \<and> b_resource_name b = b_resource_name row)) (db_bindings d)
      then (d, Inl (PgError ''23505'')) else (d\<lparr>db_bindings := db_bindings d @ [row]\<rparr>, Inr ()))"

definition new_binding :: "string \<Rightarrow> string \<Rightarrow> string \<Rightarrow> string \<Rightarrow> string \<Rightarrow> string \<Rightarrow> string \<Rightarrow> int \<Rightarrow> binding_row" where
  "new_binding iid pid name display creator template version now =
     \<lparr>b_id = iid, b_project_id = pid, b_resource_name = name, b_kubernetes_uid = None, b_lifecycle = Pending,
      b_created_by = creator, b_created_at = now, b_display_name = display, b_template_name = template,
      b_template_version = Some version, b_reserved_storage_gib = None, b_reserved_cpu_millis = None,
      b_reserved_memory_mib = None\<rparr>"

definition create_tx ::
  "'w instance_options \<Rightarrow> randoms \<Rightarrow> actor \<Rightarrow> string \<Rightarrow> instance_input \<Rightarrow> string \<Rightarrow> string \<Rightarrow> string \<Rightarrow> int \<Rightarrow> (database, accepted) action" where
  "create_tx opts rn actor pid input storageClass key requestHash now =
     mbind (lockProject pid actor [Admin, Maintainer]) (\<lambda>project.
     mbind (replay pid InstanceCreate key requestHash) (\<lambda>existing.
     case existing of
       Some x \<Rightarrow> mret (replied x)
     | None \<Rightarrow>
         mbind (mthrow_if (in_exposure input = ''Gateway'' \<and> \<not> gatewayEnabled (io_templates opts))
           (HttpError 409 ''Gateway exposure is not enabled'')) (\<lambda>_.
         mbind (mlift (templateEnabled (in_template input) (io_templates opts))) (\<lambda>enabled.
         mbind (mthrow_if (\<not> enabled) (HttpError 409 ''Template is not enabled'')) (\<lambda>_.
         mbind (mthrow_if (p_state project \<noteq> PReady) (HttpError 409 ''Project initialization is not complete'')) (\<lambda>_.
         mbind (mlift (desiredObject input pid (p_namespace project) (rn_id rn) storageClass (rn_operationId rn) requestHash)) (\<lambda>desired.
         mbind (insert_binding (new_binding (rn_id rn) pid (om_name (co_metadata desired)) (in_name input) (ac_id actor)
                  (in_template input) (tr_version (sp_templateRef (co_spec desired))) now)) (\<lambda>_.
         mbind (reserveResources pid (rn_id rn) (input_resources input) True) (\<lambda>_.
         mbind (insert_credential \<lparr>c_instance_id = rn_id rn, c_name = ''default'',
                  c_secret_name = ac_credentialsSecretRef (sp_access (co_spec desired)), c_revision = 1, c_state = CredPending\<rparr>) (\<lambda>_.
         let row = new_operation (rn_operationId rn) pid (Some (rn_id rn)) InstanceCreate key requestHash
                     (empty_request\<lparr>rq_desired := Some desired\<rparr>) (Some (sealed opts rn)) (ac_id actor) now in
         mbind (insert_operation row) (\<lambda>_.
         mbind (audit (Some (ac_id actor)) (Some pid) (Some (rn_id rn)) (Some (rn_operationId rn)) ''instance.create'' (JObj [])) (\<lambda>_.
         mbind (tx_get (\<lambda>d. member_role d pid (ac_id actor))) (\<lambda>membership.
         mret (started row (if ac_platform_admin actor \<or> membership = Some Admin then Some (rn_password rn) else None)))))))))))))))"

definition create_instance ::
  "'w app_env \<Rightarrow> 'w instance_options \<Rightarrow> randoms \<Rightarrow> http_request \<Rightarrow> string \<Rightarrow> ('w sys, accepted) action" where
  "create_instance env opts rn req projectId =
     mbind (parse_uuid env projectId) (\<lambda>pid.
     mbind (projectAccess env req pid [Admin, Maintainer]) (\<lambda>actor.
     mbind (kube opts) (\<lambda>_.
     mbind (mthrow_if (io_encryptionKey opts = None \<or> \<not> truthy (io_storageClass opts))
       (HttpError 503 ''Instance provisioning is not configured'')) (\<lambda>_.
     mbind (parse instanceInput (hr_body req)) (\<lambda>input.
     mbind (idempotencyKey req) (\<lambda>key.
     mbind (pause env) (\<lambda>_.
     transaction (create_tx opts rn actor pid input (the (io_storageClass opts)) key (request_hash env (input_json input))))))))))"

section \<open>Updating an instance\<close>

text \<open>\<open>Number(text)\<close> for decimal text; anything else compares as NaN does.\<close>

definition js_Number :: "string \<Rightarrow> rat option" where
  "js_Number s =
     (let t = js_trim s in
      if t = [] then Some 0
      else
        let u = (if hd t = CHR ''-'' \<or> hd t = CHR ''+'' then tl t else t)
        in case match_quantity u of
             None \<Rightarrow> None
           | Some (_, _, suffix) \<Rightarrow>
               if (suffix = [] \<or> exponent_suffix suffix) \<and> hd u \<noteq> CHR ''+''
               then map_option (\<lambda>r. if hd t = CHR ''-'' then - r else r) (quantity_value u)
               else None)"

text \<open>\<open>text.replace(/Gi$/, "")\<close>\<close>

definition without_Gi :: "string \<Rightarrow> string" where
  "without_Gi s = (if 2 \<le> length s \<and> drop (length s - 2) s = ''Gi'' then take (length s - 2) s else s)"

definition shrinks :: "instance_input \<Rightarrow> cache_object \<Rightarrow> bool" where
  "shrinks input current =
     (case js_Number (without_Gi (st_capacity (sp_storage (co_spec current)))) of
        None \<Rightarrow> False | Some r \<Rightarrow> of_int (in_storageGiB input) < r)"

definition keep_creation :: "cache_object \<Rightarrow> cache_object \<Rightarrow> cache_object" where
  "keep_creation current desired =
     desired\<lparr>co_spec := (co_spec desired)\<lparr>
       sp_access := (sp_access (co_spec desired))\<lparr>ac_credentialsSecretRef := ac_credentialsSecretRef (sp_access (co_spec current))\<rparr>,
       sp_templateRef := sp_templateRef (co_spec current),
       sp_imageBindingMode := (if truthy (sp_imageBindingMode (co_spec current)) then sp_imageBindingMode (co_spec current) else None),
       sp_storage := (case st_reclaim (sp_storage (co_spec current)) of
           None \<Rightarrow> sp_storage (co_spec desired)
         | Some r \<Rightarrow> (sp_storage (co_spec desired))\<lparr>st_reclaim := Some r\<rparr>)\<rparr>\<rparr>"

definition update_tx ::
  "actor \<Rightarrow> string \<Rightarrow> string \<Rightarrow> string \<Rightarrow> instance_input \<Rightarrow> cache_object \<Rightarrow> string \<Rightarrow> string \<Rightarrow> string \<Rightarrow> int \<Rightarrow> (database, accepted) action" where
  "update_tx actor pid iid operationId input desired expected key requestHash now =
     mbind (lockProject pid actor [Admin, Maintainer]) (\<lambda>_.
     mbind (replay pid InstanceUpdate key requestHash) (\<lambda>existing.
     case existing of
       Some x \<Rightarrow> mret (replied x)
     | None \<Rightarrow>
         mbind (reserveResources pid iid (input_resources input) False) (\<lambda>_.
         let row = new_operation operationId pid (Some iid) InstanceUpdate key requestHash
                     (empty_request\<lparr>rq_desired := Some desired, rq_expectedRevision := Some expected\<rparr>) None (ac_id actor) now in
         mbind (insert_operation row) (\<lambda>_.
         mbind (audit (Some (ac_id actor)) (Some pid) (Some iid) (Some operationId) ''instance.update'' (JObj [])) (\<lambda>_.
         mret (started row None))))))"

definition update_instance ::
  "'w app_env \<Rightarrow> 'w instance_options \<Rightarrow> randoms \<Rightarrow> http_request \<Rightarrow> string \<Rightarrow> string \<Rightarrow> ('w sys, accepted) action" where
  "update_instance env opts rn req projectId instanceId =
     mbind (parse_uuid env projectId) (\<lambda>pid.
     mbind (parse_uuid env instanceId) (\<lambda>iid.
     mbind (projectAccess env req pid [Admin, Maintainer]) (\<lambda>actor.
     mbind (parse instanceInput (hr_body req)) (\<lambda>input.
     mbind (idempotencyKey req) (\<lambda>key.
     mbind (etag 3 req) (\<lambda>expected.
     let requestHash = request_hash env (JObj [(''instanceId'', JStr iid), (''input'', input_json input), (''expected'', JStr expected)]) in
     mbind (pause env) (\<lambda>_.
     mbind (transaction (replay_tx pid actor [Admin, Maintainer] InstanceUpdate key requestHash)) (\<lambda>result.
     case result of
       Some x \<Rightarrow> mret (replied x)
     | None \<Rightarrow>
         mbind (mthrow_if (in_exposure input = ''Gateway'' \<and> \<not> gatewayEnabled (io_templates opts))
           (HttpError 409 ''Gateway exposure is not enabled'')) (\<lambda>_.
         mbind (pause env) (\<lambda>_.
         mbind (binding pid iid) (\<lambda>bp.
         mbind (readOwned opts bp) (\<lambda>found.
         case found of
           None \<Rightarrow> http_error 409 ''Instance is not available for update''
         | Some current \<Rightarrow>
             mbind (mthrow_if (deleting current \<or> \<not> truthy (b_kubernetes_uid (fst bp)))
               (HttpError 409 ''Instance is not available for update'')) (\<lambda>_.
             mbind (mthrow_if (tr_name (sp_templateRef (co_spec current)) \<noteq> in_template input)
               (HttpError 400 ''Instance template cannot be changed'')) (\<lambda>_.
             mbind (mthrow_if (revision current \<noteq> expected) (HttpError 409 ''Instance configuration changed'')) (\<lambda>_.
             mbind (mthrow_if (shrinks input current) (HttpError 400 ''Storage shrinking is not supported'')) (\<lambda>_.
             mbind (mlift (desiredObject input pid (p_namespace (snd bp)) iid (st_className (sp_storage (co_spec current)))
                     (rn_operationId rn) requestHash)) (\<lambda>desired.
             transaction (update_tx actor pid iid (rn_operationId rn) input (keep_creation current desired) expected key requestHash))))))))))))))))))"

section \<open>Rotating credentials\<close>

definition rotated_object :: "cache_object \<Rightarrow> string \<Rightarrow> string \<Rightarrow> string \<Rightarrow> cache_object" where
  "rotated_object current operationId requestHash secretName =
     \<lparr>co_apiVersion = co_apiVersion current, co_kind = co_kind current,
      co_metadata = \<lparr>om_name = om_name (co_metadata current), om_namespace = om_namespace (co_metadata current),
        om_uid = None, om_generation = None, om_resourceVersion = None, om_labels = None,
        om_annotations = Some (strmap_merge (case om_annotations (co_metadata current) of None \<Rightarrow> [] | Some a \<Rightarrow> a)
          [(opKey, operationId), (hashKey, requestHash)]),
        om_deletionTimestamp = None\<rparr>,
      co_spec = (co_spec current)\<lparr>sp_access := (sp_access (co_spec current))\<lparr>ac_credentialsSecretRef := secretName\<rparr>\<rparr>,
      co_status = None\<rparr>"

definition rotate_tx ::
  "'w instance_options \<Rightarrow> randoms \<Rightarrow> actor \<Rightarrow> string \<Rightarrow> string \<Rightarrow> cache_object \<Rightarrow> string \<Rightarrow> string \<Rightarrow> string \<Rightarrow> int \<Rightarrow> (database, accepted) action" where
  "rotate_tx opts rn actor pid iid desired expected key requestHash now =
     mbind (lockProject pid actor [Admin]) (\<lambda>_.
     mbind (replay pid InstanceRotate key requestHash) (\<lambda>replayed.
     case replayed of
       Some x \<Rightarrow> mret (replied x)
     | None \<Rightarrow>
         let row = new_operation (rn_operationId rn) pid (Some iid) InstanceRotate key requestHash
                     (empty_request\<lparr>rq_desired := Some desired, rq_expectedRevision := Some expected\<rparr>)
                     (Some (sealed opts rn)) (ac_id actor) now in
         mbind (insert_operation row) (\<lambda>_.
         mbind (next_credential iid (''auth-'' @ rn_operationId rn)) (\<lambda>_.
         mbind (audit (Some (ac_id actor)) (Some pid) (Some iid) (Some (rn_operationId rn)) ''credential.rotate'' (JObj [])) (\<lambda>_.
         mret (started row (Some (rn_password rn))))))))"

definition rotate_credentials ::
  "'w app_env \<Rightarrow> 'w instance_options \<Rightarrow> randoms \<Rightarrow> http_request \<Rightarrow> string \<Rightarrow> string \<Rightarrow> ('w sys, accepted) action" where
  "rotate_credentials env opts rn req projectId instanceId =
     mbind (parse_uuid env projectId) (\<lambda>pid.
     mbind (parse_uuid env instanceId) (\<lambda>iid.
     mbind (projectAccess env req pid [Admin]) (\<lambda>actor.
     mbind (kube opts) (\<lambda>_.
     mbind (mthrow_if (io_encryptionKey opts = None) (HttpError 503 ''Credential provisioning is not configured'')) (\<lambda>_.
     mbind (idempotencyKey req) (\<lambda>key.
     mbind (etag 3 req) (\<lambda>expected.
     let requestHash = request_hash env (JObj [(''instanceId'', JStr iid), (''expected'', JStr expected)]) in
     mbind (pause env) (\<lambda>_.
     mbind (transaction (replay_tx pid actor [Admin] InstanceRotate key requestHash)) (\<lambda>existing.
     case existing of
       Some x \<Rightarrow> mret (replied x)
     | None \<Rightarrow>
         mbind (pause env) (\<lambda>_.
         mbind (binding pid iid) (\<lambda>bp.
         mbind (readOwned opts bp) (\<lambda>found.
         case found of
           None \<Rightarrow> http_error 409 ''Instance configuration changed or is unavailable''
         | Some current \<Rightarrow>
             mbind (mthrow_if (deleting current \<or> \<not> truthy (b_kubernetes_uid (fst bp)) \<or> revision current \<noteq> expected)
               (HttpError 409 ''Instance configuration changed or is unavailable'')) (\<lambda>_.
             transaction (rotate_tx opts rn actor pid iid
               (rotated_object current (rn_operationId rn) requestHash (''auth-'' @ rn_operationId rn)) expected key requestHash))))))))))))))"

section \<open>Deleting an instance or its retained volume\<close>

definition delete_tx :: "actor \<Rightarrow> string \<Rightarrow> string \<Rightarrow> string \<Rightarrow> string \<Rightarrow> string \<Rightarrow> int \<Rightarrow> (database, accepted) action" where
  "delete_tx actor pid iid operationId key requestHash now =
     mbind (lockProject pid actor [Admin]) (\<lambda>_.
     mbind (replay pid InstanceDelete key requestHash) (\<lambda>existing.
     case existing of
       Some x \<Rightarrow> mret (replied x)
     | None \<Rightarrow>
         mbind (tx_get (\<lambda>d. find_binding d pid iid)) (\<lambda>found.
         case found of
           None \<Rightarrow> http_error 404 ''Instance not found''
         | Some (b, p) \<Rightarrow>
             mbind (mthrow_if (\<not> truthy (b_kubernetes_uid b) \<or> b_lifecycle b = Deleted \<or> b_lifecycle b = Detached)
               (HttpError 409 ''Instance has no active Kubernetes binding'')) (\<lambda>_.
             let row = new_operation operationId pid (Some iid) InstanceDelete key requestHash
                         (empty_request\<lparr>rq_uid := b_kubernetes_uid b, rq_namespace := Some (p_namespace p),
                           rq_name := Some (b_resource_name b)\<rparr>) None (ac_id actor) now in
             mbind (insert_operation row) (\<lambda>_.
             mbind (set_lifecycle (Some iid) Deleting) (\<lambda>_.
             mbind (audit (Some (ac_id actor)) (Some pid) (Some iid) (Some operationId) ''instance.delete'' (JObj [])) (\<lambda>_.
             mret (started row None))))))))"

definition delete_instance ::
  "'w app_env \<Rightarrow> randoms \<Rightarrow> http_request \<Rightarrow> string \<Rightarrow> string \<Rightarrow> ('w sys, accepted) action" where
  "delete_instance env rn req projectId instanceId =
     mbind (parse_uuid env projectId) (\<lambda>pid.
     mbind (parse_uuid env instanceId) (\<lambda>iid.
     mbind (projectAccess env req pid [Admin]) (\<lambda>actor.
     mbind (idempotencyKey req) (\<lambda>key.
     mbind (pause env) (\<lambda>_.
     transaction (delete_tx actor pid iid (rn_operationId rn) key (request_hash env (JObj [(''instanceId'', JStr iid)]))))))))"

definition volume_delete_tx ::
  "actor \<Rightarrow> string \<Rightarrow> string \<Rightarrow> string \<Rightarrow> string \<Rightarrow> string \<Rightarrow> string \<Rightarrow> int \<Rightarrow> (database, accepted) action" where
  "volume_delete_tx actor pid iid operationId volumeUid key requestHash now =
     mbind (lockProject pid actor [Admin]) (\<lambda>_.
     mbind (replay pid VolumeDelete key requestHash) (\<lambda>previous.
     case previous of
       Some x \<Rightarrow> mret (replied x)
     | None \<Rightarrow>
         mbind (tx_get (\<lambda>d. find_binding d pid iid)) (\<lambda>found.
         case found of
           None \<Rightarrow> http_error 404 ''Instance not found''
         | Some (b, p) \<Rightarrow>
             mbind (mthrow_if (\<not> retains_storage b) (HttpError 409 ''Instance does not have retained storage'')) (\<lambda>_.
             let row = new_operation operationId pid (Some iid) VolumeDelete key requestHash
                         (empty_request\<lparr>rq_namespace := Some (p_namespace p), rq_name := Some (b_resource_name b),
                           rq_instanceUid := b_kubernetes_uid b, rq_uid := Some volumeUid\<rparr>) None (ac_id actor) now in
             mbind (insert_operation row) (\<lambda>_.
             mbind (audit (Some (ac_id actor)) (Some pid) (Some iid) (Some operationId) ''volume.delete''
               (JObj [(''volumeUid'', JStr volumeUid)])) (\<lambda>_.
             mret (started row None)))))))"

definition delete_retained_volume ::
  "'w app_env \<Rightarrow> 'w instance_options \<Rightarrow> randoms \<Rightarrow> http_request \<Rightarrow> string \<Rightarrow> string \<Rightarrow> ('w sys, accepted) action" where
  "delete_retained_volume env opts rn req projectId instanceId =
     mbind (parse_uuid env projectId) (\<lambda>pid.
     mbind (parse_uuid env instanceId) (\<lambda>iid.
     mbind (projectAccess env req pid [Admin]) (\<lambda>actor.
     mbind (kube opts) (\<lambda>_.
     mbind (etag 1 req) (\<lambda>volumeUid.
     mbind (idempotencyKey req) (\<lambda>key.
     mbind (pause env) (\<lambda>_.
     transaction (volume_delete_tx actor pid iid (rn_operationId rn) volumeUid key
       (request_hash env (JObj [(''instanceId'', JStr iid), (''uid'', JStr volumeUid)]))))))))))"

section \<open>Reclaiming a retained volume\<close>

definition volume_unready :: "'w instance_options \<Rightarrow> string \<Rightarrow> retained_volume \<Rightarrow> bool" where
  "volume_unready opts volumeUid v \<longleftrightarrow>
     vo_uid v \<noteq> volumeUid \<or> vo_deleting v \<or> vo_phase v \<noteq> ''Bound'' \<or> Some (vo_storageClass v) \<noteq> io_storageClass opts"

definition covers_volume :: "instance_input \<Rightarrow> retained_volume \<Rightarrow> binding_row \<Rightarrow> bool result" where
  "covers_volume input v b =
     rbind (quantityCeil (vo_capacity v) ''1Gi'') (\<lambda>requested.
     rbind (quantityCeil (vo_allocatedCapacity v) ''1Gi'') (\<lambda>allocated.
     Inr (\<not> (in_storageGiB input < max requested allocated \<or>
             in_storageGiB input < (case b_reserved_storage_gib b of None \<Rightarrow> 0 | Some n \<Rightarrow> n)))))"

definition reclaim_object :: "cache_object \<Rightarrow> string \<Rightarrow> string \<Rightarrow> string \<Rightarrow> string \<Rightarrow> cache_object" where
  "reclaim_object desired version previousUid volumeUid operationId =
     desired\<lparr>co_spec := (co_spec desired)\<lparr>
       sp_templateRef := (sp_templateRef (co_spec desired))\<lparr>tr_version := version\<rparr>,
       sp_storage := (sp_storage (co_spec desired))\<lparr>st_reclaim :=
         Some \<lparr>previousInstanceUID = previousUid, volumeUID = volumeUid\<rparr>\<rparr>,
       sp_access := (sp_access (co_spec desired))\<lparr>ac_credentialsSecretRef := ''auth-'' @ operationId\<rparr>\<rparr>\<rparr>"

definition unchanged_for_reclaim :: "instance_input \<Rightarrow> binding_row \<Rightarrow> binding_row \<Rightarrow> bool" where
  "unchanged_for_reclaim input b current \<longleftrightarrow>
     (b_lifecycle current = Detached \<or> b_lifecycle current = Failed) \<and> b_kubernetes_uid current = b_kubernetes_uid b \<and>
     b_template_name current = in_template input \<and> b_template_version current = b_template_version b \<and>
     b_reserved_storage_gib current = b_reserved_storage_gib b \<and>
     b_reserved_cpu_millis current = b_reserved_cpu_millis b \<and> b_reserved_memory_mib current = b_reserved_memory_mib b"

definition reclaim_tx ::
  "'w instance_options \<Rightarrow> randoms \<Rightarrow> actor \<Rightarrow> string \<Rightarrow> string \<Rightarrow> instance_input \<Rightarrow> binding_row \<Rightarrow> cache_object \<Rightarrow> string \<Rightarrow>
   string \<Rightarrow> string \<Rightarrow> int \<Rightarrow> (database, accepted) action" where
  "reclaim_tx opts rn actor pid iid input b desired volumeUid key requestHash now =
     mbind (lockProject pid actor [Admin]) (\<lambda>_.
     mbind (replay pid InstanceReclaim key requestHash) (\<lambda>previous.
     case previous of
       Some x \<Rightarrow> mret (replied x)
     | None \<Rightarrow>
         mbind (tx_get (\<lambda>d. sql_first (\<lambda>r. b_id r = iid \<and> b_project_id r = pid) (db_bindings d))) (\<lambda>current.
         mbind (mthrow_if (case current of None \<Rightarrow> True | Some r \<Rightarrow> \<not> unchanged_for_reclaim input b r)
           (HttpError 409 ''Instance changed during reclaim preparation'')) (\<lambda>_.
         mbind (tx_put (\<lambda>d. d\<lparr>db_bindings := sql_update (\<lambda>r. b_id r = iid)
           (\<lambda>r. raise_row (input_resources input) (r\<lparr>b_lifecycle := Pending\<rparr>)) (db_bindings d)\<rparr>)) (\<lambda>_.
         mbind (admit_quota pid) (\<lambda>_.
         let row = new_operation (rn_operationId rn) pid (Some iid) InstanceReclaim key requestHash
                     (empty_request\<lparr>rq_desired := Some desired, rq_previousInstanceUID := b_kubernetes_uid b,
                       rq_volumeUid := Some volumeUid\<rparr>) (Some (sealed opts rn)) (ac_id actor) now in
         mbind (insert_operation row) (\<lambda>_.
         mbind (next_credential iid (ac_credentialsSecretRef (sp_access (co_spec desired)))) (\<lambda>_.
         mbind (audit (Some (ac_id actor)) (Some pid) (Some iid) (Some (rn_operationId rn)) ''volume.reclaim''
           (JObj [(''previousInstanceUID'', JStr (uid_text b)), (''volumeUid'', JStr volumeUid)])) (\<lambda>_.
         mret (started row (Some (rn_password rn))))))))))))"

definition reclaim_volume ::
  "'w app_env \<Rightarrow> 'w instance_options \<Rightarrow> randoms \<Rightarrow> http_request \<Rightarrow> string \<Rightarrow> string \<Rightarrow> ('w sys, accepted) action" where
  "reclaim_volume env opts rn req projectId instanceId =
     mbind (parse_uuid env projectId) (\<lambda>pid.
     mbind (parse_uuid env instanceId) (\<lambda>iid.
     mbind (projectAccess env req pid [Admin]) (\<lambda>actor.
     mbind (mthrow_if (io_encryptionKey opts = None \<or> \<not> truthy (io_storageClass opts))
       (HttpError 503 ''Instance provisioning is not configured'')) (\<lambda>_.
     mbind (parse instanceInput (hr_body req)) (\<lambda>input.
     mbind (etag 1 req) (\<lambda>volumeUid.
     mbind (idempotencyKey req) (\<lambda>key.
     let requestHash = request_hash env (JObj [(''instanceId'', JStr iid), (''volumeUid'', JStr volumeUid), (''input'', input_json input)]) in
     mbind (pause env) (\<lambda>_.
     mbind (transaction (replay_tx pid actor [Admin] InstanceReclaim key requestHash)) (\<lambda>old.
     case old of
       Some x \<Rightarrow> mret (replied x)
     | None \<Rightarrow>
         mbind (pause env) (\<lambda>_.
         mbind (binding pid iid) (\<lambda>bp.
         let b = fst bp in
         mbind (mthrow_if (\<not> retains_storage b \<or> b_template_name b \<noteq> in_template input \<or> \<not> truthy (b_template_version b))
           (HttpError 409 ''Instance is not eligible for retained volume reclaim'')) (\<lambda>_.
         mbind (mlift (templateEnabled (in_template input) (io_templates opts))) (\<lambda>enabled.
         mbind (mthrow_if (\<not> enabled \<or> instanceCapabilities (in_template input) (b_template_version b) = None)
           (HttpError 409 ''Instance is not eligible for retained volume reclaim'')) (\<lambda>_.
         mbind (mcatch (mbind (kube opts) (\<lambda>k. getRetainedVolume k (retained_identity_of bp)))
           (\<lambda>e. case e of OperationError c _ \<Rightarrow> http_error 409 c
              | _ \<Rightarrow> http_error 503 ''Storage observation is temporarily unavailable'')) (\<lambda>volume.
         case volume of
           None \<Rightarrow> http_error 409 ''Retained volume changed or is not ready''
         | Some v \<Rightarrow>
             mbind (mthrow_if (volume_unready opts volumeUid v) (HttpError 409 ''Retained volume changed or is not ready'')) (\<lambda>_.
             mbind (mthrow_if (covers_volume input v b \<noteq> Inr True)
               (HttpError 409 ''Reclaim storage must cover the retained volume and historical reservation'')) (\<lambda>_.
             mbind (mcatch (mbind (kube opts) (\<lambda>k. getInstance k (p_namespace (snd bp)) (b_resource_name b)))
               (\<lambda>_. http_error 503 ''Kubernetes instance observation is unavailable'')) (\<lambda>existing.
             mbind (mthrow_if (existing \<noteq> None) (HttpError 409 ''An instance already exists for this retained volume'')) (\<lambda>_.
             mbind (mlift (desiredObject input pid (p_namespace (snd bp)) iid (the (io_storageClass opts))
                     (rn_operationId rn) requestHash)) (\<lambda>desired.
             transaction (reclaim_tx opts rn actor pid iid input b
               (reclaim_object desired (the (b_template_version b)) (uid_text b) volumeUid (rn_operationId rn))
               volumeUid key requestHash)))))))))))))))))))))"

section \<open>Retrying a failed operation\<close>

definition resume_row :: "int \<Rightarrow> op_row \<Rightarrow> op_row" where
  "resume_row now r = r\<lparr>o_state := Reconciling, o_error_code := None, o_worker_id := None, o_lease_until := None,
     o_next_attempt_at := now, o_deadline_at := now + 1200000, o_updated_at := now\<rparr>"

definition creating_kind :: "op_kind \<Rightarrow> bool" where
  "creating_kind k \<longleftrightarrow> k = InstanceCreate \<or> k = InstanceReclaim"

definition no_generation :: "op_row \<Rightarrow> bool" where
  "no_generation r \<longleftrightarrow> o_target_generation r = None"

definition may_resume :: "op_row \<Rightarrow> bool" where
  "may_resume r \<longleftrightarrow> o_state r = OpFailed \<and>
     (o_kind r = InstanceDelete \<or> (creating_kind (o_kind r) \<and> no_generation r) \<or>
      (o_kind r \<in> {InstanceCreate, InstanceReclaim, InstanceUpdate, InstanceRotate} \<and> \<not> no_generation r))"

definition unavailable :: "op_row \<Rightarrow> binding_row option \<Rightarrow> bool" where
  "unavailable r bound =
     (case bound of
        None \<Rightarrow> True
      | Some b \<Rightarrow>
          (\<not> (creating_kind (o_kind r) \<and> no_generation r) \<and> \<not> truthy (b_kubernetes_uid b)) \<or>
          (if o_kind r = InstanceDelete then b_lifecycle b \<noteq> Deleting \<or> rq_uid (o_request r) \<noteq> b_kubernetes_uid b
           else b_lifecycle b = Deleting \<or> b_lifecycle b = Deleted \<or> b_lifecycle b = Detached))"

definition newer_than :: "op_row \<Rightarrow> op_row \<Rightarrow> bool" where
  "newer_than r x \<longleftrightarrow> o_instance_id r \<noteq> None \<and> o_instance_id x = o_instance_id r \<and> o_id x \<noteq> o_id r \<and> o_created_at r \<le> o_created_at x"

definition resume_tx :: "actor \<Rightarrow> string \<Rightarrow> op_row \<Rightarrow> string \<Rightarrow> int \<Rightarrow> (database, unit) action" where
  "resume_tx actor pid operation key now =
     mbind (mthrow_if (\<not> may_resume operation)
       (HttpError 409 ''Only failed instance operations with a recoverable request can be resumed'')) (\<lambda>_.
     mbind (tx_get (\<lambda>d. sql_first (\<lambda>b. Some (b_id b) = o_instance_id operation) (db_bindings d))) (\<lambda>bound.
     mbind (mthrow_if (unavailable operation bound)
       (HttpError 409 ''Instance is no longer available for reconciliation'')) (\<lambda>_.
     mbind (tx_get (\<lambda>d. list_ex (newer_than operation) (db_operations d))) (\<lambda>newer.
     mbind (mthrow_if newer (HttpError 409 ''A newer instance operation exists'')) (\<lambda>_.
     mbind (tx_put (\<lambda>d. d\<lparr>db_retries := db_retries d @ [\<lparr>rt_project_id = pid, rt_idempotency_key = key, rt_operation_id = o_id operation\<rparr>]\<rparr>)) (\<lambda>_.
     mbind (write_operations (sql_update (\<lambda>r. o_id r = o_id operation) (resume_row now))) (\<lambda>_.
     mbind (mwhen (creating_kind (o_kind operation)) (set_lifecycle (o_instance_id operation) Pending)) (\<lambda>_.
     audit (Some (ac_id actor)) (Some pid) (o_instance_id operation) (Some (o_id operation)) ''operation.retry''
       (JObj [(''previousError'', case o_error_code operation of None \<Rightarrow> JNull | Some c \<Rightarrow> JStr c)])))))))))"

definition retry_tx :: "actor \<Rightarrow> string \<Rightarrow> string \<Rightarrow> string \<Rightarrow> int \<Rightarrow> (database, accepted) action" where
  "retry_tx actor pid oid key now =
     mbind (lockProject pid actor [Admin]) (\<lambda>_.
     mbind (tx_get (\<lambda>d. sql_first (\<lambda>r. rt_project_id r = pid \<and> rt_idempotency_key r = key) (db_retries d))) (\<lambda>replayed.
     mbind (mthrow_if (case replayed of None \<Rightarrow> False | Some r \<Rightarrow> rt_operation_id r \<noteq> oid)
       (HttpError 409 ''Idempotency key was already used for another request'')) (\<lambda>_.
     mbind (tx_get (\<lambda>d. sql_first (\<lambda>r. o_id r = oid \<and> o_project_id r = pid) (db_operations d))) (\<lambda>found.
     case found of
       None \<Rightarrow> http_error 404 ''Operation not found''
     | Some operation \<Rightarrow>
         mbind (mwhen (replayed = None) (resume_tx actor pid operation key now)) (\<lambda>_.
         mbind (tx_get (\<lambda>d. sql_first (\<lambda>r. o_id r = oid) (db_operations d))) (\<lambda>summary.
         case summary of
           None \<Rightarrow> http_error 404 ''Operation not found''
         | Some r \<Rightarrow> mret \<lparr>rp_operation = opSummary r, rp_replayed = (replayed \<noteq> None), rp_password = None\<rparr>))))))"

definition retry_operation ::
  "'w app_env \<Rightarrow> http_request \<Rightarrow> string \<Rightarrow> string \<Rightarrow> ('w sys, accepted) action" where
  "retry_operation env req projectId operationId =
     mbind (parse_uuid env projectId) (\<lambda>pid.
     mbind (parse_uuid env operationId) (\<lambda>oid.
     mbind (projectAccess env req pid [Admin]) (\<lambda>actor.
     mbind (idempotencyKey req) (\<lambda>key.
     mbind (pause env) (\<lambda>_.
     transaction (retry_tx actor pid oid key))))))"

end
