(* ===== verification/Accounts_Props.thy ===== *)
theory Accounts_Props
  imports Accounts
begin

text \<open>
  Correctness of accounts: the login throttle stays bounded, a session is only given to an active
  account whose password was verified and never survives a password change or deactivation, and the
  platform and every project always keep an active administrator.
\<close>

section \<open>Relations kept by the routes\<close>

context route_relation
begin

lemma keeps_changeMember:
  assumes "\<And>actor. keeps R (transaction (member_tx actor pid target role))"
  shows "keeps R (changeMember env req pid target role)"
  unfolding changeMember_def by (intro steps keeps_projectAccess assms)

lemma keeps_update_user:
  assumes "\<And>actorId targetId act. keeps R (transaction (update_user_tx actorId targetId act))"
  shows "keeps R (update_user env req userId)"
  unfolding update_user_def by (intro steps assms)

lemma keeps_updatePassword:
  assumes "\<And>actor h t p c. keeps R (transaction (password_tx env actor h t p c))"
  shows "keeps R (updatePassword env salt req targetId password current)"
  unfolding updatePassword_def by (intro steps assms)

end

section \<open>Login throttle\<close>

definition attempts_ok :: "attempts \<Rightarrow> bool" where
  "attempts_ok m \<longleftrightarrow> distinct (map fst m) \<and> length m \<le> 10000 \<and> list_all (\<lambda>(_, a). at_count a \<le> 10) m"

lemma prune_ok: "attempts_ok m \<Longrightarrow> attempts_ok (prune now m)"
proof -
  assume ok: "attempts_ok m"
  have "distinct (map fst (prune now m))"
    using ok unfolding prune_def attempts_ok_def by (simp add: distinct_map_filter)
  moreover have "length (prune now m) \<le> 10000"
    using ok length_filter_le[of "\<lambda>(_, a). \<not> at_until a < now" m]
    unfolding prune_def attempts_ok_def by linarith
  ultimately show ?thesis using ok by (auto simp: attempts_ok_def prune_def list_all_iff)
qed

lemma length_AList_update:
  "length (AList.update k v m) = (if k \<in> fst ` set m then length m else Suc (length m))"
  by (induction m) auto

lemma list_all_AList_update:
  "list_all P m \<Longrightarrow> P (k, v) \<Longrightarrow> list_all P (AList.update k v m)"
  by (induction m) auto

lemma throttle_ok: "attempts_ok m \<Longrightarrow> attempts_ok (fst (throttle now key m))"
proof -
  assume "attempts_ok m"
  then have p: "attempts_ok (prune now m)" by (rule prune_ok)
  let ?live = "prune now m"
  let ?a = "case map_of ?live key of None \<Rightarrow> \<lparr>at_count = 0, at_until = now + 60000\<rparr> | Some a \<Rightarrow> a"
  show ?thesis
  proof (cases "10 \<le> at_count ?a \<or> (map_of ?live key = None \<and> 10000 \<le> length ?live)")
    case True
    then show ?thesis using p by (simp add: throttle_def Let_def)
  next
    case False
    let ?new = "AList.update key (?a\<lparr>at_count := at_count ?a + 1\<rparr>) ?live"
    have "list_all (\<lambda>(_, a). at_count a \<le> 10) ?new"
      using p False by (intro list_all_AList_update) (auto simp: attempts_ok_def)
    moreover have "length ?new \<le> 10000"
      using p False by (auto simp: length_AList_update attempts_ok_def map_of_eq_None_iff)
    ultimately have "attempts_ok ?new"
      using p by (simp add: attempts_ok_def distinct_update)
    then show ?thesis using False by (auto simp: throttle_def Let_def)
  qed
qed

text \<open>The attempts a client has left in its current window.\<close>

definition blocked :: "int \<Rightarrow> string \<Rightarrow> attempts \<Rightarrow> bool" where
  "blocked now key m \<longleftrightarrow>
     (case map_of (prune now m) key of None \<Rightarrow> 10000 \<le> length (prune now m) | Some a \<Rightarrow> 10 \<le> at_count a)"

lemma throttle_blocked:
  "snd (throttle now key m) =
     (if blocked now key m then Inl (HttpError 429 ''Too many login attempts'') else Inr ())"
  by (auto simp: throttle_def Let_def blocked_def split: option.splits)

lemma on_sys_attempts: "ap_attempts (fst (on_sys m a)) = ap_attempts a"
  by (simp add: on_sys_def split: prod.splits)

lemma count_attempt_run:
  "count_attempt ip a =
     (a\<lparr>ap_attempts := fst (throttle (sys_now (ap_sys a)) ip (ap_attempts a))\<rparr>,
      snd (throttle (sys_now (ap_sys a)) ip (ap_attempts a)))"
  by (simp add: count_attempt_def split: prod.splits)

text \<open>The login throttle is bounded and effective: whatever the request, a login attempt keeps
  the throttle table free of duplicates, at no more than ten thousand clients and ten attempts each;
  and a client that has used its ten attempts in a running window (or a new client when the table is
  full) is answered 429 before the database is read.\<close>

theorem login_throttled:
  assumes "attempts_ok (ap_attempts a)"
  shows "attempts_ok (ap_attempts (fst (login env dummyHash sessionToken csrf req a))) \<and>
    (blocked (sys_now (ap_sys a)) (hr_ip req) (ap_attempts a) \<longrightarrow>
       ap_sys (fst (login env dummyHash sessionToken csrf req a)) = ap_sys a \<and>
       snd (login env dummyHash sessionToken csrf req a) \<in>
         {Inl ZodError, Inl (HttpError 429 ''Too many login attempts'')})"
proof (cases "loginBody env (hr_body req)")
  case None
  then show ?thesis using assms by (simp add: login_def mbind_def)
next
  case (Some body)
  let ?now = "sys_now (ap_sys a)" and ?m = "ap_attempts a"
  let ?a = "a\<lparr>ap_attempts := fst (throttle ?now (hr_ip req) ?m)\<rparr>"
  have run: "login env dummyHash sessionToken csrf req a =
      (if blocked ?now (hr_ip req) ?m then (?a, Inl (HttpError 429 ''Too many login attempts''))
       else on_sys (authenticate env dummyHash sessionToken csrf req body) ?a)"
    using Some by (simp add: login_def mbind_def count_attempt_run throttle_blocked)
  show ?thesis using throttle_ok[OF assms] unfolding run by (auto simp: on_sys_attempts)
qed

section \<open>Sessions\<close>

lemma insert_session_Inr:
  "insert_session row d = (d', Inr ()) \<longleftrightarrow>
     s_token_hash row \<notin> s_token_hash ` set (db_sessions d) \<and> d' = d\<lparr>db_sessions := db_sessions d @ [row]\<rparr>"
  by (auto simp: insert_session_def)

lemma audit_run: "audit a p i q act details d = (d\<lparr>db_audit := db_audit d @ [\<lparr>a_actor = a, a_project = p,
    a_instance = i, a_operation = q, a_action = act, a_details = details\<rparr>]\<rparr>, Inr ())"
  by (simp add: audit_def)

lemma login_tx_Inr:
  assumes "login_tx env found cookie tok csrf now d = (d', Inr ())"
  shows "(\<exists>f. find_user d (u_id found) = Some f \<and> u_active f \<and> u_password_hash f = u_password_hash found) \<and>
    db_users d' = db_users d \<and> db_members d' = db_members d \<and> db_projects d' = db_projects d \<and>
    db_operations d' = db_operations d \<and> db_bindings d' = db_bindings d \<and>
    \<lparr>s_token_hash = en_digest env tok, s_user_id = u_id found, s_csrf_hash = en_digest env csrf,
      s_expires_at = now + 86400000\<rparr> \<in> set (db_sessions d') \<and>
    (\<forall>c. cookie = Some c \<and> c \<noteq> [] \<and> en_digest env c \<noteq> en_digest env tok \<longrightarrow>
       en_digest env c \<notin> s_token_hash ` set (db_sessions d'))"
  using assms unfolding login_tx_def
  by (auto simp: mbind_Inr mthrow_if_def insert_session_Inr audit_run delete_session_def
      split: option.splits if_splits)

lemma authenticate_Inr:
  assumes "authenticate env dummyHash tok csrf req body s = (s', Inr r)"
  shows "\<exists>u. sql_first (\<lambda>u. u_email u = lb_email body) (db_users (sys_db s)) = Some u \<and> u_active u \<and>
    verifyPassword (en_derive env) (lb_password body) (u_password_hash u) = Inr True \<and>
    (\<exists>d'. login_tx env u (hr_session req) tok csrf (sys_now (en_others env s)) (sys_db (en_others env s)) = (d', Inr ()) \<and>
       s' = (en_others env s)\<lparr>sys_db := d'\<rparr>) \<and> r = (tok, csrf)"
  using assms unfolding authenticate_def
  by (auto simp: mbind_Inr mthrow_if_def transaction_Inr split: option.splits if_splits)

text \<open>C36: A successful login proves knowledge of the password: the account found under the given
  address was active and its stored hash verified the given password; when the session is committed
  that account is still active with the same hash, whatever other requests did in between; the new
  session belongs to it and lasts twenty-four hours; and the session of the request's old cookie is
  gone.\<close>

theorem login_sound:
  assumes "login env dummyHash tok csrf req a = (a', Inr r)"
    and "s = ap_sys a" and "s' = ap_sys a'"
  shows "\<exists>body u f. loginBody env (hr_body req) = Some body \<and>
    sql_first (\<lambda>u. u_email u = lb_email body) (db_users (sys_db s)) = Some u \<and>
    verifyPassword (en_derive env) (lb_password body) (u_password_hash u) = Inr True \<and>
    find_user (sys_db s') (u_id u) = Some f \<and> u_active f \<and> u_password_hash f = u_password_hash u \<and>
    \<lparr>s_token_hash = en_digest env tok, s_user_id = u_id u, s_csrf_hash = en_digest env csrf,
      s_expires_at = sys_now s' + 86400000\<rparr> \<in> set (db_sessions (sys_db s')) \<and>
    (\<forall>c. hr_session req = Some c \<and> c \<noteq> [] \<and> en_digest env c \<noteq> en_digest env tok \<longrightarrow>
       en_digest env c \<notin> s_token_hash ` set (db_sessions (sys_db s')))"
proof -
  from assms(1) obtain body where b: "loginBody env (hr_body req) = Some body"
    and "authenticate env dummyHash tok csrf req body (ap_sys a) = (ap_sys a', Inr r)"
    by (auto simp: login_def mbind_Inr count_attempt_run on_sys_def split: option.splits prod.splits)
  then have "authenticate env dummyHash tok csrf req body s = (s', Inr r)" using assms by simp
  from authenticate_Inr[OF this] obtain u d' where
    u: "sql_first (\<lambda>u. u_email u = lb_email body) (db_users (sys_db s)) = Some u"
      "verifyPassword (en_derive env) (lb_password body) (u_password_hash u) = Inr True"
    and tx: "login_tx env u (hr_session req) tok csrf (sys_now (en_others env s)) (sys_db (en_others env s)) = (d', Inr ())"
    and s': "s' = (en_others env s)\<lparr>sys_db := d'\<rparr>"
    by blast
  note t = login_tx_Inr[OF tx]
  from t obtain f where "find_user (sys_db (en_others env s)) (u_id u) = Some f" "u_active f"
    "u_password_hash f = u_password_hash u" by blast
  moreover from this t s' have "find_user (sys_db s') (u_id u) = Some f" by (simp add: find_user_def)
  ultimately show ?thesis using b u t s' by (intro exI[of _ body] exI[of _ u] exI[of _ f]) simp
qed

lemma no_live_session:
  assumes "\<forall>x \<in> set (db_sessions (sys_db s)). s_user_id x \<noteq> uid" and "user env req s = (s', Inr actor)"
  shows "ac_id actor \<noteq> uid"
  using user_Inr[OF assms(2)] assms(1) by metis

lemma wrong_current_False:
  "wrong_current env self cur h = Inr False \<longleftrightarrow>
     \<not> self \<or> (\<exists>c. cur = Some c \<and> c \<noteq> [] \<and> verifyPassword (en_derive env) c h = Inr True)"
  by (auto simp: wrong_current_def rbind_eq_Inr split: option.splits)

lemma password_tx_Inr:
  assumes "password_tx env actor h t p cur now d = (d', Inr ())"
  shows "\<exists>f. find_user d t = Some f \<and>
    db_users d' = sql_update (\<lambda>u. u_id u = t) (\<lambda>u. u\<lparr>u_password_hash := p\<rparr>) (db_users d) \<and>
    db_sessions d' = filter (\<lambda>s. s_user_id s \<noteq> t) (db_sessions d) \<and>
    db_members d' = db_members d \<and> db_projects d' = db_projects d \<and> db_operations d' = db_operations d \<and>
    db_bindings d' = db_bindings d \<and>
    (\<exists>u \<in> set (db_users d). u_id u = ac_id actor \<and> u_active u \<and> (t = ac_id actor \<or> u_platform_admin u)) \<and>
    (t = ac_id actor \<longrightarrow> (\<exists>c. cur = Some c \<and> verifyPassword (en_derive env) c (u_password_hash f) = Inr True))"
proof -
  have holder: "first_row (session_holders uid h now d) = Some u \<Longrightarrow> u \<in> set (db_users d) \<and> u_id u = uid" for u uid
  proof -
    assume "first_row (session_holders uid h now d) = Some u"
    then have "u \<in> set (session_holders uid h now d)"
      by (cases "session_holders uid h now d") (auto simp: first_row_def)
    then show ?thesis by (auto simp: session_holders_def)
  qed
  show ?thesis
    using assms unfolding password_tx_def Let_def
    by (auto simp: mbind_Inr mthrow_if_def audit_run set_password_def delete_user_sessions_def
          wrong_current_False split: option.splits if_splits dest!: holder)
qed

lemma update_user_tx_Inr:
  assumes "update_user_tx aid t act now d = (d', Inr ())"
  shows "\<exists>f. find_user d t = Some f \<and>
    (\<not> act \<longrightarrow> orphaned d t = [] \<and> (u_platform_admin f \<longrightarrow> other_platform_admins d t \<noteq> [])) \<and>
    db_users d' = sql_update (\<lambda>u. u_id u = t) (\<lambda>u. u\<lparr>u_active := act\<rparr>) (db_users d) \<and>
    db_sessions d' = (if act then db_sessions d else filter (\<lambda>s. s_user_id s \<noteq> t) (db_sessions d)) \<and>
    db_members d' = db_members d \<and> db_projects d' = db_projects d \<and> db_operations d' = db_operations d \<and>
    db_bindings d' = db_bindings d"
  using assms unfolding update_user_tx_def
  by (auto simp: mbind_Inr mthrow_if_def audit_run set_active_def delete_user_sessions_def
      split: option.splits if_splits)

lemma updatePassword_Inr:
  assumes "updatePassword env salt req t pw cur s = (s', Inr ())"
  shows "\<exists>actor d'. user env req s = (s, Inr actor) \<and>
    password_tx env actor (en_digest env (session_text req)) t (hashPassword (en_derive env) pw salt) cur
      (sys_now (en_others env s)) (sys_db (en_others env s)) = (d', Inr ()) \<and> s' = (en_others env s)\<lparr>sys_db := d'\<rparr>"
proof -
  from assms obtain s1 actor where u: "user env req s = (s1, Inr actor)"
    and "\<exists>d'. password_tx env actor (en_digest env (session_text req)) t (hashPassword (en_derive env) pw salt) cur
      (sys_now (en_others env s1)) (sys_db (en_others env s1)) = (d', Inr ()) \<and> s' = (en_others env s1)\<lparr>sys_db := d'\<rparr>"
    unfolding updatePassword_def
    by (auto simp: mbind_Inr mthrow_if_def transaction_Inr split: if_splits)
  moreover have "s1 = s" using u user_same[of env req s] by simp
  ultimately show ?thesis by blast
qed

lemma update_user_Inr:
  assumes "update_user env req t s = (s', Inr ())"
  shows "\<exists>actor act d'. user env req s = (s, Inr actor) \<and> ac_platform_admin actor \<and>
    activeBody (hr_body req) = Some act \<and> (t = ac_id actor \<longrightarrow> act) \<and>
    update_user_tx (ac_id actor) t act (sys_now (en_others env s)) (sys_db (en_others env s)) = (d', Inr ()) \<and>
    s' = (en_others env s)\<lparr>sys_db := d'\<rparr>"
proof -
  from assms obtain s1 actor act where u: "user env req s = (s1, Inr actor)"
    and "ac_platform_admin actor \<and> activeBody (hr_body req) = Some act \<and> (t = ac_id actor \<longrightarrow> act) \<and>
      (\<exists>d'. update_user_tx (ac_id actor) t act (sys_now (en_others env s1)) (sys_db (en_others env s1)) = (d', Inr ()) \<and>
      s' = (en_others env s1)\<lparr>sys_db := d'\<rparr>)"
    unfolding update_user_def parse_uuid_def
    by (auto simp: mbind_Inr mthrow_if_def transaction_Inr z_check_def split: if_splits option.splits)
  moreover have "s1 = s" using u user_same[of env req s] by simp
  ultimately show ?thesis by blast
qed

lemma find_user_update:
  "(\<And>u. u_id (f u) = u_id u) \<Longrightarrow>
   sql_first (\<lambda>u. u_id u = t) (sql_update (\<lambda>u. u_id u = t) f us) = map_option f (sql_first (\<lambda>u. u_id u = t) us)"
  by (induction us) auto

text \<open>C37: Changing a password, resetting it or disabling an account revokes the account's sessions:
  right after the request succeeds no cookie authenticates as that account, whoever asks and whatever
  other requests did meanwhile, and a changed password is the one that is accepted from then on.\<close>

theorem revocation_is_immediate:
  assumes "updatePassword env salt req t pw cur s = (s', Inr ()) \<or>
    (update_user env req t s = (s', Inr ()) \<and> activeBody (hr_body req) = Some False)"
  shows "(\<forall>env2 req2 s2 actor. user env2 req2 s' = (s2, Inr actor) \<longrightarrow> ac_id actor \<noteq> t) \<and>
    (updatePassword env salt req t pw cur s = (s', Inr ()) \<and> (\<forall>p salt. length (en_derive env p salt) = 64) \<and> salt \<noteq> [] \<longrightarrow>
      (\<exists>f. find_user (sys_db s') t = Some f \<and> verifyPassword (en_derive env) pw (u_password_hash f) = Inr True))"
proof -
  have "\<forall>x \<in> set (db_sessions (sys_db s')). s_user_id x \<noteq> t"
    using assms
  proof
    assume "updatePassword env salt req t pw cur s = (s', Inr ())"
    from updatePassword_Inr[OF this] show ?thesis using password_tx_Inr by fastforce
  next
    assume "update_user env req t s = (s', Inr ()) \<and> activeBody (hr_body req) = Some False"
    then show ?thesis using update_user_Inr[of env req t s s'] update_user_tx_Inr by fastforce
  qed
  moreover have "\<exists>f. find_user (sys_db s') t = Some f \<and> verifyPassword (en_derive env) pw (u_password_hash f) = Inr True"
    if up: "updatePassword env salt req t pw cur s = (s', Inr ())" and len: "\<forall>p salt. length (en_derive env p salt) = 64"
      and salt: "salt \<noteq> []"
  proof -
    from updatePassword_Inr[OF up] obtain d0 d' actor now where
      "password_tx env actor (en_digest env (session_text req)) t (hashPassword (en_derive env) pw salt) cur now d0 = (d', Inr ())"
      and s': "sys_db s' = d'" by auto
    from password_tx_Inr[OF this(1)] obtain f where "find_user d0 t = Some f"
      "db_users d' = sql_update (\<lambda>u. u_id u = t) (\<lambda>u. u\<lparr>u_password_hash := hashPassword (en_derive env) pw salt\<rparr>) (db_users d0)"
      by blast
    then have "find_user d' t = Some (f\<lparr>u_password_hash := hashPassword (en_derive env) pw salt\<rparr>)"
      by (simp add: find_user_def find_user_update)
    moreover have "verifyPassword (en_derive env) pw (hashPassword (en_derive env) pw salt) = Inr True"
      using len salt by (simp add: verify_hash)
    ultimately show ?thesis using s' by simp
  qed
  ultimately show ?thesis using no_live_session by blast
qed

section \<open>Administration is never lost\<close>

definition active_user :: "database \<Rightarrow> string \<Rightarrow> bool" where
  "active_user d uid \<longleftrightarrow> (\<exists>u \<in> set (db_users d). u_id u = uid \<and> u_active u)"

definition administered :: "database \<Rightarrow> string \<Rightarrow> bool" where
  "administered d pid \<longleftrightarrow> (\<exists>m \<in> set (db_members d). m_project_id m = pid \<and> m_role m = Admin \<and> active_user d (m_user_id m))"

definition member_keys :: "database \<Rightarrow> (string \<times> string) list" where
  "member_keys d = map (\<lambda>m. (m_project_id m, m_user_id m)) (db_members d)"

definition admin_inv :: "database \<Rightarrow> bool" where
  "admin_inv d \<longleftrightarrow> distinct (map u_id (db_users d)) \<and> distinct (member_keys d) \<and>
     (\<exists>u \<in> set (db_users d). u_platform_admin u \<and> u_active u) \<and>
     (\<forall>p \<in> set (db_projects d). administered d (p_id p))"

lemma active_admin_iff: "active_admin d m \<longleftrightarrow> m_role m = Admin \<and> active_user d (m_user_id m)"
  by (auto simp: active_admin_def active_user_def list_ex_iff)

text \<open>What the invariant reads of the tables.\<close>

definition account_view :: "database \<Rightarrow> (string \<times> bool \<times> bool) list \<times> member_row list \<times> string list" where
  "account_view d = (map (\<lambda>u. (u_id u, u_platform_admin u, u_active u)) (db_users d), db_members d, map p_id (db_projects d))"

lemma account_view_eq:
  assumes "account_view d' = account_view d"
  shows "admin_inv d' = admin_inv d"
proof -
  let ?f = "\<lambda>u. (u_id u, u_platform_admin u, u_active u)"
  have u: "map ?f (db_users d') = map ?f (db_users d)" and m: "db_members d' = db_members d"
    and p: "map p_id (db_projects d') = map p_id (db_projects d)"
    using assms by (auto simp: account_view_def)
  have "map u_id (db_users d') = map u_id (db_users d)"
    using arg_cong[OF u, of "map fst"] by (simp add: comp_def)
  moreover have ac: "active_user d' uid = active_user d uid" for uid
  proof -
    have "active_user x uid \<longleftrightarrow> list_ex (\<lambda>(i, _, a). i = uid \<and> a) (map ?f (db_users x))" for x
      by (simp add: active_user_def list_ex_iff)
    then show ?thesis using u by simp
  qed
  moreover have "(\<exists>u \<in> set (db_users d'). u_platform_admin u \<and> u_active u) = (\<exists>u \<in> set (db_users d). u_platform_admin u \<and> u_active u)"
  proof -
    have "list_ex (\<lambda>(_, p, a). p \<and> a) (map ?f (db_users d')) = list_ex (\<lambda>(_, p, a). p \<and> a) (map ?f (db_users d))"
      using u by (simp only:)
    then show ?thesis by (simp add: list_ex_iff)
  qed
  moreover have "(\<forall>p \<in> set (db_projects d'). administered d' (p_id p)) = (\<forall>p \<in> set (db_projects d). administered d (p_id p))"
  proof -
    have "p_id ` set (db_projects d') = p_id ` set (db_projects d)" using arg_cong[OF p, of set] by simp
    moreover have "administered d' = administered d" using m ac by (auto simp: administered_def)
    ultimately have "(\<forall>x \<in> p_id ` set (db_projects d'). administered d' x) = (\<forall>x \<in> p_id ` set (db_projects d). administered d x)"
      by (simp only:)
    then show ?thesis by simp
  qed
  ultimately show ?thesis using m by (simp add: admin_inv_def member_keys_def)
qed

lemma password_tx_admin: "password_tx env actor h t p cur now d = (d', Inr ()) \<Longrightarrow> account_view d' = account_view d"
  by (drule password_tx_Inr) (auto simp: account_view_def sql_update_def)

lemma login_tx_admin: "login_tx env f c tok csrf now d = (d', Inr ()) \<Longrightarrow> account_view d' = account_view d"
  by (drule login_tx_Inr) (simp add: account_view_def)

lemma insert_user_admin:
  assumes "admin_inv d" "insert_user row d = (d', Inr ())"
  shows "admin_inv d'"
proof -
  have d': "d' = d\<lparr>db_users := db_users d @ [row]\<rparr>" and new: "u_id row \<notin> u_id ` set (db_users d)"
    using assms(2) by (auto simp: insert_user_def list_ex_iff split: if_splits)
  have ac: "active_user d uid \<Longrightarrow> active_user d' uid" for uid by (auto simp: active_user_def d')
  then have "administered d pid \<Longrightarrow> administered d' pid" for pid by (auto simp: administered_def d')
  then show ?thesis using assms(1) new by (auto simp: admin_inv_def d' member_keys_def)
qed

lemma list_ex_sql_update: "list_ex P (sql_update p f rows) \<longleftrightarrow> list_ex (\<lambda>r. P (if p r then f r else r)) rows"
  by (induction rows) auto

lemma active_user_list: "active_user d uid \<longleftrightarrow> list_ex (\<lambda>u. u_id u = uid \<and> u_active u) (db_users d)"
  by (simp add: active_user_def list_ex_iff)

lemma set_active_user:
  "active_user (set_active t act d) uid \<longleftrightarrow>
     (if uid = t then act \<and> t \<in> u_id ` set (db_users d) else active_user d uid)"
proof -
  have "active_user (set_active t act d) uid \<longleftrightarrow>
      list_ex (\<lambda>u. u_id u = uid \<and> (if u_id u = t then act else u_active u)) (db_users d)"
    unfolding active_user_list set_active_def
    by (simp add: list_ex_sql_update)
  also have "\<dots> \<longleftrightarrow> (if uid = t then act \<and> t \<in> u_id ` set (db_users d) else active_user d uid)"
    by (cases "uid = t") (auto simp: list_ex_iff active_user_def image_iff)
  finally show ?thesis .
qed

lemma update_user_tx_admin:
  assumes inv: "admin_inv d" and tx: "update_user_tx aid t act now d = (d', Inr ())"
  shows "admin_inv d'"
proof -
  from update_user_tx_Inr[OF tx] obtain f where f: "find_user d t = Some f"
    and off: "\<not> act \<Longrightarrow> orphaned d t = []" "\<not> act \<Longrightarrow> u_platform_admin f \<Longrightarrow> other_platform_admins d t \<noteq> []"
    and users: "db_users d' = db_users (set_active t act d)"
    and rest: "db_members d' = db_members d" "db_projects d' = db_projects d"
    by (auto simp: set_active_def)
  have fin: "f \<in> set (db_users d)" "u_id f = t" using f sql_first_Some[of _ "db_users d" f] by (auto simp: find_user_def)
  have same: "u = f" if "u \<in> set (db_users d)" "u_id u = t" for u
    using inv that fin by (auto simp: admin_inv_def distinct_map inj_on_def)
  have ids: "map u_id (db_users d') = map u_id (db_users d)"
    unfolding users by (simp add: set_active_def map_sql_update)
  have ac: "active_user d' uid \<longleftrightarrow> (if uid = t then act else active_user d uid)" for uid
    using set_active_user[of t act d uid] fin users by (auto simp: active_user_def)
  have "\<exists>u \<in> set (db_users d'). u_platform_admin u \<and> u_active u"
  proof -
    obtain v where v: "v \<in> set (db_users d)" "u_platform_admin v" "u_active v" using inv by (auto simp: admin_inv_def)
    show ?thesis
    proof (cases "u_id v = t \<and> \<not> act")
      case True
      then have "other_platform_admins d t \<noteq> []" using off(2) v same by auto
      then obtain w where w: "w \<in> set (db_users d)" "u_platform_admin w" "u_active w" "u_id w \<noteq> t"
        unfolding other_platform_admins_def filter_empty_conv by blast
      then have "w \<in> set (db_users d')" unfolding users by (simp add: set_active_def set_sql_update)
      then show ?thesis using w by blast
    next
      case False
      then have "\<exists>w \<in> set (db_users d'). u_platform_admin w \<and> u_active w"
        unfolding users using v by (cases "u_id v = t") (force simp: set_active_def set_sql_update)+
      then show ?thesis .
    qed
  qed
  moreover have "administered d' pid" if a: "administered d pid" for pid
  proof -
    obtain m where m: "m \<in> set (db_members d)" "m_project_id m = pid" "m_role m = Admin" "active_user d (m_user_id m)"
      using a by (auto simp: administered_def)
    show ?thesis
    proof (cases "m_user_id m = t \<and> \<not> act")
      case True
      then have "list_ex (\<lambda>x. m_project_id x = m_project_id m \<and> m_user_id x \<noteq> t \<and> active_admin d x) (db_members d)"
        using off(1) m by (auto simp: orphaned_def filter_empty_conv)
      then show ?thesis using m ac rest by (auto simp: administered_def list_ex_iff active_admin_iff)
    next
      case False
      then show ?thesis using m ac rest by (auto simp: administered_def)
    qed
  qed
  ultimately show ?thesis using inv ids rest by (simp add: admin_inv_def member_keys_def)
qed

lemma other_admin:
  assumes "distinct (member_keys d)" "administered d pid" "map m_user_id (active_admins d pid) \<noteq> [uid]"
  shows "\<exists>m \<in> set (db_members d). m_project_id m = pid \<and> m_role m = Admin \<and> active_user d (m_user_id m) \<and> m_user_id m \<noteq> uid"
proof (rule ccontr)
  assume no: "\<not> ?thesis"
  let ?ids = "map m_user_id (active_admins d pid)"
  have all: "set ?ids \<subseteq> {uid}"
    using no by (auto simp: active_admins_def active_admin_iff)
  have "?ids \<noteq> []"
    using assms(2) by (auto simp: active_admins_def active_admin_iff administered_def filter_empty_conv)
  moreover have "distinct ?ids"
  proof -
    have "inj_on m_user_id (set (active_admins d pid))"
      using assms(1) by (auto simp: inj_on_def active_admins_def member_keys_def distinct_map)
    moreover have "distinct (active_admins d pid)"
      using assms(1) by (auto simp: active_admins_def member_keys_def distinct_map)
    ultimately show ?thesis by (simp add: distinct_map)
  qed
  ultimately have "?ids = [uid]"
    using all by (cases ?ids; cases "tl ?ids") auto
  then show False using assms(3) by simp
qed

lemma member_frame [simp]:
  "db_users (upsert_member pid uid r d) = db_users d" "db_projects (upsert_member pid uid r d) = db_projects d"
  "db_operations (upsert_member pid uid r d) = db_operations d" "db_bindings (upsert_member pid uid r d) = db_bindings d"
  "db_sessions (upsert_member pid uid r d) = db_sessions d"
  "db_users (remove_member pid uid d) = db_users d" "db_projects (remove_member pid uid d) = db_projects d"
  "db_operations (remove_member pid uid d) = db_operations d" "db_bindings (remove_member pid uid d) = db_bindings d"
  "db_sessions (remove_member pid uid d) = db_sessions d"
  by (simp_all add: upsert_member_def remove_member_def)

lemma member_tx_Inr:
  assumes "member_tx actor pid target role now d = (d', Inr ())"
  shows "may_act d (ac_id actor) pid [Admin] \<and>
    (\<exists>member. find_target d target = Some member \<and> (role \<noteq> None \<longrightarrow> u_active member) \<and>
      (role \<noteq> Some Admin \<longrightarrow> map m_user_id (active_admins d pid) \<noteq> [u_id member]) \<and>
      db_members d' = db_members (case role of None \<Rightarrow> remove_member pid (u_id member) d
                                  | Some r \<Rightarrow> upsert_member pid (u_id member) r d)) \<and>
    db_users d' = db_users d \<and> db_projects d' = db_projects d \<and> db_operations d' = db_operations d \<and>
    db_bindings d' = db_bindings d \<and> db_sessions d' = db_sessions d"
  using assms unfolding member_tx_def
  by (cases role) (auto simp: mbind_Inr mthrow_if_def audit_run split: option.splits if_splits)

lemma upsert_members:
  assumes "m \<in> set (db_members d)" "\<not> (m_project_id m = pid \<and> m_user_id m = uid)"
  shows "m \<in> set (db_members (upsert_member pid uid r d))"
  using assms by (auto simp: upsert_member_def set_sql_update)

lemma upsert_self: "\<exists>m \<in> set (db_members (upsert_member pid uid r d)). m_project_id m = pid \<and> m_user_id m = uid \<and> m_role m = r"
proof (cases "list_ex (\<lambda>m. m_project_id m = pid \<and> m_user_id m = uid) (db_members d)")
  case True
  then obtain m where "m \<in> set (db_members d)" "m_project_id m = pid" "m_user_id m = uid" by (auto simp: list_ex_iff)
  then have "m\<lparr>m_role := r\<rparr> \<in> set (db_members (upsert_member pid uid r d))"
    using True by (auto simp: upsert_member_def set_sql_update)
  then show ?thesis using \<open>m_project_id m = pid\<close> \<open>m_user_id m = uid\<close>
    by (intro bexI[of _ "m\<lparr>m_role := r\<rparr>"]) simp_all
qed (simp add: upsert_member_def)

lemma upsert_keys: "distinct (member_keys d) \<Longrightarrow> distinct (member_keys (upsert_member pid uid r d))"
  by (auto simp: member_keys_def upsert_member_def map_sql_update list_ex_iff image_iff)

lemma remove_keys: "distinct (member_keys d) \<Longrightarrow> distinct (member_keys (remove_member pid uid d))"
  by (simp add: member_keys_def remove_member_def distinct_map_filter)

lemma member_tx_admin:
  assumes inv: "admin_inv d" and tx: "member_tx actor pid target role now d = (d', Inr ())"
  shows "admin_inv d'"
proof -
  from member_tx_Inr[OF tx] obtain v where v: "role \<noteq> None \<Longrightarrow> u_active v"
    "role \<noteq> Some Admin \<Longrightarrow> map m_user_id (active_admins d pid) \<noteq> [u_id v]" "find_target d target = Some v"
    and mem: "db_members d' = db_members (case role of None \<Rightarrow> remove_member pid (u_id v) d | Some r \<Rightarrow> upsert_member pid (u_id v) r d)"
    and rest: "db_users d' = db_users d" "db_projects d' = db_projects d" by blast
  have ac: "active_user d' = active_user d" using rest by (auto simp: active_user_def)
  have vin: "v \<in> set (db_users d)"
    using v(3) sql_first_Some[of _ "db_users d" v] by (auto simp: find_target_def find_user_def split: member_target.splits)
  have stay: "m \<in> set (db_members d')" if "m \<in> set (db_members d)" "\<not> (m_project_id m = pid \<and> m_user_id m = u_id v)" for m
    using that upsert_members[of m d pid "u_id v"] unfolding mem
    by (auto simp: remove_member_def split: option.splits)
  have "administered d' q" if a: "administered d q" for q
  proof (cases "q = pid")
    case False
    then show ?thesis using a stay ac by (auto simp: administered_def)
  next
    case True
    show ?thesis
    proof (cases "role = Some Admin")
      case True
      then show ?thesis
        using upsert_self[of pid "u_id v" Admin d] v(1) vin ac \<open>q = pid\<close> mem
        by (fastforce simp: administered_def active_user_def)
    next
      case False
      then obtain m where "m \<in> set (db_members d)" "m_project_id m = pid" "m_role m = Admin"
        "active_user d (m_user_id m)" "m_user_id m \<noteq> u_id v"
        using other_admin[of d pid "u_id v"] v(2) a inv \<open>q = pid\<close> by (auto simp: admin_inv_def)
      then show ?thesis using stay ac \<open>q = pid\<close> by (auto simp: administered_def)
    qed
  qed
  moreover have "distinct (member_keys d')"
    using inv upsert_keys remove_keys mem by (auto simp: admin_inv_def member_keys_def split: option.splits)
  ultimately show ?thesis using inv rest by (simp add: admin_inv_def)
qed

lemma create_project_tx_Inr:
  assumes "create_project_tx env aid pid oid name now d = (d', Inr ())"
  shows "pid \<notin> p_id ` set (db_projects d) \<and> (pid, aid) \<notin> set (member_keys d) \<and>
    db_projects d' = db_projects d @ [new_project pid name (''expbuild-'' @ pid) aid now] \<and>
    db_members d' = db_members d @ [\<lparr>m_project_id = pid, m_user_id = aid, m_role = Admin\<rparr>] \<and>
    db_users d' = db_users d \<and> db_bindings d' = db_bindings d \<and> db_sessions d' = db_sessions d \<and>
    db_operations d' = db_operations d @ [new_operation oid pid None ProjectCreate pid (en_digest env (''expbuild-'' @ pid))
        (empty_request\<lparr>rq_namespace := Some (''expbuild-'' @ pid)\<rparr>) None aid now] \<and>
    op_keys_unique (db_operations d') \<and> one_unfinished (db_operations d')"
  using assms unfolding create_project_tx_def Let_def
  by (auto simp: mbind_Inr insert_project_def insert_member_def insert_operation_def write_operations_Inr audit_run
      list_ex_iff member_keys_def new_project_def split: if_splits)

lemma create_project_tx_admin:
  assumes inv: "admin_inv d" and act: "active_user d aid" and tx: "create_project_tx env aid pid oid name now d = (d', Inr ())"
  shows "admin_inv d'"
proof -
  note t = create_project_tx_Inr[OF tx]
  have ac: "active_user d' = active_user d" using t by (auto simp: active_user_def)
  have "administered d q \<Longrightarrow> administered d' q" for q using t ac by (auto simp: administered_def)
  moreover have "administered d' pid" using t act ac by (auto simp: administered_def)
  ultimately show ?thesis using inv t
    by (auto simp: admin_inv_def member_keys_def new_project_def)
qed

section \<open>Sample requests\<close>

definition sample_derive :: "string \<Rightarrow> string \<Rightarrow> string" where
  "sample_derive p salt = take 64 (p @ replicate 64 CHR ''.'')"

definition sample_env :: "unit app_env" where
  "sample_env = \<lparr>en_digest = (\<lambda>x. ''h'' @ x), en_derive = sample_derive, en_uuid = (\<lambda>_. True), en_email = (\<lambda>_. True), en_others = id\<rparr>"

definition sample_hash :: string where
  "sample_hash = hashPassword sample_derive ''long password'' ''salt''"

definition root_user :: user_row where
  "root_user = \<lparr>u_id = ''u1'', u_email = ''root@x'', u_password_hash = sample_hash, u_platform_admin = True, u_active = True\<rparr>"

definition second_user :: user_row where
  "second_user = \<lparr>u_id = ''u2'', u_email = ''ann@x'', u_password_hash = sample_hash, u_platform_admin = True, u_active = True\<rparr>"

definition people_db :: database where
  "people_db = empty_db\<lparr>db_users := [root_user, second_user],
     db_sessions := [\<lparr>s_token_hash = ''htok'', s_user_id = ''u1'', s_csrf_hash = ''hcsrf'', s_expires_at = 5000\<rparr>]\<rparr>"

definition people_sys :: "unit sys" where
  "people_sys = \<lparr>sys_db = people_db, sys_now = 0, sys_world = ()\<rparr>"

definition sample_request :: "(string \<times> json) list \<Rightarrow> http_request" where
  "sample_request body = \<lparr>hr_method = ''POST'', hr_route = [], hr_ip = ''ip'', hr_session = Some ''tok'', hr_origin = None,
     hr_authorization = None, hr_csrf = Some ''csrf'', hr_if_match = Some ''uid'', hr_idempotency_key = Some ''request-1'',
     hr_body = Some (JObj body)\<rparr>"

lemma sample_request_simps [simp]:
  "hr_method (sample_request b) = ''POST''" "hr_ip (sample_request b) = ''ip''" "hr_session (sample_request b) = Some ''tok''"
  "hr_csrf (sample_request b) = Some ''csrf''" "hr_if_match (sample_request b) = Some ''uid''"
  "hr_idempotency_key (sample_request b) = Some ''request-1''" "hr_body (sample_request b) = Some (JObj b)"
  by (simp_all add: sample_request_def)

lemma sample_env_simps [simp]:
  "en_digest sample_env x = ''h'' @ x" "en_derive sample_env = sample_derive" "en_uuid sample_env = (\<lambda>_. True)"
  "en_email sample_env = (\<lambda>_. True)" "en_others sample_env s = s"
  by (simp_all add: sample_env_def)

lemma people_simps [simp]:
  "sys_db people_sys = people_db" "sys_now people_sys = 0"
  "db_users people_db = [root_user, second_user]" "db_members people_db = []" "db_projects people_db = []"
  "db_sessions people_db = [\<lparr>s_token_hash = ''htok'', s_user_id = ''u1'', s_csrf_hash = ''hcsrf'', s_expires_at = 5000\<rparr>]"
  "u_id root_user = ''u1''" "u_id second_user = ''u2''" "u_email root_user = ''root@x''" "u_email second_user = ''ann@x''"
  "u_password_hash root_user = sample_hash" "u_platform_admin root_user" "u_platform_admin second_user"
  "u_active root_user" "u_active second_user"
  by (simp_all add: people_sys_def people_db_def empty_db_def root_user_def second_user_def)

lemma sample_verify: "verifyPassword sample_derive ''long password'' sample_hash = Inr True"
  unfolding sample_hash_def by (subst verify_hash) (simp_all add: sample_derive_def)

lemma sample_user:
  "user sample_env (sample_request b) people_sys =
     (people_sys, Inr \<lparr>ac_id = ''u1'', ac_email = ''root@x'', ac_platform_admin = True\<rparr>)"
  by (simp add: user_def mbind_def live_sessions_def first_row_def bad_csrf_def safe_method_def mthrow_if_def)

definition busy_app :: "unit app" where
  "busy_app = \<lparr>ap_attempts = [(''ip'', \<lparr>at_count = 10, at_until = 7\<rparr>)], ap_sys = people_sys\<rparr>"

theorem login_throttled_witness:
  "attempts_ok (ap_attempts busy_app) \<and> blocked 0 ''ip'' (ap_attempts busy_app) \<and>
   ap_sys (fst (login sample_env [] ''t'' ''c'' (sample_request []) busy_app)) = people_sys"
proof -
  have ok: "attempts_ok (ap_attempts busy_app)" by (simp add: attempts_ok_def busy_app_def)
  have b: "blocked (sys_now (ap_sys busy_app)) (hr_ip (sample_request [])) (ap_attempts busy_app)"
    by (simp add: blocked_def prune_def busy_app_def)
  show ?thesis
    using login_throttled[OF ok, of sample_env "[]" "''t''" "''c''" "sample_request []"] ok b
    by (simp add: busy_app_def)
qed

abbreviation login_fields :: "(string \<times> json) list" where
  "login_fields \<equiv> [(''email'', JStr ''root@x''), (''password'', JStr ''long password'')]"

definition quiet_app :: "unit app" where
  "quiet_app = \<lparr>ap_attempts = [], ap_sys = people_sys\<rparr>"

lemma sample_login: "\<exists>a'. login sample_env [] ''t'' ''c'' (sample_request login_fields) quiet_app = (a', Inr (''t'', ''c''))"
proof -
  have body: "loginBody sample_env (Some (JObj login_fields)) = Some \<lparr>lb_email = ''root@x'', lb_password = ''long password''\<rparr>"
    by (simp add: loginBody_def account_body_def z_strict_def z_check_def z_field_def email_schema_def password_schema_def
        text_within_def toLowerCase_def js_lower_char_def Let_def)
  show ?thesis
    using sample_verify
    by (auto simp add: login_def mbind_def body count_attempt_run throttle_def prune_def quiet_app_def on_sys_def authenticate_def
        login_tx_def transaction_def find_user_def insert_session_def delete_session_def audit_run mthrow_if_def Let_def)
qed

theorem login_sound_witness:
  "\<exists>a'. login sample_env [] ''t'' ''c'' (sample_request login_fields) quiet_app = (a', Inr (''t'', ''c'')) \<and>
     (\<exists>u. \<lparr>s_token_hash = ''ht'', s_user_id = u, s_csrf_hash = ''hc'', s_expires_at = sys_now (ap_sys a') + 86400000\<rparr>
        \<in> set (db_sessions (sys_db (ap_sys a'))))"
proof -
  obtain a' where l: "login sample_env [] ''t'' ''c'' (sample_request login_fields) quiet_app = (a', Inr (''t'', ''c''))"
    using sample_login by blast
  show ?thesis using l login_sound[OF l refl refl] by auto
qed

abbreviation disable :: http_request where
  "disable \<equiv> sample_request [(''active'', JBool False)]"

lemma sample_disable: "\<exists>s'. update_user sample_env disable ''u2'' people_sys = (s', Inr ())"
proof -
  have b: "activeBody (Some (JObj [(''active'', JBool False)])) = Some False"
    by (simp add: activeBody_def single_field_def z_strict_def z_check_def z_field_def)
  show ?thesis
    unfolding update_user_def
    by (simp add: mbind_def sample_user b parse_uuid_def z_check_def mthrow_if_def transaction_def update_user_tx_def find_user_def
        orphaned_def other_platform_admins_def delete_user_sessions_def set_active_def audit_run)
qed

theorem revocation_is_immediate_witness:
  "\<exists>s'. update_user sample_env disable ''u2'' people_sys = (s', Inr ()) \<and>
     (\<forall>env2 req2 s2 actor. \<not> (user env2 req2 s' = (s2, Inr actor) \<and> ac_id actor = ''u2''))"
proof -
  obtain s' where u: "update_user sample_env disable ''u2'' people_sys = (s', Inr ())" using sample_disable by blast
  have b: "activeBody (Some (JObj [(''active'', JBool False)])) = Some False"
    by (simp add: activeBody_def single_field_def z_strict_def z_check_def z_field_def)
  have "updatePassword sample_env [] disable ''u2'' [] None people_sys = (s', Inr ()) \<or>
      (update_user sample_env disable ''u2'' people_sys = (s', Inr ()) \<and> activeBody (hr_body disable) = Some False)"
    using u b by simp
  from conjunct1[OF revocation_is_immediate[OF this]] show ?thesis using u by (intro exI[of _ s'] conjI) blast+
qed

end
