(* ===== verification/Instance_Props.thy ===== *)
theory Instance_Props
  imports Instance_Routes Accounts_Props
begin

text \<open>
  Correctness of the instance routes. The six requests that record an operation share one shape,
  stated once for \<open>accept_tx\<close>: access is checked again under the lock, an earlier request with the
  same idempotency key is answered instead, and otherwise exactly one pending operation is recorded.
\<close>

section \<open>Requests that record an operation\<close>

datatype submission =
    Create instance_input string
  | Update string instance_input cache_object string
  | Rotate string cache_object string
  | Delete string
  | Volume_Delete string string
  | Reclaim string instance_input binding_row cache_object string

fun sub_kind :: "submission \<Rightarrow> op_kind" where
  "sub_kind (Create _ _) = InstanceCreate"
| "sub_kind (Update _ _ _ _) = InstanceUpdate"
| "sub_kind (Rotate _ _ _) = InstanceRotate"
| "sub_kind (Delete _) = InstanceDelete"
| "sub_kind (Volume_Delete _ _) = VolumeDelete"
| "sub_kind (Reclaim _ _ _ _ _) = InstanceReclaim"

fun sub_roles :: "submission \<Rightarrow> role list" where
  "sub_roles (Create _ _) = [Admin, Maintainer]"
| "sub_roles (Update _ _ _ _) = [Admin, Maintainer]"
| "sub_roles _ = [Admin]"

fun accept_tx ::
  "'w instance_options \<Rightarrow> randoms \<Rightarrow> actor \<Rightarrow> string \<Rightarrow> submission \<Rightarrow> string \<Rightarrow> string \<Rightarrow> int \<Rightarrow> (database, accepted) action" where
  "accept_tx opts rn actor pid (Create input sc) key h now = create_tx opts rn actor pid input sc key h now"
| "accept_tx opts rn actor pid (Update iid input desired expected) key h now =
     update_tx actor pid iid (rn_operationId rn) input desired expected key h now"
| "accept_tx opts rn actor pid (Rotate iid desired expected) key h now =
     rotate_tx opts rn actor pid iid desired expected key h now"
| "accept_tx opts rn actor pid (Delete iid) key h now = delete_tx actor pid iid (rn_operationId rn) key h now"
| "accept_tx opts rn actor pid (Volume_Delete iid volumeUid) key h now =
     volume_delete_tx actor pid iid (rn_operationId rn) volumeUid key h now"
| "accept_tx opts rn actor pid (Reclaim iid input b desired volumeUid) key h now =
     reclaim_tx opts rn actor pid iid input b desired volumeUid key h now"

abbreviation same_request :: "string \<Rightarrow> op_kind \<Rightarrow> string \<Rightarrow> op_row \<Rightarrow> bool" where
  "same_request pid kind key r \<equiv> o_project_id r = pid \<and> o_kind r = kind \<and> o_idempotency_key r = key"

lemma lockProject_run:
  "lockProject pid actor roles d =
     (d, if \<not> may_act d (ac_id actor) pid roles then Inl (HttpError 403 ''Permission denied'')
         else case find_project d pid of None \<Rightarrow> Inl (HttpError 404 ''Project not found'') | Some p \<Rightarrow> Inr p)"
  by (simp add: lockProject_def mbind_def mthrow_if_run split: option.splits)

lemma replay_run:
  "replay pid kind key h d =
     (d, case sql_first (same_request pid kind key) (db_operations d) of
           None \<Rightarrow> Inr None
         | Some r \<Rightarrow> if o_request_hash r \<noteq> h then Inl (HttpError 409 ''Idempotency key was already used for another request'')
             else Inr (Some (opSummary r)))"
  by (simp add: replay_def mbind_def mthrow_if_run split: option.splits)

lemma replay_tx_run: "fst (replay_tx pid actor roles kind key h now d) = d"
  by (simp add: replay_tx_def mbind_def lockProject_run replay_run split: option.splits)

text \<open>An earlier request with the key decides the answer.\<close>

lemma accept_replays:
  assumes "may_act d (ac_id actor) pid (sub_roles sub)" "find_project d pid \<noteq> None"
    and "sql_first (same_request pid (sub_kind sub) key) (db_operations d) = Some r"
  shows "accept_tx opts rn actor pid sub key h now d =
    (d, if o_request_hash r \<noteq> h then Inl (HttpError 409 ''Idempotency key was already used for another request'')
        else Inr (replied (opSummary r)))"
proof -
  obtain p where p: "find_project d pid = Some p" using assms(2) by blast
  show ?thesis using assms p
    by (cases sub) (auto simp: create_tx_def update_tx_def rotate_tx_def delete_tx_def volume_delete_tx_def reclaim_tx_def
        mbind_def lockProject_run replay_run)
qed

text \<open>A request is accepted only from an actor who may act on the project at that moment.\<close>

lemma accept_authorized:
  assumes "accept_tx opts rn actor pid sub key h now d = (d', Inr a)"
  shows "may_act d (ac_id actor) pid (sub_roles sub) \<and> find_project d pid \<noteq> None"
  using assms
  by (cases sub) (auto simp: create_tx_def update_tx_def rotate_tx_def delete_tx_def volume_delete_tx_def reclaim_tx_def
      mbind_Inr lockProject_run split: if_splits option.splits)

section \<open>What a new request records\<close>

lemma set_lifecycle_run: "set_lifecycle iid l d =
    (d\<lparr>db_bindings := sql_update (\<lambda>b. Some (b_id b) = iid) (\<lambda>b. b\<lparr>b_lifecycle := l\<rparr>) (db_bindings d)\<rparr>, Inr ())"
  by (simp add: set_lifecycle_def)

lemma insert_operation_Inr: "insert_operation row d = (d', Inr ()) \<longleftrightarrow>
    d' = d\<lparr>db_operations := db_operations d @ [row]\<rparr> \<and>
    op_keys_unique (db_operations d @ [row]) \<and> one_unfinished (db_operations d @ [row])"
  by (simp add: insert_operation_def write_operations_Inr)

lemma insert_credential_Inr: "insert_credential row d = (d', Inr ()) \<Longrightarrow>
    d' = d\<lparr>db_credentials := db_credentials d @ [row]\<rparr>"
  by (auto simp: insert_credential_def split: if_splits)

lemma next_credential_Inr: "next_credential iid name d = (d', Inr ()) \<Longrightarrow>
    \<exists>row. d' = d\<lparr>db_credentials := db_credentials d @ [row]\<rparr>"
  by (auto simp: next_credential_def mbind_Inr dest!: insert_credential_Inr)

lemma insert_binding_Inr: "insert_binding row d = (d', Inr ()) \<longleftrightarrow>
    d' = d\<lparr>db_bindings := db_bindings d @ [row]\<rparr> \<and> b_id row \<notin> b_id ` set (db_bindings d) \<and>
    (\<forall>b \<in> set (db_bindings d). \<not> (b_project_id b = b_project_id row \<and> b_resource_name b = b_resource_name row))"
  by (auto simp: insert_binding_def list_ex_iff image_iff) metis

text \<open>The tables a request that records an operation leaves alone.\<close>

definition same_people :: "database \<Rightarrow> database \<Rightarrow> bool" where
  "same_people d d' \<longleftrightarrow> db_users d' = db_users d \<and> db_members d' = db_members d \<and> db_projects d' = db_projects d \<and>
     db_sessions d' = db_sessions d \<and> db_retries d' = db_retries d"

definition recorded :: "actor \<Rightarrow> string \<Rightarrow> op_kind \<Rightarrow> string \<Rightarrow> string \<Rightarrow> int \<Rightarrow> op_row \<Rightarrow> bool" where
  "recorded actor pid kind key h now row \<longleftrightarrow>
     o_project_id row = pid \<and> o_kind row = kind \<and> o_idempotency_key row = key \<and> o_request_hash row = h \<and>
     o_state row = OpPending \<and> o_worker_id row = None \<and> o_lease_until row = None \<and> o_created_by row = ac_id actor \<and>
     o_created_at row = now \<and> o_attempts row = 0 \<and> o_deadline_at row = now + 1200000"

lemma recorded_new: "recorded actor pid kind key h now (new_operation oid pid iid kind key h rq sec (ac_id actor) now)"
  by (simp add: recorded_def new_operation_def)

lemma reserve_people: "reserveResources pid iid x c d = (d', Inr ()) \<Longrightarrow> same_people d d' \<and> db_operations d' = db_operations d"
  by (drule reserveResources_Inr) (simp add: same_people_def)

definition records_one :: "actor \<Rightarrow> string \<Rightarrow> op_kind \<Rightarrow> string \<Rightarrow> string \<Rightarrow> int \<Rightarrow> accepted \<Rightarrow> database \<Rightarrow> database \<Rightarrow> bool" where
  "records_one actor pid kind key h now a d d' \<longleftrightarrow>
     (\<exists>row. db_operations d' = db_operations d @ [row] \<and> recorded actor pid kind key h now row \<and>
        rp_operation a = opSummary row) \<and>
     op_keys_unique (db_operations d') \<and> one_unfinished (db_operations d') \<and> same_people d d'"

lemma same_people_refl: "same_people d d"
  by (simp add: same_people_def)

lemma same_people_trans: "same_people d d1 \<Longrightarrow> same_people d1 d2 \<Longrightarrow> same_people d d2"
  by (simp add: same_people_def)

lemma same_people_frame [simp]:
  "same_people d (d1\<lparr>db_bindings := x\<rparr>) = same_people d d1"
  "same_people d (d1\<lparr>db_operations := y\<rparr>) = same_people d d1"
  "same_people d (d1\<lparr>db_credentials := z\<rparr>) = same_people d d1"
  "same_people d (d1\<lparr>db_audit := w\<rparr>) = same_people d d1"
  by (simp_all add: same_people_def)

lemma new_not_replayed: "rp_replayed (replied x)"
  by simp

lemmas accept_simps = mbind_Inr lockProject_run replay_run mthrow_if_def insert_operation_Inr audit_run set_lifecycle_run Let_def

lemma update_tx_new:
  assumes "update_tx actor pid iid oid input desired expected key h now d = (d', Inr a)" "\<not> rp_replayed a"
  shows "\<exists>d1. reserveResources pid iid (input_resources input) False d = (d1, Inr ()) \<and>
    db_bindings d' = db_bindings d1 \<and> db_projects d' = db_projects d1 \<and>
    records_one actor pid InstanceUpdate key h now a d d'"
proof -
  from assms obtain d1 where r: "reserveResources pid iid (input_resources input) False d = (d1, Inr ())"
    and rest: "db_bindings d' = db_bindings d1" "db_projects d' = db_projects d1" "same_people d1 d'"
      "\<exists>row. db_operations d' = db_operations d1 @ [row] \<and> recorded actor pid InstanceUpdate key h now row \<and> rp_operation a = opSummary row"
      "op_keys_unique (db_operations d')" "one_unfinished (db_operations d')"
    unfolding update_tx_def
    by (auto simp: accept_simps same_people_refl recorded_new split: if_splits option.splits)
  show ?thesis using r rest reserve_people[OF r] same_people_trans[of d d1 d'] by (auto simp: records_one_def)
qed

lemma rotate_tx_new:
  assumes "rotate_tx opts rn actor pid iid desired expected key h now d = (d', Inr a)" "\<not> rp_replayed a"
  shows "records_one actor pid InstanceRotate key h now a d d' \<and> db_bindings d' = db_bindings d"
  using assms unfolding rotate_tx_def
  by (auto simp: accept_simps records_one_def same_people_refl recorded_new split: if_splits option.splits dest!: next_credential_Inr)

lemma delete_tx_new:
  assumes "delete_tx actor pid iid oid key h now d = (d', Inr a)" "\<not> rp_replayed a"
  shows "records_one actor pid InstanceDelete key h now a d d' \<and>
    db_bindings d' = sql_update (\<lambda>b. b_id b = iid) (\<lambda>b. b\<lparr>b_lifecycle := Deleting\<rparr>) (db_bindings d)"
  using assms unfolding delete_tx_def
  by (auto simp: accept_simps records_one_def same_people_refl recorded_new split: if_splits option.splits)

lemma volume_delete_tx_new:
  assumes "volume_delete_tx actor pid iid oid vuid key h now d = (d', Inr a)" "\<not> rp_replayed a"
  shows "records_one actor pid VolumeDelete key h now a d d' \<and> db_bindings d' = db_bindings d"
  using assms unfolding volume_delete_tx_def
  by (auto simp: accept_simps records_one_def same_people_refl recorded_new split: if_splits option.splits)

lemma create_tx_new:
  assumes "create_tx opts rn actor pid input sc key h now d = (d', Inr a)" "\<not> rp_replayed a"
  shows "\<exists>p desired d1 d2. find_project d pid = Some p \<and> p_state p = PReady \<and>
    desiredObject input pid (p_namespace p) (rn_id rn) sc (rn_operationId rn) h = Inr desired \<and>
    insert_binding (new_binding (rn_id rn) pid (om_name (co_metadata desired)) (in_name input) (ac_id actor)
      (in_template input) (tr_version (sp_templateRef (co_spec desired))) now) d = (d1, Inr ()) \<and>
    reserveResources pid (rn_id rn) (input_resources input) True d1 = (d2, Inr ()) \<and>
    db_bindings d' = db_bindings d2 \<and> db_projects d' = db_projects d2 \<and>
    records_one actor pid InstanceCreate key h now a d d' \<and>
    (rp_password a \<noteq> None \<longrightarrow> ac_platform_admin actor \<or> member_role d' pid (ac_id actor) = Some Admin)"
proof -
  from assms obtain p desired d1 d2 d3 where p: "find_project d pid = Some p" "p_state p = PReady"
    and des: "desiredObject input pid (p_namespace p) (rn_id rn) sc (rn_operationId rn) h = Inr desired"
    and b: "insert_binding (new_binding (rn_id rn) pid (om_name (co_metadata desired)) (in_name input) (ac_id actor)
      (in_template input) (tr_version (sp_templateRef (co_spec desired))) now) d = (d1, Inr ())"
    and r: "reserveResources pid (rn_id rn) (input_resources input) True d1 = (d2, Inr ())"
    and c: "insert_credential \<lparr>c_instance_id = rn_id rn, c_name = ''default'',
                  c_secret_name = ac_credentialsSecretRef (sp_access (co_spec desired)), c_revision = 1, c_state = CredPending\<rparr> d2 = (d3, Inr ())"
    and rest: "db_bindings d' = db_bindings d3" "db_projects d' = db_projects d3" "same_people d3 d'"
      "\<exists>row. db_operations d' = db_operations d3 @ [row] \<and> recorded actor pid InstanceCreate key h now row \<and> rp_operation a = opSummary row"
      "op_keys_unique (db_operations d')" "one_unfinished (db_operations d')"
      "rp_password a \<noteq> None \<longrightarrow> ac_platform_admin actor \<or> member_role d' pid (ac_id actor) = Some Admin"
    unfolding create_tx_def
    by (auto simp: accept_simps same_people_refl recorded_new member_role_def split: if_splits option.splits)
  have d1: "d1 = d\<lparr>db_bindings := db_bindings d1\<rparr>" using b by (auto simp: insert_binding_Inr)
  then have "same_people d d1" "db_operations d1 = db_operations d" using same_people_refl[of d] by (metis same_people_frame(1), metis database.select_convs(6) database.surjective database.update_convs(5))
  moreover have "same_people d2 d3" "db_operations d3 = db_operations d2" "db_bindings d3 = db_bindings d2" "db_projects d3 = db_projects d2"
    using insert_credential_Inr[OF c] by (simp_all add: same_people_def)
  ultimately have "same_people d d'" "db_operations d3 = db_operations d"
    using reserve_people[OF r] rest(3) same_people_trans by (blast, simp)
  then show ?thesis using p des b r rest \<open>db_bindings d3 = db_bindings d2\<close> \<open>db_projects d3 = db_projects d2\<close>
    by (intro exI[of _ p] exI[of _ desired] exI[of _ d1] exI[of _ d2]) (simp add: records_one_def)
qed

lemma admit_quota_Inr: "admit_quota pid d = (d', Inr x) \<Longrightarrow> d' = d \<and> within_quota d pid"
  using admit_quota_iff[of pid d d'] by simp

lemma reclaim_tx_new:
  assumes "reclaim_tx opts rn actor pid iid input b desired vuid key h now d = (d', Inr a)" "\<not> rp_replayed a"
  shows "\<exists>cur. sql_first (\<lambda>r. b_id r = iid \<and> b_project_id r = pid) (db_bindings d) = Some cur \<and>
    unchanged_for_reclaim input b cur \<and>
    db_bindings d' = sql_update (\<lambda>r. b_id r = iid) (\<lambda>r. raise_row (input_resources input) (r\<lparr>b_lifecycle := Pending\<rparr>)) (db_bindings d) \<and>
    within_quota d' pid \<and> records_one actor pid InstanceReclaim key h now a d d'"
proof -
  let ?d = "d\<lparr>db_bindings := sql_update (\<lambda>r. b_id r = iid) (\<lambda>r. raise_row (input_resources input) (r\<lparr>b_lifecycle := Pending\<rparr>)) (db_bindings d)\<rparr>"
  have frame: "within_quota x pid \<Longrightarrow> db_bindings x' = db_bindings x \<Longrightarrow> db_projects x' = db_projects x \<Longrightarrow> within_quota x' pid" for x x'
    by (simp add: within_quota_def project_quota_def obeys_def total_instances_def total_storage_def total_cpu_def
        total_memory_def total_unknown_def project_bindings_def)
  let ?row = "new_operation (rn_operationId rn) pid (Some iid) InstanceReclaim key h (empty_request\<lparr>rq_desired := Some desired,
      rq_previousInstanceUID := b_kubernetes_uid b, rq_volumeUid := Some vuid\<rparr>) (Some (sealed opts rn)) (ac_id actor) now"
  from assms obtain cur d2 d3 d4 where cur: "sql_first (\<lambda>r. b_id r = iid \<and> b_project_id r = pid) (db_bindings d) = Some cur"
      "unchanged_for_reclaim input b cur"
    and q0: "admit_quota pid ?d = (d2, Inr ())" and ins: "insert_operation ?row d2 = (d3, Inr ())"
    and cred: "next_credential iid (ac_credentialsSecretRef (sp_access (co_spec desired))) d3 = (d4, Inr ())"
    and fin: "same_people d4 d'" "db_bindings d' = db_bindings d4" "db_operations d' = db_operations d4"
    and a: "rp_operation a = opSummary ?row"
    unfolding reclaim_tx_def
    by (auto simp: mbind_Inr lockProject_run replay_run mthrow_if_def Let_def audit_run same_people_refl split: if_splits option.splits)
  have q: "within_quota ?d pid" and d2: "d2 = ?d" using admit_quota_Inr[OF q0] by simp_all
  have d3: "d3 = d2\<lparr>db_operations := db_operations d2 @ [?row]\<rparr>" "op_keys_unique (db_operations d2 @ [?row])"
    "one_unfinished (db_operations d2 @ [?row])" using ins unfolding insert_operation_Inr by blast+
  obtain crow where d4: "d4 = d3\<lparr>db_credentials := db_credentials d3 @ [crow]\<rparr>" using next_credential_Inr[OF cred] by blast
  have ops: "db_operations d' = db_operations d @ [?row]" using fin(3) d4 d3 d2 by simp
  have rest: "db_bindings d' = db_bindings ?d" "same_people ?d d'"
      "\<exists>row. db_operations d' = db_operations d @ [row] \<and> recorded actor pid InstanceReclaim key h now row \<and> rp_operation a = opSummary row"
      "op_keys_unique (db_operations d')" "one_unfinished (db_operations d')"
    using fin d4 d3 d2 ops a recorded_new by (simp_all add: same_people_def)
  have "same_people d d'" using rest(2) by (simp add: same_people_def)
  then show ?thesis using cur q rest frame[OF q, of d'] by (simp add: records_one_def same_people_def)
qed

section \<open>Acceptance as a whole\<close>

lemma accept_records:
  assumes "accept_tx opts rn actor pid sub key h now d = (d', Inr a)" "\<not> rp_replayed a"
  shows "records_one actor pid (sub_kind sub) key h now a d d'"
  using assms
  by (cases sub) (auto dest: create_tx_new update_tx_new rotate_tx_new delete_tx_new volume_delete_tx_new reclaim_tx_new)

lemma accept_fresh:
  assumes "accept_tx opts rn actor pid sub key h now d = (d', Inr a)"
    and "sql_first (same_request pid (sub_kind sub) key) (db_operations d) = None"
  shows "\<not> rp_replayed a"
  using assms
  by (cases sub) (auto simp: create_tx_def update_tx_def rotate_tx_def delete_tx_def volume_delete_tx_def reclaim_tx_def
      mbind_Inr lockProject_run replay_run Let_def split: if_splits option.splits)

lemma accept_cases:
  assumes "accept_tx opts rn actor pid sub key h now d = (d', Inr a)"
  shows "(\<exists>r. sql_first (same_request pid (sub_kind sub) key) (db_operations d) = Some r \<and> o_request_hash r = h \<and>
      d' = d \<and> a = replied (opSummary r)) \<or>
    (sql_first (same_request pid (sub_kind sub) key) (db_operations d) = None \<and> \<not> rp_replayed a \<and>
      records_one actor pid (sub_kind sub) key h now a d d')"
proof (cases "sql_first (same_request pid (sub_kind sub) key) (db_operations d)")
  case None
  then show ?thesis using accept_fresh[OF assms] accept_records[OF assms] by blast
next
  case (Some r)
  then show ?thesis
    using accept_replays[of d actor pid sub key r opts rn h now] accept_authorized[OF assms] assms
    by (auto split: if_splits)
qed

lemma may_act_users:
  assumes "db_users d' = db_users d" "db_members d' = db_members d"
  shows "may_act d' = may_act d"
proof -
  have "find_user d' = find_user d" "member_role d' = member_role d"
    using assms by (auto simp: find_user_def member_role_def fun_eq_iff)
  then show ?thesis by (intro ext) (simp add: may_act_def split: option.splits)
qed

lemma may_act_frame: "same_people d d' \<Longrightarrow> may_act d' = may_act d"
  unfolding same_people_def by (rule may_act_users) blast+

lemma accept_people: "accept_tx opts rn actor pid sub key h now d = (d', Inr a) \<Longrightarrow> same_people d d'"
  using accept_cases[of opts rn actor pid sub key h now d d' a] same_people_refl by (auto simp: records_one_def)

lemma resume_tx_Inr:
  assumes "resume_tx actor pid op key now d = (d', Inr ())"
  shows "may_resume op \<and> \<not> list_ex (newer_than op) (db_operations d) \<and>
    (\<exists>b. sql_first (\<lambda>b. Some (b_id b) = o_instance_id op) (db_bindings d) = Some b \<and> \<not> unavailable op (Some b)) \<and>
    db_operations d' = sql_update (\<lambda>r. o_id r = o_id op) (resume_row now) (db_operations d) \<and>
    op_keys_unique (db_operations d') \<and> one_unfinished (db_operations d') \<and>
    db_users d' = db_users d \<and> db_members d' = db_members d \<and> db_projects d' = db_projects d \<and> db_sessions d' = db_sessions d \<and>
    db_bindings d' = (if creating_kind (o_kind op) then sql_update (\<lambda>b. Some (b_id b) = o_instance_id op) (\<lambda>b. b\<lparr>b_lifecycle := Pending\<rparr>) (db_bindings d)
      else db_bindings d) \<and>
    db_retries d' = db_retries d @ [\<lparr>rt_project_id = pid, rt_idempotency_key = key, rt_operation_id = o_id op\<rparr>]"
  using assms unfolding resume_tx_def
  by (cases "sql_first (\<lambda>b. Some (b_id b) = o_instance_id op) (db_bindings d)")
     (auto simp: mbind_Inr mthrow_if_def write_operations_Inr audit_run mwhen_def set_lifecycle_run unavailable_def split: if_splits)

lemma retry_tx_Inr:
  assumes "retry_tx actor pid oid key now d = (d', Inr a)"
  shows "may_act d (ac_id actor) pid [Admin] \<and>
    (\<exists>op. sql_first (\<lambda>r. o_id r = oid \<and> o_project_id r = pid) (db_operations d) = Some op \<and>
      (if sql_first (\<lambda>r. rt_project_id r = pid \<and> rt_idempotency_key r = key) (db_retries d) = None
       then resume_tx actor pid op key now d = (d', Inr ()) else d' = d))"
  using assms unfolding retry_tx_def
  by (auto simp: mbind_Inr lockProject_run mthrow_if_def mwhen_def split: if_splits option.splits)

lemma retry_may_act:
  assumes "retry_tx actor pid oid key now d = (d', Inr a)"
  shows "may_act d' (ac_id actor) pid [Admin]"
proof -
  from retry_tx_Inr[OF assms] have m: "may_act d (ac_id actor) pid [Admin]"
    and "d' = d \<or> (\<exists>op. resume_tx actor pid op key now d = (d', Inr ()))"
    by (auto split: if_splits)
  then have "db_users d' = db_users d \<and> db_members d' = db_members d" using resume_tx_Inr by blast
  then show ?thesis using m may_act_users[of d' d] by simp
qed

section \<open>The routes\<close>

datatype instance_call =
    Post_Instance string
  | Patch_Instance string string
  | Post_Rotate string string
  | Delete_Instance string string
  | Delete_Volume string string
  | Post_Reclaim string string
  | Post_Retry string string

fun serve_instance ::
  "'w app_env \<Rightarrow> 'w instance_options \<Rightarrow> randoms \<Rightarrow> http_request \<Rightarrow> instance_call \<Rightarrow> ('w sys, accepted) action" where
  "serve_instance env opts rn req (Post_Instance p) = create_instance env opts rn req p"
| "serve_instance env opts rn req (Patch_Instance p i) = update_instance env opts rn req p i"
| "serve_instance env opts rn req (Post_Rotate p i) = rotate_credentials env opts rn req p i"
| "serve_instance env opts rn req (Delete_Instance p i) = delete_instance env rn req p i"
| "serve_instance env opts rn req (Delete_Volume p i) = delete_retained_volume env opts rn req p i"
| "serve_instance env opts rn req (Post_Reclaim p i) = reclaim_volume env opts rn req p i"
| "serve_instance env opts rn req (Post_Retry p i) = retry_operation env req p i"

fun call_project :: "instance_call \<Rightarrow> string" where
  "call_project (Post_Instance p) = p"
| "call_project (Patch_Instance p _) = p"
| "call_project (Post_Rotate p _) = p"
| "call_project (Delete_Instance p _) = p"
| "call_project (Delete_Volume p _) = p"
| "call_project (Post_Reclaim p _) = p"
| "call_project (Post_Retry p _) = p"

fun call_roles :: "instance_call \<Rightarrow> role list" where
  "call_roles (Post_Instance _) = [Admin, Maintainer]"
| "call_roles (Patch_Instance _ _) = [Admin, Maintainer]"
| "call_roles _ = [Admin]"

text \<open>What holds of every normal result of an action.\<close>

definition ensures :: "('s \<Rightarrow> bool) \<Rightarrow> ('s, 'a) action \<Rightarrow> bool" where
  "ensures Q m \<longleftrightarrow> (\<forall>s s' x. m s = (s', Inr x) \<longrightarrow> Q s')"

lemma ensures_mbind: "(\<And>x. ensures Q (f x)) \<Longrightarrow> ensures Q (mbind m f)"
  by (auto simp: ensures_def mbind_Inr)

lemma ensures_throw: "ensures Q (http_error c m)" "ensures Q (mthrow e)"
  by (auto simp: ensures_def)

lemma ensures_option:
  "(v = None \<Longrightarrow> ensures Q m) \<Longrightarrow> (\<And>x. v = Some x \<Longrightarrow> ensures Q (f x)) \<Longrightarrow>
   ensures Q (case v of None \<Rightarrow> m | Some x \<Rightarrow> f x)"
  by (cases v) auto

lemma ensures_replay:
  assumes "ensures Q m" "ensures Q k"
  shows "ensures Q (mbind m (\<lambda>r. case r of None \<Rightarrow> k | Some x \<Rightarrow> mret (g x)))"
  using assms unfolding ensures_def by (force simp: mbind_Inr split: option.splits)

lemma ensures_transaction:
  assumes "\<And>now d d' x. run now d = (d', Inr x) \<Longrightarrow> Q d'"
  shows "ensures (\<lambda>s. Q (sys_db s)) (transaction run)"
  using assms by (auto simp: ensures_def transaction_Inr)

abbreviation acts :: "actor \<Rightarrow> string \<Rightarrow> role list \<Rightarrow> 'w sys \<Rightarrow> bool" where
  "acts actor pid roles s \<equiv> may_act (sys_db s) (ac_id actor) pid roles"

lemma ensures_accept:
  assumes "\<And>now d. run now d = accept_tx opts rn actor pid sub key h now d" "roles = sub_roles sub"
  shows "ensures (acts actor pid roles) (transaction run)"
proof (rule ensures_transaction)
  fix now d d' x
  assume "run now d = (d', Inr x)"
  then have t: "accept_tx opts rn actor pid sub key h now d = (d', Inr x)" using assms(1) by simp
  show "may_act d' (ac_id actor) pid roles"
    using accept_authorized[OF t] may_act_frame[OF accept_people[OF t]] assms(2) by simp
qed

lemma ensures_replay_tx: "ensures (acts actor pid roles) (transaction (replay_tx pid actor roles kind key h))"
  by (rule ensures_transaction)
     (auto simp: replay_tx_def mbind_Inr lockProject_run replay_run split: if_splits option.splits)

lemma parse_uuid_Inr: "parse_uuid env x s = (s', Inr y) \<Longrightarrow> s' = s \<and> y = x"
  by (auto simp: parse_uuid_def z_check_def split: option.splits if_splits)

text \<open>A route that has read its ids asks for access and goes on with the actor.\<close>

lemma after_access:
  assumes "mbind (projectAccess env req pid roles) f s = (s', Inr a)" and "\<And>actor. ensures (acts actor pid roles') (f actor)"
  shows "\<exists>actor. user env req s = (s, Inr actor) \<and> may_act (sys_db s') (ac_id actor) pid roles'"
  using assms projectAccess_Inr[of env req pid roles s] by (fastforce simp: mbind_Inr ensures_def)

lemma after_id:
  assumes "mbind (parse_uuid env p) (\<lambda>pid. mbind (projectAccess env req pid roles) (f pid)) s = (s', Inr a)"
    and "\<And>actor. ensures (acts actor p roles') (f p actor)"
  shows "\<exists>actor. user env req s = (s, Inr actor) \<and> may_act (sys_db s') (ac_id actor) p roles'"
  using assms(1) after_access[OF _ assms(2)] by (auto simp: mbind_Inr[of "parse_uuid env p"] dest!: parse_uuid_Inr)

lemma after_ids:
  assumes "mbind (parse_uuid env p) (\<lambda>pid. mbind (parse_uuid env i) (\<lambda>iid. mbind (projectAccess env req pid roles) (f pid iid))) s = (s', Inr a)"
    and "\<And>actor. ensures (acts actor p roles') (f p i actor)"
  shows "\<exists>actor. user env req s = (s, Inr actor) \<and> may_act (sys_db s') (ac_id actor) p roles'"
  using assms(1) after_access[OF _ assms(2)]
  by (auto simp: mbind_Inr[of "parse_uuid env p"] mbind_Inr[of "parse_uuid env i"] dest!: parse_uuid_Inr)

lemma ensures_let: "ensures Q (f x) \<Longrightarrow> ensures Q (Let x f)"
  by (simp add: Let_def)

lemmas ensures_route = ensures_replay ensures_mbind ensures_throw ensures_option ensures_let ensures_replay_tx

lemma accepted_may_act:
  assumes "serve_instance env opts rn req call s = (s', Inr a)"
  shows "\<exists>actor. user env req s = (s, Inr actor) \<and>
    may_act (sys_db s') (ac_id actor) (call_project call) (call_roles call)"
proof (cases call)
  case (Post_Instance p)
  with assms have h: "create_instance env opts rn req p s = (s', Inr a)" by simp
  show ?thesis unfolding Post_Instance call_project.simps call_roles.simps
    by (rule after_id[OF h[unfolded create_instance_def]]) (intro ensures_route ensures_accept[where sub = "Create _ _"], auto)
next
  case (Patch_Instance p i)
  with assms have h: "update_instance env opts rn req p i s = (s', Inr a)" by simp
  show ?thesis unfolding Patch_Instance call_project.simps call_roles.simps
    by (rule after_ids[OF h[unfolded update_instance_def]]) (intro ensures_route ensures_accept[where sub = "Update _ _ _ _"], auto)
next
  case (Post_Rotate p i)
  with assms have h: "rotate_credentials env opts rn req p i s = (s', Inr a)" by simp
  show ?thesis unfolding Post_Rotate call_project.simps call_roles.simps
    by (rule after_ids[OF h[unfolded rotate_credentials_def]]) (intro ensures_route ensures_accept[where sub = "Rotate _ _ _"], auto)
next
  case (Delete_Instance p i)
  with assms have h: "delete_instance env rn req p i s = (s', Inr a)" by simp
  show ?thesis unfolding Delete_Instance call_project.simps call_roles.simps
    by (rule after_ids[OF h[unfolded delete_instance_def]]) (intro ensures_route ensures_accept[where sub = "Delete _"], auto)
next
  case (Delete_Volume p i)
  with assms have h: "delete_retained_volume env opts rn req p i s = (s', Inr a)" by simp
  show ?thesis unfolding Delete_Volume call_project.simps call_roles.simps
    by (rule after_ids[OF h[unfolded delete_retained_volume_def]]) (intro ensures_route ensures_accept[where sub = "Volume_Delete _ _"], auto)
next
  case (Post_Reclaim p i)
  with assms have h: "reclaim_volume env opts rn req p i s = (s', Inr a)" by simp
  show ?thesis unfolding Post_Reclaim call_project.simps call_roles.simps
    by (rule after_ids[OF h[unfolded reclaim_volume_def]]) (intro ensures_route ensures_accept[where sub = "Reclaim _ _ _ _ _"], auto)
next
  case (Post_Retry p i)
  with assms have h: "retry_operation env req p i s = (s', Inr a)" by simp
  show ?thesis unfolding Post_Retry call_project.simps call_roles.simps
    by (rule after_ids[OF h[unfolded retry_operation_def]]) (intro ensures_route ensures_transaction, rule retry_may_act)
qed

text \<open>Who may act in a project, on the rows: an active account that is a platform administrator or a
  member with one of the roles.\<close>

definition entitled :: "database \<Rightarrow> string \<Rightarrow> string \<Rightarrow> role list \<Rightarrow> bool" where
  "entitled d uid pid roles \<longleftrightarrow> (\<exists>u \<in> set (db_users d). u_id u = uid \<and> u_active u \<and>
     (u_platform_admin u \<or>
      (\<exists>m \<in> set (db_members d). m_project_id m = pid \<and> m_user_id m = uid \<and> m_role m \<in> set roles)))"

lemma may_act_entitled: "may_act d uid pid roles \<Longrightarrow> entitled d uid pid roles"
  unfolding may_act_def entitled_def find_user_def member_role_def
  by (auto split: option.splits dest!: sql_first_Some)

text \<open>C3: Acceptance is atomic with authorization. Whatever other requests, workers and the cluster
  do while an instance request is handled, if it is answered with an operation then the request was
  authenticated when it arrived, and at the moment of the commit its account is still active and is
  a platform administrator or holds a role the route asks for in that project.\<close>

theorem accepted_is_authorized:
  assumes "serve_instance env opts rn req call s = (s', Inr a)"
  shows "\<exists>actor. user env req s = (s, Inr actor) \<and>
    entitled (sys_db s') (ac_id actor) (call_project call) (call_roles call)"
  using accepted_may_act[OF assms] may_act_entitled by blast

section \<open>Idempotency\<close>

definition request_key :: "op_row \<Rightarrow> string \<times> string \<times> op_kind \<times> string \<times> string" where
  "request_key r = (o_id r, o_project_id r, o_kind r, o_idempotency_key r, o_request_hash r)"

lemma accept_row:
  assumes "accept_tx opts rn actor pid sub key h now d = (d', Inr a)"
  shows "\<exists>r \<in> set (db_operations d'). request_key r = (os_id (rp_operation a), pid, sub_kind sub, key, h)"
proof -
  consider r where "sql_first (same_request pid (sub_kind sub) key) (db_operations d) = Some r" "o_request_hash r = h" "d' = d"
      "rp_operation a = opSummary r"
    | row where "db_operations d' = db_operations d @ [row]" "recorded actor pid (sub_kind sub) key h now row" "rp_operation a = opSummary row"
    using accept_cases[OF assms] by (auto simp: records_one_def)
  then show ?thesis
  proof cases
    case 1
    then show ?thesis using sql_first_Some[OF 1(1)] by (auto simp: request_key_def opSummary_def)
  next
    case 2
    then show ?thesis by (auto simp: request_key_def opSummary_def recorded_def)
  qed
qed

lemma sql_first_unique:
  assumes "op_keys_unique rows" "r \<in> set rows" "same_request pid kind key r"
  shows "sql_first (same_request pid kind key) rows = Some r"
proof -
  obtain x where x: "sql_first (same_request pid kind key) rows = Some x"
    using assms(2,3) sql_first_None[of "same_request pid kind key" rows]
    by (cases "sql_first (same_request pid kind key) rows") auto
  have "x \<in> set rows" "same_request pid kind key x" using sql_first_Some[OF x] by simp_all
  moreover have "inj_on (\<lambda>r. (o_project_id r, o_kind r, o_idempotency_key r)) (set rows)"
    using assms(1) by (simp add: op_keys_unique_def distinct_map)
  ultimately have "x = r" using assms(2,3) by (auto dest: inj_onD)
  then show ?thesis using x by simp
qed

text \<open>C5: Requests are idempotent. Once a request has been answered with an operation, any later
  request of the same kind with the same idempotency key changes nothing: with the same content it
  is answered with the same operation, as it is by then, and no password; with other content it is
  refused. This holds whoever asks, whatever random values the second request draws and whatever
  happened to other rows in between, as long as rows keep their identity.\<close>

theorem requests_are_idempotent:
  assumes "accept_tx opts rn actor pid sub key h now d = (d1, Inr a)"
    and "\<forall>x \<in> set (db_operations d1). \<exists>y \<in> set (db_operations d2). request_key y = request_key x"
    and "op_keys_unique (db_operations d2)" and "sub_kind sub2 = sub_kind sub"
    and "may_act d2 (ac_id actor2) pid (sub_roles sub2)" and "find_project d2 pid \<noteq> None"
  shows "\<exists>r \<in> set (db_operations d2). o_id r = os_id (rp_operation a) \<and>
    accept_tx opts2 rn2 actor2 pid sub2 key h2 now2 d2 =
      (d2, if h2 = h then Inr (replied (opSummary r))
           else Inl (HttpError 409 ''Idempotency key was already used for another request''))"
proof -
  obtain x where x: "x \<in> set (db_operations d1)" "request_key x = (os_id (rp_operation a), pid, sub_kind sub, key, h)"
    using accept_row[OF assms(1)] by blast
  then obtain r where r: "r \<in> set (db_operations d2)" "request_key r = (os_id (rp_operation a), pid, sub_kind sub, key, h)"
    using assms(2) by metis
  have "sql_first (same_request pid (sub_kind sub2) key) (db_operations d2) = Some r"
    by (rule sql_first_unique[OF assms(3) r(1)]) (use r(2) assms(4) in \<open>auto simp: request_key_def\<close>)
  from accept_replays[OF assms(5,6) this, of opts2 rn2 h2 now2] r show ?thesis
    by (intro bexI[of _ r]) (auto simp: request_key_def)
qed

section \<open>Admission\<close>

fun sub_input :: "submission \<Rightarrow> instance_input option" where
  "sub_input (Create input _) = Some input"
| "sub_input (Update _ input _ _) = Some input"
| "sub_input (Reclaim _ input _ _ _) = Some input"
| "sub_input _ = None"

fun sub_instance :: "randoms \<Rightarrow> submission \<Rightarrow> string" where
  "sub_instance rn (Create _ _) = rn_id rn"
| "sub_instance rn (Update iid _ _ _) = iid"
| "sub_instance rn (Rotate iid _ _) = iid"
| "sub_instance rn (Delete iid) = iid"
| "sub_instance rn (Volume_Delete iid _) = iid"
| "sub_instance rn (Reclaim iid _ _ _ _) = iid"

lemma within_quota_frame:
  "db_bindings d' = db_bindings d \<Longrightarrow> db_projects d' = db_projects d \<Longrightarrow> within_quota d' pid = within_quota d pid"
  by (simp add: within_quota_def project_quota_def obeys_def total_instances_def total_storage_def total_cpu_def
      total_memory_def total_unknown_def project_bindings_def)

definition holds_reservation :: "string \<Rightarrow> string \<Rightarrow> resources \<Rightarrow> binding_row list \<Rightarrow> bool" where
  "holds_reservation pid iid x rows \<longleftrightarrow> (\<exists>b \<in> set rows. b_project_id b = pid \<and> b_id b = iid \<and> counted b \<and> reserves_at_least x b)"

lemma raise_row_fields [simp]:
  "b_id (raise_row x r) = b_id r" "b_project_id (raise_row x r) = b_project_id r" "b_lifecycle (raise_row x r) = b_lifecycle r"
  by (simp_all add: raise_row_def)

lemma reserve_holds:
  assumes "reserveResources pid iid x c d = (d', Inr ())"
  shows "within_quota d' pid \<and> holds_reservation pid iid x (db_bindings d')"
proof -
  note r = reserveResources_Inr[OF assms]
  then obtain b where b: "b \<in> set (db_bindings d)" "reserving pid iid b"
    by (metis (mono_tags, lifting) filter_empty_conv length_0_conv zero_neq_one)
  then have "raise_row x b \<in> set (db_bindings d')" using r by (auto simp: set_sql_update)
  moreover have "counted (raise_row x b)" using b by (simp add: counted_def)
  ultimately have "holds_reservation pid iid x (db_bindings d')"
    unfolding holds_reservation_def using b raise_row_reserves by (intro bexI[of _ "raise_row x b"]) simp_all
  then show ?thesis using r by blast
qed

text \<open>C6: Admission respects the quota. A creation, update or reclaim that records a new operation
  leaves the project within its quota by the exact sums, and the instance's row holds a reservation
  of at least what the request asks for.\<close>

theorem admission_within_quota:
  assumes "accept_tx opts rn actor pid sub key h now d = (d', Inr a)" and "\<not> rp_replayed a" and "sub_input sub = Some input"
  shows "within_quota d' pid \<and> holds_reservation pid (sub_instance rn sub) (input_resources input) (db_bindings d')"
proof (cases sub)
  case (Create i sc)
  then have "create_tx opts rn actor pid i sc key h now d = (d', Inr a)" "i = input" using assms by simp_all
  from create_tx_new[OF this(1) assms(2)] obtain d1 d2 where
    r: "reserveResources pid (rn_id rn) (input_resources i) True d1 = (d2, Inr ())"
    and f: "db_bindings d' = db_bindings d2" "db_projects d' = db_projects d2" by blast
  show ?thesis using reserve_holds[OF r] within_quota_frame[OF f] f Create \<open>i = input\<close> by simp
next
  case (Update iid i desired expected)
  then have "update_tx actor pid iid (rn_operationId rn) i desired expected key h now d = (d', Inr a)" "i = input"
    using assms by simp_all
  from update_tx_new[OF this(1) assms(2)] obtain d2 where
    r: "reserveResources pid iid (input_resources i) False d = (d2, Inr ())"
    and f: "db_bindings d' = db_bindings d2" "db_projects d' = db_projects d2" by blast
  show ?thesis using reserve_holds[OF r] within_quota_frame[OF f] f Update \<open>i = input\<close> by simp
next
  case (Reclaim iid i b desired vuid)
  then obtain cur where cur: "sql_first (\<lambda>r. b_id r = iid \<and> b_project_id r = pid) (db_bindings d) = Some cur"
    and q: "within_quota d' pid" and i: "i = input"
    and rows: "db_bindings d' = sql_update (\<lambda>r. b_id r = iid) (\<lambda>r. raise_row (input_resources i) (r\<lparr>b_lifecycle := Pending\<rparr>)) (db_bindings d)"
    using reclaim_tx_new[of opts rn actor pid iid i b desired vuid key h now d d' a] assms by auto
  have c: "cur \<in> set (db_bindings d)" "b_id cur = iid" "b_project_id cur = pid" using sql_first_Some[OF cur] by simp_all
  then have "raise_row (input_resources i) (cur\<lparr>b_lifecycle := Pending\<rparr>) \<in> set (db_bindings d')"
    unfolding rows by (auto simp: set_sql_update)
  moreover have "counted (raise_row (input_resources i) (cur\<lparr>b_lifecycle := Pending\<rparr>))" by (simp add: counted_def)
  ultimately have "holds_reservation pid iid (input_resources i) (db_bindings d')"
    using c raise_row_reserves unfolding holds_reservation_def by (intro bexI) auto
  then show ?thesis using q i Reclaim by simp
qed (use assms in auto)

section \<open>Retrying\<close>

lemma resume_row_fields [simp]:
  "o_id (resume_row now r) = o_id r" "o_project_id (resume_row now r) = o_project_id r" "o_kind (resume_row now r) = o_kind r"
  "o_instance_id (resume_row now r) = o_instance_id r" "o_state (resume_row now r) = Reconciling"
  "o_deadline_at (resume_row now r) = now + 1200000" "o_next_attempt_at (resume_row now r) = now"
  "o_worker_id (resume_row now r) = None" "o_lease_until (resume_row now r) = None"
  by (simp_all add: resume_row_def)

lemma sql_first_resume:
  "sql_first (\<lambda>r. o_id r = oid \<and> P (o_project_id r)) (sql_update (\<lambda>r. o_id r = oid) (resume_row now) rows) =
     map_option (resume_row now) (sql_first (\<lambda>r. o_id r = oid \<and> P (o_project_id r)) rows)"
  by (induction rows) auto

text \<open>C38: Only the latest failed operation is resumed, and once per key. A retry that is not a replay
  found the operation failed, recoverable and newer than every other operation of its instance; it
  makes it reconcilable again with a fresh deadline of twenty minutes and no lease, changes no other
  operation, and keeps at most one unfinished operation per instance. The same retry again changes
  nothing and is answered as a replay.\<close>

theorem retry_resumes_latest:
  assumes "retry_tx actor pid oid key now d = (d', Inr a)"
    and "sql_first (\<lambda>r. rt_project_id r = pid \<and> rt_idempotency_key r = key) (db_retries d) = None"
  shows "(\<exists>op. sql_first (\<lambda>r. o_id r = oid \<and> o_project_id r = pid) (db_operations d) = Some op \<and> may_resume op \<and>
      (\<forall>x \<in> set (db_operations d). o_instance_id op \<noteq> None \<and> o_instance_id x = o_instance_id op \<and> o_id x \<noteq> oid \<longrightarrow>
         o_created_at x < o_created_at op) \<and>
      db_operations d' = sql_update (\<lambda>r. o_id r = oid) (resume_row now) (db_operations d) \<and>
      one_unfinished (db_operations d') \<and>
      (may_act d' (ac_id actor2) pid [Admin] \<longrightarrow>
         (\<exists>b. retry_tx actor2 pid oid key now2 d' = (d', Inr b) \<and> rp_replayed b \<and> os_id (rp_operation b) = oid)))"
proof -
  from retry_tx_Inr[OF assms(1)] assms(2) obtain op where
    op: "sql_first (\<lambda>r. o_id r = oid \<and> o_project_id r = pid) (db_operations d) = Some op"
    and res: "resume_tx actor pid op key now d = (d', Inr ())" by auto
  note i = resume_tx_Inr[OF res]
  have id: "o_id op = oid" using sql_first_Some[OF op] by simp
  have newer: "\<forall>x \<in> set (db_operations d). o_instance_id op \<noteq> None \<and> o_instance_id x = o_instance_id op \<and> o_id x \<noteq> oid \<longrightarrow>
      o_created_at x < o_created_at op"
    using i id unfolding list_ex_iff newer_than_def by force
  have ops: "db_operations d' = sql_update (\<lambda>r. o_id r = oid) (resume_row now) (db_operations d)" using i id by simp
  have "\<exists>b. retry_tx actor2 pid oid key now2 d' = (d', Inr b) \<and> rp_replayed b \<and> os_id (rp_operation b) = oid"
    if m: "may_act d' (ac_id actor2) pid [Admin]"
  proof -
    have rows: "sql_first (\<lambda>r. o_id r = oid \<and> o_project_id r = pid) (db_operations d') = Some (resume_row now op)"
      using op sql_first_resume[of oid "\<lambda>p. p = pid" now "db_operations d"] unfolding ops by simp
    obtain q where q: "sql_first (\<lambda>r. o_id r = oid) (db_operations d') = Some q"
      using rows sql_first_Some[OF rows] sql_first_None[of "\<lambda>r. o_id r = oid" "db_operations d'"] by auto
    have p: "find_project d' pid \<noteq> None"
      using assms(1) i unfolding retry_tx_def
      by (auto simp: mbind_Inr lockProject_run find_project_def split: if_splits option.splits)
    have ret: "sql_first (\<lambda>r. rt_project_id r = pid \<and> rt_idempotency_key r = key) (db_retries d') =
        Some \<lparr>rt_project_id = pid, rt_idempotency_key = key, rt_operation_id = oid\<rparr>"
      using i id assms(2) by (simp add: sql_first_append)
    show ?thesis
      using m p rows q ret sql_first_Some[OF q]
      by (auto simp: retry_tx_def mbind_def lockProject_run mthrow_if_run mwhen_def opSummary_def)
  qed
  then show ?thesis using op i newer ops id by blast
qed

section \<open>A sample project\<close>

definition bound_binding :: binding_row where
  "bound_binding = sample_binding\<lparr>b_kubernetes_uid := Some ''uid'', b_lifecycle := Active,
     b_reserved_storage_gib := Some 20, b_reserved_cpu_millis := Some 500, b_reserved_memory_mib := Some 1024\<rparr>"

definition estate_db :: database where
  "estate_db = people_db\<lparr>db_projects := [sample_project], db_bindings := [bound_binding]\<rparr>"

definition estate_sys :: "unit sys" where
  "estate_sys = people_sys\<lparr>sys_db := estate_db\<rparr>"

definition root_actor :: actor where
  "root_actor = \<lparr>ac_id = ''u1'', ac_email = ''root@x'', ac_platform_admin = True\<rparr>"

definition sample_randoms :: randoms where
  "sample_randoms = \<lparr>rn_id = ''i1'', rn_operationId = ''o9'', rn_password = ''pw'', rn_probePassword = ''pp'',
     rn_salt = ''s'', rn_probeSalt = ''ps'', rn_nonce = ''n''\<rparr>"

definition sample_options :: "unit instance_options" where
  "sample_options = \<lparr>io_kube = None, io_encryptionKey = None, io_storageClass = None,
     io_templates = \<lparr>webdavEnabled = False, gradleEnabled = False, turborepoEnabled = False, nxEnabled = False,
       goCacheEnabled = False, gatewayEnabled = False\<rparr>,
     io_hash = (\<lambda>x _. x), io_cipher = (\<lambda>k n a x. (x, []))\<rparr>"

lemma estate_simps [simp]:
  "db_users estate_db = [root_user, second_user]" "db_members estate_db = []" "db_projects estate_db = [sample_project]"
  "db_bindings estate_db = [bound_binding]" "db_sessions estate_db = db_sessions people_db"
  "db_operations estate_db = []" "db_retries estate_db = []"
  "sys_db estate_sys = estate_db" "sys_now estate_sys = 0" "ac_id root_actor = ''u1''"
  "rn_operationId sample_randoms = ''o9''" "rn_id sample_randoms = ''i1''" "p_id sample_project = ''p1''"
  "b_id bound_binding = ''i1''" "b_project_id bound_binding = ''p1''" "b_kubernetes_uid bound_binding = Some ''uid''"
  "b_lifecycle bound_binding = Active" "io_kube sample_options = None"
  by (simp_all add: estate_db_def people_db_def empty_db_def estate_sys_def root_actor_def sample_randoms_def
      sample_project_def bound_binding_def sample_binding_def sample_options_def)

definition delete_row :: "string \<Rightarrow> int \<Rightarrow> op_row" where
  "delete_row h now = new_operation ''o9'' ''p1'' (Some ''i1'') InstanceDelete ''request-1'' h
     (empty_request\<lparr>rq_uid := Some ''uid'', rq_namespace := Some (p_namespace sample_project),
        rq_name := Some (b_resource_name bound_binding)\<rparr>) None ''u1'' now"

lemma sample_roles: "may_act estate_db ''u1'' ''p1'' roles"
  by (simp add: may_act_def find_user_def)

lemmas sample_run = mbind_def lockProject_run replay_run find_project_def sample_roles find_binding_def mthrow_if_def Let_def
  insert_operation_def write_operations_def set_lifecycle_def audit_def op_keys_unique_def one_unfinished_def

lemma sample_delete:
  "\<exists>d' a. delete_tx root_actor ''p1'' ''i1'' ''o9'' ''request-1'' h now estate_db = (d', Inr a) \<and> \<not> rp_replayed a \<and>
     os_id (rp_operation a) = ''o9'' \<and> db_operations d' = [delete_row h now] \<and> db_users d' = db_users estate_db \<and>
     db_projects d' = db_projects estate_db"
  by (simp add: delete_tx_def sample_run unfinished_def delete_row_def opSummary_def new_operation_def)

theorem accepted_is_authorized_witness:
  "\<exists>s' a. serve_instance sample_env sample_options sample_randoms (sample_request []) (Delete_Instance ''p1'' ''i1'') estate_sys = (s', Inr a) \<and>
     entitled (sys_db s') ''u1'' ''p1'' [Admin]"
proof -
  have u: "user sample_env (sample_request b) estate_sys = (estate_sys, Inr root_actor)" for b
    by (simp add: user_def mbind_def live_sessions_def first_row_def bad_csrf_def safe_method_def mthrow_if_def root_actor_def)
  have k: "idempotencyKey (sample_request b) s = (s, Inr ''request-1'')" for b and s :: "unit sys"
    by (simp add: idempotencyKey_def z_check_def header_def text_within_def key_char_def is_alnum_def is_lower_def is_upper_def is_digit_def)
  obtain s' a where r: "serve_instance sample_env sample_options sample_randoms (sample_request []) (Delete_Instance ''p1'' ''i1'') estate_sys = (s', Inr a)"
    using sample_delete[of "request_hash sample_env (JObj [(''instanceId'', JStr ''i1'')])" 0]
    by (auto simp: delete_instance_def mbind_def projectAccess_def u parse_uuid_def z_check_def pause_def query_def
        find_project_def mthrow_if_def k transaction_def root_actor_def)
  show ?thesis using accepted_is_authorized[OF r] r u by auto
qed

theorem requests_are_idempotent_witness:
  "\<exists>d r. delete_tx root_actor ''p1'' ''i1'' ''o10'' ''request-1'' ''h'' 9 d = (d, Inr (replied (opSummary r))) \<and> o_id r = ''o9''"
proof -
  obtain d' a where d: "delete_tx root_actor ''p1'' ''i1'' ''o9'' ''request-1'' ''h'' 0 estate_db = (d', Inr a)"
    and f: "os_id (rp_operation a) = ''o9''" "db_operations d' = [delete_row ''h'' 0]" "db_users d' = db_users estate_db"
      "db_projects d' = db_projects estate_db"
    using sample_delete by blast
  have "accept_tx sample_options sample_randoms root_actor ''p1'' (Delete ''i1'') ''request-1'' ''h'' 0 estate_db = (d', Inr a)"
    using d by simp
  then have "\<exists>r \<in> set (db_operations d'). o_id r = os_id (rp_operation a) \<and>
    accept_tx sample_options (sample_randoms\<lparr>rn_operationId := ''o10''\<rparr>) root_actor ''p1'' (Delete ''i1'') ''request-1'' ''h'' 9 d' =
      (d', if ''h'' = ''h'' then Inr (replied (opSummary r))
           else Inl (HttpError 409 ''Idempotency key was already used for another request''))"
    by (rule requests_are_idempotent)
      (auto simp: f op_keys_unique_def may_act_def find_user_def find_project_def)
  then show ?thesis using f by auto
qed

lemma sample_update:
  "\<exists>d' a. update_tx root_actor ''p1'' ''i1'' ''o9'' sample_input desired ''7'' ''request-1'' ''h'' 0 estate_db = (d', Inr a) \<and> \<not> rp_replayed a"
proof -
  have "valid_quota sample_quota" by (simp add: sample_quota_def valid_quota_def valid_limit_def)
  then have q: "project_quota estate_db ''p1'' = Some sample_quota"
    by (simp add: project_quota_def sample_project_def quotaInput_json)
  have w: "within_quota estate_db ''p1''"
    unfolding within_quota_def q
    by (simp add: obeys_def below_def sample_quota_def total_instances_def total_storage_def total_cpu_def
        total_memory_def total_unknown_def project_bindings_def counted_def sql_sum_def unknown_reservation_def)
      (simp add: bound_binding_def sample_binding_def)
  have b: "raise_row (input_resources sample_input) bound_binding = bound_binding"
    by (simp add: raise_row_def raise_to_def bound_binding_def input_resources_def sample_input_def)
  have "reserveResources ''p1'' ''i1'' (input_resources sample_input) False estate_db = (estate_db, Inr ())"
    using admit_quota_iff[of "''p1''" estate_db estate_db] w
    by (simp add: reserveResources_def mbind_def counted_def b mthrow_if_def)
      (simp add: bound_binding_def sample_binding_def estate_db_def)
  then show ?thesis
    by (simp add: update_tx_def sample_run unfinished_def new_operation_def)
qed

theorem admission_within_quota_witness:
  "\<exists>desired d' a. update_tx root_actor ''p1'' ''i1'' ''o9'' sample_input desired ''7'' ''request-1'' ''h'' 0 estate_db = (d', Inr a) \<and>
     within_quota d' ''p1'' \<and> holds_reservation ''p1'' ''i1'' (input_resources sample_input) (db_bindings d')"
proof -
  obtain d' a desired where u: "update_tx root_actor ''p1'' ''i1'' ''o9'' sample_input desired ''7'' ''request-1'' ''h'' 0 estate_db = (d', Inr a)"
    and n: "\<not> rp_replayed a" using sample_update by blast
  have "accept_tx sample_options sample_randoms root_actor ''p1'' (Update ''i1'' sample_input desired ''7'') ''request-1'' ''h'' 0 estate_db = (d', Inr a)"
    using u by simp
  from admission_within_quota[OF this n] u show ?thesis by auto
qed

definition failed_row :: op_row where
  "failed_row = (delete_row ''h'' 0)\<lparr>o_state := OpFailed\<rparr>"

definition stuck_db :: database where
  "stuck_db = estate_db\<lparr>db_bindings := [bound_binding\<lparr>b_lifecycle := Deleting\<rparr>], db_operations := [failed_row]\<rparr>"

lemma stuck_simps [simp]:
  "db_operations stuck_db = [failed_row]" "db_retries stuck_db = []" "db_users stuck_db = [root_user, second_user]"
  "db_projects stuck_db = [sample_project]" "db_bindings stuck_db = [bound_binding\<lparr>b_lifecycle := Deleting\<rparr>]"
  "o_id failed_row = ''o9''" "o_project_id failed_row = ''p1''" "o_state failed_row = OpFailed" "o_kind failed_row = InstanceDelete"
  "o_instance_id failed_row = Some ''i1''" "rq_uid (o_request failed_row) = Some ''uid''"
  by (simp_all add: stuck_db_def failed_row_def delete_row_def new_operation_def)

lemma sample_retry:
  "\<exists>d' a. retry_tx root_actor ''p1'' ''o9'' ''retry-1'' 50 stuck_db = (d', Inr a) \<and> db_users d' = db_users stuck_db"
  by (simp add: retry_tx_def resume_tx_def sample_run may_act_def find_user_def may_resume_def unavailable_def creating_kind_def newer_than_def
      mwhen_def resume_row_def)

theorem retry_resumes_latest_witness:
  "\<exists>d' b. db_operations d' = [resume_row 50 failed_row] \<and>
     retry_tx root_actor ''p1'' ''o9'' ''retry-1'' 60 d' = (d', Inr b) \<and> rp_replayed b"
proof -
  obtain d' a where r: "retry_tx root_actor ''p1'' ''o9'' ''retry-1'' 50 stuck_db = (d', Inr a)" and u: "db_users d' = db_users stuck_db"
    using sample_retry by blast
  have "may_act d' (ac_id root_actor) ''p1'' [Admin]" by (simp add: may_act_def find_user_def u)
  moreover note retry_resumes_latest[OF r, of root_actor 60]
  ultimately show ?thesis by auto
qed

end
