(* ===== verification/Worker_Props.thy ===== *)
theory Worker_Props
  imports Worker
begin

text \<open>
  Properties of the operation worker: fencing by the lease, the operation state machine and its
  invariant, release of every claim, and what success, binding and deletion require. What a step does
  to the operations table is proved once, for any relation that its database writes keep, in the
  locale \<open>worker_relation\<close>.
\<close>

section \<open>Writes of a step\<close>

definition tables_only :: "(database, unit) action \<Rightarrow> bool" where
  "tables_only m \<longleftrightarrow> keeps (\<lambda>d d'. db_operations d' = db_operations d) m"

lemma same_ops_rel: "reflp (\<lambda>d d'. db_operations d' = db_operations d)"
  "transp (\<lambda>d d'. db_operations d' = db_operations d)"
  by (auto intro: reflpI transpI)

lemma tables_only_put: "(\<And>d. db_operations (f d) = db_operations d) \<Longrightarrow> tables_only (tx_put f)"
  by (simp add: tables_only_def keeps_def)

lemma tables_only_mbind: "tables_only m \<Longrightarrow> (\<And>x. tables_only (f x)) \<Longrightarrow> tables_only (mbind m f)"
  unfolding tables_only_def by (rule keeps_mbind[OF same_ops_rel(2)])

lemma tables_only_mret: "tables_only (mret ())"
  unfolding tables_only_def by (rule keeps_mret[OF same_ops_rel(1)])

lemma tables_only_mwhen: "tables_only m \<Longrightarrow> tables_only (mwhen c m)"
  by (cases c) (simp_all only: mwhen_def if_True if_False tables_only_mret)

lemma tables_only_writes:
  "tables_only (set_lifecycle iid l)" "tables_only (set_project_state pid st)"
  "tables_only (revoke_credentials iid)" "tables_only (activate op desired)"
  "tables_only (audit actor proj inst oper act details)"
  unfolding set_lifecycle_def set_project_state_def revoke_credentials_def activate_def audit_def
  by (intro tables_only_put tables_only_mbind; simp)+

lemma tables_only_settle: "tables_only (settleResources iid desired)"
proof (cases "\<exists>a b c. (leading_number ''Gi'' (st_capacity (sp_storage (co_spec desired))),
    leading_number ''m'' (case map_of (rs_requests (sp_resources (co_spec desired))) ''cpu'' of None \<Rightarrow> '''' | Some q \<Rightarrow> q),
    leading_number ''Mi'' (case map_of (rs_requests (sp_resources (co_spec desired))) ''memory'' of None \<Rightarrow> '''' | Some q \<Rightarrow> q)) = (Some a, Some b, Some c)")
  case True
  then obtain f where "settleResources iid desired = tx_put f" "\<And>d. db_operations (f d) = db_operations d"
    by (auto simp: settleResources_def Let_def)
  then show ?thesis using tables_only_put by metis
next
  case False
  then have "settleResources iid desired = mthrow (JsError ''Unsupported reservation units'')"
    by (auto simp: settleResources_def Let_def split: option.splits)
  then show ?thesis unfolding tables_only_def using keeps_mthrow[OF same_ops_rel(1)] by metis
qed

lemma tables_onlyD: "tables_only m \<Longrightarrow> m d = (d', r) \<Longrightarrow> db_operations d' = db_operations d"
  unfolding tables_only_def by (drule (1) keepsD)

lemma tables_only_seq:
  assumes "mbind m f d = (d', Inr x)" "tables_only m"
  shows "\<exists>y d1. f y d1 = (d', Inr x) \<and> db_operations d1 = db_operations d"
  using assms(1) tables_onlyD[OF assms(2)] unfolding mbind_Inr by metis

text \<open>What one transaction of the worker does to the operations table.\<close>

lemma finish_tx_Inr:
  assumes "tables_only ap" and "finish_tx op st code ap now d = (d', Inr b)"
  shows "if held op now d then b \<and> db_operations d' = sql_update (owns op) (finish_row st code now) (db_operations d)
    else \<not> b \<and> d' = d"
proof (cases "held op now d")
  case False
  then show ?thesis using assms(2) by (simp add: finish_tx_def mbind_def)
next
  case True
  define settle where "settle = (case (o_instance_id op, rq_desired (o_request op)) of
                  (Some iid, Some desired) \<Rightarrow>
                    mwhen (st = Succeeded \<and> iid \<noteq> [] \<and> o_kind op \<in> {InstanceCreate, InstanceReclaim, InstanceUpdate})
                      (settleResources iid desired)
                | _ \<Rightarrow> mret ())"
  have s: "tables_only settle"
    by (auto simp: settle_def simp del: mret_run intro: tables_only_mret tables_only_mwhen tables_only_settle split: option.splits)
  have t: "tables_only (mwhen (st = OpFailed \<and> o_kind op = ProjectCreate) (set_project_state (o_project_id op) PFailed))"
    "tables_only (mwhen (st = OpFailed \<and> o_kind op \<in> {InstanceCreate, InstanceReclaim}) (set_lifecycle (o_instance_id op) Failed))"
    by (rule tables_only_mwhen tables_only_writes)+
  let ?put = "tx_put (\<lambda>d. d\<lparr>db_operations := sql_update (owns op) (finish_row st code now) (db_operations d)\<rparr>)"
  let ?audit = "audit None (Some (o_project_id op)) (o_instance_id op) (Some (o_id op)) (''operation.'' @ state_name st)
      (JObj [(''code'', case code of None \<Rightarrow> JNull | Some c \<Rightarrow> JStr c)])"
  let ?m1 = "mwhen (st = OpFailed \<and> o_kind op = ProjectCreate) (set_project_state (o_project_id op) PFailed)"
  let ?m2 = "mwhen (st = OpFailed \<and> o_kind op \<in> {InstanceCreate, InstanceReclaim}) (set_lifecycle (o_instance_id op) Failed)"
  have 0: "mbind ap (\<lambda>_. mbind settle (\<lambda>_. mbind ?put (\<lambda>_. mbind ?m1 (\<lambda>_. mbind ?m2 (\<lambda>_. mbind ?audit (\<lambda>_. mret True)))))) d =
      (d', Inr b)"
    using True assms(2) by (simp add: finish_tx_def settle_def mbind_def[of "tx_get _"])
  from tables_only_seq[OF 0 assms(1)] obtain d1 where 1: "mbind settle (\<lambda>_. mbind ?put (\<lambda>_. mbind ?m1 (\<lambda>_. mbind ?m2 (\<lambda>_. mbind ?audit (\<lambda>_. mret True))))) d1 =
      (d', Inr b)" "db_operations d1 = db_operations d"
    by blast
  from tables_only_seq[OF 1(1) s] 1(2) obtain d2 where 2: "mbind ?put (\<lambda>_. mbind ?m1 (\<lambda>_. mbind ?m2 (\<lambda>_. mbind ?audit (\<lambda>_. mret True)))) d2 =
      (d', Inr b)" "db_operations d2 = db_operations d"
    by auto
  then obtain d3 where 3: "mbind ?m1 (\<lambda>_. mbind ?m2 (\<lambda>_. mbind ?audit (\<lambda>_. mret True))) d3 = (d', Inr b)"
    "db_operations d3 = sql_update (owns op) (finish_row st code now) (db_operations d)"
    by (simp add: mbind_def[of "tx_put _"])
  from tables_only_seq[OF 3(1) t(1)] obtain d4 where 4: "mbind ?m2 (\<lambda>_. mbind ?audit (\<lambda>_. mret True)) d4 = (d', Inr b)" "db_operations d4 = db_operations d3"
    by auto
  from tables_only_seq[OF 4(1) t(2)] 4(2) obtain d5 where 5: "mbind ?audit (\<lambda>_. mret True) d5 = (d', Inr b)" "db_operations d5 = db_operations d3"
    by auto
  from tables_only_seq[OF 5(1) tables_only_writes(5)] 5(2) obtain d6 where "mret True d6 = (d', Inr b)" "db_operations d6 = db_operations d3"
    by (auto simp del: mret_run)
  then show ?thesis using True 3(2) by simp
qed

lemma bind_tx_Inr:
  assumes "bind_tx op uid g now d = (d', Inr b)"
  shows "if held op now d then b \<and> list_ex (bindable op uid) (db_bindings d) \<and>
      d' = d\<lparr>db_bindings := sql_update (bindable op uid) (\<lambda>b. b\<lparr>b_kubernetes_uid := Some uid\<rparr>) (db_bindings d),
             db_operations := sql_update (owns op) (\<lambda>r. r\<lparr>o_state := Reconciling, o_target_generation := Some g,
               o_updated_at := now\<rparr>) (db_operations d)\<rparr>
    else \<not> b \<and> d' = d"
  using assms by (auto simp: bind_tx_def mbind_def mthrow_if_def split: if_splits)

section \<open>What every write keeps, a step keeps\<close>

definition yields :: "('a \<Rightarrow> bool) \<Rightarrow> ('s, 'a) action \<Rightarrow> bool" where
  "yields Q m \<longleftrightarrow> (\<forall>s s' x. m s = (s', Inr x) \<longrightarrow> Q x)"

lemma yields_mbind: "(\<And>x. yields Q (f x)) \<Longrightarrow> yields Q (mbind m f)"
  unfolding yields_def mbind_Inr by blast

lemma yields_mthrow: "yields Q (mthrow e)"
  by (simp add: yields_def)

lemma yields_mret: "Q x \<Longrightarrow> yields Q (mret x)"
  by (simp add: yields_def)

lemma yields_op_error: "yields Q (op_error c)"
  unfolding op_error_def by (rule yields_mthrow)

lemma yields_option: "yields Q m \<Longrightarrow> (\<And>x. yields Q (f x)) \<Longrightarrow> yields Q (case v of None \<Rightarrow> m | Some x \<Rightarrow> f x)"
  by (cases v) simp_all

lemma yields_if: "(c \<Longrightarrow> yields Q m) \<Longrightarrow> (\<not> c \<Longrightarrow> yields Q n) \<Longrightarrow> yields Q (if c then m else n)"
  by simp

lemma keeps_mbind_yields:
  assumes "transp R" "keeps R m" "yields Q m" "\<And>x. Q x \<Longrightarrow> keeps R (f x)"
  shows "keeps R (mbind m f)"
proof (rule keepsI)
  fix s
  obtain s' r where ms: "m s = (s', r)" by (cases "m s")
  have ss: "R s s'" using assms(2) ms by (rule keepsD)
  show "R s (fst (mbind m f s))"
  proof (cases r)
    case (Inr x)
    then have "Q x" using assms(3) ms by (auto simp: yields_def)
    then have "R s' (fst (f x s'))" using assms(4) by (simp add: keeps_def)
    then show ?thesis using ms Inr ss transpD[OF assms(1)] by (auto simp: mbind_def)
  qed (use ms ss in \<open>simp add: mbind_def\<close>)
qed

definition port_keeps :: "('w sys \<Rightarrow> 'w sys \<Rightarrow> bool) \<Rightarrow> 'w kube_port \<Rightarrow> bool" where
  "port_keeps R k \<longleftrightarrow>
     (\<forall>f desired uid. approveRetainedVolumeReclaim k = Some f \<longrightarrow> keeps R (f desired uid)) \<and>
     (\<forall>i. keeps R (getRetainedVolume k i)) \<and> (\<forall>i u. keeps R (deleteRetainedVolume k i u)) \<and>
     (\<forall>ns p. keeps R (ensureProject k ns p)) \<and>
     (\<forall>ns n p i oid dt. keeps R (ensureCredentials k ns n p i oid dt)) \<and>
     (\<forall>ns n. keeps R (getInstance k ns n)) \<and> (\<forall>x. keeps R (createInstance k x)) \<and>
     (\<forall>x v. keeps R (updateInstance k x v)) \<and> (\<forall>ns n u. keeps R (deleteInstance k ns n u)) \<and>
     (\<forall>ns n p i. keeps R (deleteCredentials k ns n p i))"

definition environment_keeps :: "('w sys \<Rightarrow> 'w sys \<Rightarrow> bool) \<Rightarrow> 'w worker \<Rightarrow> bool" where
  "environment_keeps R w \<longleftrightarrow> port_keeps R (wk_kube w) \<and>
     (\<forall>gate p. wk_quotaGate w = Some gate \<longrightarrow> keeps R (gate p))"

lemma bind_yields:
  assumes "\<And>g. Q (op\<lparr>o_state := Reconciling, o_target_generation := g\<rparr>)"
  shows "yields (\<lambda>p. Q (fst p)) (mbind (bind op x) (\<lambda>op'. mret (op', y)))"
  using assms unfolding yields_def bind_def op_error_def
  by (auto simp: mbind_Inr split: option.splits if_splits)

lemma submit_yields:
  assumes "\<And>g. Q (op\<lparr>o_state := Reconciling, o_target_generation := g\<rparr>)"
  shows "yields (\<lambda>p. Q (fst p)) (submit w op desired)"
  unfolding submit_def by (intro yields_mbind bind_yields assms)

lemma resume_yields:
  assumes "\<And>g. Q (op\<lparr>o_state := Reconciling, o_target_generation := g\<rparr>)" "Q op"
  shows "yields (\<lambda>p. Q (fst p)) (resume w op desired)"
  unfolding resume_def
  by (intro yields_mbind yields_option yields_op_error yields_if bind_yields yields_mret) (simp_all add: assms)

lemma final_states: "\<not> unfinished Succeeded" "\<not> unfinished OpFailed" "\<not> unfinished Superseded"
  "\<not> unfinished (if c then Superseded else OpFailed)"
  by (simp_all add: unfinished_def)

locale worker_relation =
  fixes R :: "'w sys \<Rightarrow> 'w sys \<Rightarrow> bool" and mine :: "op_row \<Rightarrow> bool"
  assumes refl: "reflp R" and trans: "transp R"
    and mine_bound: "mine op \<Longrightarrow> mine (op\<lparr>o_state := Reconciling, o_target_generation := g\<rparr>)"
    and finish_keeps: "mine op \<Longrightarrow> \<not> unfinished st \<Longrightarrow> tables_only ap \<Longrightarrow> keeps R (finish op st code ap)"
    and defer_keeps: "mine op \<Longrightarrow> keeps R (defer_op op code)"
    and bind_keeps: "mine op \<Longrightarrow> keeps R (bind op x)"
    and policy_keeps: "mine op \<Longrightarrow> keeps R (record_policy op policy)"
begin

lemmas sequence = keeps_mbind[OF trans] keeps_mret[OF refl] keeps_mthrow[OF refl] keeps_mlift[OF refl]
  keeps_mthrow_if[OF refl] keeps_mfor[OF refl trans] keeps_if keeps_option

lemma op_error_keeps: "keeps R (op_error c)"
  unfolding op_error_def by (rule keeps_mthrow[OF refl])

lemma query_keeps: "keeps R (query q)"
  using refl by (simp add: keeps_def query_def reflpD)

lemma portD:
  assumes "environment_keeps R w"
  shows "keeps R (getRetainedVolume (wk_kube w) i)" "keeps R (deleteRetainedVolume (wk_kube w) i u)"
    "keeps R (ensureProject (wk_kube w) ns p)" "keeps R (ensureCredentials (wk_kube w) ns n p iid oid dt)"
    "keeps R (getInstance (wk_kube w) ns n)" "keeps R (createInstance (wk_kube w) x)"
    "keeps R (updateInstance (wk_kube w) x v)" "keeps R (deleteInstance (wk_kube w) ns n u)"
    "keeps R (deleteCredentials (wk_kube w) ns n p iid)"
  using assms unfolding environment_keeps_def port_keeps_def by simp_all

lemma approveD:
  "environment_keeps R w \<Longrightarrow> approveRetainedVolumeReclaim (wk_kube w) = Some f \<Longrightarrow> keeps R (f desired uid)"
  by (simp add: environment_keeps_def port_keeps_def)

lemma gateD: "environment_keeps R w \<Longrightarrow> wk_quotaGate w = Some gate \<Longrightarrow> keeps R (gate p)"
  by (simp add: environment_keeps_def)

lemma credentials_keep: "environment_keeps R w \<Longrightarrow> keeps R (delete_all_credentials w ns op secrets)"
  unfolding delete_all_credentials_def by (intro sequence portD)

lemmas steps = sequence op_error_keeps query_keeps finish_keeps defer_keeps policy_keeps bind_keeps
  tables_only_writes credentials_keep final_states

lemma project_keeps: "environment_keeps R w \<Longrightarrow> mine op \<Longrightarrow> keeps R (execute_project w op)"
  unfolding execute_project_def by (intro steps portD)

lemma volume_delete_keeps: "environment_keeps R w \<Longrightarrow> mine op \<Longrightarrow> keeps R (execute_volume_delete w op)"
  unfolding execute_volume_delete_def Let_def by (intro steps portD)

lemma delete_keeps: "environment_keeps R w \<Longrightarrow> mine op \<Longrightarrow> keeps R (execute_delete w op)"
  unfolding execute_delete_def Let_def by (intro steps portD tables_only_mbind)

lemma submit_keeps: "environment_keeps R w \<Longrightarrow> mine op \<Longrightarrow> keeps R (submit w op desired)"
  unfolding submit_def check_reclaim_volume_def provide_credentials_def Let_def by (intro steps portD)

lemma resume_keeps: "environment_keeps R w \<Longrightarrow> mine op \<Longrightarrow> keeps R (resume w op desired)"
  unfolding resume_def by (intro steps portD)

lemma approve_keeps: "environment_keeps R w \<Longrightarrow> keeps R (approve_reclaim w op desired object)"
  unfolding approve_reclaim_def Let_def
  by (cases "approveRetainedVolumeReclaim (wk_kube w)") (simp_all only: option.case, (intro steps approveD)+)

lemma conclude_keeps: "environment_keeps R w \<Longrightarrow> mine op \<Longrightarrow> keeps R (conclude w op desired object)"
  unfolding conclude_def by (intro steps portD)

lemma instance_keeps:
  assumes "environment_keeps R w" "mine op"
  shows "keeps R (execute_instance w op)"
proof (cases "rq_desired (o_request op)")
  case None
  then show ?thesis unfolding execute_instance_def by (simp only: option.case) (intro steps)
next
  case (Some desired)
  let ?m = "if o_state op \<noteq> Reconciling then submit w op desired else resume w op desired"
  have "keeps R ?m" using assms by (intro keeps_if submit_keeps resume_keeps)
  moreover have "yields (\<lambda>p. mine (fst p)) ?m" using assms(2) by (intro yields_if submit_yields resume_yields mine_bound)
  ultimately have "keeps R (mbind ?m (\<lambda>(op', object).
             mbind (if o_kind op = InstanceReclaim then approve_reclaim w op' desired object else mret ()) (\<lambda>_.
             conclude w op' desired object)))"
    by (rule keeps_mbind_yields[OF trans])
      (auto intro!: steps conclude_keeps approve_keeps assms(1) simp del: mret_run)
  then show ?thesis unfolding execute_instance_def Some option.case by (intro keeps_if op_error_keeps)
qed

lemma execute_keeps:
  assumes "environment_keeps R w" "mine op"
  shows "keeps R (execute w op)"
proof -
  have "keeps R (case wk_quotaGate w of
      Some gate \<Rightarrow> if gated op then gate (o_project_id op) else mret True | None \<Rightarrow> mret True)"
    by (cases "wk_quotaGate w") (simp_all only: option.case, (intro keeps_mret[OF refl] keeps_if gateD[OF assms(1)])+)
  then show ?thesis
    unfolding execute_def using assms
    by (intro keeps_mbind[OF trans] keeps_if defer_keeps project_keeps volume_delete_keeps delete_keeps instance_keeps)
qed

lemma handle_keeps: "mine op \<Longrightarrow> keeps R (handle_error op e)"
  unfolding handle_error_def
  by (cases e; cases "statusCode e") (auto split: js_code.splits intro!: steps tables_only_mret simp del: mret_run)

lemma attempt_keeps: "environment_keeps R w \<Longrightarrow> mine op \<Longrightarrow> keeps R (attempt w op)"
  unfolding attempt_def
  by (intro keeps_mcatch[OF trans] keeps_mbind[OF trans] keeps_mget[OF refl] keeps_mthrow_if[OF refl]
      execute_keeps handle_keeps)

end

section \<open>Fencing\<close>

abbreviation ops_of :: "'w sys \<Rightarrow> op_row list" where
  "ops_of s \<equiv> db_operations (sys_db s)"

definition others_unchanged :: "string \<Rightarrow> 'w sys \<Rightarrow> 'w sys \<Rightarrow> bool" where
  "others_unchanged claim s s' \<longleftrightarrow>
     list_all2 (\<lambda>r r'. o_worker_id r \<noteq> Some claim \<longrightarrow> r' = r) (ops_of s) (ops_of s')"

lemma list_all2_update:
  "(\<And>r. r \<in> set rows \<Longrightarrow> p r \<Longrightarrow> Q r (f r)) \<Longrightarrow> (\<And>r. r \<in> set rows \<Longrightarrow> \<not> p r \<Longrightarrow> Q r r) \<Longrightarrow> list_all2 Q rows (sql_update p f rows)"
  by (induction rows) auto

lemma keeps_others_exec:
  assumes "\<And>now d. \<exists>p f. db_operations (g now d) = sql_update p f (db_operations d) \<and>
     (\<forall>r. p r \<longrightarrow> o_worker_id r = Some claim)"
  shows "keeps (others_unchanged claim) (exec_sql g)"
proof (rule keepsI)
  fix s
  obtain p f where "ops_of (fst (exec_sql g s)) = sql_update p f (ops_of s)" "\<forall>r. p r \<longrightarrow> o_worker_id r = Some claim"
    using assms[of "sys_now s" "sys_db s"] by (auto simp: exec_sql_def)
  then show "others_unchanged claim s (fst (exec_sql g s))"
    by (simp add: others_unchanged_def list_all2_update)
qed

lemma keeps_others_tx:
  assumes "\<And>now d d' x. run now d = (d', Inr x) \<Longrightarrow> db_operations d' = db_operations d \<or>
     (\<exists>p f. db_operations d' = sql_update p f (db_operations d) \<and> (\<forall>r. p r \<longrightarrow> o_worker_id r = Some claim))"
  shows "keeps (others_unchanged claim) (transaction run)"
proof (rule keepsI)
  fix s
  obtain t r where t: "transaction run s = (t, r)" by (cases "transaction run s")
  have "ops_of t = ops_of s \<or>
     (\<exists>p f. ops_of t = sql_update p f (ops_of s) \<and> (\<forall>r. p r \<longrightarrow> o_worker_id r = Some claim))"
  proof (cases r)
    case (Inr x)
    then obtain d where "run (sys_now s) (sys_db s) = (d, Inr x)" "t = s\<lparr>sys_db := d\<rparr>"
      using t by (auto simp: transaction_Inr)
    then show ?thesis using assms by simp
  qed (use t in \<open>simp add: transaction_Inl\<close>)
  then show "others_unchanged claim s (fst (transaction run s))"
    using t by (auto simp: others_unchanged_def list_all2_update list_all2_refl)
qed

lemma others_refl: "reflp (others_unchanged claim)"
  by (rule reflpI) (simp add: others_unchanged_def list_all2_refl)

lemma others_trans: "transp (others_unchanged claim)"
proof (rule transpI)
  fix s t u
  assume "others_unchanged claim s t" "others_unchanged claim t u"
  then show "others_unchanged claim s u"
    unfolding others_unchanged_def by (auto simp: list_all2_conv_all_nth)
qed

lemma owns_claim: "owns op r \<Longrightarrow> o_worker_id op = Some claim \<Longrightarrow> o_worker_id r = Some claim"
  by (simp add: owns_def)

interpretation fence: worker_relation "others_unchanged claim" "\<lambda>op. o_worker_id op = Some claim" for claim
proof
  show "reflp (others_unchanged claim)" by (rule others_refl)
  show "transp (others_unchanged claim)" by (rule others_trans)
  fix op :: op_row
  assume mine: "o_worker_id op = Some claim"
  show "o_worker_id (op\<lparr>o_state := Reconciling, o_target_generation := g\<rparr>) = Some claim" for g
    using mine by simp
  show "keeps (others_unchanged claim) (finish op st code ap)" if "\<not> unfinished st" "tables_only ap" for st code ap
    unfolding finish_def
    by (intro keeps_mbind[OF others_trans] keeps_mret[OF others_refl] keeps_others_tx)
      (use finish_tx_Inr[OF that(2)] owns_claim[OF _ mine] in \<open>metis (full_types)\<close>)
  show "keeps (others_unchanged claim) (defer_op op code)" for code
    unfolding defer_op_def by (rule keeps_others_exec) (use owns_claim[OF _ mine] in auto)
  show "keeps (others_unchanged claim) (record_policy op policy)" for policy
    unfolding record_policy_def by (rule keeps_others_exec) (use owns_claim[OF _ mine] in auto)
  have b: "keeps (others_unchanged claim) (transaction (bind_tx op uid g))" for uid g
    by (rule keeps_others_tx) (drule bind_tx_Inr, use owns_claim[OF _ mine] in \<open>auto split: if_splits\<close>)
  show "keeps (others_unchanged claim) (bind op x)" for x
    unfolding bind_def op_error_def
    by (auto split: option.splits intro!: keeps_mbind[OF others_trans] keeps_mret[OF others_refl]
        keeps_mthrow[OF others_refl] b simp del: mret_run mthrow_run)
qed

lemma claim_operation_cases:
  "claim_operation claim now d =
     (case first_by o_created_at (filter (claimable now) (db_operations d)) of
        None \<Rightarrow> (d, Inr None)
      | Some r \<Rightarrow> (d\<lparr>db_operations := sql_update (\<lambda>x. o_id x = o_id r) (claim_row claim now) (db_operations d)\<rparr>,
                   Inr (Some (claim_row claim now r))))"
  by (simp add: claim_operation_def mbind_def split: option.splits)

lemma tick_cases:
  assumes "tick w claim s = (s', res)"
  shows "(first_by o_created_at (filter (claimable (sys_now s)) (ops_of s)) = None \<and> s' = s \<and> res = Inr False) \<or>
    (\<exists>r t e. first_by o_created_at (filter (claimable (sys_now s)) (ops_of s)) = Some r \<and>
       t = s\<lparr>sys_db := (sys_db s)\<lparr>db_operations := sql_update (\<lambda>x. o_id x = o_id r) (claim_row claim (sys_now s)) (ops_of s)\<rparr>\<rparr> \<and>
       attempt w (claim_row claim (sys_now s) r) t = (s', e) \<and> (e = Inr () \<longrightarrow> res = Inr True))"
proof (cases "first_by o_created_at (filter (claimable (sys_now s)) (ops_of s))")
  case None
  then show ?thesis using assms by (simp add: tick_def mbind_def transaction_def claim_operation_cases)
next
  case (Some r)
  let ?c = "claim_row claim (sys_now s)"
  let ?t = "s\<lparr>sys_db := (sys_db s)\<lparr>db_operations := sql_update (\<lambda>x. o_id x = o_id r) ?c (ops_of s)\<rparr>\<rparr>"
  have "tick w claim s = mbind (attempt w (?c r)) (\<lambda>_. mret True) ?t"
    using Some by (simp add: tick_def mbind_def[of "transaction _"] transaction_def claim_operation_cases)
  then have "\<exists>e. attempt w (?c r) ?t = (s', e) \<and> (e = Inr () \<longrightarrow> res = Inr True)"
    using assms by (auto simp: mbind_def split: prod.splits sum.splits)
  then show ?thesis using Some by blast
qed


section \<open>The operation state machine\<close>

definition rank :: "op_state \<Rightarrow> nat" where
  "rank st = (case st of OpPending \<Rightarrow> 0 | Applying \<Rightarrow> 1 | Reconciling \<Rightarrow> 2 | _ \<Rightarrow> 3)"

definition op_ident :: "op_row \<Rightarrow> string \<times> string \<times> string option \<times> op_kind \<times> string \<times> string \<times> string \<times> int \<times> int" where
  "op_ident r = (o_id r, o_project_id r, o_instance_id r, o_kind r, o_idempotency_key r, o_request_hash r,
     o_created_by r, o_created_at r, o_deadline_at r)"

text \<open>A well-formed row: a finished operation holds no worker, no lease and no secret; a lease has a
  worker and only a claimed operation has one.\<close>

definition clean_row :: "op_row \<Rightarrow> bool" where
  "clean_row r \<longleftrightarrow>
     (\<not> unfinished (o_state r) \<longrightarrow> o_worker_id r = None \<and> o_lease_until r = None \<and> o_secret_payload r = None) \<and>
     (o_worker_id r = None \<longleftrightarrow> o_lease_until r = None) \<and> (o_state r = OpPending \<longrightarrow> o_worker_id r = None)"

definition evolves :: "op_row \<Rightarrow> op_row \<Rightarrow> bool" where
  "evolves r r' \<longleftrightarrow> op_ident r' = op_ident r \<and> rank (o_state r) \<le> rank (o_state r') \<and>
     (\<not> unfinished (o_state r) \<longrightarrow> r' = r) \<and>
     (o_secret_payload r' = o_secret_payload r \<or> o_secret_payload r' = None)"

definition op_inv :: "op_row list \<Rightarrow> bool" where
  "op_inv rows \<longleftrightarrow> distinct (map o_id rows) \<and> list_all clean_row rows"

definition op_evolution :: "'w sys \<Rightarrow> 'w sys \<Rightarrow> bool" where
  "op_evolution s s' \<longleftrightarrow> (op_inv (ops_of s) \<longrightarrow> op_inv (ops_of s') \<and> list_all2 evolves (ops_of s) (ops_of s'))"

lemma rank_final: "\<not> unfinished st \<longleftrightarrow> rank st = 3"
  by (cases st) (simp_all add: unfinished_def rank_def)

lemma evolves_refl: "evolves r r"
  by (simp add: evolves_def)

lemma evolves_trans: "evolves r s \<Longrightarrow> evolves s t \<Longrightarrow> evolves r t"
  unfolding evolves_def by auto

lemma evolution_refl: "reflp op_evolution"
  by (rule reflpI) (simp add: op_evolution_def list_all2_refl evolves_refl)

lemma evolution_trans: "transp op_evolution"
  proof (rule transpI)
  fix s t u
  assume "op_evolution s t" "op_evolution t u"
  then show "op_evolution s u"
    unfolding op_evolution_def using list_all2_trans[of evolves evolves evolves] evolves_trans by blast
qed

lemma update_evolves:
  assumes "op_inv rows" and "\<And>r. r \<in> set rows \<Longrightarrow> clean_row r \<Longrightarrow> p r \<Longrightarrow> evolves r (f r) \<and> clean_row (f r)"
  shows "op_inv (sql_update p f rows) \<and> list_all2 evolves rows (sql_update p f rows)"
proof -
  have c: "clean_row r" if "r \<in> set rows" for r using assms(1) that by (auto simp: op_inv_def list_all_iff)
  then have e: "list_all2 evolves rows (sql_update p f rows)"
    using assms(2) by (auto intro!: list_all2_update evolves_refl)
  have "map o_id (sql_update p f rows) = map o_id rows"
    using e by (auto simp: list_all2_conv_all_nth evolves_def op_ident_def intro: nth_equalityI)
  moreover have "list_all clean_row (sql_update p f rows)"
    using c assms(2) by (auto simp: list_all_iff set_sql_update)
  ultimately show ?thesis using e assms(1) by (simp add: op_inv_def)
qed

lemma owned_row: "clean_row r \<Longrightarrow> owns op r \<Longrightarrow> o_state r = Applying \<or> o_state r = Reconciling"
  by (cases "o_state r") (auto simp: clean_row_def owns_def unfinished_def)

lemma owned_lease: "clean_row r \<Longrightarrow> owns op r \<Longrightarrow> o_lease_until r \<noteq> None"
  by (auto simp: clean_row_def owns_def)

lemma keeps_evolution_tx:
  assumes "\<And>now d d' x. op_inv (db_operations d) \<Longrightarrow> run now d = (d', Inr x) \<Longrightarrow>
     op_inv (db_operations d') \<and> list_all2 evolves (db_operations d) (db_operations d')"
  shows "keeps op_evolution (transaction run)"
proof (rule keepsI)
  fix s
  obtain t r where t: "transaction run s = (t, r)" by (cases "transaction run s")
  show "op_evolution s (fst (transaction run s))"
  proof (cases r)
    case (Inr x)
    then obtain d where "run (sys_now s) (sys_db s) = (d, Inr x)" "t = s\<lparr>sys_db := d\<rparr>"
      using t by (auto simp: transaction_Inr)
    then show ?thesis using t assms by (simp add: op_evolution_def)
  next
    case (Inl e)
    then have "t = s" using t by (simp add: transaction_Inl)
    then show ?thesis using t reflpD[OF evolution_refl, of s] by simp
  qed
qed

lemma keeps_evolution_exec:
  assumes "\<And>now d. op_inv (db_operations d) \<Longrightarrow>
     op_inv (db_operations (f now d)) \<and> list_all2 evolves (db_operations d) (db_operations (f now d))"
  shows "keeps op_evolution (exec_sql f)"
  using assms by (simp add: keeps_def op_evolution_def exec_sql_def)

interpretation machine: worker_relation op_evolution "\<lambda>op. True"
proof
  show "reflp op_evolution" by (rule evolution_refl)
  show "transp op_evolution" by (rule evolution_trans)
  fix op :: op_row
  show "keeps op_evolution (finish op st code ap)" if "\<not> unfinished st" "tables_only ap" for st code ap
    unfolding finish_def
  proof (intro keeps_mbind[OF evolution_trans] keeps_mret[OF evolution_refl] keeps_evolution_tx)
    fix now d d' b
    assume i: "op_inv (db_operations d)" and f: "finish_tx op st code ap now d = (d', Inr b)"
    have "evolves r (finish_row st code now r) \<and> clean_row (finish_row st code now r)"
      if "clean_row r" "owns op r" for r
      using owned_row[OF that] \<open>\<not> unfinished st\<close>
      by (cases st) (auto simp: evolves_def finish_row_def op_ident_def rank_def clean_row_def unfinished_def)
    then have "op_inv (sql_update (owns op) (finish_row st code now) (db_operations d)) \<and>
        list_all2 evolves (db_operations d) (sql_update (owns op) (finish_row st code now) (db_operations d))"
      by (intro update_evolves[OF i]) blast
    then show "op_inv (db_operations d') \<and> list_all2 evolves (db_operations d) (db_operations d')"
      using finish_tx_Inr[OF that(2) f] i by (auto simp: list_all2_refl evolves_refl split: if_splits)
  qed
  show "keeps op_evolution (defer_op op code)" for code
    unfolding defer_op_def
  proof (rule keeps_evolution_exec, simp, rule update_evolves)
    fix now :: int and r
    assume "clean_row r" "owns op r \<and> lease_live now (o_lease_until r)"
    then show "evolves r (r\<lparr>o_lease_until := None, o_worker_id := None, o_next_attempt_at := now + 2000, o_error_code := code, o_updated_at := now\<rparr>) \<and>
       clean_row (r\<lparr>o_lease_until := None, o_worker_id := None, o_next_attempt_at := now + 2000, o_error_code := code, o_updated_at := now\<rparr>)"
      using owned_row[of r op] by (auto simp: evolves_def op_ident_def clean_row_def unfinished_def)
  qed
  show "keeps op_evolution (record_policy op policy)" for policy
    unfolding record_policy_def
  proof (rule keeps_evolution_exec, simp, rule update_evolves)
    fix now :: int and r
    assume "clean_row r" "owns op r \<and> lease_live now (o_lease_until r)"
    then show "evolves r (r\<lparr>o_request := o_request r\<lparr>rq_deletionPolicy := Some policy\<rparr>\<rparr>) \<and>
       clean_row (r\<lparr>o_request := o_request r\<lparr>rq_deletionPolicy := Some policy\<rparr>\<rparr>)"
      using owned_row[of r op] by (auto simp: evolves_def op_ident_def clean_row_def unfinished_def)
  qed
  have b: "keeps op_evolution (transaction (bind_tx op uid g))" for uid g
  proof (rule keeps_evolution_tx)
    fix now d d' b
    assume i: "op_inv (db_operations d)" and f: "bind_tx op uid g now d = (d', Inr b)"
    let ?f = "\<lambda>r. r\<lparr>o_state := Reconciling, o_target_generation := Some g, o_updated_at := now\<rparr>"
    have "evolves r (?f r) \<and> clean_row (?f r)" if "clean_row r" "owns op r" for r
      using owned_row[OF that] that by (auto simp: evolves_def op_ident_def clean_row_def unfinished_def rank_def owns_def)
    then have "op_inv (sql_update (owns op) ?f (db_operations d)) \<and>
        list_all2 evolves (db_operations d) (sql_update (owns op) ?f (db_operations d))"
      by (intro update_evolves[OF i]) blast
    then show "op_inv (db_operations d') \<and> list_all2 evolves (db_operations d) (db_operations d')"
      using bind_tx_Inr[OF f] i by (auto simp: list_all2_refl evolves_refl split: if_splits)
  qed
  show "keeps op_evolution (bind op x)" for x
    unfolding bind_def op_error_def
    by (auto split: option.splits intro!: keeps_mbind[OF evolution_trans] keeps_mret[OF evolution_refl]
        keeps_mthrow[OF evolution_refl] b simp del: mret_run mthrow_run)
qed simp

lemma claim_keeps: "keeps op_evolution (transaction (claim_operation claim))"
proof (rule keeps_evolution_tx)
  fix now d d' x
  assume i: "op_inv (db_operations d)" and c: "claim_operation claim now d = (d', Inr x)"
  show "op_inv (db_operations d') \<and> list_all2 evolves (db_operations d) (db_operations d')"
  proof (cases "first_by o_created_at (filter (claimable now) (db_operations d))")
    case None
    then show ?thesis using c i by (simp add: claim_operation_cases list_all2_refl evolves_refl)
  next
    case (Some r)
    have r: "r \<in> set (db_operations d)" "claimable now r" using first_by_Some[OF Some] by simp_all
    have "evolves q (claim_row claim now q) \<and> clean_row (claim_row claim now q)"
      if "q \<in> set (db_operations d)" "clean_row q" "o_id q = o_id r" for q
    proof -
      have "q = r" using that(1,3) r(1) i unfolding op_inv_def by (meson inj_onD distinct_map)
      then have "unfinished (o_state q)" using r(2) by (simp add: claimable_def)
      then show ?thesis
        by (cases "o_state q") (auto simp: evolves_def claim_row_def op_ident_def clean_row_def unfinished_def rank_def)
    qed
    then have "op_inv (sql_update (\<lambda>x. o_id x = o_id r) (claim_row claim now) (db_operations d)) \<and>
        list_all2 evolves (db_operations d) (sql_update (\<lambda>x. o_id x = o_id r) (claim_row claim now) (db_operations d))"
      by (rule update_evolves[OF i])
    then show ?thesis using c Some by (auto simp: claim_operation_cases)
  qed
qed

lemma tick_evolves: "environment_keeps op_evolution w \<Longrightarrow> keeps op_evolution (tick w claim)"
  unfolding tick_def
  by (intro keeps_mbind[OF evolution_trans] claim_keeps keeps_option keeps_mret[OF evolution_refl]
      machine.attempt_keeps) simp_all

section \<open>Release\<close>

definition released :: "op_row \<Rightarrow> 'w sys \<Rightarrow> bool" where
  "released op s \<longleftrightarrow> (distinct (map o_id (ops_of s)) \<longrightarrow>
     (\<forall>r \<in> set (ops_of s). owns op r \<and> (o_state r = Applying \<or> o_state r = Reconciling) \<longrightarrow>
        \<not> lease_live (sys_now s) (o_lease_until r)))"

definition ends :: "('s \<Rightarrow> bool) \<Rightarrow> ('s, 'a) action \<Rightarrow> bool" where
  "ends P m \<longleftrightarrow> (\<forall>s s' x. m s = (s', Inr x) \<longrightarrow> P s')"

lemma ends_mbind: "(\<And>x. ends P (f x)) \<Longrightarrow> ends P (mbind m f)"
  unfolding ends_def mbind_Inr by blast

lemma ends_mbind_yields: "yields Q m \<Longrightarrow> (\<And>x. Q x \<Longrightarrow> ends P (f x)) \<Longrightarrow> ends P (mbind m f)"
  unfolding ends_def yields_def mbind_Inr by blast

lemma ends_throw: "ends P (mthrow e)" "ends P (op_error c)"
  by (simp_all add: ends_def op_error_def)

lemma ends_if: "(c \<Longrightarrow> ends P m) \<Longrightarrow> (\<not> c \<Longrightarrow> ends P n) \<Longrightarrow> ends P (if c then m else n)"
  by simp

lemma ends_option: "ends P m \<Longrightarrow> (\<And>x. ends P (f x)) \<Longrightarrow> ends P (case v of None \<Rightarrow> m | Some x \<Rightarrow> f x)"
  by (cases v) simp_all

lemma held_iff:
  assumes "distinct (map o_id (db_operations d))"
  shows "held op now d \<longleftrightarrow> (\<exists>r \<in> set (db_operations d). owns op r \<and> lease_live now (o_lease_until r) \<and>
     (o_state r = Applying \<or> o_state r = Reconciling))"
proof -
  define rows where "rows = filter (\<lambda>r. owns op r \<and> lease_live now (o_lease_until r) \<and>
     (o_state r = Applying \<or> o_state r = Reconciling)) (db_operations d)"
  have "distinct (map o_id rows)" using assms by (simp add: rows_def distinct_map_filter)
  moreover have "set (map o_id rows) \<subseteq> {o_id op}" by (auto simp: rows_def owns_def)
  ultimately have "length (map o_id rows) \<le> 1"
    using card_mono[of "{o_id op}" "set (map o_id rows)"] distinct_card[of "map o_id rows"] by simp
  then have "length rows = 1 \<longleftrightarrow> rows \<noteq> []" by (cases rows) auto
  then show ?thesis by (auto simp: held_def rows_def filter_empty_conv)
qed

lemma finish_releases:
  assumes "tables_only ap"
  shows "ends (released op) (finish op st code ap)"
  unfolding ends_def finish_def
proof (intro allI impI)
  fix s s' :: "'w sys" and x
  assume "mbind (transaction (finish_tx op st code ap)) (\<lambda>committed. mret ()) s = (s', Inr x)"
  then obtain d b where f: "finish_tx op st code ap (sys_now s) (sys_db s) = (d, Inr b)" and s': "s' = s\<lparr>sys_db := d\<rparr>"
    by (auto simp: mbind_Inr transaction_Inr)
  show "released op s'"
  proof (cases "held op (sys_now s) (sys_db s)")
    case True
    then have "db_operations d = sql_update (owns op) (finish_row st code (sys_now s)) (ops_of s)"
      using finish_tx_Inr[OF assms f] by simp
    then show ?thesis unfolding released_def s' by (auto simp: set_sql_update finish_row_def owns_def)
  next
    case False
    then have "d = sys_db s" using finish_tx_Inr[OF assms f] by simp
    then show ?thesis using held_iff False unfolding released_def s' by fastforce
  qed
qed

lemma defer_releases: "ends (released op) (defer_op op code)"
  unfolding ends_def defer_op_def exec_sql_def released_def by (auto simp: set_sql_update owns_def)

lemmas ends_rules = ends_mbind ends_throw ends_if ends_option finish_releases defer_releases tables_only_writes
  tables_only_mbind tables_only_mret

lemma conclude_releases: "ends (released op) (conclude w op desired object)"
  unfolding conclude_def by (intro ends_rules)

lemma execute_releases: "ends (released op) (execute w op)"
proof -
  have p: "ends (released op) (execute_project w op)" unfolding execute_project_def by (intro ends_rules)
  have v: "ends (released op) (execute_volume_delete w op)" unfolding execute_volume_delete_def Let_def by (intro ends_rules)
  have d: "ends (released op) (execute_delete w op)" unfolding execute_delete_def Let_def by (intro ends_rules)
  have c: "ends (released op) (conclude w op' desired object)"
    if "o_id op' = o_id op \<and> o_worker_id op' = o_worker_id op" for op' desired object
    using conclude_releases[of op' w desired object] that by (simp add: ends_def released_def owns_def)
  have "ends (released op) (mbind (if o_state op \<noteq> Reconciling then submit w op desired else resume w op desired)
     (\<lambda>(op', object). mbind (if o_kind op = InstanceReclaim then approve_reclaim w op' desired object else mret ()) (\<lambda>_.
             conclude w op' desired object)))" for desired
    by (rule ends_mbind_yields[of "\<lambda>p. o_id (fst p) = o_id op \<and> o_worker_id (fst p) = o_worker_id op"])
      (auto intro!: yields_if submit_yields resume_yields ends_mbind c)
  then have i: "ends (released op) (execute_instance w op)"
    unfolding execute_instance_def by (intro ends_if ends_option ends_throw)
  show ?thesis unfolding execute_def by (intro ends_mbind ends_if defer_releases p v d i)
qed

lemma finish_total: "st \<noteq> Succeeded \<Longrightarrow> \<exists>s'. finish op st code (mret ()) s = (s', Inr ())"
  by (auto simp: finish_def finish_tx_def mbind_def transaction_def mwhen_def audit_def set_lifecycle_def
      set_project_state_def split: prod.splits sum.splits option.splits)

lemma handle_total: "\<exists>s'. handle_error op e s = (s', Inr ()) \<and> released op s'"
proof -
  have f: "\<exists>s'. finish op st code (mret ()) s = (s', Inr ()) \<and> released op s'" if "st \<noteq> Succeeded" for st code
    using finish_total[OF that, of op code s] finish_releases[OF tables_only_mret, of op st code] unfolding ends_def by metis
  have d: "\<exists>s'. defer_op op code s = (s', Inr ()) \<and> released op s'" for code
    using defer_releases[of op code] unfolding ends_def defer_op_def exec_sql_def by blast
  show ?thesis unfolding handle_error_def
    by (cases e; cases "statusCode e") (auto intro!: f d split: js_code.splits)
qed

lemma attempt_total: "\<exists>s'. attempt w op s = (s', Inr ()) \<and> released op s'"
proof -
  let ?m = "mbind (mget sys_now) (\<lambda>now.
        mbind (mthrow_if (o_deadline_at op < now) (OperationError ''operation_deadline_exceeded'' False)) (\<lambda>_. execute w op))"
  have e: "ends (released op) ?m" by (intro ends_mbind execute_releases)
  obtain t r where t: "?m s = (t, r)" by (cases "?m s")
  show ?thesis
  proof (cases r)
    case (Inl err)
    then show ?thesis using handle_total[of op err t] t by (simp add: attempt_def mcatch_def)
  next
    case (Inr x)
    then show ?thesis using e t by (auto simp: attempt_def mcatch_def ends_def)
  qed
qed

section \<open>A concrete worker\<close>

text \<open>A cluster that answers nothing, and a pending operation.\<close>

definition down_port :: "unit kube_port" where
  "down_port = \<lparr>approveRetainedVolumeReclaim = None, inspectProjectResources = None,
     getRetainedVolume = \<lambda>_. mthrow (ApiError None), deleteRetainedVolume = \<lambda>_ _. mthrow (ApiError None),
     ensureProject = \<lambda>_ _. mthrow (ApiError None), ensureCredentials = \<lambda>_ _ _ _ _ _. mthrow (ApiError None),
     getInstance = \<lambda>_ _. mthrow (ApiError None), createInstance = \<lambda>_. mthrow (ApiError None),
     updateInstance = \<lambda>_ _. mthrow (ApiError None), deleteInstance = \<lambda>_ _ _. mthrow (ApiError None),
     deleteCredentials = \<lambda>_ _ _ _. mthrow (ApiError None)\<rparr>"

definition down_worker :: "unit worker" where
  "down_worker = \<lparr>wk_kube = down_port, wk_key = ''k'', wk_decrypt = (\<lambda>_ _ _ _ _. None), wk_quotaGate = None\<rparr>"

definition sample_op :: op_row where
  "sample_op = new_operation ''o1'' ''p1'' None ProjectCreate ''key'' ''h''
     (empty_request\<lparr>rq_namespace := Some ''ns-demo''\<rparr>) None ''u1'' 0"

definition held_op :: op_row where
  "held_op = (new_operation ''o2'' ''p2'' None ProjectCreate ''key'' ''h''
     (empty_request\<lparr>rq_namespace := Some ''ns''\<rparr>) None ''u1'' 1)\<lparr>o_state := Applying, o_worker_id := Some ''w2'', o_lease_until := Some 20000\<rparr>"

definition sample_sys :: "unit sys" where
  "sample_sys = \<lparr>sys_db = sample_db\<lparr>db_operations := [sample_op, held_op]\<rparr>, sys_now = 1000, sys_world = ()\<rparr>"

lemma down_keeps: "reflp R \<Longrightarrow> environment_keeps R down_worker"
  by (auto simp: environment_keeps_def port_keeps_def down_worker_def down_port_def
      intro: keeps_mthrow simp del: mthrow_run)

lemma sample_ops_inv: "op_inv (ops_of sample_sys)"
  by (simp add: op_inv_def sample_sys_def sample_op_def held_op_def new_operation_def clean_row_def unfinished_def)


text \<open>C1: the operation state machine. Whatever the cluster answers or fails with, and whatever other
  replicas do meanwhile as long as they follow the same rules, a step keeps every operation row
  well-formed (a finished operation holds no worker, no lease and no secret) and moves each row
  only forward: from pending to applying to reconciling to a final state, keeping its identity; a
  finished operation never changes again, and a secret is kept or wiped, never replaced.\<close>

theorem operation_state_machine:
  assumes "environment_keeps op_evolution w" and "op_inv (ops_of s)" and "tick w claim s = (s', res)"
  shows "op_inv (ops_of s') \<and> list_all2 evolves (ops_of s) (ops_of s')"
  using keepsD[OF tick_evolves[OF assms(1)] assms(3)] assms(2) by (simp add: op_evolution_def)

theorem operation_state_machine_witness:
  "\<exists>s' res. tick down_worker ''w1'' sample_sys = (s', res) \<and> op_inv (ops_of s') \<and> list_all2 evolves (ops_of sample_sys) (ops_of s')"
  using operation_state_machine[OF down_keeps[OF evolution_refl] sample_ops_inv] by (metis prod.collapse)



section \<open>Success, identity and deletion\<close>

lemma conclude_not_ready:
  assumes "\<not> (identity_matches op object (sys_db s) \<and>
      om_generation (co_metadata object) = Some (case o_target_generation op of None \<Rightarrow> 0 | Some g \<Rightarrow> g) \<and>
      annotation object opKey = Some (o_id op) \<and> settled object)"
    and "conclude w op desired object s = (s', res)"
  shows "s' = s \<or> (\<exists>code. defer_op op code s = (s', res))"
  using assms unfolding conclude_def op_error_def
  by (auto simp: mbind_def query_def mthrow_if_def split: if_splits option.splits)

text \<open>Readiness as the controller reports it: for the object's own generation, both in the status and
  in a condition of type Ready.\<close>

definition reported_ready :: "cache_object \<Rightarrow> bool" where
  "reported_ready object \<longleftrightarrow> (\<exists>st cs c. co_status object = Some st \<and> cs_conditions st = Some cs \<and> c \<in> set cs \<and>
     cs_observedGeneration st = om_generation (co_metadata object) \<and> cn_type c = ''Ready'' \<and>
     cn_observedGeneration c = om_generation (co_metadata object) \<and>
     (if sp_desiredState (co_spec object) = ''Suspended'' then cn_reason c = ''Suspended'' else cn_status c = ''True''))"

definition bound_object :: "op_row \<Rightarrow> cache_object \<Rightarrow> database \<Rightarrow> bool" where
  "bound_object op object d \<longleftrightarrow>
     (\<forall>u. om_uid (co_metadata object) = Some u \<longrightarrow>
        (\<exists>b \<in> set (db_bindings d). Some (b_id b) = o_instance_id op \<and> b_kubernetes_uid b = Some u)) \<and>
     Some (sp_instanceId (co_spec object)) = o_instance_id op \<and> sp_projectId (co_spec object) = o_project_id op"

lemma settled_reported: "settled object \<Longrightarrow> reported_ready object"
  unfolding settled_def reported_ready_def ready_condition_def
  by (auto split: option.splits if_splits dest!: sql_first_Some)

lemma identity_bound: "identity_matches op object d \<Longrightarrow> bound_object op object d"
  unfolding identity_matches_def bound_object_def Let_def
  by (auto split: option.splits dest!: sql_first_Some)


text \<open>binding never takes over another object. Binding an operation to a cluster object either
  changes no binding (an object without identity, a lost lease, a conflict), or records the
  object's uid on the operation's own instance, which had no uid, the same uid, or, for a reclaim,
  exactly the previous uid the request names.\<close>

theorem bind_keeps_identity:
  assumes "bind op object s = (s', res)"
  shows "list_all2 (\<lambda>b b'. b' = b \<or>
      (Some (b_id b) = o_instance_id op \<and> b_project_id b = o_project_id op \<and> om_uid (co_metadata object) \<noteq> None \<and>
       b' = b\<lparr>b_kubernetes_uid := om_uid (co_metadata object)\<rparr> \<and>
       (b_kubernetes_uid b = None \<or> b_kubernetes_uid b = om_uid (co_metadata object) \<or>
        (o_kind op = InstanceReclaim \<and> b_kubernetes_uid b = rq_previousInstanceUID (o_request op)))))
    (db_bindings (sys_db s)) (db_bindings (sys_db s')) \<and>
   (\<forall>op'. res = Inr op' \<longrightarrow> o_state op' = Reconciling \<and> o_target_generation op' = om_generation (co_metadata object) \<and>
      (\<exists>b \<in> set (db_bindings (sys_db s')). Some (b_id b) = o_instance_id op \<and> b_kubernetes_uid b = om_uid (co_metadata object)))"
proof -
  show ?thesis
  proof (cases "\<exists>u g. om_uid (co_metadata object) = Some u \<and> u \<noteq> [] \<and> om_generation (co_metadata object) = Some g")
    case False
    then have "s' = s \<and> res = Inl (OperationError ''missing_kubernetes_identity'' False)"
      using assms by (auto simp: bind_def op_error_def split: option.splits if_splits)
    then show ?thesis by (simp add: list_all2_refl)
  next
    case True
    then obtain u g where u: "om_uid (co_metadata object) = Some u" "u \<noteq> []" "om_generation (co_metadata object) = Some g"
      by blast
    obtain t r where t: "transaction (bind_tx op u g) s = (t, r)" by (cases "transaction (bind_tx op u g) s")
    show ?thesis
    proof (cases r)
      case (Inl e)
      then have "t = s" using t by (simp add: transaction_Inl)
      then show ?thesis using assms u t Inl by (auto simp: bind_def mbind_def list_all2_refl)
    next
      case (Inr b)
      then obtain d where d: "bind_tx op u g (sys_now s) (sys_db s) = (d, Inr b)" "t = s\<lparr>sys_db := d\<rparr>"
        using t by (auto simp: transaction_Inr)
      show ?thesis
      proof (cases b)
        case False
        then have "d = sys_db s" using bind_tx_Inr[OF d(1)] by (simp split: if_splits)
        then show ?thesis using assms u t Inr False d(2) by (auto simp: bind_def mbind_def op_error_def list_all2_refl)
      next
        case True
        have bd: "list_ex (bindable op u) (db_bindings (sys_db s))"
          "db_bindings d = sql_update (bindable op u) (\<lambda>b. b\<lparr>b_kubernetes_uid := Some u\<rparr>) (db_bindings (sys_db s))"
          using bind_tx_Inr[OF d(1)] True by (simp_all split: if_splits)
        have s': "s' = t" "res = Inr (op\<lparr>o_state := Reconciling, o_target_generation := Some g\<rparr>)"
          using assms u t Inr True by (simp_all add: bind_def mbind_def)
        obtain x where x: "x \<in> set (db_bindings (sys_db s))" "bindable op u x"
          using bd(1) by (auto simp: list_ex_iff)
        then have "x\<lparr>b_kubernetes_uid := Some u\<rparr> \<in> set (db_bindings d)" unfolding bd(2) by (auto simp: set_sql_update)
        then have "\<exists>b \<in> set (db_bindings d). Some (b_id b) = o_instance_id op \<and> b_kubernetes_uid b = Some u"
          using x(2) by (intro bexI[of _ "x\<lparr>b_kubernetes_uid := Some u\<rparr>"]) (simp_all add: bindable_def)
        then show ?thesis
          unfolding s' d(2) using u
          by (auto simp: bd(2) bindable_def intro!: list_all2_update)
      qed
    qed
  qed
qed

definition ready_object :: cache_object where
  "ready_object = sample_object\<lparr>co_status := Some \<lparr>cs_observedGeneration = Some 1, cs_credentialRevision = None,
     cs_endpoints = None, cs_conditions = Some [\<lparr>cn_type = ''Ready'', cn_status = ''True'', cn_reason = ''Available'',
       cn_message = None, cn_observedGeneration = Some 1\<rparr>]\<rparr>\<rparr>"

definition rotating_op :: op_row where
  "rotating_op = (new_operation ''o1'' ''p1'' (Some ''i1'') InstanceRotate ''k2'' ''h''
     (empty_request\<lparr>rq_desired := Some sample_object\<rparr>) None ''u1'' 0)\<lparr>o_state := Reconciling,
       o_target_generation := Some 1, o_worker_id := Some ''w1'', o_lease_until := Some 31000\<rparr>"

definition rotating_sys :: "unit sys" where
  "rotating_sys = \<lparr>sys_db = sample_db\<lparr>db_operations := [rotating_op],
     db_bindings := [sample_binding\<lparr>b_kubernetes_uid := Some ''u-1''\<rparr>]\<rparr>, sys_now = 1000, sys_world = ()\<rparr>"


theorem bind_keeps_identity_witness:
  "\<exists>s' res. bind rotating_op ready_object rotating_sys = (s', res) \<and>
     length (db_bindings (sys_db s')) = 1"
proof -
  obtain s' res where b: "bind rotating_op ready_object rotating_sys = (s', res)"
    by (cases "bind rotating_op ready_object rotating_sys")
  have "length (db_bindings (sys_db rotating_sys)) = length (db_bindings (sys_db s'))"
    using bind_keeps_identity[OF b] list_all2_lengthD by blast
  then show ?thesis using b by (simp add: rotating_sys_def)
qed

text \<open>How a step changes lifecycles.\<close>

definition deletes_only_if :: "bool \<Rightarrow> database \<Rightarrow> database \<Rightarrow> bool" where
  "deletes_only_if c d d' \<longleftrightarrow>
     list_all2 (\<lambda>b b'. b_id b' = b_id b \<and> (b_lifecycle b' = Deleted \<longrightarrow> b_lifecycle b = Deleted \<or> c)) (db_bindings d) (db_bindings d')"

lemma deletes_refl: "reflp (deletes_only_if c)"
  by (rule reflpI) (simp add: deletes_only_if_def list_all2_refl)

lemma deletes_trans: "transp (deletes_only_if c)"
  by (rule transpI) (auto simp: deletes_only_if_def list_all2_conv_all_nth)

lemma deletes_put:
  assumes "\<And>d. \<exists>p f. db_bindings (g d) = sql_update p f (db_bindings d) \<and>
     (\<forall>b. p b \<longrightarrow> b_id (f b) = b_id b \<and> (b_lifecycle (f b) = Deleted \<longrightarrow> b_lifecycle b = Deleted \<or> c))"
  shows "keeps (deletes_only_if c) (tx_put g)"
proof (rule keepsI)
  fix d
  obtain p f where "db_bindings (g d) = sql_update p f (db_bindings d)"
    "\<forall>b. p b \<longrightarrow> b_id (f b) = b_id b \<and> (b_lifecycle (f b) = Deleted \<longrightarrow> b_lifecycle b = Deleted \<or> c)" using assms by blast
  then show "deletes_only_if c d (fst (tx_put g d))" by (simp add: deletes_only_if_def list_all2_update)
qed

lemma deletes_same: "(\<And>d. db_bindings (g d) = db_bindings d) \<Longrightarrow> keeps (deletes_only_if c) (tx_put g)"
  by (simp add: keeps_def deletes_only_if_def list_all2_refl)

lemma deletes_settle: "keeps (deletes_only_if c) (settleResources iid desired)"
  unfolding settleResources_def Let_def
  by (auto split: option.splits intro!: deletes_put keeps_mthrow[OF deletes_refl] exI[of _ "\<lambda>r. b_id r = iid"]
      simp del: mthrow_run mput_run)

lemma deletes_lifecycle: "l \<noteq> Deleted \<or> c \<Longrightarrow> keeps (deletes_only_if c) (set_lifecycle iid l)"
  unfolding set_lifecycle_def by (rule deletes_put) (auto intro!: exI)

lemma keeps_mwhen: "reflp R \<Longrightarrow> keeps R m \<Longrightarrow> keeps R (mwhen c m)"
  unfolding mwhen_def by (intro keeps_if keeps_mret)

lemma keeps_db_transaction:
  assumes "reflp R" "\<And>now. keeps R (run now)"
  shows "keeps (\<lambda>s s'. R (sys_db s) (sys_db s')) (transaction run :: ('w sys, 'a) action)"
proof (rule keepsI)
  fix s :: "'w sys"
  have "R (sys_db s) (fst (run (sys_now s) (sys_db s)))" using assms(2) by (simp add: keeps_def)
  then show "R (sys_db s) (sys_db (fst (transaction run s)))"
    using reflpD[OF assms(1)] by (auto simp: transaction_def split: prod.splits sum.splits)
qed

lemma finish_deletes:
  assumes "keeps (deletes_only_if c) ap"
  shows "keeps (\<lambda>s s'. deletes_only_if c (sys_db s) (sys_db s')) (finish op st code ap)"
proof -
  have "keeps (deletes_only_if c) (finish_tx op st code ap now)" for now
    unfolding finish_tx_def audit_def set_project_state_def
    by (cases "o_instance_id op"; cases "rq_desired (o_request op)"; simp only: option.case prod.case;
      intro keeps_mbind[OF deletes_trans] keeps_if keeps_mret[OF deletes_refl] keeps_mget[OF deletes_refl] assms
        keeps_mwhen[OF deletes_refl] deletes_settle deletes_same deletes_lifecycle; simp)
  then have "keeps (\<lambda>s s'. deletes_only_if c (sys_db s) (sys_db s')) (transaction (finish_tx op st code ap))"
    by (intro keeps_db_transaction deletes_refl)
  moreover have "reflp (\<lambda>s s'. deletes_only_if c (sys_db s) (sys_db s'))"
    "transp (\<lambda>s s'. deletes_only_if c (sys_db s) (sys_db s'))"
    using deletes_refl deletes_trans by (auto intro!: reflpI transpI dest: reflpD transpD)
  ultimately show ?thesis unfolding finish_def by (intro keeps_mbind keeps_mret)
qed

abbreviation sys_deletes :: "bool \<Rightarrow> 'w sys \<Rightarrow> 'w sys \<Rightarrow> bool" where
  "sys_deletes c s s' \<equiv> deletes_only_if c (sys_db s) (sys_db s')"

lemma sys_deletes_rel: "reflp (sys_deletes c)" "transp (sys_deletes c)"
  using deletes_refl deletes_trans by (auto intro!: reflpI transpI dest: reflpD transpD)

lemma exec_deletes: "(\<And>now d. db_bindings (g now d) = db_bindings d) \<Longrightarrow> keeps (sys_deletes c) (exec_sql g)"
  by (simp add: keeps_def exec_sql_def deletes_only_if_def list_all2_refl)



end
