(* ===== verification/System.thy ===== *)
theory System
  imports Instance_Props Worker_Props "HOL-Library.Sublist"
begin

text \<open>
  The management API and the workers together. The table of operations is what they share; its
  constraints (unique keys, one unfinished operation per instance, well-formed rows) are kept by
  every request and by every worker step, each under interference that keeps them.
\<close>

section \<open>The table of operations\<close>

definition ledger_ok :: "op_row list \<Rightarrow> bool" where
  "ledger_ok rows \<longleftrightarrow> op_inv rows \<and> op_keys_unique rows \<and> one_unfinished rows"

definition ledger_kept :: "'w sys \<Rightarrow> 'w sys \<Rightarrow> bool" where
  "ledger_kept s s' \<longleftrightarrow> (ledger_ok (ops_of s) \<longrightarrow> ledger_ok (ops_of s'))"

lemma ledger_refl: "reflp ledger_kept" and ledger_trans: "transp ledger_kept"
  by (auto simp: ledger_kept_def intro!: reflpI transpI)

lemma evolves_map:
  assumes "list_all2 evolves rows rows'"
  shows "map op_ident rows' = map op_ident rows"
  using assms by (auto simp: list_all2_conv_all_nth evolves_def intro: nth_equalityI)

lemma evolves_unfinished:
  assumes "list_all2 evolves rows rows'" "\<And>r r'. op_ident r' = op_ident r \<Longrightarrow> g r' = g r \<and> c r' = c r"
    and "distinct (map g (filter (\<lambda>r. unfinished (o_state r) \<and> c r) rows))"
  shows "distinct (map g (filter (\<lambda>r. unfinished (o_state r) \<and> c r) rows'))"
proof -
  have "subseq (map g (filter (\<lambda>r. unfinished (o_state r) \<and> c r) rows')) (map g (filter (\<lambda>r. unfinished (o_state r) \<and> c r) rows))"
    using assms(1)
  proof induction
    case (Cons r rows r' rows')
    have e: "evolves r r'" using Cons.hyps by simp
    then have "op_ident r' = op_ident r" and "unfinished (o_state r') \<Longrightarrow> unfinished (o_state r)"
      unfolding evolves_def by (blast, metis)
    moreover from this(1) have "g r' = g r" "c r' = c r" using assms(2) by blast+
    ultimately show ?case using Cons.IH by auto
  qed simp
  then show ?thesis using assms(3) by (auto simp: subseq_conv_nths distinct_nthsI)
qed

lemma evolution_ledger: "op_evolution s s' \<Longrightarrow> ledger_kept s s'"
proof -
  assume e: "op_evolution s s'"
  show "ledger_kept s s'"
    unfolding ledger_kept_def
  proof
    assume l: "ledger_ok (ops_of s)"
    then have inv: "op_inv (ops_of s')" and ev: "list_all2 evolves (ops_of s) (ops_of s')"
      using e by (auto simp: op_evolution_def ledger_ok_def)
    note m = evolves_map[OF ev]
    have keys: "map (\<lambda>r. (o_project_id r, o_kind r, o_idempotency_key r)) rows =
        map (\<lambda>(_, p, _, k, i, _). (p, k, i)) (map op_ident rows)" for rows
      by (simp add: op_ident_def)
    have "op_keys_unique (ops_of s')"
      using l inv unfolding ledger_ok_def op_keys_unique_def keys m op_inv_def by blast
    moreover have "one_unfinished (ops_of s')"
      using l unfolding ledger_ok_def one_unfinished_def
      by (intro conjI evolves_unfinished[OF ev]) (auto simp: op_ident_def)
    ultimately show "ledger_ok (ops_of s')" using inv by (simp add: ledger_ok_def)
  qed
qed

lemma evolution_keeps: "keeps op_evolution m \<Longrightarrow> keeps ledger_kept m"
  using evolution_ledger by (auto simp: keeps_def)

interpretation ledger: worker_relation ledger_kept "\<lambda>op. True"
  by unfold_locales
    (auto intro!: ledger_refl ledger_trans evolution_keeps machine.finish_keeps machine.defer_keeps
      machine.bind_keeps machine.policy_keeps)

lemma tick_ledger: "environment_keeps ledger_kept w \<Longrightarrow> keeps ledger_kept (tick w claim)"
  unfolding tick_def
  by (intro keeps_mbind[OF ledger_trans] evolution_keeps[OF claim_keeps] keeps_option keeps_mret[OF ledger_refl]
      ledger.attempt_keeps) simp_all

section \<open>Requests on the table\<close>

lemma keeps_ledger_tx:
  assumes "\<And>now d d' x. ledger_ok (db_operations d) \<Longrightarrow> run now d = (d', Inr x) \<Longrightarrow> ledger_ok (db_operations d')"
  shows "keeps ledger_kept (transaction run)"
proof (rule keepsI)
  fix s
  show "ledger_kept s (fst (transaction run s))"
    using assms by (auto simp: ledger_kept_def transaction_def split: prod.splits sum.splits)
qed

lemma ledger_snoc:
  assumes "ledger_ok rows" "op_keys_unique (rows @ [row])" "one_unfinished (rows @ [row])" "clean_row row"
  shows "ledger_ok (rows @ [row])"
  using assms by (simp add: ledger_ok_def op_inv_def op_keys_unique_def)

lemma clean_new: "clean_row (new_operation oid pid iid kind key h rq sec actor now)"
  by (simp add: clean_row_def new_operation_def unfinished_def)

lemma clean_recorded: "recorded actor pid kind key h now row \<Longrightarrow> clean_row row"
  by (simp add: recorded_def clean_row_def unfinished_def)

lemma accept_ledger:
  assumes "ledger_ok (db_operations d)" "accept_tx opts rn actor pid sub key h now d = (d', Inr a)"
  shows "ledger_ok (db_operations d')"
  using accept_cases[OF assms(2)] assms(1)
  by (auto simp: records_one_def intro!: ledger_snoc dest: clean_recorded)

lemma clean_resume: "clean_row r \<Longrightarrow> o_state r = OpFailed \<Longrightarrow> clean_row (resume_row now r)"
  by (simp add: clean_row_def resume_row_def unfinished_def)

lemma retry_ledger:
  assumes l: "ledger_ok (db_operations d)" and t: "retry_tx actor pid oid key now d = (d', Inr a)"
  shows "ledger_ok (db_operations d')"
proof -
  from retry_tx_Inr[OF t] obtain op where op: "op \<in> set (db_operations d)"
    and r: "d' = d \<or> resume_tx actor pid op key now d = (d', Inr ())"
    using sql_first_Some by (force split: if_splits)
  show ?thesis
  proof (cases "d' = d")
    case False
    then have "resume_tx actor pid op key now d = (d', Inr ())" using r by simp
    note i = resume_tx_Inr[OF this]
    have "clean_row x" if "x \<in> set (db_operations d')" for x
    proof -
      have "o_state y = OpFailed" if "y \<in> set (db_operations d)" "o_id y = o_id op" for y
      proof -
        have "y = op" using that op l unfolding ledger_ok_def op_inv_def by (meson inj_onD distinct_map)
        then show ?thesis using i by (simp add: may_resume_def)
      qed
      then show ?thesis using that i l
        by (auto simp: set_sql_update ledger_ok_def op_inv_def list_all_iff intro!: clean_resume)
    qed
    then show ?thesis using i by (auto simp: ledger_ok_def op_inv_def op_keys_unique_def list_all_iff)
  qed (use l in simp)
qed

section \<open>All requests\<close>

datatype api_call =
    Login string string string
  | Logout
  | Change_Password string
  | Reset_Password string string
  | New_User string string
  | Update_User string
  | Retry_Project string string
  | Post_Member string
  | Put_Member string string
  | Remove_Member string string
  | Refresh_Inventory string
  | Reconcile_Reservation string string
  | Put_Quota string
  | Instance_Call randoms instance_call

definition discard :: "('s, 'a) action \<Rightarrow> ('s, unit) action" where
  "discard m = mbind m (\<lambda>_. mret ())"

fun serve ::
  "'w app_env \<Rightarrow> 'w instance_options \<Rightarrow> (inventory_binding list \<Rightarrow> string) \<Rightarrow> http_request \<Rightarrow> api_call \<Rightarrow> ('w sys, unit) action" where
  "serve env opts fp req (Login dummy tok csrf) =
     discard (mbind (parse (loginBody env) (hr_body req)) (authenticate env dummy tok csrf req))"
| "serve env opts fp req Logout = logout env req"
| "serve env opts fp req (Change_Password salt) = change_password env salt req"
| "serve env opts fp req (Reset_Password salt u) = reset_password env salt req u"
| "serve env opts fp req (New_User newId salt) = discard (create_user env newId salt req)"
| "serve env opts fp req (Update_User u) = update_user env req u"
| "serve env opts fp req (Retry_Project oid p) = discard (retry_project env oid req p)"
| "serve env opts fp req (Post_Member p) = post_member env req p"
| "serve env opts fp req (Put_Member p u) = put_member env req p u"
| "serve env opts fp req (Remove_Member p u) = delete_member env req p u"
| "serve env opts fp req (Refresh_Inventory p) = refresh_inventory env req p"
| "serve env opts fp req (Reconcile_Reservation p i) = discard (reconcile_reservation env (io_kube opts) fp req p i)"
| "serve env opts fp req (Put_Quota p) = discard (put_quota env req p)"
| "serve env opts fp req (Instance_Call rn call) = discard (serve_instance env opts rn req call)"

locale api_relation = route_relation R env for R :: "'w sys \<Rightarrow> 'w sys \<Rightarrow> bool" and env :: "'w app_env" +
  fixes opts :: "'w instance_options"
  assumes port: "io_kube opts = Some k \<Longrightarrow> port_keeps R k"
    and inspect: "io_kube opts = Some k \<Longrightarrow> inspectProjectResources k = Some f \<Longrightarrow> keeps R (f ns p)"
    and session_law: "keeps R (exec_sql (\<lambda>_. delete_session h))"
    and hasten_law: "keeps R (exec_sql (\<lambda>now d. d\<lparr>db_projects := sql_update (\<lambda>p. p_id p = pid) (hasten now) (db_projects d)\<rparr>))"
    and login_law: "keeps R (transaction (login_tx env u c tok csrf))"
    and password_law: "keeps R (transaction (password_tx env actor h t pw cur))"
    and new_user_law: "keeps R (transaction (\<lambda>now. mbind (insert_user row) (\<lambda>_. audit (Some who) None None None act dt)))"
    and update_user_law: "keeps R (transaction (update_user_tx aid t on))"
    and member_law: "keeps R (transaction (member_tx actor pid target role))"
    and retry_project_law: "keeps R (transaction (retry_project_tx env actor pid key oid))"
    and reconcile_law: "keeps R (transaction (reconcile_tx fp actor pid iid ns before b low))"
    and quota_law: "keeps R (transaction (quota_tx actor pid limits expected))"
    and accept_law: "keeps R (transaction (accept_tx opts rn actor pid sub key h))"
    and retry_law: "keeps R (transaction (retry_tx actor pid oid key))"
begin

lemmas laws = session_law hasten_law login_law password_law new_user_law update_user_law member_law retry_project_law
  reconcile_law quota_law retry_law keeps_projectAccess

lemma accept_laws:
  "keeps R (transaction (create_tx opts rn actor pid input sc key h))"
  "keeps R (transaction (update_tx actor pid iid (rn_operationId rn) input desired expected key h))"
  "keeps R (transaction (rotate_tx opts rn actor pid iid desired expected key h))"
  "keeps R (transaction (delete_tx actor pid iid (rn_operationId rn) key h))"
  "keeps R (transaction (volume_delete_tx actor pid iid (rn_operationId rn) vuid key h))"
  "keeps R (transaction (reclaim_tx opts rn actor pid iid input b desired vuid key h))"
  using accept_law[of rn actor pid "Create input sc" key h] accept_law[of rn actor pid "Update iid input desired expected" key h]
    accept_law[of rn actor pid "Rotate iid desired expected" key h] accept_law[of rn actor pid "Delete iid" key h]
    accept_law[of rn actor pid "Volume_Delete iid vuid" key h] accept_law[of rn actor pid "Reclaim iid input b desired vuid" key h]
  by (simp_all add: transaction_def keeps_def)

lemma replay_law: "keeps R (transaction (replay_tx pid actor roles kind key h))"
proof (rule keepsI)
  fix s :: "'w sys"
  have "fst (transaction (replay_tx pid actor roles kind key h) s) = s"
    using replay_tx_run[of pid actor roles kind key h "sys_now s" "sys_db s"]
    by (auto simp: transaction_def split: prod.splits sum.splits)
  then show "R s (fst (transaction (replay_tx pid actor roles kind key h) s))" using R_refl by (simp add: reflpD)
qed

lemma keeps_key: "keeps R (idempotencyKey req)" and keeps_etag: "keeps R (etag lo req)"
  unfolding idempotencyKey_def etag_def by (intro steps)+

lemma keeps_kube: "keeps R (kube opts)"
  unfolding kube_def by (intro keeps_option steps)

lemma keeps_binding: "keeps R (binding pid iid)"
  unfolding binding_def by (intro keeps_option steps)

text \<open>A call of the configured port.\<close>

lemma keeps_port: "(\<And>k. port_keeps R k \<Longrightarrow> keeps R (f k)) \<Longrightarrow> keeps R (mbind (kube opts) f)"
proof (cases "io_kube opts")
  case None
  then have "mbind (kube opts) f = mthrow (HttpError 503 ''Kubernetes connection is not configured'')"
    by (simp add: kube_def http_error_def)
  then show ?thesis using keeps_mthrow[OF R_refl] by (simp only:)
next
  case (Some k)
  assume f: "\<And>k. port_keeps R k \<Longrightarrow> keeps R (f k)"
  have "mbind (kube opts) f = f k" using Some by (simp add: kube_def)
  then show ?thesis using f[OF port[OF Some]] by simp
qed

lemma portD: "port_keeps R k \<Longrightarrow> keeps R (getInstance k ns n)" "port_keeps R k \<Longrightarrow> keeps R (getRetainedVolume k i)"
  by (simp_all add: port_keeps_def)

lemma keeps_readOwned: "keeps R (readOwned opts bp)"
  unfolding readOwned_def by (cases bp) (auto intro!: steps keeps_mcatch[OF R_trans] keeps_port portD simp del: mret_run)

lemmas route_steps = steps keeps_option keeps_if laws accept_laws replay_law keeps_key keeps_etag keeps_kube keeps_binding
  keeps_readOwned keeps_mcatch[OF R_trans]

lemma keeps_let: "keeps R (f x) \<Longrightarrow> keeps R (Let x f)"
  by (simp add: Let_def)

lemma volume_keeps: "keeps R (mcatch (mbind (kube opts) (\<lambda>k. getRetainedVolume k i))
    (\<lambda>e. case e of OperationError c _ \<Rightarrow> http_error 409 c | _ \<Rightarrow> http_error 503 m))"
  by (intro keeps_mcatch[OF R_trans] keeps_port portD) (auto intro: keeps_http_error split: error.splits)

lemma instance_keeps: "keeps R (mcatch (mbind (kube opts) (\<lambda>k. getInstance k ns n)) (\<lambda>_. http_error 503 m))"
  by (intro keeps_mcatch[OF R_trans] keeps_port portD keeps_http_error)

lemma instance_call_keeps: "keeps R (serve_instance env opts rn req call)"
proof (cases call)
  case (Post_Reclaim p i)
  show ?thesis unfolding Post_Reclaim serve_instance.simps reclaim_volume_def
    by (intro route_steps volume_keeps instance_keeps keeps_let)
qed (simp_all only: serve_instance.simps create_instance_def update_instance_def rotate_credentials_def
      delete_instance_def delete_retained_volume_def retry_operation_def, (intro route_steps keeps_let)+)

lemma keeps_authenticate: "keeps R (authenticate env dummy tok csrf req body)"
  unfolding authenticate_def by (intro route_steps)

lemmas account_defs = discard_def logout_def change_password_def reset_password_def create_user_def update_user_def
  retry_project_def post_member_def put_member_def delete_member_def changeMember_def refresh_inventory_def put_quota_def
  updatePassword_def

lemma serve_keeps: "keeps R (serve env opts fp req call)"
proof (cases call)
  case (Reconcile_Reservation p i)
  have f: "keeps R (f ns q)" if "(case io_kube opts of None \<Rightarrow> None | Some k \<Rightarrow> inspectProjectResources k) = Some f" for f ns q
    using that inspect by (auto split: option.splits)
  show ?thesis unfolding Reconcile_Reservation serve.simps discard_def reconcile_reservation_def
    by (intro keeps_option_eq steps laws keeps_mcatch[OF R_trans]) (auto intro: f)
next
  case (Instance_Call rn c)
  then show ?thesis by (simp only: serve.simps discard_def) (intro steps instance_call_keeps)
qed (simp_all only: serve.simps account_defs, (intro route_steps keeps_pair keeps_authenticate)+)

end

section \<open>The invariant of the operations table\<close>

text \<open>The interference a request may meet: other requests and the cluster keep the invariant.\<close>

definition interference :: "('w sys \<Rightarrow> 'w sys \<Rightarrow> bool) \<Rightarrow> 'w app_env \<Rightarrow> 'w instance_options \<Rightarrow> bool" where
  "interference R env opts \<longleftrightarrow> (\<forall>s. R s (en_others env s)) \<and>
     (\<forall>k. io_kube opts = Some k \<longrightarrow> port_keeps R k \<and>
        (\<forall>f ns p. inspectProjectResources k = Some f \<longrightarrow> keeps R (f ns p)))"

definition under :: "('w sys \<Rightarrow> 'w sys \<Rightarrow> bool) \<Rightarrow> 'w app_env \<Rightarrow> 'w instance_options \<Rightarrow> 'w sys \<Rightarrow> 'w sys \<Rightarrow> bool" where
  "under R env opts s s' \<longleftrightarrow> (interference R env opts \<longrightarrow> R s s')"

lemma under_refl: "reflp R \<Longrightarrow> reflp (under R env opts)" and under_trans: "transp R \<Longrightarrow> transp (under R env opts)"
  by (auto simp: under_def reflp_def transp_def)

lemma under_keeps: "keeps R m \<Longrightarrow> keeps (under R env opts) m"
  by (simp add: keeps_def under_def)

lemma under_port: "io_kube opts = Some k \<Longrightarrow> port_keeps (under R env opts) k"
  "io_kube opts = Some k \<Longrightarrow> inspectProjectResources k = Some f \<Longrightarrow> keeps (under R env opts) (f ns p)"
  by (auto simp: interference_def port_keeps_def keeps_def under_def)

lemma keeps_ledger_exec: "(\<And>now d. db_operations (f now d) = db_operations d) \<Longrightarrow> keeps ledger_kept (exec_sql f)"
  by (simp add: keeps_def ledger_kept_def exec_sql_def)

lemma retry_project_ledger:
  assumes "ledger_ok (db_operations d)" "retry_project_tx env actor pid key oid now d = (d', Inr r)"
  shows "ledger_ok (db_operations d')"
  using assms unfolding retry_project_tx_def
  by (auto simp: mbind_Inr mthrow_if_def Let_def insert_operation_Inr audit_run split: if_splits option.splits
      intro!: ledger_snoc clean_new)

lemma reconcile_ops: "reconcile_tx fp actor pid iid ns before b low now d = (d', Inr x) \<Longrightarrow> db_operations d' = db_operations d"
  unfolding reconcile_tx_def by (auto simp: mbind_Inr mthrow_if_def audit_run split: if_splits option.splits)

lemma quota_tx_Inr:
  assumes "quota_tx actor pid limits expected now d = (d', Inr sn)"
  shows "\<exists>cur. platform_actor d (ac_id actor) \<and> quotaSnapshot pid d = (d, Inr cur) \<and> sn_revision cur = expected \<and>
    checkQuota limits (sn_reserved cur) (sn_unknown cur) = Inr () \<and>
    db_projects d' = sql_update (\<lambda>p. p_id p = pid) (set_quota limits now) (db_projects d) \<and>
    db_bindings d' = db_bindings d \<and> db_operations d' = db_operations d \<and> db_users d' = db_users d \<and>
    db_members d' = db_members d \<and> quotaSnapshot pid d' = (d', Inr sn)"
proof -
  have same: "quotaSnapshot pid x = (y, r) \<Longrightarrow> y = x" for x y r using quotaSnapshot_same[of pid x] by simp
  from assms obtain cur d1 where "platform_actor d (ac_id actor)" "quotaSnapshot pid d = (d1, Inr cur)" "sn_revision cur = expected"
    "checkQuota limits (sn_reserved cur) (sn_unknown cur) = Inr ()"
    and fin: "quotaSnapshot pid (fst (audit (Some (ac_id actor)) (Some pid) None None ''quota.update''
       (JObj [(''before'', json_quota (sn_limits cur)), (''after'', json_quota limits)])
       (d1\<lparr>db_projects := sql_update (\<lambda>p. p_id p = pid) (set_quota limits now) (db_projects d1)\<rparr>))) = (d', Inr sn)"
    unfolding quota_tx_def by (auto simp: mbind_Inr mthrow_if_def audit_run split: if_splits)
  moreover have "d1 = d" using same calculation(2) by blast
  moreover note same[OF fin]
  ultimately show ?thesis by (auto simp: audit_run)
qed

lemma keeps_ledger_same:
  assumes "\<And>now d d' x. run now d = (d', Inr x) \<Longrightarrow> db_operations d' = db_operations d"
  shows "keeps ledger_kept (transaction run)"
  by (rule keeps_ledger_tx) (use assms in metis)

lemma insert_user_Inr: "insert_user row d = (d', Inr ()) \<Longrightarrow> d' = d\<lparr>db_users := db_users d @ [row]\<rparr>"
  by (auto simp: insert_user_def split: if_splits)

lemma login_ops: "login_tx env u c tok csrf now d = (d', Inr x) \<Longrightarrow> db_operations d' = db_operations d"
  by (cases x) (auto dest: login_tx_Inr)

lemma password_ops: "password_tx env actor h t p cur now d = (d', Inr x) \<Longrightarrow> db_operations d' = db_operations d"
  by (cases x) (auto dest: password_tx_Inr)

lemma update_user_ops: "update_user_tx aid t act now d = (d', Inr x) \<Longrightarrow> db_operations d' = db_operations d"
  by (cases x) (auto dest: update_user_tx_Inr)

lemma member_ops: "member_tx actor pid target role now d = (d', Inr x) \<Longrightarrow> db_operations d' = db_operations d"
  by (cases x) (auto dest: member_tx_Inr)

lemma new_user_ops:
  "mbind (insert_user row) (\<lambda>_. audit a p i q act dt) d = (d', Inr x) \<Longrightarrow> db_operations d' = db_operations d"
  by (auto simp: mbind_Inr audit_run dest!: insert_user_Inr)

lemma quota_ops: "quota_tx actor pid limits expected now d = (d', Inr x) \<Longrightarrow> db_operations d' = db_operations d"
  by (auto dest: quota_tx_Inr)

interpretation ledger_api: api_relation "under ledger_kept env opts" env opts for env opts
proof
  show "reflp (under ledger_kept env opts)" "transp (under ledger_kept env opts)"
    by (rule under_refl[OF ledger_refl], rule under_trans[OF ledger_trans])
  show "under ledger_kept env opts s (en_others env s)" for s
    by (simp add: under_def interference_def)
  show "keeps (under ledger_kept env opts) (transaction (accept_tx opts rn actor pid sub key h))" for rn actor pid sub key h
    by (rule under_keeps[OF keeps_ledger_tx]) (rule accept_ledger)
  show "keeps (under ledger_kept env opts) (transaction (retry_tx actor pid oid key))" for actor pid oid key
    by (rule under_keeps[OF keeps_ledger_tx]) (rule retry_ledger)
  show "keeps (under ledger_kept env opts) (transaction (retry_project_tx env actor pid key oid))" for actor pid key oid
    by (rule under_keeps[OF keeps_ledger_tx]) (rule retry_project_ledger)
  show "keeps (under ledger_kept env opts) (f ns p)" if "io_kube opts = Some k" "inspectProjectResources k = Some f" for k f ns p
    using that by (rule under_port(2))
qed (auto intro!: under_port under_keeps keeps_ledger_same keeps_ledger_exec simp: delete_session_def
    dest: login_ops password_ops update_user_ops member_ops reconcile_ops quota_ops new_user_ops)

lemma create_project_ledger: "keeps (under ledger_kept env opts) (create_project env pid oid req)"
proof -
  have t: "keeps ledger_kept (transaction (create_project_tx env aid pid oid name))" for aid name
  proof (rule keeps_ledger_tx)
    fix now d d' and x :: unit
    assume l: "ledger_ok (db_operations d)" and "create_project_tx env aid pid oid name now d = (d', Inr x)"
    then have "create_project_tx env aid pid oid name now d = (d', Inr ())" by simp
    from create_project_tx_Inr[OF this] l show "ledger_ok (db_operations d')"
      by (auto intro!: ledger_snoc clean_new)
  qed
  show ?thesis unfolding create_project_def by (intro ledger_api.steps under_keeps[OF t])
qed

text \<open>The steps of the running system.\<close>

inductive system_step ::
  "'w worker \<Rightarrow> 'w app_env \<Rightarrow> 'w instance_options \<Rightarrow> (inventory_binding list \<Rightarrow> string) \<Rightarrow> 'w sys \<Rightarrow> 'w sys \<Rightarrow> bool"
  for w env opts fp where
  worker_step: "tick w claim s = (s', r) \<Longrightarrow> system_step w env opts fp s s'"
| request_step: "serve env opts fp req call s = (s', r') \<Longrightarrow> system_step w env opts fp s s'"
| project_step: "create_project env pid oid req s = (s', r'') \<Longrightarrow> system_step w env opts fp s s'"

inductive_cases system_stepE: "system_step w env opts fp s s'"

lemma system_step_ledger:
  assumes "system_step w env opts fp s s'" "interference ledger_kept env opts" "environment_keeps ledger_kept w"
  shows "ledger_kept s s'"
  using assms(1)
proof cases
  case (worker_step claim r)
  then show ?thesis using keepsD[OF tick_ledger[OF assms(3)]] by blast
next
  case (request_step req call r')
  then show ?thesis using keepsD[OF ledger_api.serve_keeps] assms(2) by (fastforce simp: under_def)
next
  case (project_step pid oid req r'')
  then show ?thesis using keepsD[OF create_project_ledger] assms(2) by (fastforce simp: under_def)
qed

text \<open>C2: One operation at a time. Through any sequence of requests and worker steps, each running
  under interference that keeps the table, the table of operations keeps its constraints: ids and
  idempotency keys are unique, an instance has at most one unfinished operation, a project at most
  one unfinished initialization, and a finished operation holds no worker, lease or secret.\<close>

theorem one_operation_at_a_time:
  assumes "(system_step w env opts fp)\<^sup>*\<^sup>* s s'" and "ledger_ok (ops_of s)"
    and "interference ledger_kept env opts" and "environment_keeps ledger_kept w"
  shows "ledger_ok (ops_of s')"
  using assms(1,2)
proof (induction rule: rtranclp_induct)
  case (step t u)
  then show ?case using system_step_ledger[OF step.hyps(2) assms(3,4)] by (simp add: ledger_kept_def)
qed

section \<open>Administration\<close>

definition admin_kept :: "'w sys \<Rightarrow> 'w sys \<Rightarrow> bool" where
  "admin_kept s s' \<longleftrightarrow> (admin_inv (sys_db s) \<longrightarrow> admin_inv (sys_db s'))"

lemma admin_refl: "reflp admin_kept" and admin_trans: "transp admin_kept"
  by (auto simp: admin_kept_def intro!: reflpI transpI)

lemma keeps_admin_tx:
  assumes "\<And>now d d' x. admin_inv d \<Longrightarrow> run now d = (d', Inr x) \<Longrightarrow> admin_inv d'"
  shows "keeps admin_kept (transaction run)"
proof (rule keepsI)
  fix s
  show "admin_kept s (fst (transaction run s))"
    using assms by (auto simp: admin_kept_def transaction_def split: prod.splits sum.splits)
qed

lemma keeps_admin_view:
  assumes "\<And>now d d' x. run now d = (d', Inr x) \<Longrightarrow> account_view d' = account_view d"
  shows "keeps admin_kept (transaction run)"
  by (rule keeps_admin_tx) (use assms account_view_eq in blast)

lemma keeps_admin_exec:
  assumes "\<And>now d. account_view (f now d) = account_view d"
  shows "keeps admin_kept (exec_sql f)"
proof -
  have "admin_inv (f now d) = admin_inv d" for now d using assms by (rule account_view_eq)
  then show ?thesis by (simp add: keeps_def admin_kept_def exec_sql_def)
qed

lemma view_people: "same_people d d' \<Longrightarrow> account_view d' = account_view d"
  by (simp add: same_people_def account_view_def)

lemma view_project:
  assumes "\<And>p. p_id (f p) = p_id p"
  shows "account_view (d\<lparr>db_projects := sql_update q f (db_projects d)\<rparr>) = account_view d"
  by (simp add: account_view_def map_sql_update assms)

lemma retry_view: "retry_tx actor pid oid key now d = (d', Inr a) \<Longrightarrow> account_view d' = account_view d"
  using retry_tx_Inr[of actor pid oid key now d d' a] resume_tx_Inr unfolding account_view_def
  by (metis (no_types, lifting))

lemma retry_project_view: "retry_project_tx env actor pid key oid now d = (d', Inr r) \<Longrightarrow> account_view d' = account_view d"
  unfolding retry_project_tx_def
  by (auto simp: mbind_Inr mthrow_if_def Let_def insert_operation_Inr audit_run account_view_def map_sql_update
      split: if_splits option.splits)

lemma reconcile_view: "reconcile_tx fp actor pid iid ns before b low now d = (d', Inr x) \<Longrightarrow> account_view d' = account_view d"
  unfolding reconcile_tx_def
  by (auto simp: mbind_Inr mthrow_if_def audit_run account_view_def map_sql_update split: if_splits option.splits)

lemma quota_view: "quota_tx actor pid limits expected now d = (d', Inr x) \<Longrightarrow> account_view d' = account_view d"
  using quota_tx_Inr[of actor pid limits expected now d d' x] unfolding account_view_def
  by (auto simp: map_sql_update set_quota_def)

lemma new_user_admin:
  "admin_inv d \<Longrightarrow> mbind (insert_user row) (\<lambda>_. audit a p i q act dt) d = (d', Inr x) \<Longrightarrow> admin_inv d'"
proof -
  assume inv: "admin_inv d" and "mbind (insert_user row) (\<lambda>_. audit a p i q act dt) d = (d', Inr x)"
  then obtain d1 where i: "insert_user row d = (d1, Inr ())" and "account_view d' = account_view d1"
    by (auto simp: mbind_Inr audit_run account_view_def)
  then show "admin_inv d'" using insert_user_admin[OF inv i] account_view_eq by blast
qed

interpretation admin_api: api_relation "under admin_kept env opts" env opts for env opts
proof
  show "reflp (under admin_kept env opts)" "transp (under admin_kept env opts)"
    by (rule under_refl[OF admin_refl], rule under_trans[OF admin_trans])
  show "under admin_kept env opts s (en_others env s)" for s
    by (simp add: under_def interference_def)
  show "port_keeps (under admin_kept env opts) k" if "io_kube opts = Some k" for k
    using that by (rule under_port(1))
  show "keeps (under admin_kept env opts) (f ns p)" if "io_kube opts = Some k" "inspectProjectResources k = Some f" for k f ns p
    using that by (rule under_port(2))
  show "keeps (under admin_kept env opts) (exec_sql (\<lambda>_. delete_session h))" for h
    by (intro under_keeps keeps_admin_exec) (simp add: delete_session_def account_view_def)
  show "keeps (under admin_kept env opts)
      (exec_sql (\<lambda>now d. d\<lparr>db_projects := sql_update (\<lambda>p. p_id p = pid) (hasten now) (db_projects d)\<rparr>))" for pid
    by (intro under_keeps keeps_admin_exec view_project) (simp add: hasten_def)
  show "keeps (under admin_kept env opts) (transaction (login_tx env u c tok csrf))" for u c tok csrf
    by (intro under_keeps keeps_admin_view) (auto dest: login_tx_admin)
  show "keeps (under admin_kept env opts) (transaction (password_tx env actor h t pw cur))" for actor h t pw cur
    by (intro under_keeps keeps_admin_view) (auto dest: password_tx_admin)
  show "keeps (under admin_kept env opts) (transaction (\<lambda>now. mbind (insert_user row) (\<lambda>_. audit (Some who) None None None act dt)))" for row who act dt
    by (intro under_keeps keeps_admin_tx) (rule new_user_admin)
  show "keeps (under admin_kept env opts) (transaction (update_user_tx aid t on))" for aid t on
    by (intro under_keeps keeps_admin_tx) (auto dest: update_user_tx_admin)
  show "keeps (under admin_kept env opts) (transaction (member_tx actor pid target role))" for actor pid target role
    by (intro under_keeps keeps_admin_tx) (auto dest: member_tx_admin)
  show "keeps (under admin_kept env opts) (transaction (retry_project_tx env actor pid key oid))" for actor pid key oid
    by (intro under_keeps keeps_admin_view) (rule retry_project_view)
  show "keeps (under admin_kept env opts) (transaction (reconcile_tx fp actor pid iid ns before b low))" for fp actor pid iid ns before b low
    by (intro under_keeps keeps_admin_view) (rule reconcile_view)
  show "keeps (under admin_kept env opts) (transaction (quota_tx actor pid limits expected))" for actor pid limits expected
    by (intro under_keeps keeps_admin_view) (rule quota_view)
  show "keeps (under admin_kept env opts) (transaction (accept_tx opts rn actor pid sub key h))" for rn actor pid sub key h
    by (intro under_keeps keeps_admin_view view_people) (rule accept_people)
  show "keeps (under admin_kept env opts) (transaction (retry_tx actor pid oid key))" for actor pid oid key
    by (intro under_keeps keeps_admin_view) (rule retry_view)
qed

lemma create_project_Inr:
  assumes "create_project env pid oid req s = (s', Inr x)"
  shows "\<exists>actor name d'. user env req s = (s, Inr actor) \<and>
    create_project_tx env (ac_id actor) pid oid name (sys_now (en_others env s)) (sys_db (en_others env s)) = (d', Inr ()) \<and>
    s' = (en_others env s)\<lparr>sys_db := d'\<rparr>"
proof -
  from assms obtain s1 actor name where u: "user env req s = (s1, Inr actor)"
    and "\<exists>d'. create_project_tx env (ac_id actor) pid oid name (sys_now (en_others env s1)) (sys_db (en_others env s1)) = (d', Inr ()) \<and>
      s' = (en_others env s1)\<lparr>sys_db := d'\<rparr>"
    unfolding create_project_def by (auto simp: mbind_Inr mthrow_if_def transaction_Inr split: if_splits option.splits)
  moreover have "s1 = s" using u user_same[of env req s] by simp
  ultimately show ?thesis by blast
qed

lemma create_project_Inl:
  "create_project env pid oid req s = (s', Inl e) \<Longrightarrow> s' = s \<or> s' = en_others env s"
  unfolding create_project_def
  using user_same[of env req s]
  by (auto simp: mbind_def mthrow_if_def transaction_def split: prod.splits sum.splits option.splits if_splits)

text \<open>C7: Administration is never lost. Under interference that keeps it, every request keeps an
  active platform administrator and an active administrator in every project; for the creation of a
  project this holds as long as no account is disabled while the request is handled.\<close>

theorem administration_never_lost:
  assumes "interference admin_kept env opts" and "admin_inv (sys_db s)"
  shows "admin_inv (sys_db (fst (serve env opts fp req call s))) \<and>
    ((\<forall>t uid. active_user (sys_db t) uid \<longrightarrow> active_user (sys_db (en_others env t)) uid) \<longrightarrow>
       admin_inv (sys_db (fst (create_project env pid oid req s))))"
proof (intro conjI impI)
  show "admin_inv (sys_db (fst (serve env opts fp req call s)))"
    using admin_api.serve_keeps[of env opts fp req call] assms by (auto simp: keeps_def under_def admin_kept_def)
next
  assume stay: "\<forall>t uid. active_user (sys_db t) uid \<longrightarrow> active_user (sys_db (en_others env t)) uid"
  have o: "admin_inv (sys_db (en_others env s))" using assms by (auto simp: interference_def admin_kept_def)
  obtain s' r where run: "create_project env pid oid req s = (s', r)" by (cases "create_project env pid oid req s")
  show "admin_inv (sys_db (fst (create_project env pid oid req s)))"
  proof (cases r)
    case (Inl e)
    then show ?thesis using create_project_Inl[of env pid oid req s s' e] run assms(2) o by auto
  next
    case (Inr x)
    then obtain actor name d' where u: "user env req s = (s, Inr actor)"
      and t: "create_project_tx env (ac_id actor) pid oid name (sys_now (en_others env s)) (sys_db (en_others env s)) = (d', Inr ())"
      and s': "s' = (en_others env s)\<lparr>sys_db := d'\<rparr>"
      using create_project_Inr[of env pid oid req s s' x] run by blast
    have "active_user (sys_db s) (ac_id actor)" using user_Inr[OF u] by (auto simp: active_user_def)
    then show ?thesis using create_project_tx_admin[OF o _ t] stay run s' by simp
  qed
qed


section \<open>Sample runs\<close>

lemma sample_interference: "reflp R \<Longrightarrow> interference R sample_env sample_options"
  by (simp add: interference_def reflp_def)

theorem one_operation_at_a_time_witness:
  "\<exists>s' r. tick down_worker ''w1'' sample_sys = (s', r) \<and> ledger_ok (ops_of s')"
proof -
  obtain s' r where t: "tick down_worker ''w1'' sample_sys = (s', r)" by (cases "tick down_worker ''w1'' sample_sys")
  have "ledger_ok (ops_of sample_sys)" using sample_ops_inv
    by (simp add: ledger_ok_def op_keys_unique_def one_unfinished_def)
      (simp add: sample_sys_def sample_op_def held_op_def new_operation_def)
  moreover have "(system_step down_worker sample_env sample_options (\<lambda>_. []))\<^sup>*\<^sup>* sample_sys s'"
    using worker_step[OF t] by blast
  ultimately have "ledger_ok (ops_of s')"
    by (rule one_operation_at_a_time[rotated, OF _ sample_interference[OF ledger_refl] down_keeps[OF ledger_refl]])
  then show ?thesis using t by blast
qed

lemma people_admin: "admin_inv people_db"
  by (simp add: admin_inv_def member_keys_def)

theorem administration_never_lost_witness:
  "admin_inv (sys_db (fst (serve sample_env sample_options (\<lambda>_. []) disable (Update_User ''u2'') people_sys))) \<and>
   admin_inv (sys_db (fst (create_project sample_env ''p1'' ''o1'' (sample_request [(''name'', JStr ''demo'')]) people_sys)))"
  using administration_never_lost[OF sample_interference[OF admin_refl], where s = people_sys and fp = "\<lambda>_. []" and req = disable
      and call = "Update_User ''u2''"]
    administration_never_lost[OF sample_interference[OF admin_refl], where s = people_sys and pid = "''p1''" and oid = "''o1''"
      and req = "sample_request [(''name'', JStr ''demo'')]"] people_admin by simp

text \<open>The precaution in the second part of the property above is needed. Creating a project takes no
  lock on the accounts and does not check the creator again, so when the creator's account is
  disabled while the request is handled, which the checks of that route allow as the project does
  not exist yet, the new project has no active administrator.\<close>

definition racing_env :: "unit app_env" where
  "racing_env = sample_env\<lparr>en_others := (\<lambda>s. fst (transaction (update_user_tx ''u2'' ''u1'' False) s))\<rparr>"

theorem created_project_unmanaged:
  "admin_inv people_db \<and> admin_inv (sys_db (en_others racing_env people_sys)) \<and>
   (\<exists>s'. create_project racing_env ''p1'' ''o1'' (sample_request [(''name'', JStr ''demo'')]) people_sys = (s', Inr (''p1'', ''expbuild-p1'')) \<and>
      \<not> admin_inv (sys_db s'))"
proof -
  have u: "\<exists>d. update_user_tx ''u2'' ''u1'' False 0 people_db = (d, Inr ()) \<and> db_users d = [root_user\<lparr>u_active := False\<rparr>, second_user] \<and>
      db_members d = [] \<and> db_projects d = [] \<and> db_operations d = []"
    by (simp add: mbind_def mthrow_if_def update_user_tx_def find_user_def orphaned_def other_platform_admins_def
        delete_user_sessions_def set_active_def audit_run) (simp add: people_db_def empty_db_def)
  then obtain d where d: "update_user_tx ''u2'' ''u1'' False 0 people_db = (d, Inr ())"
    and f: "db_users d = [root_user\<lparr>u_active := False\<rparr>, second_user]" "db_members d = []" "db_projects d = []" "db_operations d = []"
    by blast
  have o: "en_others racing_env people_sys = people_sys\<lparr>sys_db := d\<rparr>"
    by (simp add: racing_env_def transaction_def d)
  have n: "projectBody (Some (JObj [(''name'', JStr ''demo'')])) = Some ''demo''" by code_simp
  have csrf: "bad_csrf racing_env = bad_csrf sample_env" by (intro ext) (simp add: bad_csrf_def racing_env_def split: option.splits)
  have au: "user racing_env (sample_request b) people_sys = user sample_env (sample_request b) people_sys" for b
    unfolding user_def csrf by (simp add: racing_env_def)
  have "\<exists>d'. create_project_tx racing_env ''u1'' ''p1'' ''o1'' ''demo'' 0 d = (d', Inr ()) \<and> db_users d' = db_users d \<and>
      p_id (last (db_projects d')) = ''p1'' \<and> db_projects d' \<noteq> [] \<and> db_members d' = [\<lparr>m_project_id = ''p1'', m_user_id = ''u1'', m_role = Admin\<rparr>]"
    by (simp add: create_project_tx_def Let_def mbind_def insert_project_def insert_member_def insert_operation_def write_operations_def
        op_keys_unique_def one_unfinished_def audit_run f new_project_def)
  then obtain d' where d': "create_project_tx racing_env ''u1'' ''p1'' ''o1'' ''demo'' 0 d = (d', Inr ())"
    "db_users d' = db_users d" "p_id (last (db_projects d')) = ''p1''" "db_projects d' \<noteq> []"
    "db_members d' = [\<lparr>m_project_id = ''p1'', m_user_id = ''u1'', m_role = Admin\<rparr>]" by blast
  have "create_project racing_env ''p1'' ''o1'' (sample_request [(''name'', JStr ''demo'')]) people_sys =
      (people_sys\<lparr>sys_db := d'\<rparr>, Inr (''p1'', ''expbuild-p1''))"
    by (simp add: create_project_def mbind_def au sample_user mthrow_if_def n pause_def o transaction_def d')
  moreover have "\<not> administered d' ''p1''" by (simp add: administered_def active_user_def d' f)
  then have "\<not> admin_inv d'" using last_in_set[OF d'(4)] d'(3) unfolding admin_inv_def by metis
  ultimately show ?thesis using people_admin update_user_tx_admin[OF people_admin d] o by auto
qed

end
