(* ===== verification/Kubernetes.thy ===== *)
theory Kubernetes
  imports Kube_Port
begin

text \<open>
  The Kubernetes client (class KubernetesClient of kubernetes.ts) over the API calls it makes. The
  calls are the fields of \<open>kube_api\<close>, a parameter: each acts on the whole system and may fail with an
  \<open>ApiError\<close>. Objects are seen through the fields the client reads. A network policy's
  specification is either of the shape the platform writes or another one, which no deep comparison
  equals. \<open>quantityToScalar\<close> belongs to the client library and is a field of the parameter.
\<close>

section \<open>The API\<close>

record policy_spec =
  ps_podSelector :: strmap
  ps_policyTypes :: "string list"
  ps_fromNamespaces :: strmap
  ps_fromPods :: "strmap option"
  ps_ports :: "(string \<times> int) list option"

datatype observed_policy = NoSpec | PlatformSpec policy_spec | OtherSpec

record secret =
  se_meta :: kube_meta
  se_data :: strmap

record resource_quota =
  rq_meta :: kube_meta
  rq_hard :: "strmap option"
  rq_scoped :: bool
  rq_status_hard :: "strmap option"
  rq_status_used :: "strmap option"

record 'a page =
  pg_items :: "'a list"
  pg_continue :: "string option"

record pod =
  po_meta :: kube_meta
  po_claims :: "string list"

datatype event_time = NoTime | InvalidTime | EventTime int

record kube_event =
  ev_uid :: "string option"
  ev_object_uid :: "string option"
  ev_object_namespace :: "string option"
  ev_object_kind :: "string option"
  ev_time :: event_time
  ev_reason :: "string option"
  ev_type :: "string option"
  ev_count :: "int option"

record 'w kube_api =
  readNamespace :: "string \<Rightarrow> ('w sys, kube_meta) action"
  createNamespace :: "string \<Rightarrow> strmap \<Rightarrow> ('w sys, unit) action"
  createPolicy :: "string \<Rightarrow> string \<Rightarrow> strmap \<Rightarrow> policy_spec \<Rightarrow> ('w sys, unit) action"
  readPolicy :: "string \<Rightarrow> string \<Rightarrow> ('w sys, kube_meta \<times> observed_policy) action"
  getCustom :: "string \<Rightarrow> string \<Rightarrow> ('w sys, cache_object) action"
  createCustom :: "cache_object \<Rightarrow> ('w sys, cache_object) action"
  replaceCustom :: "string \<Rightarrow> string \<Rightarrow> cache_object \<Rightarrow> ('w sys, cache_object) action"
  deleteCustom :: "string \<Rightarrow> string \<Rightarrow> string \<Rightarrow> ('w sys, unit) action"
  listCustom :: "string \<Rightarrow> string option \<Rightarrow> ('w sys, cache_object page) action"
  readClaim :: "string \<Rightarrow> string \<Rightarrow> ('w sys, volume_claim) action"
  deleteClaim :: "string \<Rightarrow> string \<Rightarrow> string \<Rightarrow> string option \<Rightarrow> ('w sys, unit) action"
  listClaims :: "string \<Rightarrow> string option \<Rightarrow> ('w sys, volume_claim page) action"
  listPods :: "string \<Rightarrow> ('w sys, pod list) action"
  readSecret :: "string \<Rightarrow> string \<Rightarrow> ('w sys, secret) action"
  createSecret :: "string \<Rightarrow> string \<Rightarrow> strmap \<Rightarrow> strmap \<Rightarrow> strmap \<Rightarrow> ('w sys, unit) action"
  deleteSecret :: "string \<Rightarrow> string \<Rightarrow> string option \<Rightarrow> ('w sys, unit) action"
  readQuota :: "string \<Rightarrow> string \<Rightarrow> ('w sys, resource_quota) action"
  createQuota :: "string \<Rightarrow> resource_quota \<Rightarrow> ('w sys, unit) action"
  replaceQuota :: "string \<Rightarrow> string \<Rightarrow> resource_quota \<Rightarrow> ('w sys, unit) action"
  deleteQuota :: "string \<Rightarrow> string \<Rightarrow> string option \<Rightarrow> string option \<Rightarrow> ('w sys, unit) action"
  selectPods :: "string \<Rightarrow> string \<Rightarrow> ('w sys, pod page) action"
  selectClaims :: "string \<Rightarrow> string \<Rightarrow> ('w sys, volume_claim page) action"
  listEvents :: "string \<Rightarrow> string \<Rightarrow> ('w sys, kube_event page) action"
  quantityToScalar :: "string \<Rightarrow> string option"
  base64 :: "string \<Rightarrow> string"

section \<open>Projects\<close>

definition meta_owned :: "string \<Rightarrow> kube_meta \<Rightarrow> bool" where
  "meta_owned projectId m \<longleftrightarrow> prop_of (km_labels m) projectLabel = Some projectId \<and>
     prop_of (km_labels m) managedByLabel = Some ''expbuild''"

text \<open>\<open>try { create } catch (409) { ... }\<close>\<close>

definition unless_conflict :: "('s, 'a) action \<Rightarrow> ('s, 'a) action \<Rightarrow> ('s, 'a) action" where
  "unless_conflict create adopt = mcatch create (\<lambda>e. if has_status e 409 then adopt else mthrow e)"

definition isolation_spec :: policy_spec where
  "isolation_spec = \<lparr>ps_podSelector = [], ps_policyTypes = [''Ingress''],
     ps_fromNamespaces = [(''cache.expbuild.io/control-plane'', ''true'')], ps_fromPods = None, ps_ports = None\<rparr>"

definition access_spec_of :: "network_policy \<Rightarrow> policy_spec" where
  "access_spec_of np = \<lparr>ps_podSelector = np_podSelector np, ps_policyTypes = np_policyTypes np,
     ps_fromNamespaces = np_fromNamespaces np, ps_fromPods = Some (np_fromPods np), ps_ports = Some (np_ports np)\<rparr>"

definition policy_spec_eq :: "policy_spec \<Rightarrow> policy_spec \<Rightarrow> bool" where
  "policy_spec_eq a b \<longleftrightarrow> strmap_eq (ps_podSelector a) (ps_podSelector b) \<and> ps_policyTypes a = ps_policyTypes b \<and>
     strmap_eq (ps_fromNamespaces a) (ps_fromNamespaces b) \<and>
     (case (ps_fromPods a, ps_fromPods b) of (None, None) \<Rightarrow> True | (Some x, Some y) \<Rightarrow> strmap_eq x y | _ \<Rightarrow> False) \<and>
     ps_ports a = ps_ports b"

definition ensureProject_client :: "'w kube_api \<Rightarrow> string \<Rightarrow> string \<Rightarrow> ('w sys, unit) action" where
  "ensureProject_client api namespace projectId =
     mbind (unless_conflict (createNamespace api namespace (labels projectId None)) (mret ())) (\<lambda>_.
     mbind (readNamespace api namespace) (\<lambda>found.
     mbind (mthrow_if (\<not> meta_owned projectId found) (OperationError ''namespace_ownership_conflict'' False)) (\<lambda>_.
     mbind (unless_conflict (createPolicy api namespace ''expbuild-isolation'' (labels projectId None) isolation_spec)
       (mbind (readPolicy api namespace ''expbuild-isolation'') (\<lambda>(current, _).
        mthrow_if (\<not> meta_owned projectId current) (OperationError ''policy_ownership_conflict'' False)))) (\<lambda>_.
     mbind (mlift (clientAccessPolicy namespace projectId)) (\<lambda>access.
     unless_conflict (createPolicy api namespace (np_name access) (np_labels access) (access_spec_of access))
       (mbind (readPolicy api namespace (np_name access)) (\<lambda>(current, spec).
        mbind (mthrow_if (\<not> meta_owned projectId current) (OperationError ''policy_ownership_conflict'' False)) (\<lambda>_.
        mthrow_if (truthy (km_deletionTimestamp current) \<or>
            \<not> (case spec of PlatformSpec ps \<Rightarrow> policy_spec_eq ps (access_spec_of access) | _ \<Rightarrow> False))
          (OperationError ''client_policy_configuration_conflict'' False)))))))))"

section \<open>Listing for the inventory\<close>

fun collect :: "nat \<Rightarrow> (string option \<Rightarrow> ('w sys, 'a page) action) \<Rightarrow> 'a list \<Rightarrow> string option \<Rightarrow> ('w sys, 'a list) action" where
  "collect 0 page items continuation = mthrow (OperationError ''inventory_limit_exceeded'' False)"
| "collect (Suc n) page items continuation =
     mbind (page continuation) (\<lambda>result.
       let items' = items @ pg_items result in
       mbind (mthrow_if (1000 < length items') (OperationError ''inventory_limit_exceeded'' False)) (\<lambda>_.
       if \<not> truthy (pg_continue result) then mret items'
       else collect n page items' (pg_continue result)))"

definition inspect_client :: "'w kube_api \<Rightarrow> string \<Rightarrow> string \<Rightarrow> ('w sys, inventory_resources) action" where
  "inspect_client api namespace projectId =
     mbind (readNamespace api namespace) (\<lambda>ns.
     mbind (mthrow_if (\<not> truthy (km_uid ns) \<or> truthy (km_deletionTimestamp ns) \<or> \<not> meta_owned projectId ns)
              (OperationError ''namespace_ownership_conflict'' False)) (\<lambda>_.
     mbind (collect 5 (listCustom api namespace) [] None) (\<lambda>instances.
     mbind (collect 5 (listClaims api namespace) [] None) (\<lambda>volumes.
     mbind (readNamespace api namespace) (\<lambda>final.
     mbind (mthrow_if (km_uid final \<noteq> km_uid ns \<or> truthy (km_deletionTimestamp final) \<or> \<not> meta_owned projectId final)
              (OperationError ''namespace_changed_during_scan'' False)) (\<lambda>_.
     mret \<lparr>iv_instances = instances, iv_volumes = volumes\<rparr>))))))"

section \<open>Resource quota of a project\<close>

abbreviation revisionKey :: string where "revisionKey \<equiv> ''cache.expbuild.io/quota-revision''"

definition quota_hard :: "quota \<Rightarrow> strmap" where
  "quota_hard limits =
     (case q_instances limits of None \<Rightarrow> [] | Some n \<Rightarrow> [(''count/cacheinstances.cache.expbuild.io'', show_int n)]) @
     (case q_storageGiB limits of None \<Rightarrow> [] | Some n \<Rightarrow> [(''requests.storage'', show_int n @ ''Gi'')]) @
     (case q_cpuMillis limits of None \<Rightarrow> []
      | Some n \<Rightarrow> [(''requests.cpu'', show_int n @ ''m''), (''limits.cpu'', show_int n @ ''m'')]) @
     (case q_memoryMiB limits of None \<Rightarrow> []
      | Some n \<Rightarrow> [(''requests.memory'', show_int n @ ''Mi''), (''limits.memory'', show_int n @ ''Mi'')])"

definition positive_number :: "string \<Rightarrow> bool" where
  "positive_number s \<longleftrightarrow> s \<noteq> [] \<and> list_all is_digit s \<and> hd s \<noteq> CHR ''0''"

definition quota_equal :: "'w kube_api \<Rightarrow> strmap \<Rightarrow> strmap option \<Rightarrow> bool" where
  "quota_equal api hard actual =
     (case actual of
        None \<Rightarrow> False
      | Some xs \<Rightarrow> length xs = length hard \<and>
          list_all (\<lambda>(k, v). case map_of xs k of None \<Rightarrow> False
            | Some q \<Rightarrow> quantityToScalar api q \<noteq> None \<and> quantityToScalar api v \<noteq> None \<and>
                quantityToScalar api q = quantityToScalar api v) hard)"

definition check_quota_object :: "string \<Rightarrow> resource_quota \<Rightarrow> error option" where
  "check_quota_object projectId current =
     (let meta = rq_meta current in
      if \<not> truthy (km_uid meta) \<or> \<not> truthy (km_resourceVersion meta) \<or> km_ownerReferences meta \<noteq> [] \<or> \<not> meta_owned projectId meta
      then Some (OperationError ''quota_ownership_conflict'' False)
      else if rq_scoped current then Some (OperationError ''quota_scope_conflict'' False)
      else None)"

definition stale_revision :: "string \<Rightarrow> resource_quota \<Rightarrow> bool" where
  "stale_revision desiredRevision current =
     (case prop_of (km_annotations (rq_meta current)) revisionKey of
        None \<Rightarrow> False
      | Some previous \<Rightarrow> previous \<noteq> [] \<and>
          (\<not> positive_number previous \<or> digits_val desiredRevision < digits_val previous))"

definition apply_quota ::
  "'w kube_api \<Rightarrow> string \<Rightarrow> string \<Rightarrow> string \<Rightarrow> strmap \<Rightarrow> resource_quota option \<Rightarrow> ('w sys, bool) action" where
  "apply_quota api namespace projectId desiredRevision hard current =
     (let name = ''expbuild-resources'' in
      if hard = [] then
        (case current of
           None \<Rightarrow> mret True
         | Some c \<Rightarrow> mbind (deleteQuota api namespace name (km_uid (rq_meta c)) (km_resourceVersion (rq_meta c))) (\<lambda>_. mret False))
      else
        (case current of
           None \<Rightarrow> mbind (createQuota api namespace
               \<lparr>rq_meta = \<lparr>km_name = Some name, km_namespace = Some namespace, km_uid = None, km_resourceVersion = None,
                  km_labels = Some (labels projectId None), km_annotations = Some [(revisionKey, desiredRevision)],
                  km_deletionTimestamp = None, km_ownerReferences = []\<rparr>,
                rq_hard = Some hard, rq_scoped = False, rq_status_hard = None, rq_status_used = None\<rparr>) (\<lambda>_. mret False)
         | Some c \<Rightarrow>
             if \<not> quota_equal api hard (rq_hard c) \<or> prop_of (km_annotations (rq_meta c)) revisionKey \<noteq> Some desiredRevision
             then mbind (replaceQuota api namespace name
                 \<lparr>rq_meta = (rq_meta c)\<lparr>km_annotations := Some (strmap_merge
                     (case km_annotations (rq_meta c) of None \<Rightarrow> [] | Some xs \<Rightarrow> xs) [(revisionKey, desiredRevision)])\<rparr>,
                  rq_hard = Some hard, rq_scoped = False, rq_status_hard = None, rq_status_used = None\<rparr>) (\<lambda>_. mret False)
             else mret (quota_equal api hard (rq_status_hard c) \<and>
                    list_all (\<lambda>(k, _). prop_of (rq_status_used c) k \<noteq> None) hard)))"

definition ensureProjectQuota ::
  "'w kube_api \<Rightarrow> string \<Rightarrow> string \<Rightarrow> string \<Rightarrow> quota \<Rightarrow> ('w sys, bool) action" where
  "ensureProjectQuota api namespace projectId desiredRevision limits =
     mbind (readNamespace api namespace) (\<lambda>ns.
     mbind (mthrow_if (truthy (km_deletionTimestamp ns) \<or> \<not> meta_owned projectId ns)
              (OperationError ''namespace_ownership_conflict'' False)) (\<lambda>_.
     mbind (mcatch (mbind (readQuota api namespace ''expbuild-resources'') (\<lambda>q. mret (Some q)))
              (\<lambda>e. if has_status e 404 then mret None else mthrow e)) (\<lambda>current.
       case current of
         None \<Rightarrow> apply_quota api namespace projectId desiredRevision (quota_hard limits) None
       | Some c \<Rightarrow>
           (case check_quota_object projectId c of
              Some e \<Rightarrow> mthrow e
            | None \<Rightarrow>
                if truthy (km_deletionTimestamp (rq_meta c)) then mret False
                else if stale_revision desiredRevision c then mthrow (OperationError ''quota_revision_conflict'' False)
                else apply_quota api namespace projectId desiredRevision (quota_hard limits) (Some c)))))"

section \<open>Credentials\<close>

definition instance_labels_of :: "string \<Rightarrow> string \<Rightarrow> kube_meta \<Rightarrow> bool" where
  "instance_labels_of projectId instanceId m \<longleftrightarrow> prop_of (km_labels m) projectLabel = Some projectId \<and>
     prop_of (km_labels m) instanceLabel = Some instanceId"

definition ensureCredentials_client ::
  "'w kube_api \<Rightarrow> string \<Rightarrow> string \<Rightarrow> string \<Rightarrow> string \<Rightarrow> string \<Rightarrow> strmap \<Rightarrow> ('w sys, unit) action" where
  "ensureCredentials_client api namespace name projectId instanceId operationId data =
     (let encoded = map (\<lambda>(k, v). (k, base64 api v)) data in
      unless_conflict
        (createSecret api namespace name (labels projectId (Some instanceId)) [(opKey, operationId)] encoded)
        (mbind (readSecret api namespace name) (\<lambda>found.
         mthrow_if (\<not> instance_labels_of projectId instanceId (se_meta found) \<or>
             prop_of (km_annotations (se_meta found)) opKey \<noteq> Some operationId \<or> \<not> strmap_eq (se_data found) encoded)
           (OperationError ''credential_ownership_conflict'' False))))"

text \<open>\<open>catch (error) { if (statusCode(error) !== 404) throw error; }\<close>\<close>

definition ignore_missing :: "'a \<Rightarrow> ('s, 'a) action \<Rightarrow> ('s, 'a) action" where
  "ignore_missing x m = mcatch m (\<lambda>e. if has_status e 404 then mret x else mthrow e)"

definition deleteCredentials_client ::
  "'w kube_api \<Rightarrow> string \<Rightarrow> string \<Rightarrow> string \<Rightarrow> string \<Rightarrow> ('w sys, unit) action" where
  "deleteCredentials_client api namespace name projectId instanceId =
     ignore_missing () (mbind (readSecret api namespace name) (\<lambda>secret.
       mbind (mthrow_if (\<not> instance_labels_of projectId instanceId (se_meta secret))
                (OperationError ''credential_ownership_conflict'' False)) (\<lambda>_.
       deleteSecret api namespace name (km_uid (se_meta secret)))))"

section \<open>Instances\<close>

definition getInstance_client :: "'w kube_api \<Rightarrow> string \<Rightarrow> string \<Rightarrow> ('w sys, cache_object option) action" where
  "getInstance_client api namespace name =
     ignore_missing None (mbind (getCustom api namespace name) (\<lambda>x. mret (Some x)))"

definition same_origin :: "cache_object \<Rightarrow> cache_object \<Rightarrow> bool" where
  "same_origin current desired \<longleftrightarrow>
     sp_instanceId (co_spec current) = sp_instanceId (co_spec desired) \<and>
     sp_projectId (co_spec current) = sp_projectId (co_spec desired) \<and>
     annotation current opKey = annotation desired opKey \<and> annotation current hashKey = annotation desired hashKey"

definition createInstance_client :: "'w kube_api \<Rightarrow> cache_object \<Rightarrow> ('w sys, cache_object) action" where
  "createInstance_client api desired =
     unless_conflict (createCustom api desired)
       (mbind (getInstance_client api (om_namespace (co_metadata desired)) (om_name (co_metadata desired))) (\<lambda>current.
          case current of
            None \<Rightarrow> mthrow (OperationError ''instance_ownership_conflict'' False)
          | Some c \<Rightarrow>
              mbind (mthrow_if (\<not> same_origin c desired) (OperationError ''instance_ownership_conflict'' False)) (\<lambda>_.
              mbind (mthrow_if (\<not> spec_eq (co_spec c) (co_spec desired) \<or> deleting c)
                       (OperationError ''instance_configuration_superseded'' True)) (\<lambda>_.
              mret c))))"

abbreviation reclaimMarker :: string where "reclaimMarker \<equiv> ''cache.expbuild.io/reclaim-bound-uid''"

definition annotations_of :: "cache_object \<Rightarrow> strmap" where
  "annotations_of c = (case om_annotations (co_metadata c) of None \<Rightarrow> [] | Some xs \<Rightarrow> xs)"

definition approveReclaim_client :: "'w kube_api \<Rightarrow> cache_object \<Rightarrow> string \<Rightarrow> ('w sys, unit) action" where
  "approveReclaim_client api desired uid =
     mbind (mthrow_if (st_reclaim (sp_storage (co_spec desired)) = None \<or> uid = '''')
              (OperationError ''invalid_reclaim_request'' False)) (\<lambda>_.
     mbind (getInstance_client api (om_namespace (co_metadata desired)) (om_name (co_metadata desired))) (\<lambda>current.
       case current of
         None \<Rightarrow> mthrow (OperationError ''instance_reclaim_conflict'' False)
       | Some c \<Rightarrow>
           mbind (mthrow_if (om_uid (co_metadata c) \<noteq> Some uid \<or> deleting c \<or>
               sp_projectId (co_spec c) \<noteq> sp_projectId (co_spec desired) \<or>
               sp_instanceId (co_spec c) \<noteq> sp_instanceId (co_spec desired) \<or>
               annotation c opKey \<noteq> annotation desired opKey \<or> \<not> spec_eq (co_spec c) (co_spec desired))
             (OperationError ''instance_reclaim_conflict'' False)) (\<lambda>_.
           if annotation c reclaimMarker = Some uid then mret ()
           else
             mbind (mthrow_if (truthy (annotation c reclaimMarker)) (OperationError ''instance_reclaim_conflict'' False)) (\<lambda>_.
             mbind (mthrow_if (\<not> truthy (om_resourceVersion (co_metadata c))) (OperationError ''missing_kubernetes_identity'' False)) (\<lambda>_.
             mbind (replaceCustom api (om_namespace (co_metadata c)) (om_name (co_metadata c))
               (c\<lparr>co_metadata := (co_metadata c)\<lparr>om_annotations := Some (strmap_merge (annotations_of c) [(reclaimMarker, uid)])\<rparr>\<rparr>)) (\<lambda>_.
             mret ()))))))"

text \<open>\<open>expectedRevision.split(':')[0]\<close>\<close>

definition revision_uid :: "string \<Rightarrow> string" where
  "revision_uid r = takeWhile (\<lambda>c. c \<noteq> CHR '':'') r"

definition keep_binding_mode :: "cache_object \<Rightarrow> cache_object \<Rightarrow> cache_spec" where
  "keep_binding_mode current desired = (co_spec desired)\<lparr>sp_imageBindingMode :=
     (if truthy (sp_imageBindingMode (co_spec current)) then sp_imageBindingMode (co_spec current) else None)\<rparr>"

definition update_body :: "cache_object \<Rightarrow> cache_object \<Rightarrow> cache_object" where
  "update_body current desired =
     current\<lparr>co_metadata := (co_metadata current)\<lparr>om_annotations := Some (strmap_merge (annotations_of current) (annotations_of desired))\<rparr>,
             co_spec := keep_binding_mode current desired\<rparr>"

definition updateInstance_client :: "'w kube_api \<Rightarrow> cache_object \<Rightarrow> string \<Rightarrow> ('w sys, cache_object) action" where
  "updateInstance_client api desired expectedRevision =
     mbind (getInstance_client api (om_namespace (co_metadata desired)) (om_name (co_metadata desired))) (\<lambda>current.
       case current of
         None \<Rightarrow> mthrow (OperationError ''instance_identity_conflict'' False)
       | Some c \<Rightarrow>
           mbind (mthrow_if (sp_instanceId (co_spec c) \<noteq> sp_instanceId (co_spec desired) \<or>
               sp_projectId (co_spec c) \<noteq> sp_projectId (co_spec desired) \<or> deleting c \<or>
               om_uid (co_metadata c) \<noteq> Some (revision_uid expectedRevision))
             (OperationError ''instance_identity_conflict'' False)) (\<lambda>_.
           if annotation c opKey = annotation desired opKey then
             mbind (mthrow_if (annotation c hashKey \<noteq> annotation desired hashKey \<or> \<not> spec_eq (co_spec c) (keep_binding_mode c desired))
               (OperationError ''instance_configuration_superseded'' True)) (\<lambda>_. mret c)
           else
             mbind (mthrow_if (revision c \<noteq> expectedRevision) (OperationError ''instance_version_conflict'' True)) (\<lambda>_.
             replaceCustom api (om_namespace (co_metadata desired)) (om_name (co_metadata desired)) (update_body c desired))))"

definition deleteInstance_client :: "'w kube_api \<Rightarrow> string \<Rightarrow> string \<Rightarrow> string \<Rightarrow> ('w sys, unit) action" where
  "deleteInstance_client api namespace name uid =
     mcatch (deleteCustom api namespace name uid) (\<lambda>e.
       if has_status e 409 then mthrow (OperationError ''instance_identity_conflict'' False)
       else if has_status e 404 then mret () else mthrow e)"

section \<open>Retained volumes\<close>

definition claim_owned :: "retained_identity \<Rightarrow> kube_meta \<Rightarrow> bool" where
  "claim_owned i m \<longleftrightarrow> truthy (km_uid m) \<and> truthy (km_resourceVersion m) \<and> meta_owned (rv_projectId i) m \<and>
     prop_of (km_labels m) instanceLabel = Some (rv_instanceId i) \<and>
     prop_of (km_labels m) instanceUidLabel = Some (rv_instanceUid i) \<and> km_ownerReferences m = []"

definition retainedClaim :: "'w kube_api \<Rightarrow> retained_identity \<Rightarrow> ('w sys, volume_claim option) action" where
  "retainedClaim api i =
     mbind (readNamespace api (rv_namespace i)) (\<lambda>ns.
     mbind (mthrow_if (\<not> meta_owned (rv_projectId i) ns) (OperationError ''namespace_ownership_conflict'' False)) (\<lambda>_.
     ignore_missing None (mbind (readClaim api (rv_namespace i) (rv_name i @ ''-data'')) (\<lambda>pvc.
       mbind (mthrow_if (\<not> claim_owned i (pv_meta pvc)) (OperationError ''volume_ownership_conflict'' False)) (\<lambda>_.
       mret (Some pvc))))))"

definition getRetainedVolume_client :: "'w kube_api \<Rightarrow> retained_identity \<Rightarrow> ('w sys, retained_volume option) action" where
  "getRetainedVolume_client api i =
     mbind (retainedClaim api i) (\<lambda>pvc. mret (map_option (\<lambda>v.
       \<lparr>vo_name = js_name (km_name (pv_meta v)), vo_namespace = rv_namespace i, vo_uid = js_name (km_uid (pv_meta v)),
        vo_capacity = js_name (pv_request v), vo_allocatedCapacity = js_name (pv_capacity v),
        vo_storageClass = js_name (pv_storageClassName v),
        vo_phase = (case pv_phase v of None \<Rightarrow> ''Unknown'' | Some p \<Rightarrow> p),
        vo_deleting = truthy (km_deletionTimestamp (pv_meta v))\<rparr>) pvc))"

definition deleteRetainedVolume_client :: "'w kube_api \<Rightarrow> retained_identity \<Rightarrow> string \<Rightarrow> ('w sys, unit) action" where
  "deleteRetainedVolume_client api i uid =
     mbind (retainedClaim api i) (\<lambda>pvc.
       case pvc of
         None \<Rightarrow> mret ()
       | Some v \<Rightarrow>
           mbind (mthrow_if (km_uid (pv_meta v) \<noteq> Some uid) (OperationError ''volume_identity_conflict'' False)) (\<lambda>_.
           mbind (getInstance_client api (rv_namespace i) (rv_name i)) (\<lambda>inst.
           mbind (mthrow_if (inst \<noteq> None) (OperationError ''volume_instance_exists'' False)) (\<lambda>_.
           mbind (listPods api (rv_namespace i)) (\<lambda>pods.
           mbind (mthrow_if (list_ex (\<lambda>p. list_ex (\<lambda>c. Some c = km_name (pv_meta v)) (po_claims p)) pods)
                    (OperationError ''volume_in_use'' False)) (\<lambda>_.
           mcatch (deleteClaim api (rv_namespace i) (js_name (km_name (pv_meta v))) uid (km_resourceVersion (pv_meta v))) (\<lambda>e.
             if has_status e 409 then mthrow (OperationError ''volume_identity_conflict'' False)
             else if has_status e 404 then mret () else mthrow e)))))))"

text \<open>The client as a port.\<close>

definition kubernetesClient :: "'w kube_api \<Rightarrow> 'w kube_port" where
  "kubernetesClient api = \<lparr>approveRetainedVolumeReclaim = Some (approveReclaim_client api),
     inspectProjectResources = Some (inspect_client api),
     getRetainedVolume = getRetainedVolume_client api, deleteRetainedVolume = deleteRetainedVolume_client api,
     ensureProject = ensureProject_client api, ensureCredentials = ensureCredentials_client api,
     getInstance = getInstance_client api, createInstance = createInstance_client api,
     updateInstance = updateInstance_client api, deleteInstance = deleteInstance_client api,
     deleteCredentials = deleteCredentials_client api\<rparr>"

section \<open>Diagnostic events\<close>

text \<open>
  The last occurrence is kept as milliseconds instead of its ISO text, which has the same order. The
  two list calls and the event queries of a batch run one after the other.
\<close>

definition safe_text :: "string option \<Rightarrow> string" where
  "safe_text v = (case v of None \<Rightarrow> ''Unknown''
     | Some s \<Rightarrow> if s \<noteq> [] \<and> length s \<le> 100 \<and> list_all (\<lambda>c. is_alnum c \<or> c \<in> set ''_.-'') s then s else ''Unknown'')"

definition diagnostic_resource :: "string \<Rightarrow> string \<Rightarrow> string \<Rightarrow> kube_meta \<Rightarrow> bool" where
  "diagnostic_resource namespace uid projectId m \<longleftrightarrow> truthy (km_uid m) \<and> km_namespace m = Some namespace \<and>
     prop_of (km_labels m) instanceUidLabel = Some uid \<and> meta_owned projectId m"

definition diagnostic_resources ::
  "string \<Rightarrow> string \<Rightarrow> string \<Rightarrow> pod list \<Rightarrow> volume_claim list \<Rightarrow> (string \<times> string) list" where
  "diagnostic_resources namespace uid projectId pods volumes =
     (let metas = map (\<lambda>p. (po_meta p, ''Pod'')) pods @ map (\<lambda>v. (pv_meta v, ''PersistentVolumeClaim'')) volumes in
      foldl (\<lambda>m (meta, kind). if diagnostic_resource namespace uid projectId meta
                              then AList.update (js_name (km_uid meta)) kind m else m)
        [(uid, ''CacheInstance'')] metas)"

definition relevant_event :: "string \<Rightarrow> int \<Rightarrow> string \<Rightarrow> string \<Rightarrow> kube_event \<Rightarrow> bool" where
  "relevant_event namespace now resourceUID kind ev \<longleftrightarrow>
     ev_object_uid ev = Some resourceUID \<and> ev_object_namespace ev = Some namespace \<and> ev_object_kind ev = Some kind \<and>
     truthy (ev_uid ev) \<and>
     (case ev_time ev of NoTime \<Rightarrow> True | InvalidTime \<Rightarrow> False
      | EventTime t \<Rightarrow> now - 30 * 86400000 \<le> t \<and> t \<le> now + 300000)"

definition diagnostic_of :: "string \<Rightarrow> string \<Rightarrow> kube_event \<Rightarrow> diagnostic_event" where
  "diagnostic_of resourceUID kind ev = \<lparr>de_uid = js_name (ev_uid ev), de_resourceUID = resourceUID, de_kind = kind,
     de_reason = safe_text (ev_reason ev), de_type = safe_text (ev_type ev),
     de_count = max 1 (case ev_count ev of None \<Rightarrow> 1 | Some n \<Rightarrow> n),
     de_lastOccurred = (case ev_time ev of EventTime t \<Rightarrow> Some t | _ \<Rightarrow> None)\<rparr>"

fun gather_events ::
  "'w kube_api \<Rightarrow> string \<Rightarrow> (string \<times> string) list \<Rightarrow> bool \<Rightarrow> diagnostic_event list \<Rightarrow> ('w sys, bool \<times> diagnostic_event list) action" where
  "gather_events api namespace [] truncated items = mret (truncated, items)"
| "gather_events api namespace ((uid, kind) # rest) truncated items =
     mbind (listEvents api namespace uid) (\<lambda>events.
     mbind (mget sys_now) (\<lambda>now.
     gather_events api namespace rest (truncated \<or> truthy (pg_continue events))
       (items @ map (diagnostic_of uid kind) (filter (relevant_event namespace now uid kind) (pg_items events)))))"

definition latest_first :: "diagnostic_event \<Rightarrow> int \<times> int" where
  "latest_first e = (case de_lastOccurred e of None \<Rightarrow> (1, 0) | Some t \<Rightarrow> (0, - t))"

definition readDiagnosticEvents :: "'w kube_api \<Rightarrow> cache_object \<Rightarrow> ('w sys, string \<times> diagnostic_event list) action" where
  "readDiagnosticEvents api object =
     (let namespace = om_namespace (co_metadata object) in
      if \<not> truthy (om_uid (co_metadata object)) then mthrow (OperationError ''observation_identity_missing'' False)
      else let uid = the (om_uid (co_metadata object)) in
        mbind (selectPods api namespace uid) (\<lambda>pods.
        mbind (selectClaims api namespace uid) (\<lambda>volumes.
        mbind (mthrow_if (truthy (pg_continue pods) \<or> truthy (pg_continue volumes))
                 (OperationError ''observation_resource_limit'' False)) (\<lambda>_.
        let resources = diagnostic_resources namespace uid (sp_projectId (co_spec object)) (pg_items pods) (pg_items volumes);
            selected = take 8 resources in
        mbind (gather_events api namespace selected (length selected < length resources) []) (\<lambda>(truncated, items).
        mret (if truncated \<or> 100 < length items then ''truncated'' else ''ok'', take 100 (sort_key latest_first items)))))))"

end
