(* ===== verification/Kubernetes_Props.thy ===== *)
theory Kubernetes_Props
  imports Kubernetes Worker_Props
begin

text \<open>
  Properties of the Kubernetes client: replayable creation, optimistic updates, guarded deletion of
  retained volumes, quota readiness, bounded listings and diagnostics. A read that changes nothing is
  stated as such where a property needs it.
\<close>

section \<open>Results of reads\<close>

lemma ignore_missing_Inr:
  "ignore_missing x m s = (s', Inr y) \<longleftrightarrow> m s = (s', Inr y) \<or> (\<exists>e. m s = (s', Inl e) \<and> has_status e 404 \<and> y = x)"
  by (auto simp: ignore_missing_def mcatch_def split: prod.splits sum.splits if_splits)

lemma unless_conflict_Inr:
  "unless_conflict create adopt s = (s', Inr y) \<longleftrightarrow>
     create s = (s', Inr y) \<or> (\<exists>t e. create s = (t, Inl e) \<and> has_status e 409 \<and> adopt t = (s', Inr y))"
  by (auto simp: unless_conflict_def mcatch_def split: prod.splits sum.splits if_splits)

lemma getInstance_client_Inr:
  "getInstance_client api ns n s = (s', Inr r) \<longleftrightarrow>
     (\<exists>c. r = Some c \<and> getCustom api ns n s = (s', Inr c)) \<or>
     (r = None \<and> (\<exists>e. getCustom api ns n s = (s', Inl e) \<and> has_status e 404))"
  by (auto simp: getInstance_client_def ignore_missing_Inr mbind_def split: prod.splits sum.splits)

lemma createInstance_client_Inr:
  assumes "createInstance_client api desired s = (s', Inr c)"
  shows "createCustom api desired s = (s', Inr c) \<or>
    (\<exists>t e. createCustom api desired s = (t, Inl e) \<and> has_status e 409 \<and>
       getCustom api (om_namespace (co_metadata desired)) (om_name (co_metadata desired)) t = (s', Inr c) \<and>
       same_origin c desired \<and> spec_eq (co_spec c) (co_spec desired) \<and> \<not> deleting c)"
  using assms unfolding createInstance_client_def unless_conflict_Inr
  by (auto simp: mbind_Inr getInstance_client_Inr mthrow_if_def split: option.splits if_splits)

text \<open>C28: creation is idempotent and never adopts a stranger. When creating an instance succeeds, the
  object returned is either the one the API created, or one that already existed under that name,
  written by the same operation for the same request, with a specification equal to the desired one
  and not being deleted.\<close>

theorem create_adopts_own:
  assumes "createInstance_client api desired s = (s', Inr c)"
  shows "createCustom api desired s = (s', Inr c) \<or>
    (\<exists>t e. createCustom api desired s = (t, Inl e) \<and> has_status e 409 \<and>
       getCustom api (om_namespace (co_metadata desired)) (om_name (co_metadata desired)) t = (s', Inr c) \<and>
       annotation c opKey = annotation desired opKey \<and> annotation c hashKey = annotation desired hashKey \<and>
       sp_instanceId (co_spec c) = sp_instanceId (co_spec desired) \<and> sp_projectId (co_spec c) = sp_projectId (co_spec desired) \<and>
       spec_eq (co_spec c) (co_spec desired) \<and> \<not> deleting c)"
  using createInstance_client_Inr[OF assms] unfolding same_origin_def by blast


definition stub_api :: "unit kube_api" where
  "stub_api = \<lparr>readNamespace = \<lambda>_. mthrow (ApiError (Some 500)), createNamespace = \<lambda>_ _. mthrow (ApiError (Some 500)),
     createPolicy = \<lambda>_ _ _ _. mthrow (ApiError (Some 500)), readPolicy = \<lambda>_ _. mthrow (ApiError (Some 500)),
     getCustom = \<lambda>_ _. mthrow (ApiError (Some 404)), createCustom = \<lambda>_. mthrow (ApiError (Some 500)),
     replaceCustom = \<lambda>_ _ x. mret x, deleteCustom = \<lambda>_ _ _. mthrow (ApiError (Some 500)),
     listCustom = \<lambda>_ _. mret \<lparr>pg_items = [], pg_continue = None\<rparr>, readClaim = \<lambda>_ _. mthrow (ApiError (Some 404)),
     deleteClaim = \<lambda>_ _ _ _. mput (\<lambda>s. s\<lparr>sys_now := sys_now s + 1\<rparr>),
     listClaims = \<lambda>_ _. mret \<lparr>pg_items = [], pg_continue = None\<rparr>, listPods = \<lambda>_. mret [],
     readSecret = \<lambda>_ _. mthrow (ApiError (Some 404)), createSecret = \<lambda>_ _ _ _ _. mthrow (ApiError (Some 500)),
     deleteSecret = \<lambda>_ _ _. mthrow (ApiError (Some 500)), readQuota = \<lambda>_ _. mthrow (ApiError (Some 404)),
     createQuota = \<lambda>_ _. mret (), replaceQuota = \<lambda>_ _ _. mret (), deleteQuota = \<lambda>_ _ _ _. mret (),
     selectPods = \<lambda>_ _. mret \<lparr>pg_items = [], pg_continue = None\<rparr>,
     selectClaims = \<lambda>_ _. mret \<lparr>pg_items = [], pg_continue = None\<rparr>,
     listEvents = \<lambda>_ _. mret \<lparr>pg_items = [], pg_continue = None\<rparr>,
     quantityToScalar = Some, base64 = id\<rparr>"

theorem create_adopts_own_witness:
  "createInstance_client (stub_api\<lparr>createCustom := \<lambda>_. mthrow (ApiError (Some 409)), getCustom := \<lambda>_ _. mret sample_object\<rparr>)
     sample_object rotating_sys = (rotating_sys, Inr sample_object) \<and> spec_eq (co_spec sample_object) (co_spec sample_object)"
proof -
  let ?api = "stub_api\<lparr>createCustom := \<lambda>_. mthrow (ApiError (Some 409)), getCustom := \<lambda>_ _. mret sample_object\<rparr>"
  have nd: "\<not> deleting sample_object" by code_simp
  have c: "createInstance_client ?api sample_object rotating_sys = (rotating_sys, Inr sample_object)"
    by (simp add: createInstance_client_def unless_conflict_def mcatch_def getInstance_client_def ignore_missing_def
        mbind_def same_origin_def nd)
  show ?thesis using create_adopts_own[OF c] c by simp
qed


section \<open>Retained volumes\<close>

abbreviation pure_call :: "('s, 'a) action \<Rightarrow> bool" where
  "pure_call m \<equiv> keeps (\<lambda>s s'. s' = s) m"

lemma pure_rel: "reflp (\<lambda>s s'. s' = s)" "transp (\<lambda>s s'. s' = s)"
  by (auto intro: reflpI transpI)

lemma getInstance_pure: "pure_call (getCustom api ns n) \<Longrightarrow> pure_call (getInstance_client api ns n)"
  unfolding getInstance_client_def ignore_missing_def
  by (intro keeps_mcatch[OF pure_rel(2)] keeps_mbind[OF pure_rel(2)] keeps_if keeps_mret[OF pure_rel(1)] keeps_mthrow[OF pure_rel(1)])

lemma retainedClaim_pure:
  assumes "pure_call (readNamespace api (rv_namespace i))" "pure_call (readClaim api (rv_namespace i) (rv_name i @ ''-data''))"
  shows "pure_call (retainedClaim api i)"
  unfolding retainedClaim_def ignore_missing_def
  by (intro keeps_mcatch[OF pure_rel(2)] keeps_mbind[OF pure_rel(2)] keeps_if keeps_mret[OF pure_rel(1)]
      keeps_mthrow[OF pure_rel(1)] keeps_mthrow_if[OF pure_rel(1)] assms)

lemma retainedClaim_Some:
  assumes "retainedClaim api i s = (s', Inr (Some v))"
  shows "\<exists>t ns. readNamespace api (rv_namespace i) s = (t, Inr ns) \<and> meta_owned (rv_projectId i) ns \<and>
    readClaim api (rv_namespace i) (rv_name i @ ''-data'') t = (s', Inr v) \<and> claim_owned i (pv_meta v)"
  using assms unfolding retainedClaim_def
  by (auto simp: mbind_Inr ignore_missing_Inr mthrow_if_def split: if_splits)

text \<open>C30: a retained volume is deleted only when it is certainly the platform's and unused. With reads
  that change nothing, deleting a retained volume changes the cluster only if the namespace and the
  claim carry the project's, the instance's and the previous object's identity, the claim has no
  owner and the expected uid, no instance of that name exists, and no pod of the namespace, whoever
  created it, mounts the claim; the one call that changes anything names that uid and resource
  version.\<close>

theorem volume_deletion_guarded:
  assumes "pure_call (readNamespace api (rv_namespace i))" "pure_call (readClaim api (rv_namespace i) (rv_name i @ ''-data''))"
    and "pure_call (getCustom api (rv_namespace i) (rv_name i))" "pure_call (listPods api (rv_namespace i))"
    and "deleteRetainedVolume_client api i uid s = (s', res)" and "s' \<noteq> s"
  shows "\<exists>ns v e pods. readNamespace api (rv_namespace i) s = (s, Inr ns) \<and> meta_owned (rv_projectId i) ns \<and>
    readClaim api (rv_namespace i) (rv_name i @ ''-data'') s = (s, Inr v) \<and> claim_owned i (pv_meta v) \<and>
    km_uid (pv_meta v) = Some uid \<and> getCustom api (rv_namespace i) (rv_name i) s = (s, Inl e) \<and> has_status e 404 \<and>
    listPods api (rv_namespace i) s = (s, Inr pods) \<and>
    (\<forall>p \<in> set pods. \<forall>c \<in> set (po_claims p). Some c \<noteq> km_name (pv_meta v)) \<and>
    fst (deleteClaim api (rv_namespace i) (js_name (km_name (pv_meta v))) uid (km_resourceVersion (pv_meta v)) s) = s'"
proof -
  obtain t r where t: "retainedClaim api i s = (t, r)" by (cases "retainedClaim api i s")
  have ts: "t = s" using keepsD[OF retainedClaim_pure[OF assms(1,2)] t] .
  obtain g y where g: "getInstance_client api (rv_namespace i) (rv_name i) s = (g, y)"
    by (cases "getInstance_client api (rv_namespace i) (rv_name i) s")
  have gs: "g = s" using keepsD[OF getInstance_pure[OF assms(3)] g] .
  obtain p q where p: "listPods api (rv_namespace i) s = (p, q)" by (cases "listPods api (rv_namespace i) s")
  have ps: "p = s" using keepsD[OF assms(4) p] .
  note facts = t[unfolded ts] g[unfolded gs] p[unfolded ps]
  obtain v pods where v: "r = Inr (Some v)" "km_uid (pv_meta v) = Some uid" "y = Inr None" "q = Inr pods"
    and nouse: "\<not> list_ex (\<lambda>p. list_ex (\<lambda>c. Some c = km_name (pv_meta v)) (po_claims p)) pods"
    and del: "fst (deleteClaim api (rv_namespace i) (js_name (km_name (pv_meta v))) uid (km_resourceVersion (pv_meta v)) s) = s'"
    using assms(5,6) facts unfolding deleteRetainedVolume_client_def
    by (cases r; cases y; cases q) (auto simp: mbind_def mthrow_if_def mcatch_def split: option.splits if_splits prod.splits sum.splits)
  obtain u ns where ns: "readNamespace api (rv_namespace i) s = (u, Inr ns)" "meta_owned (rv_projectId i) ns"
    "readClaim api (rv_namespace i) (rv_name i @ ''-data'') u = (s, Inr v)" "claim_owned i (pv_meta v)"
    using retainedClaim_Some facts(1) v(1) by blast
  have "u = s" using keepsD[OF assms(1) ns(1)] .
  moreover obtain e where "getCustom api (rv_namespace i) (rv_name i) s = (s, Inl e)" "has_status e 404"
    using facts(2) v(3) by (auto simp: getInstance_client_Inr)
  ultimately show ?thesis using ns v(2,4) facts(3) nouse del by (fastforce simp: list_ex_iff)
qed

definition retained_meta :: kube_meta where
  "retained_meta = (pv_meta sample_volume)\<lparr>km_ownerReferences := []\<rparr>"

definition retained_sample :: retained_identity where
  "retained_sample = \<lparr>rv_namespace = ''ns-demo'', rv_name = ''c-i1'', rv_projectId = ''p1'', rv_instanceId = ''i1'', rv_instanceUid = ''u-1''\<rparr>"

theorem volume_deletion_guarded_witness:
  "claim_owned retained_sample retained_meta \<and>
   (let api = stub_api\<lparr>readNamespace := \<lambda>_. mret retained_meta, readClaim := \<lambda>_ _. mret (sample_volume\<lparr>pv_meta := retained_meta\<rparr>)\<rparr> in
    \<exists>ns. readNamespace api ''ns-demo'' rotating_sys = (rotating_sys, Inr ns) \<and> meta_owned ''p1'' ns)"
proof -
  let ?api = "stub_api\<lparr>readNamespace := \<lambda>_. mret retained_meta, readClaim := \<lambda>_ _. mret (sample_volume\<lparr>pv_meta := retained_meta\<rparr>)\<rparr>"
  have o: "claim_owned retained_sample retained_meta" "meta_owned ''p1'' retained_meta" "km_uid retained_meta = Some ''v-1''" by code_simp+
  obtain s' res where d: "deleteRetainedVolume_client ?api retained_sample ''v-1'' rotating_sys = (s', res)"
    by (cases "deleteRetainedVolume_client ?api retained_sample ''v-1'' rotating_sys")
  have f: "rv_projectId retained_sample = ''p1''" by (simp add: retained_sample_def)
  have "s' = rotating_sys\<lparr>sys_now := sys_now rotating_sys + 1\<rparr>"
    using d o by (simp add: deleteRetainedVolume_client_def retainedClaim_def ignore_missing_def mcatch_def mbind_def
        stub_api_def getInstance_client_def f)
  then have "s' \<noteq> rotating_sys" by (simp add: rotating_sys_def)
  from volume_deletion_guarded[OF _ _ _ _ d this] show ?thesis
    using o by (auto simp: Let_def stub_api_def keeps_def retained_sample_def)
qed

section \<open>Quota readiness, listings and diagnostics\<close>

lemma apply_quota_True:
  assumes "apply_quota api ns pid wanted hard current s = (s', Inr True)"
  shows "s' = s \<and> (case current of None \<Rightarrow> hard = []
    | Some c \<Rightarrow> hard \<noteq> [] \<and> quota_equal api hard (rq_hard c) \<and> prop_of (km_annotations (rq_meta c)) revisionKey = Some wanted \<and>
        quota_equal api hard (rq_status_hard c) \<and> (\<forall>k \<in> fst ` set hard. prop_of (rq_status_used c) k \<noteq> None))"
  using assms unfolding apply_quota_def Let_def
  by (auto simp: mbind_Inr list_all_iff split: if_splits option.splits)

text \<open>The limits a quota object shows are the desired ones, resource by resource, as quantities.\<close>

definition shows_limits :: "'w kube_api \<Rightarrow> strmap \<Rightarrow> strmap option \<Rightarrow> bool" where
  "shows_limits api hard actual \<longleftrightarrow> (\<exists>xs. actual = Some xs \<and> length xs = length hard \<and>
     (\<forall>(k, v) \<in> set hard. \<exists>q n. map_of xs k = Some q \<and> quantityToScalar api q = Some n \<and> quantityToScalar api v = Some n))"

lemma quota_equal_shows: "quota_equal api hard actual \<Longrightarrow> shows_limits api hard actual"
  by (fastforce simp: quota_equal_def shows_limits_def list_all_iff split: option.splits)

text \<open>a project's quota counts as applied only when the cluster enforces it. When the client
  reports a revision ready, the namespace is the project's and not being deleted, and either there
  is no limit and no quota object, or the quota object is the platform's, unscoped and not being
  deleted, carries exactly the desired revision, its specified and its enforced limits equal the
  desired ones resource by resource, and usage of each is known; reporting readiness writes nothing
  after the reads.\<close>

theorem quota_ready_sound:
  assumes "ensureProjectQuota api ns pid wanted limits s = (s', Inr True)"
  shows "\<exists>t m. readNamespace api ns s = (t, Inr m) \<and> meta_owned pid m \<and> \<not> truthy (km_deletionTimestamp m) \<and>
    ((quota_hard limits = [] \<and> (\<exists>e. readQuota api ns ''expbuild-resources'' t = (s', Inl e) \<and> has_status e 404)) \<or>
     (\<exists>c. readQuota api ns ''expbuild-resources'' t = (s', Inr c) \<and> meta_owned pid (rq_meta c) \<and> \<not> rq_scoped c \<and>
        km_ownerReferences (rq_meta c) = [] \<and> \<not> truthy (km_deletionTimestamp (rq_meta c)) \<and> \<not> stale_revision wanted c \<and>
        prop_of (km_annotations (rq_meta c)) revisionKey = Some wanted \<and>
        shows_limits api (quota_hard limits) (rq_hard c) \<and> shows_limits api (quota_hard limits) (rq_status_hard c) \<and>
        (\<forall>k \<in> fst ` set (quota_hard limits). prop_of (rq_status_used c) k \<noteq> None)))"
proof -
  obtain t m where m: "readNamespace api ns s = (t, Inr m)" "meta_owned pid m" "\<not> truthy (km_deletionTimestamp m)"
    and rest: "mbind (mcatch (mbind (readQuota api ns ''expbuild-resources'') (\<lambda>q. mret (Some q)))
              (\<lambda>e. if has_status e 404 then mret None else mthrow e)) (\<lambda>current.
       case current of
         None \<Rightarrow> apply_quota api ns pid wanted (quota_hard limits) None
       | Some c \<Rightarrow>
           (case check_quota_object pid c of
              Some e \<Rightarrow> mthrow e
            | None \<Rightarrow>
                if truthy (km_deletionTimestamp (rq_meta c)) then mret False
                else if stale_revision wanted c then mthrow (OperationError ''quota_revision_conflict'' False)
                else apply_quota api ns pid wanted (quota_hard limits) (Some c))) t = (s', Inr True)"
    using assms unfolding ensureProjectQuota_def by (auto simp: mbind_Inr mthrow_if_def split: if_splits)
  obtain u q where q: "readQuota api ns ''expbuild-resources'' t = (u, q)" by (cases "readQuota api ns ''expbuild-resources'' t")
  show ?thesis
  proof (cases q)
    case (Inl e)
    then have "has_status e 404" "apply_quota api ns pid wanted (quota_hard limits) None u = (s', Inr True)"
      using rest q by (auto simp: mbind_def mcatch_def split: if_splits)
    then show ?thesis using apply_quota_True[of api ns pid wanted "quota_hard limits" None u s'] m q Inl by auto
  next
    case (Inr c)
    then have c: "check_quota_object pid c = None" "\<not> truthy (km_deletionTimestamp (rq_meta c))" "\<not> stale_revision wanted c"
      "apply_quota api ns pid wanted (quota_hard limits) (Some c) u = (s', Inr True)"
      using rest q by (auto simp: mbind_def mcatch_def split: if_splits option.splits)
    have "meta_owned pid (rq_meta c)" "\<not> rq_scoped c" "km_ownerReferences (rq_meta c) = []"
      using c(1) by (auto simp: check_quota_object_def Let_def split: if_splits)
    then show ?thesis using apply_quota_True[OF c(4)] quota_equal_shows[of api "quota_hard limits"] c m q Inr by auto
  qed
qed

theorem quota_ready_sound_witness:
  "ensureProjectQuota (stub_api\<lparr>readNamespace := \<lambda>_. mret retained_meta\<rparr>) ''ns-demo'' ''p1'' ''1''
     \<lparr>q_instances = None, q_storageGiB = None, q_cpuMillis = None, q_memoryMiB = None\<rparr> rotating_sys = (rotating_sys, Inr True) \<and>
   meta_owned ''p1'' retained_meta"
proof -
  let ?l = "\<lparr>q_instances = None, q_storageGiB = None, q_cpuMillis = None, q_memoryMiB = None\<rparr>"
  have o: "meta_owned ''p1'' retained_meta" "km_deletionTimestamp retained_meta = None" by code_simp+
  have e: "ensureProjectQuota (stub_api\<lparr>readNamespace := \<lambda>_. mret retained_meta\<rparr>) ''ns-demo'' ''p1'' ''1'' ?l rotating_sys = (rotating_sys, Inr True)"
    by (simp add: ensureProjectQuota_def mbind_def mcatch_def stub_api_def quota_hard_def apply_quota_def o)
  show ?thesis using quota_ready_sound[OF e] e by (auto simp: stub_api_def)
qed

lemma collect_bound:
  assumes "collect n page items c s = (s', Inr xs)"
  shows "length xs \<le> 1000"
  using assms
proof (induction n arbitrary: items c s)
  case (Suc n)
  then show ?case by (auto simp: mbind_Inr Let_def mthrow_if_def split: if_splits)
qed simp



lemma gather_relevant:
  assumes "gather_events api ns sel tr items s = (s', Inr (tr', out))"
    and "\<forall>e \<in> set items. P e"
    and "\<And>now uid kind ev. (uid, kind) \<in> set sel \<Longrightarrow> relevant_event ns now uid kind ev \<Longrightarrow> P (diagnostic_of uid kind ev)"
  shows "\<forall>e \<in> set out. P e"
  using assms
proof (induction sel arbitrary: tr items s)
  case (Cons p sel)
  obtain uid kind where p: "p = (uid, kind)" by (cases p)
  from Cons.prems(1) obtain ev :: "kube_event page" and t where
    g: "gather_events api ns sel (tr \<or> truthy (pg_continue ev))
       (items @ map (diagnostic_of uid kind) (filter (relevant_event ns (sys_now t) uid kind) (pg_items ev))) t = (s', Inr (tr', out))"
    unfolding p by (auto simp: mbind_Inr)
  show ?case
  proof (rule Cons.IH[OF g])
    show "\<forall>e \<in> set (items @ map (diagnostic_of uid kind) (filter (relevant_event ns (sys_now t) uid kind) (pg_items ev))). P e"
      using Cons.prems(2,3) by (auto simp: p)
  qed (use Cons.prems(3) in auto)
qed simp

text \<open>diagnostics are bounded and sanitized. At most a hundred events are returned, latest first,
  each with a non-empty identity and a count of at least one, its reason and type free of anything
  but letters, digits and a few punctuation characters.\<close>

lemma diagnostics_sanitized:
  assumes "readDiagnosticEvents api object s = (s', Inr (state, items))"
  shows "length items \<le> 100 \<and> sorted (map latest_first items) \<and> state \<in> {''ok'', ''truncated''} \<and>
    (\<forall>e \<in> set items. de_uid e \<noteq> '''' \<and> 1 \<le> de_count e \<and> length (de_reason e) \<le> 100 \<and> length (de_type e) \<le> 100 \<and>
       list_all (\<lambda>c. is_alnum c \<or> c \<in> set ''_.-'') (de_reason e @ de_type e))"
proof -
  obtain ns sel tr t u tr' out where g: "gather_events api ns sel tr [] t = (u, Inr (tr', out))"
    and items: "items = take 100 (sort_key latest_first out)" "state = (if tr' \<or> 100 < length out then ''truncated'' else ''ok'')"
    using assms unfolding readDiagnosticEvents_def Let_def by (auto simp: mbind_Inr mthrow_if_def split: if_splits)
  define P where "P = (\<lambda>e :: diagnostic_event. de_uid e \<noteq> '''' \<and> 1 \<le> de_count e \<and> length (de_reason e) \<le> 100 \<and> length (de_type e) \<le> 100 \<and>
       list_all (\<lambda>c. is_alnum c \<or> c \<in> set ''_.-'') (de_reason e @ de_type e))"
  have safe: "length (safe_text v) \<le> 100 \<and> list_all (\<lambda>c. is_alnum c \<or> c \<in> set ''_.-'') (safe_text v)" for v
    by (auto simp: safe_text_def is_alnum_def is_lower_def is_upper_def split: option.splits)
  have "P (diagnostic_of uid kind ev)" if "relevant_event ns now uid kind ev" for now uid kind ev
    using that safe by (auto simp: P_def diagnostic_of_def relevant_event_def js_name_def truthy_def split: option.splits)
  then have "\<forall>e \<in> set out. P e" by (intro gather_relevant[OF g]) simp_all
  moreover have "set items \<subseteq> set out" unfolding items by (auto dest!: in_set_takeD)
  moreover have "sorted (map latest_first items)"
    unfolding items take_map[symmetric] by (intro sorted_wrt_take sorted_sort_key)
  ultimately show ?thesis using items by (auto simp: P_def)
qed

lemma diagnostics_sanitized_sample:
  "readDiagnosticEvents stub_api sample_object rotating_sys = (rotating_sys, Inr (''ok'', [])) \<and> ''ok'' \<in> {''ok'', ''truncated''}"
proof -
  have o: "om_uid (co_metadata sample_object) = Some ''u-1''" by code_simp
  have e: "readDiagnosticEvents stub_api sample_object rotating_sys = (rotating_sys, Inr (''ok'', []))"
    by (simp add: readDiagnosticEvents_def o Let_def mbind_def stub_api_def diagnostic_resources_def)
  show ?thesis using diagnostics_sanitized[OF e] e by blast
qed

end
