(* ===== verification/Quota_Sync.thy ===== *)
theory Quota_Sync
  imports Kubernetes_Props
begin

text \<open>
  Quota synchronization (quota-sync.ts): the project's limits are pushed to the cluster and the
  observed revision is recorded. The project row is locked for the whole transaction, which writes
  with its last statement only and has nothing to roll back; \<open>now()\<close> is its start. The operation
  worker uses \<open>ensure\<close> as its quota gate.
\<close>

section \<open>Synchronization\<close>

definition sync_error :: "error \<Rightarrow> string" where
  "sync_error e =
     (case e of
        OperationError code _ \<Rightarrow> code
      | _ \<Rightarrow> (case statusCode e of
               Some (CodeNum n) \<Rightarrow> if 400 \<le> n \<and> n \<le> 599 then ''kubernetes_'' @ show_int n else ''kubernetes_unavailable''
             | _ \<Rightarrow> ''kubernetes_unavailable''))"

definition record_sync :: "project_row \<Rightarrow> int \<Rightarrow> bool \<Rightarrow> string option \<Rightarrow> project_row \<Rightarrow> project_row" where
  "record_sync project now ready err p = p\<lparr>
     p_quota_observed_revision := (if ready then Some (p_quota_revision project) else None),
     p_quota_checked_at := Some now, p_quota_sync_error := err,
     p_quota_next_sync := now + (if ready then 30000 else 2000)\<rparr>"

definition apply_sync ::
  "(string \<Rightarrow> string \<Rightarrow> string \<Rightarrow> quota \<Rightarrow> ('w sys, bool) action) \<Rightarrow> int \<Rightarrow> project_row \<Rightarrow> ('w sys, bool) action" where
  "apply_sync port now project =
     mbind (mcatch
              (mbind (mlift (z_parse quotaInput (p_quota_limits project))) (\<lambda>limits.
               mbind (port (p_namespace project) (p_id project) (show_int (p_quota_revision project)) limits) (\<lambda>ready.
               mret (ready, None))))
              (\<lambda>e. mret (False, Some (sync_error e)))) (\<lambda>(ready, err).
     mbind (exec_sql (\<lambda>_ d. d\<lparr>db_projects := sql_update (\<lambda>p. p_id p = p_id project)
              (record_sync project now ready err) (db_projects d)\<rparr>)) (\<lambda>_.
     mret ready))"

definition ensure ::
  "(string \<Rightarrow> string \<Rightarrow> string \<Rightarrow> quota \<Rightarrow> ('w sys, bool) action) \<Rightarrow> string \<Rightarrow> ('w sys, bool) action" where
  "ensure port projectId =
     mbind (mget sys_now) (\<lambda>now.
     mbind (query (\<lambda>_ d. sql_first (\<lambda>p. p_id p = projectId) (db_projects d))) (\<lambda>project.
       case project of
         None \<Rightarrow> mret False
       | Some p \<Rightarrow> if p_state p \<noteq> PReady then mret False else apply_sync port now p))"

definition sync_due :: "int \<Rightarrow> project_row \<Rightarrow> bool" where
  "sync_due now p \<longleftrightarrow> p_state p = PReady \<and> p_quota_next_sync p \<le> now"

definition sync_tick ::
  "(string \<Rightarrow> string \<Rightarrow> string \<Rightarrow> quota \<Rightarrow> ('w sys, bool) action) \<Rightarrow> ('w sys, bool) action" where
  "sync_tick port =
     mbind (mget sys_now) (\<lambda>now.
     mbind (query (\<lambda>_ d. first_by p_quota_next_sync (filter (sync_due now) (db_projects d)))) (\<lambda>project.
       case project of
         None \<Rightarrow> mret False
       | Some p \<Rightarrow> mbind (apply_sync port now p) (\<lambda>_. mret True)))"

section \<open>Properties\<close>

lemma apply_sync_cases:
  "\<exists>t ready err. apply_sync port now project s =
     (t\<lparr>sys_db := (sys_db t)\<lparr>db_projects := sql_update (\<lambda>p. p_id p = p_id project)
        (record_sync project now ready err) (db_projects (sys_db t))\<rparr>\<rparr>, Inr ready) \<and>
     (ready \<longrightarrow> err = None \<and> (\<exists>limits. quotaInput (Some (p_quota_limits project)) = Some limits \<and>
        port (p_namespace project) (p_id project) (show_int (p_quota_revision project)) limits s = (t, Inr True))) \<and>
     (quotaInput (Some (p_quota_limits project)) = None \<longrightarrow> t = s \<and> \<not> ready \<and> err = Some ''kubernetes_unavailable'')"
proof (cases "quotaInput (Some (p_quota_limits project))")
  case None
  then have "z_parse quotaInput (p_quota_limits project) = Inl ZodError" by (simp add: z_parse_def)
  then have "apply_sync port now project s = (s\<lparr>sys_db := (sys_db s)\<lparr>db_projects := sql_update (\<lambda>p. p_id p = p_id project)
        (record_sync project now False (Some ''kubernetes_unavailable'')) (db_projects (sys_db s))\<rparr>\<rparr>, Inr False)"
    by (simp add: apply_sync_def mbind_def mcatch_def exec_sql_def sync_error_def)
  then show ?thesis by blast
next
  case (Some limits)
  then have z: "z_parse quotaInput (p_quota_limits project) = Inr limits" by (simp add: z_parse_def)
  obtain t r where t: "port (p_namespace project) (p_id project) (show_int (p_quota_revision project)) limits s = (t, r)"
    by (cases "port (p_namespace project) (p_id project) (show_int (p_quota_revision project)) limits s")
  show ?thesis
  proof (cases r)
    case (Inl e)
    then have "apply_sync port now project s = (t\<lparr>sys_db := (sys_db t)\<lparr>db_projects := sql_update (\<lambda>p. p_id p = p_id project)
        (record_sync project now False (Some (sync_error e))) (db_projects (sys_db t))\<rparr>\<rparr>, Inr False)"
      using z t by (simp add: apply_sync_def mbind_def mcatch_def exec_sql_def)
    then show ?thesis
      using Some by (intro exI[of _ t] exI[of _ False] exI[of _ "Some (sync_error e)"]) simp
  next
    case (Inr ready)
    then have "apply_sync port now project s = (t\<lparr>sys_db := (sys_db t)\<lparr>db_projects := sql_update (\<lambda>p. p_id p = p_id project)
        (record_sync project now ready None) (db_projects (sys_db t))\<rparr>\<rparr>, Inr ready)"
      using z t by (simp add: apply_sync_def mbind_def mcatch_def exec_sql_def)
    then show ?thesis
      using Some t Inr by (intro exI[of _ t] exI[of _ ready] exI[of _ None]) simp
  qed
qed

lemma record_sync_fields [simp]:
  "p_id (record_sync p now ready err q) = p_id q"
  "p_quota_observed_revision (record_sync p now ready err q) = (if ready then Some (p_quota_revision p) else None)"
  by (simp_all add: record_sync_def)

lemma observed_after:
  "q \<in> set (sql_update (\<lambda>q. p_id q = k) (record_sync p now ready err) rows) \<Longrightarrow> p_id q = k \<Longrightarrow>
   p_quota_observed_revision q = (if ready then Some (p_quota_revision p) else None)"
  unfolding set_sql_update by (elim UnE imageE) (simp_all only: record_sync_fields mem_Collect_eq, blast)



section \<open>The worker on the client\<close>

text \<open>The API calls and the quota port keep a relation; then so do the client's methods and the gate.\<close>

definition api_keeps :: "('w sys \<Rightarrow> 'w sys \<Rightarrow> bool) \<Rightarrow> 'w kube_api \<Rightarrow> bool" where
  "api_keeps R api \<longleftrightarrow>
     (\<forall>ns. keeps R (readNamespace api ns)) \<and> (\<forall>ns l. keeps R (createNamespace api ns l)) \<and>
     (\<forall>ns n l p. keeps R (createPolicy api ns n l p)) \<and> (\<forall>ns n. keeps R (readPolicy api ns n)) \<and>
     (\<forall>ns n. keeps R (getCustom api ns n)) \<and> (\<forall>x. keeps R (createCustom api x)) \<and>
     (\<forall>ns n x. keeps R (replaceCustom api ns n x)) \<and> (\<forall>ns n u. keeps R (deleteCustom api ns n u)) \<and>
     (\<forall>ns n. keeps R (readClaim api ns n)) \<and> (\<forall>ns n u v. keeps R (deleteClaim api ns n u v)) \<and>
     (\<forall>ns. keeps R (listPods api ns)) \<and> (\<forall>ns n. keeps R (readSecret api ns n)) \<and>
     (\<forall>ns n l a dt. keeps R (createSecret api ns n l a dt)) \<and> (\<forall>ns n u. keeps R (deleteSecret api ns n u)) \<and>
     (\<forall>ns n. keeps R (readQuota api ns n)) \<and> (\<forall>ns q. keeps R (createQuota api ns q)) \<and>
     (\<forall>ns n q. keeps R (replaceQuota api ns n q)) \<and> (\<forall>ns n u v. keeps R (deleteQuota api ns n u v))"

lemma client_port_keeps:
  fixes R :: "'w sys \<Rightarrow> 'w sys \<Rightarrow> bool"
  assumes "reflp R" "transp R" "api_keeps R api"
  shows "port_keeps R (kubernetesClient api)"
proof -
  note seq = keeps_mbind[OF assms(2)] keeps_mcatch[OF assms(2)] keeps_mret[OF assms(1)] keeps_mthrow[OF assms(1)]
    keeps_mlift[OF assms(1)] keeps_mthrow_if[OF assms(1)] keeps_if keeps_option
  have api: "keeps R (readNamespace api ns)" "keeps R (createNamespace api ns l)" "keeps R (createPolicy api ns n l p)"
    "keeps R (readPolicy api ns n)" "keeps R (getCustom api ns n)" "keeps R (createCustom api x)"
    "keeps R (replaceCustom api ns n x)" "keeps R (deleteCustom api ns n u)" "keeps R (readClaim api ns n)"
    "keeps R (deleteClaim api ns n u v)" "keeps R (listPods api ns)" "keeps R (readSecret api ns n)"
    "keeps R (createSecret api ns n l a dt)" "keeps R (deleteSecret api ns n v)" for ns n l p x u v a dt
    using assms(3) by (simp_all add: api_keeps_def)
  have get: "keeps R (getInstance_client api ns n)" for ns n
    unfolding getInstance_client_def ignore_missing_def by (intro seq api)
  have claim: "keeps R (retainedClaim api i)" for i
    unfolding retainedClaim_def ignore_missing_def by (intro seq api)
  have split: "(\<And>x y. keeps R (f x y)) \<Longrightarrow> keeps R (case p of (x, y) \<Rightarrow> f x y)" for f :: "'b \<Rightarrow> 'c \<Rightarrow> ('w sys, unit) action" and p
    by (cases p) simp
  have "keeps R (approveReclaim_client api desired uid)" for desired uid
    unfolding approveReclaim_client_def by (intro seq api get)
  moreover have "keeps R (getRetainedVolume_client api i)" "keeps R (deleteRetainedVolume_client api i u)" for i u
    unfolding getRetainedVolume_client_def deleteRetainedVolume_client_def by (intro seq api get claim)+
  moreover have "keeps R (ensureProject_client api ns p)" for ns p
    unfolding ensureProject_client_def unless_conflict_def by (intro seq api split)
  moreover have "keeps R (ensureCredentials_client api ns n p i oid dt)" "keeps R (deleteCredentials_client api ns n p i)" for ns n p i oid dt
    unfolding ensureCredentials_client_def deleteCredentials_client_def unless_conflict_def ignore_missing_def Let_def
    by (intro seq api)+
  moreover have "keeps R (createInstance_client api x)" "keeps R (updateInstance_client api x v)" "keeps R (deleteInstance_client api ns n u)" for x v ns n u
    unfolding createInstance_client_def updateInstance_client_def deleteInstance_client_def unless_conflict_def
    by (intro seq api get)+
  ultimately show ?thesis using get by (auto simp: port_keeps_def kubernetesClient_def)
qed

end
