(* ===== verification/Ledger.thy ===== *)
theory Ledger
  imports Quotas
begin

text \<open>
  The contract of quotas.ts as an abstract ledger: a quota and, per instance of the project, what it
  holds. A reservation raises one entry and is granted exactly when the raised ledger obeys the quota;
  a settlement replaces one entry. The tables, the SQL sums, the row count and the conversions to
  JavaScript numbers of the code refine it.
\<close>

section \<open>Abstract ledger\<close>

record holding =
  hg_storage :: "int option"
  hg_cpu :: "int option"
  hg_memory :: "int option"
  hg_detached :: bool

record ledger =
  lg_quota :: "quota option"
  lg_holdings :: "string \<rightharpoonup> holding"

definition held :: "(holding \<Rightarrow> int) \<Rightarrow> (string \<rightharpoonup> holding) \<Rightarrow> int" where
  "held f m = (\<Sum>i \<in> dom m. f (the (m i)))"

definition running :: "(holding \<Rightarrow> int option) \<Rightarrow> holding \<Rightarrow> int" where
  "running f h = (if hg_detached h then 0 else resv (f h))"

definition known_holding :: "holding \<Rightarrow> bool" where
  "known_holding h \<longleftrightarrow> hg_storage h \<noteq> None \<and> (hg_detached h \<or> hg_cpu h \<noteq> None \<and> hg_memory h \<noteq> None)"

text \<open>Detached volumes count for storage only.\<close>

definition ledger_ok :: "ledger \<Rightarrow> bool" where
  "ledger_ok l \<longleftrightarrow> (\<exists>q. lg_quota l = Some q \<and>
     below (held (running (\<lambda>_. Some 1)) (lg_holdings l)) (q_instances q) \<and>
     below (held (\<lambda>h. resv (hg_storage h)) (lg_holdings l)) (q_storageGiB q) \<and>
     below (held (running hg_cpu) (lg_holdings l)) (q_cpuMillis q) \<and>
     below (held (running hg_memory) (lg_holdings l)) (q_memoryMiB q) \<and>
     (has_limit q \<longrightarrow> (\<forall>h \<in> ran (lg_holdings l). known_holding h)))"

definition raised :: "resources \<Rightarrow> holding \<Rightarrow> holding" where
  "raised x h = h\<lparr>hg_storage := Some (max (resv (hg_storage h)) (rs_storageGiB x)),
     hg_cpu := Some (max (resv (hg_cpu h)) (rs_cpuMillis x)), hg_memory := Some (max (resv (hg_memory h)) (rs_memoryMiB x))\<rparr>"

definition ledger_reserve :: "string \<Rightarrow> resources \<Rightarrow> bool \<Rightarrow> ledger \<Rightarrow> ledger option" where
  "ledger_reserve i x creating l =
     (case lg_holdings l i of
        None \<Rightarrow> None
      | Some h \<Rightarrow>
          if hg_detached h \<or> (\<not> creating \<and> \<not> known_holding h) then None
          else let l' = l\<lparr>lg_holdings := (lg_holdings l)(i \<mapsto> raised x h)\<rparr>
               in if ledger_ok l' then Some l' else None)"

definition settled_holding :: "resources \<Rightarrow> holding \<Rightarrow> holding" where
  "settled_holding x h = h\<lparr>hg_storage := Some (case hg_storage h of None \<Rightarrow> rs_storageGiB x | Some n \<Rightarrow> max n (rs_storageGiB x)),
     hg_cpu := Some (rs_cpuMillis x), hg_memory := Some (rs_memoryMiB x)\<rparr>"

definition ledger_settle :: "string \<Rightarrow> resources \<Rightarrow> ledger \<Rightarrow> ledger" where
  "ledger_settle i x l =
     l\<lparr>lg_holdings := (lg_holdings l)(i := map_option (settled_holding x) (lg_holdings l i))\<rparr>"

section \<open>Abstraction of the tables\<close>

definition holding_of :: "binding_row \<Rightarrow> holding" where
  "holding_of r = \<lparr>hg_storage = b_reserved_storage_gib r, hg_cpu = b_reserved_cpu_millis r, hg_memory = b_reserved_memory_mib r,
     hg_detached = (b_lifecycle r = Detached)\<rparr>"

definition present_rows :: "database \<Rightarrow> string \<Rightarrow> binding_row list" where
  "present_rows d pid = filter (\<lambda>r. b_lifecycle r \<noteq> Deleted) (project_bindings d pid)"

definition ledger_of :: "database \<Rightarrow> string \<Rightarrow> ledger" where
  "ledger_of d pid = \<lparr>lg_quota = project_quota d pid,
     lg_holdings = map_of (map (\<lambda>r. (b_id r, holding_of r)) (present_rows d pid))\<rparr>"

lemma held_map_of:
  "distinct (map fst xs) \<Longrightarrow> held f (map_of xs) = sum_list (map (\<lambda>x. f (snd x)) xs)"
proof (induction xs)
  case (Cons x xs)
  obtain k v where x: "x = (k, v)" by (cases x)
  have k: "k \<notin> dom (map_of xs)" using Cons.prems by (simp add: x dom_map_of_conv_image_fst)
  have "(\<Sum>i \<in> dom (map_of xs). f (the (map_of (x # xs) i))) = (\<Sum>i \<in> dom (map_of xs). f (the (map_of xs i)))"
    using k by (intro sum.cong) (auto simp: x)
  then show ?case
    using Cons k unfolding held_def by (simp add: x finite_dom_map_of insert_absorb)
qed (simp add: held_def)

lemma held_ledger:
  assumes "distinct (map b_id (project_bindings d pid))"
  shows "held f (lg_holdings (ledger_of d pid)) = sum_list (map (\<lambda>r. f (holding_of r)) (present_rows d pid))"
proof -
  have "distinct (map b_id (present_rows d pid))" using assms by (simp add: present_rows_def distinct_map_filter)
  then show ?thesis unfolding ledger_of_def by (simp add: held_map_of comp_def)
qed

lemma ran_ledger:
  assumes "distinct (map b_id (project_bindings d pid))"
  shows "ran (lg_holdings (ledger_of d pid)) = holding_of ` set (present_rows d pid)"
proof -
  have "distinct (map b_id (present_rows d pid))" using assms by (simp add: present_rows_def distinct_map_filter)
  then show ?thesis unfolding ledger_of_def by (simp add: ran_distinct comp_def image_image)
qed

lemma counted_sum:
  "sum_list (map g (filter counted rows)) =
     sum_list (map (\<lambda>r. if hg_detached (holding_of r) then 0 else g r) (filter (\<lambda>r. b_lifecycle r \<noteq> Deleted) rows))"
  for g :: "binding_row \<Rightarrow> int"
  by (induction rows) (auto simp: counted_def holding_of_def)

lemma ledger_totals:
  assumes "distinct (map b_id (project_bindings d pid))"
  shows "total_instances d pid = held (running (\<lambda>_. Some 1)) (lg_holdings (ledger_of d pid))"
    "total_storage d pid = held (\<lambda>h. resv (hg_storage h)) (lg_holdings (ledger_of d pid))"
    "total_cpu d pid = held (running hg_cpu) (lg_holdings (ledger_of d pid))"
    "total_memory d pid = held (running hg_memory) (lg_holdings (ledger_of d pid))"
proof -
  have n: "int (length xs) = sum_list (map (\<lambda>_. 1) xs)" for xs :: "binding_row list" by (induction xs) auto
  show "total_instances d pid = held (running (\<lambda>_. Some 1)) (lg_holdings (ledger_of d pid))"
    unfolding total_instances_def held_ledger[OF assms] n counted_sum
    by (simp add: present_rows_def running_def resv_def cong: if_cong)
  show "total_storage d pid = held (\<lambda>h. resv (hg_storage h)) (lg_holdings (ledger_of d pid))"
    unfolding total_storage_def held_ledger[OF assms] sql_sum_resv by (simp add: present_rows_def holding_of_def)
  show "total_cpu d pid = held (running hg_cpu) (lg_holdings (ledger_of d pid))"
    "total_memory d pid = held (running hg_memory) (lg_holdings (ledger_of d pid))"
    unfolding total_cpu_def total_memory_def held_ledger[OF assms] sql_sum_resv counted_sum
    by (simp_all add: present_rows_def running_def holding_of_def cong: if_cong)
qed

lemma ledger_unknown:
  assumes "distinct (map b_id (project_bindings d pid))"
  shows "total_unknown d pid = 0 \<longleftrightarrow> (\<forall>h \<in> ran (lg_holdings (ledger_of d pid)). known_holding h)"
  unfolding ran_ledger[OF assms] total_unknown_def
  by (auto simp: present_rows_def filter_empty_conv unknown_reservation_def known_holding_def holding_of_def)

text \<open>The quota check of the code decides the abstract one.\<close>

lemma within_quota_ledger:
  "distinct (map b_id (project_bindings d pid)) \<Longrightarrow> within_quota d pid \<longleftrightarrow> ledger_ok (ledger_of d pid)"
  unfolding within_quota_def ledger_ok_def obeys_def
  by (simp add: ledger_totals ledger_unknown) (simp add: ledger_of_def)


section \<open>Refinement\<close>

lemma holding_raise_row: "holding_of (raise_row x r) = raised x (holding_of r)"
  by (simp add: holding_of_def raise_row_def raised_def raise_to_def resv_def)

lemma present_update:
  assumes "\<And>r. b_project_id (f r) = b_project_id r" "\<And>r. b_lifecycle (f r) = b_lifecycle r"
  shows "present_rows (d\<lparr>db_bindings := sql_update p f (db_bindings d)\<rparr>) pid = sql_update p f (present_rows d pid)"
  by (simp add: present_rows_def project_bindings_def filter_sql_update assms)

lemma holdings_update:
  assumes "distinct (map b_id rows)" "\<And>r. b_id (f r) = b_id r" "\<And>r. r \<in> set rows \<Longrightarrow> p r \<longleftrightarrow> b_id r = i"
    "\<And>r. holding_of (f r) = g (holding_of r)"
  shows "map_of (map (\<lambda>r. (b_id r, holding_of r)) (sql_update p f rows)) =
    (map_of (map (\<lambda>r. (b_id r, holding_of r)) rows))(i := map_option g (map_of (map (\<lambda>r. (b_id r, holding_of r)) rows) i))"
  using assms(1,3)
proof (induction rows)
  case (Cons r rows)
  have "\<And>s. s \<in> set rows \<Longrightarrow> p s \<longleftrightarrow> b_id s = i" "p r \<longleftrightarrow> b_id r = i" using Cons.prems by auto
  with Cons show ?case by (auto simp: assms(2,4) fun_eq_iff)
qed (simp add: fun_eq_iff)

lemma same_project: "project_quota (d\<lparr>db_bindings := rows\<rparr>) pid = project_quota d pid"
  by (simp add: project_quota_def)

lemma ids_update:
  "(\<And>r. b_project_id (f r) = b_project_id r) \<Longrightarrow> (\<And>r. b_id (f r) = b_id r) \<Longrightarrow>
    map b_id (project_bindings (d\<lparr>db_bindings := sql_update p f (db_bindings d)\<rparr>) pid) = map b_id (project_bindings d pid)"
  by (simp add: project_bindings_def filter_sql_update map_sql_update)

lemma find_present:
  assumes "distinct (map b_id (project_bindings d pid))"
  shows "lg_holdings (ledger_of d pid) i = Some h \<longleftrightarrow>
    (\<exists>r \<in> set (db_bindings d). b_project_id r = pid \<and> b_id r = i \<and> b_lifecycle r \<noteq> Deleted \<and> h = holding_of r)"
proof -
  have "distinct (map b_id (present_rows d pid))" using assms by (simp add: present_rows_def distinct_map_filter)
  then have "distinct (map fst (map (\<lambda>r. (b_id r, holding_of r)) (present_rows d pid)))" by (simp add: comp_def)
  from map_of_eq_Some_iff[OF this] show ?thesis
    by (auto simp: ledger_of_def present_rows_def project_bindings_def)
qed

lemma reserving_one:
  assumes "distinct (map b_id (project_bindings d pid))"
  shows "length (filter (reserving pid i) (db_bindings d)) = 1 \<longleftrightarrow>
    (\<exists>h. lg_holdings (ledger_of d pid) i = Some h \<and> \<not> hg_detached h)"
proof -
  have f: "filter (reserving pid i) (db_bindings d) = filter (\<lambda>r. b_id r = i \<and> counted r) (project_bindings d pid)"
    by (simp add: project_bindings_def conj_commute conj_left_commute)
  have "length (filter (\<lambda>r. b_id r = i \<and> counted r) rows) \<le> 1" if "distinct (map b_id rows)" for rows
  proof -
    have "distinct (map b_id (filter (\<lambda>r. b_id r = i \<and> counted r) rows))" using that by (simp add: distinct_map_filter)
    moreover have "set (map b_id (filter (\<lambda>r. b_id r = i \<and> counted r) rows)) \<subseteq> {i}" by auto
    ultimately have "length (map b_id (filter (\<lambda>r. b_id r = i \<and> counted r) rows)) \<le> card {i}"
      using card_mono[of "{i}"] distinct_card by (metis finite.emptyI finite.insertI)
    then show ?thesis by simp
  qed
  from this[OF assms] have "length (filter (reserving pid i) (db_bindings d)) = 1 \<longleftrightarrow> filter (reserving pid i) (db_bindings d) \<noteq> []"
    unfolding f by (cases "filter (\<lambda>r. b_id r = i \<and> counted r) (project_bindings d pid)") auto
  also have "\<dots> \<longleftrightarrow> (\<exists>h. lg_holdings (ledger_of d pid) i = Some h \<and> \<not> hg_detached h)"
    unfolding find_present[OF assms] by (auto simp: filter_empty_conv counted_def holding_of_def)
  finally show ?thesis .
qed

lemma ledger_raise:
  assumes "distinct (map b_id (project_bindings d pid))" "lg_holdings (ledger_of d pid) i = Some h" "\<not> hg_detached h"
  shows "ledger_of (d\<lparr>db_bindings := sql_update (reserving pid i) (raise_row x) (db_bindings d)\<rparr>) pid =
    (ledger_of d pid)\<lparr>lg_holdings := (lg_holdings (ledger_of d pid))(i \<mapsto> raised x h)\<rparr>"
proof -
  have k: "b_project_id (raise_row x r) = b_project_id r" "b_lifecycle (raise_row x r) = b_lifecycle r" "b_id (raise_row x r) = b_id r" for r
    by (simp_all add: raise_row_def)
  have dp: "distinct (map b_id (present_rows d pid))" using assms(1) by (simp add: present_rows_def distinct_map_filter)
  obtain r0 where r0: "r0 \<in> set (present_rows d pid)" "b_id r0 = i" "h = holding_of r0"
    using assms(2) unfolding find_present[OF assms(1)] by (auto simp: present_rows_def project_bindings_def)
  have p: "reserving pid i r \<longleftrightarrow> b_id r = i" if r: "r \<in> set (present_rows d pid)" for r
  proof -
    have "b_id r = i \<Longrightarrow> r = r0" using dp r r0 by (metis distinct_map inj_onD)
    then show ?thesis using r r0 assms(3) by (auto simp: present_rows_def project_bindings_def counted_def holding_of_def)
  qed
  have "map_of (map (\<lambda>r. (b_id r, holding_of r)) (sql_update (reserving pid i) (raise_row x) (present_rows d pid))) =
      (lg_holdings (ledger_of d pid))(i := map_option (raised x) (lg_holdings (ledger_of d pid) i))"
    using holdings_update[OF dp k(3) p holding_raise_row] by (simp add: ledger_of_def)
  then show ?thesis
    using assms(2) unfolding ledger_of_def present_update[OF k(1,2)] same_project by simp
qed

definition resolved_row :: "database \<Rightarrow> string \<Rightarrow> string \<Rightarrow> bool" where
  "resolved_row d pid i =
     (case sql_first (\<lambda>r. b_id r = i \<and> b_project_id r = pid) (db_bindings d) of
        None \<Rightarrow> False
      | Some r \<Rightarrow> b_reserved_storage_gib r \<noteq> None \<and> b_reserved_cpu_millis r \<noteq> None \<and> b_reserved_memory_mib r \<noteq> None)"

lemma reserveResources_iff:
  "reserveResources pid i x creating d = (d', Inr ()) \<longleftrightarrow>
     (creating \<or> resolved_row d pid i) \<and> length (filter (reserving pid i) (db_bindings d)) = 1 \<and>
     d' = d\<lparr>db_bindings := sql_update (reserving pid i) (raise_row x) (db_bindings d)\<rparr> \<and> within_quota d' pid"
  unfolding reserveResources_def resolved_row_def
  by (auto simp: mbind_Inr mthrow_if_def admit_quota_iff split: if_splits option.splits)

lemma resolved_known:
  assumes "distinct (map b_id (project_bindings d pid))" "lg_holdings (ledger_of d pid) i = Some h" "\<not> hg_detached h"
  shows "resolved_row d pid i \<longleftrightarrow> known_holding h"
proof -
  obtain r where r: "r \<in> set (db_bindings d)" "b_project_id r = pid" "b_id r = i" "h = holding_of r"
    using assms(2) unfolding find_present[OF assms(1)] by blast
  have "s = r" if "s \<in> set (db_bindings d)" "b_id s = i" "b_project_id s = pid" for s
  proof -
    have "s \<in> set (project_bindings d pid)" "r \<in> set (project_bindings d pid)" using that r by (simp_all add: project_bindings_def)
    then show ?thesis using assms(1) that(2) r(3) by (metis distinct_map inj_onD)
  qed
  moreover obtain s where s: "sql_first (\<lambda>r. b_id r = i \<and> b_project_id r = pid) (db_bindings d) = Some s"
    using r sql_first_None[of "\<lambda>r. b_id r = i \<and> b_project_id r = pid" "db_bindings d"]
    by (cases "sql_first (\<lambda>r. b_id r = i \<and> b_project_id r = pid) (db_bindings d)") auto
  ultimately have "sql_first (\<lambda>r. b_id r = i \<and> b_project_id r = pid) (db_bindings d) = Some r"
    using sql_first_Some[OF s] by auto
  then show ?thesis using assms(3) r(4) by (auto simp: resolved_row_def known_holding_def holding_of_def)
qed

text \<open>What a transaction leaves behind: its ledger if it commits, nothing if it is rolled back.\<close>

definition committed :: "string \<Rightarrow> database \<times> unit result \<Rightarrow> ledger option" where
  "committed pid out = (case out of (d', Inr _) \<Rightarrow> Some (ledger_of d' pid) | (_, Inl _) \<Rightarrow> None)"

lemma committed_Some: "committed pid (m d) = Some l \<longleftrightarrow> (\<exists>d'. m d = (d', Inr ()) \<and> l = ledger_of d' pid)"
  by (cases "m d") (auto simp: committed_def split: sum.splits)

lemma reserve_refines:
  assumes u: "distinct (map b_id (project_bindings d pid))"
  shows "committed pid (reserveResources pid i x creating d) = ledger_reserve i x creating (ledger_of d pid)"
proof -
  let ?d = "d\<lparr>db_bindings := sql_update (reserving pid i) (raise_row x) (db_bindings d)\<rparr>"
  have ids: "distinct (map b_id (project_bindings ?d pid))"
    using u ids_update[of "raise_row x" _ d pid] by (simp add: raise_row_def)
  have "committed pid (reserveResources pid i x creating d) = Some l \<longleftrightarrow> ledger_reserve i x creating (ledger_of d pid) = Some l" for l
  proof (cases "\<exists>h. lg_holdings (ledger_of d pid) i = Some h \<and> \<not> hg_detached h")
    case False
    then show ?thesis
      unfolding committed_Some reserveResources_iff reserving_one[OF u]
      by (auto simp: ledger_reserve_def split: option.splits)
  next
    case True
    then obtain h where h: "lg_holdings (ledger_of d pid) i = Some h" "\<not> hg_detached h" by blast
    show ?thesis
      unfolding committed_Some reserveResources_iff reserving_one[OF u] resolved_known[OF u h]
      using h within_quota_ledger[OF ids] ledger_raise[OF u h, of x] by (auto simp: ledger_reserve_def Let_def)
  qed
  then show ?thesis by (metis option.exhaust)
qed

lemma settle_refines:
  assumes u: "distinct (map b_id (project_bindings d pid))"
    and v: "valid_input y" "desiredObject y p ns iid sc oid hash = Inr desired"
  shows "committed pid (settleResources i desired d) = Some (ledger_settle i (input_resources y) (ledger_of d pid))"
proof -
  define f :: "binding_row \<Rightarrow> binding_row" where "f = (\<lambda>r. r\<lparr>b_reserved_storage_gib := greatest (b_reserved_storage_gib r) (in_storageGiB y),
           b_reserved_cpu_millis := Some (in_cpuMillis y), b_reserved_memory_mib := Some (in_memoryMiB y)\<rparr>)"
  have k: "b_project_id (f r) = b_project_id r" "b_lifecycle (f r) = b_lifecycle r" "b_id (f r) = b_id r" for r by (simp_all add: f_def)
  have g: "holding_of (f r) = settled_holding (input_resources y) (holding_of r)" for r
    by (simp add: f_def holding_of_def settled_holding_def greatest_def input_resources_def split: option.splits)
  have dp: "distinct (map b_id (present_rows d pid))" using u by (simp add: present_rows_def distinct_map_filter)
  have m: "map_of (map (\<lambda>r. (b_id r, holding_of r)) (sql_update (\<lambda>r. b_id r = i) f (present_rows d pid))) =
      (lg_holdings (ledger_of d pid))(i := map_option (settled_holding (input_resources y)) (lg_holdings (ledger_of d pid) i))"
    using holdings_update[OF dp k(3) refl g, of i] by (simp add: ledger_of_def)
  have "ledger_of (d\<lparr>db_bindings := sql_update (\<lambda>r. b_id r = i) f (db_bindings d)\<rparr>) pid =
      ledger_settle i (input_resources y) (ledger_of d pid)"
    unfolding ledger_settle_def using m unfolding ledger_of_def present_update[OF k(1,2)] same_project by simp
  then show ?thesis
    unfolding settleResources_desired[OF v] by (simp add: committed_def f_def)
qed

text \<open>C11: The reservations of the code refine the abstract ledger. For a project whose instance ids
  are unique, \<open>reserveResources\<close> commits exactly when the ledger grants the request, and the ledger of
  the tables afterwards is then the raised one; \<open>settleResources\<close> with the object of a valid input
  always commits and makes the abstract settlement. The SQL sums, the row count, the two NULL rules and
  the rounding of large numbers never show.\<close>

theorem quota_refines_ledger:
  assumes "distinct (map b_id (project_bindings d pid))"
  shows "committed pid (reserveResources pid i x creating d) = ledger_reserve i x creating (ledger_of d pid) \<and>
    (\<forall>y p ns iid sc oid hash desired. valid_input y \<and> desiredObject y p ns iid sc oid hash = Inr desired \<longrightarrow>
       committed pid (settleResources i desired d) = Some (ledger_settle i (input_resources y) (ledger_of d pid)))"
  using reserve_refines[OF assms] settle_refines[OF assms] by blast

theorem quota_refines_ledger_witness:
  "ledger_reserve ''i1'' \<lparr>rs_storageGiB = 20, rs_cpuMillis = 500, rs_memoryMiB = 1024\<rparr> True (ledger_of sample_db ''p1'') =
     Some (ledger_of sample_reserved ''p1'')"
proof -
  have "distinct (map b_id (project_bindings sample_db ''p1''))" by (simp add: project_bindings_def sample_db_def)
  from quota_refines_ledger[OF this, of "''i1''" "\<lparr>rs_storageGiB = 20, rs_cpuMillis = 500, rs_memoryMiB = 1024\<rparr>" True]
  show ?thesis by (simp add: sample_reservation committed_def)
qed

end
