(* ===== verification/Fetch.thy ===== *)
theory Fetch
  imports Json_Text Database
begin

text \<open>
  What the clients of HTTP services share: the call they make, the response as a stream of chunks, the
  loop that reads it up to a limit, and the text forms of URLs and credentials. \<open>fetch\<close> is a
  parameter of type \<open>'w fetcher\<close>: it acts on the whole running system, an exception stands for a
  network failure, a redirect (the calls ask for \<open>redirect: "error"\<close>) or the timeout. A body is the
  list of its chunks and whether the stream ended normally. Buffer's UTF-8 decoder is the parameter
  \<open>ft_utf8\<close>, the URL parser \<open>new URL\<close> the parameter \<open>ft_url\<close>; \<open>ft_iso\<close> is zod's check of a timestamp
  and \<open>ft_date\<close> is \<open>Date.parse\<close> in milliseconds, \<open>None\<close> for NaN; \<open>ft_show_date\<close> is \<open>toISOString\<close>.
\<close>

record url =
  ur_protocol :: string
  ur_username :: string
  ur_password :: string
  ur_host :: string
  ur_pathname :: string
  ur_search :: string
  ur_hash :: string

record http_call =
  hc_method :: string
  hc_url :: string
  hc_headers :: "(string \<times> string) list"
  hc_payload :: "string option"

record response =
  re_ok :: bool
  re_body :: "(string list \<times> bool) option"

record 'w fetcher =
  ft_call :: "http_call \<Rightarrow> ('w sys, response) action"
  ft_utf8 :: "string \<Rightarrow> string"
  ft_url :: "string \<Rightarrow> url option"
  ft_iso :: "string \<Rightarrow> bool"
  ft_date :: "string \<Rightarrow> int option"
  ft_show_date :: "int \<Rightarrow> string"

section \<open>Reading a body\<close>

text \<open>\<open>reader.read()\<close> until \<open>done\<close>, counting bytes; the chunks are concatenated afterwards.\<close>

fun read_chunks :: "nat \<Rightarrow> string \<Rightarrow> nat \<Rightarrow> string list \<Rightarrow> bool \<Rightarrow> string result" where
  "read_chunks limit message bytes [] ended =
     (if ended then Inr [] else Inl (JsError ''terminated''))"
| "read_chunks limit message bytes (c # cs) ended =
     (let bytes' = bytes + length c in
      throw_if (limit < bytes') (JsError message)
        (rbind (read_chunks limit message bytes' cs ended) (\<lambda>r. Inr (c @ r))))"

definition read_json :: "'w fetcher \<Rightarrow> nat \<Rightarrow> string \<Rightarrow> string list \<times> bool \<Rightarrow> json result" where
  "read_json ft limit message body =
     rbind (read_chunks limit message 0 (fst body) (snd body)) (\<lambda>raw. JSON_parse (ft_utf8 ft raw))"

lemma read_chunks_Inr:
  "read_chunks limit message bytes cs ended = Inr raw \<longleftrightarrow>
     ended \<and> raw = concat cs \<and> (cs = [] \<or> bytes + length raw \<le> limit)"
proof (induction cs arbitrary: bytes raw)
  case (Cons c cs)
  show ?case
  proof (cases "cs = []")
    case True
    then show ?thesis by (auto simp: Let_def result_simps)
  next
    case False
    then show ?thesis using Cons.IH by (auto simp: Let_def result_simps)
  qed
qed auto

section \<open>Text forms\<close>

definition hex_upper :: "nat \<Rightarrow> char" where
  "hex_upper n = char_of (if n < 10 then 48 + n else 55 + n)"

text \<open>\<open>new URLSearchParams(params).toString()\<close>\<close>

definition form_char :: "char \<Rightarrow> string" where
  "form_char c =
     (if is_alnum c \<or> c \<in> set ''*-._'' then [c]
      else if c = CHR '' '' then ''+''
      else ''%'' @ [hex_upper (of_char c div 16), hex_upper (of_char c mod 16)])"

definition form_text :: "string \<Rightarrow> string" where
  "form_text s = concat (map form_char s)"

definition joined :: "string \<Rightarrow> string list \<Rightarrow> string" where
  "joined sep xs = (case xs of [] \<Rightarrow> [] | y # ys \<Rightarrow> y @ concat (map (\<lambda>x. sep @ x) ys))"

definition search_params :: "(string \<times> string) list \<Rightarrow> string" where
  "search_params kvs = joined ''&'' (map (\<lambda>(k, v). form_text k @ ''='' @ form_text v) kvs)"

text \<open>\<open>new URL(path, base)\<close> for a relative path and a base whose path ends with a slash.\<close>

definition relative_url :: "url \<Rightarrow> string \<Rightarrow> (string \<times> string) list option \<Rightarrow> string" where
  "relative_url base path params =
     ur_protocol base @ ''//'' @ ur_host base @ ur_pathname base @ path @
     (case params of None \<Rightarrow> [] | Some kvs \<Rightarrow> ''?'' @ search_params kvs)"

text \<open>The address check of history.ts and observation-backends.ts.\<close>

definition service_url :: "'w fetcher \<Rightarrow> string \<Rightarrow> string \<Rightarrow> url result" where
  "service_url ft address message =
     (case ft_url ft address of
        None \<Rightarrow> Inl (JsError ''Invalid URL'')
      | Some u \<Rightarrow>
          throw_if (ur_protocol u \<notin> {''http:'', ''https:''} \<or> ur_username u \<noteq> [] \<or> ur_password u \<noteq> [] \<or> ur_search u \<noteq> [] \<or> ur_hash u \<noteq> [])
            (JsError message)
            (Inr (if ur_pathname u \<noteq> [] \<and> last (ur_pathname u) = CHR ''/'' then u else u\<lparr>ur_pathname := ur_pathname u @ ''/''\<rparr>)))"

text \<open>\<open>/^[a-zA-Z0-9._~+/-]+=*$/\<close>\<close>

definition bearer_char :: "char \<Rightarrow> bool" where
  "bearer_char c \<longleftrightarrow> is_alnum c \<or> c \<in> set ''._~+/-''"

definition bearer_text :: "string \<Rightarrow> bool" where
  "bearer_text s \<longleftrightarrow> takeWhile bearer_char s \<noteq> [] \<and> list_all (\<lambda>c. c = CHR ''='') (dropWhile bearer_char s)"

text \<open>\<open>/^[a-zA-Z0-9-]{1,63}$/\<close>\<close>

definition identity_text :: "string \<Rightarrow> bool" where
  "identity_text s \<longleftrightarrow> s \<noteq> [] \<and> length s \<le> 63 \<and> list_all (\<lambda>c. is_alnum c \<or> c = CHR ''-'') s"

text \<open>\<open>Buffer.from(text).toString("base64")\<close> for bytes.\<close>

definition base64_alphabet :: string where
  "base64_alphabet = ''ABCDEFGHIJKLMNOPQRSTUVWXYZabcdefghijklmnopqrstuvwxyz0123456789+/''"

definition base64_char :: "nat \<Rightarrow> char" where
  "base64_char n = base64_alphabet ! n"

fun to_base64 :: "string \<Rightarrow> string" where
  "to_base64 [] = []"
| "to_base64 [a] = [base64_char (of_char a div 4), base64_char (of_char a mod 4 * 16)] @ ''==''"
| "to_base64 [a, b] =
     [base64_char (of_char a div 4), base64_char (of_char a mod 4 * 16 + of_char b div 16),
      base64_char (of_char b mod 16 * 4)] @ ''=''"
| "to_base64 (a # b # c # r) =
     [base64_char (of_char a div 4), base64_char (of_char a mod 4 * 16 + of_char b div 16),
      base64_char (of_char b mod 16 * 4 + of_char c div 64), base64_char (of_char c mod 64)] @ to_base64 r"

text \<open>\<open>Buffer.from(text, "base64")\<close>: both alphabets, other characters skipped, the end at the first
  padding character.\<close>

definition base64_value :: "char \<Rightarrow> nat option" where
  "base64_value c = (if c = CHR ''-'' then Some 62 else if c = CHR ''_'' then Some 63 else index_of base64_alphabet c)"

fun sextets :: "nat list \<Rightarrow> string" where
  "sextets (w # x # y # z # r) =
     [char_of (w * 4 + x div 16), char_of (x mod 16 * 16 + y div 4), char_of (y mod 4 * 64 + z)] @ sextets r"
| "sextets [w, x, y] = [char_of (w * 4 + x div 16), char_of (x mod 16 * 16 + y div 4)]"
| "sextets [w, x] = [char_of (w * 4 + x div 16)]"
| "sextets _ = []"

definition from_base64 :: "string \<Rightarrow> string" where
  "from_base64 s = sextets (List.map_filter base64_value (takeWhile (\<lambda>c. c \<noteq> CHR ''='') s))"

lemma alphabet_facts: "length base64_alphabet = 64" "distinct base64_alphabet"
  "CHR ''='' \<notin> set base64_alphabet" "CHR ''-'' \<notin> set base64_alphabet" "CHR ''_'' \<notin> set base64_alphabet"
  by (simp_all add: base64_alphabet_def)

lemma index_of_nth: "distinct xs \<Longrightarrow> n < length xs \<Longrightarrow> index_of xs (xs ! n) = Some n"
  by (induction xs arbitrary: n) (auto simp: nth_Cons split: nat.splits)

lemma base64_value_char:
  assumes "n < 64"
  shows "base64_value (base64_char n) = Some n" "base64_char n \<noteq> CHR ''=''"
proof -
  have m: "base64_char n \<in> set base64_alphabet" using assms by (simp add: base64_char_def alphabet_facts)
  then show "base64_char n \<noteq> CHR ''=''" using alphabet_facts by metis
  have "base64_char n \<noteq> CHR ''-''" "base64_char n \<noteq> CHR ''_''" using m alphabet_facts by metis+
  then show "base64_value (base64_char n) = Some n"
    using assms index_of_nth[of base64_alphabet n] alphabet_facts by (simp add: base64_value_def base64_char_def)
qed

lemma from_base64_char:
  "n < 64 \<Longrightarrow> List.map_filter base64_value (takeWhile (\<lambda>c. c \<noteq> CHR ''='') (base64_char n # s)) =
     n # List.map_filter base64_value (takeWhile (\<lambda>c. c \<noteq> CHR ''='') s)"
  by (simp add: base64_value_char map_filter_simps)

lemma sextet_split:
  fixes a b :: nat
  assumes "a < 256" "b < 256"
  shows "a div 4 * 4 + (a mod 4 * 16 + b div 16) div 16 = a" "(a mod 4 * 16 + b div 16) mod 16 = b div 16"
    "b div 16 * 16 + b mod 16 * 4 div 4 = b"
proof -
  have "b div 16 < 16" using assms by (simp add: less_mult_imp_div_less)
  then show "a div 4 * 4 + (a mod 4 * 16 + b div 16) div 16 = a" "(a mod 4 * 16 + b div 16) mod 16 = b div 16"
    by (simp_all add: div_mult_mod_eq)
  show "b div 16 * 16 + b mod 16 * 4 div 4 = b" by (simp add: div_mult_mod_eq)
qed

lemma sextet_last:
  fixes b c :: nat
  assumes "b < 256" "c < 256"
  shows "b div 16 * 16 + (b mod 16 * 4 + c div 64) div 4 = b" "(b mod 16 * 4 + c div 64) mod 4 * 64 + c mod 64 = c"
proof -
  have "c div 64 < 4" using assms by (simp add: less_mult_imp_div_less)
  then show "b div 16 * 16 + (b mod 16 * 4 + c div 64) div 4 = b" "(b mod 16 * 4 + c div 64) mod 4 * 64 + c mod 64 = c"
    by (simp_all add: div_mult_mod_eq)
qed

lemma sextet_less:
  fixes a b c :: nat
  assumes "a < 256" "b < 256" "c < 256"
  shows "a div 4 < 64" "a mod 4 * 16 < 64" "a mod 4 * 16 + b div 16 < 64" "b mod 16 * 4 < 64" "b mod 16 * 4 + c div 64 < 64" "c mod 64 < 64"
proof -
  have "b div 16 < 16" "c div 64 < 4" "a mod 4 < 4" "b mod 16 < 16" using assms by (simp_all add: less_mult_imp_div_less)
  then show "a mod 4 * 16 < 64" "a mod 4 * 16 + b div 16 < 64" "b mod 16 * 4 < 64" "b mod 16 * 4 + c div 64 < 64" by linarith+
qed (use assms in \<open>simp_all add: less_mult_imp_div_less\<close>)

lemma base64_roundtrip: "from_base64 (to_base64 s) = s"
proof (induction s rule: to_base64.induct)
  case 1
  then show ?case by (simp add: from_base64_def map_filter_simps)
next
  case (2 a)
  note l = sextet_less[OF char_less_256[of a] char_less_256[of a] char_less_256[of a]]
  show ?case
    using l sextet_split[OF char_less_256[of a], of 0]
    by (simp add: from_base64_def from_base64_char del: takeWhile.simps) (simp add: map_filter_simps)
next
  case (3 a b)
  note l = sextet_less[OF char_less_256[of a] char_less_256[of b] char_less_256[of b]]
  show ?case
    using l sextet_split[OF char_less_256[of a] char_less_256[of b]]
    by (simp add: from_base64_def from_base64_char del: takeWhile.simps) (simp add: map_filter_simps)
next
  case (4 a b c r)
  note l = sextet_less[OF char_less_256[of a] char_less_256[of b] char_less_256[of c]]
  show ?case
    using l 4 sextet_split[OF char_less_256[of a] char_less_256[of b]] sextet_last[OF char_less_256[of b] char_less_256[of c]]
    by (simp add: from_base64_def from_base64_char del: takeWhile.simps)
qed

end
