(* ===== verification/Statistics.thy ===== *)
theory Statistics
  imports Fetch Kubernetes
begin

text \<open>
  statistics.ts and history.ts: reading the counters of a cache engine from its own status endpoint,
  and the history of its lookups from Prometheus. Every answer is bounded, checked against a schema
  and checked for plausibility before it is returned. \<open>Date.now()\<close> is the system's clock; the text of
  a time that the code produces itself is represented by the instant.
\<close>

section \<open>Engine statistics\<close>

definition safe_count :: "int schema" where
  "safe_count = z_int 0 9007199254740991"

definition positive_count :: "int schema" where
  "positive_count = z_int 1 9007199254740991"

record engine_status =
  es_CurrSize :: int
  es_MaxSize :: int
  es_NumFiles :: int
  es_ReservedSize :: "int option"
  es_UncompressedSize :: "int option"

definition status_schema :: "engine_status schema" where
  "status_schema v =
     Option.bind (z_object v) (\<lambda>fs.
     Option.bind (z_field fs ''CurrSize'' safe_count) (\<lambda>curr.
     Option.bind (z_field fs ''MaxSize'' positive_count) (\<lambda>size.
     Option.bind (z_field fs ''NumFiles'' safe_count) (\<lambda>files.
     Option.bind (z_field fs ''ReservedSize'' (z_optional safe_count)) (\<lambda>res.
     Option.bind (z_field fs ''UncompressedSize'' (z_optional safe_count)) (\<lambda>unc.
     Some \<lparr>es_CurrSize = curr, es_MaxSize = size, es_NumFiles = files, es_ReservedSize = res, es_UncompressedSize = unc\<rparr>))))))"

text \<open>\<open>/^[a-z0-9](?:[a-z0-9-]{0,61}[a-z0-9])?$/\<close>\<close>

definition dns_label :: "string \<Rightarrow> bool" where
  "dns_label s \<longleftrightarrow> s \<noteq> [] \<and> length s \<le> 63 \<and> list_all (\<lambda>c. is_lower c \<or> is_digit c \<or> c = CHR ''-'') s \<and>
     hd s \<noteq> CHR ''-'' \<and> last s \<noteq> CHR ''-''"

text \<open>The part the three readers share: the check of the target, the call, and the bounded body. The
  address is made of the names of the owned object; the messages differ in the name of the engine.\<close>

definition read_status ::
  "'w fetcher \<Rightarrow> string \<Rightarrow> string \<Rightarrow> string \<Rightarrow> string \<Rightarrow> string \<Rightarrow> string \<Rightarrow> string \<Rightarrow> ('w sys, json) action" where
  "read_status ft label lower port namespace name username password =
     mbind (mthrow_if (\<not> dns_label namespace \<or> \<not> dns_label name \<or> username = [] \<or> password = [])
       (JsError ''Invalid statistics target'')) (\<lambda>_.
     mbind (ft_call ft \<lparr>hc_method = ''GET'', hc_url = ''http://'' @ name @ ''.'' @ namespace @ ''.svc:'' @ port @ ''/status'',
              hc_headers = [(''Authorization'', ''Basic '' @ to_base64 (username @ '':'' @ password))], hc_payload = None\<rparr>) (\<lambda>r.
     mbind (mthrow_if (\<not> re_ok r) (JsError (label @ '' statistics unavailable''))) (\<lambda>_.
     case re_body r of
       None \<Rightarrow> mthrow (JsError (''Empty '' @ lower @ '' statistics''))
     | Some body \<Rightarrow> mlift (read_json ft 65536 (label @ '' statistics response too large'') body))))"

definition readEngineStatistics ::
  "'w fetcher \<Rightarrow> string \<Rightarrow> string \<Rightarrow> string \<Rightarrow> string \<Rightarrow> ('w sys, instance_statistics) action" where
  "readEngineStatistics ft namespace name username password =
     mbind (read_status ft ''Engine'' ''engine'' ''8080'' namespace name username password) (\<lambda>doc.
     mbind (mlift (z_parse status_schema doc)) (\<lambda>d.
     mbind (mget sys_now) (\<lambda>now.
     mret \<lparr>sx_observedAt = now, sx_source = ''bazel-remote-status'', sx_usedBytes = es_CurrSize d,
       sx_capacityBytes = es_MaxSize d, sx_itemCount = es_NumFiles d, sx_reservedBytes = es_ReservedSize d,
       sx_uncompressedBytes = es_UncompressedSize d, sx_requestCounts = None\<rparr>)))"

record webdav_status =
  ws_observedAt :: string
  ws_usedBytes :: int
  ws_capacityBytes :: int
  ws_itemCount :: int

definition webdavStatus :: "(string \<Rightarrow> bool) \<Rightarrow> webdav_status schema" where
  "webdavStatus isIso v =
     Option.bind (z_strict [''observedAt'', ''usedBytes'', ''capacityBytes'', ''itemCount''] v) (\<lambda>fs.
     Option.bind (z_field fs ''observedAt'' (z_check z_string isIso)) (\<lambda>taken.
     Option.bind (z_field fs ''usedBytes'' safe_count) (\<lambda>used.
     Option.bind (z_field fs ''capacityBytes'' positive_count) (\<lambda>capacity.
     Option.bind (z_field fs ''itemCount'' safe_count) (\<lambda>items.
     Some \<lparr>ws_observedAt = taken, ws_usedBytes = used, ws_capacityBytes = capacity, ws_itemCount = items\<rparr>)))))"

definition readWebDAVStatistics ::
  "'w fetcher \<Rightarrow> string \<Rightarrow> string \<Rightarrow> string \<Rightarrow> string \<Rightarrow> ('w sys, instance_statistics) action" where
  "readWebDAVStatistics ft namespace name username password =
     mbind (read_status ft ''WebDAV'' ''WebDAV'' ''9093'' namespace name username password) (\<lambda>doc.
     mbind (mlift (z_parse (webdavStatus (ft_iso ft)) doc)) (\<lambda>d.
     mbind (mget sys_now) (\<lambda>now.
     case ft_date ft (ws_observedAt d) of
       None \<Rightarrow> mthrow (JsError ''WebDAV statistics sample is stale'')
     | Some taken \<Rightarrow>
         mbind (mthrow_if (now - taken < - 30000 \<or> now - taken > 120000) (JsError ''WebDAV statistics sample is stale'')) (\<lambda>_.
         mret \<lparr>sx_observedAt = taken, sx_source = ''webdav-content-scan'', sx_usedBytes = ws_usedBytes d,
           sx_capacityBytes = ws_capacityBytes d, sx_itemCount = ws_itemCount d, sx_reservedBytes = None,
           sx_uncompressedBytes = None, sx_requestCounts = None\<rparr>))))"

record gradle_status =
  gs_sizeBytes :: int
  gs_capacityBytes :: int
  gs_entries :: int
  gs_counts :: request_counts

definition gradleStatus :: "gradle_status schema" where
  "gradleStatus v =
     Option.bind (z_object v) (\<lambda>fs.
     Option.bind (z_field fs ''sizeBytes'' safe_count) (\<lambda>size.
     Option.bind (z_field fs ''capacityBytes'' positive_count) (\<lambda>capacity.
     Option.bind (z_field fs ''entries'' safe_count) (\<lambda>n.
     Option.bind (z_field fs ''getHits'' safe_count) (\<lambda>gh.
     Option.bind (z_field fs ''getMisses'' safe_count) (\<lambda>gm.
     Option.bind (z_field fs ''putSuccess'' safe_count) (\<lambda>ps.
     Option.bind (z_field fs ''putRejected'' safe_count) (\<lambda>pr.
     Some \<lparr>gs_sizeBytes = size, gs_capacityBytes = capacity, gs_entries = n,
       gs_counts = \<lparr>rc_getHits = gh, rc_getMisses = gm, rc_putSuccess = ps, rc_putRejected = pr\<rparr>\<rparr>))))))))"

definition readGradleStatistics ::
  "'w fetcher \<Rightarrow> string \<Rightarrow> string \<Rightarrow> string \<Rightarrow> string \<Rightarrow> ('w sys, instance_statistics) action" where
  "readGradleStatistics ft namespace name username password =
     mbind (read_status ft ''Gradle'' ''Gradle'' ''8080'' namespace name username password) (\<lambda>doc.
     mbind (mlift (z_parse gradleStatus doc)) (\<lambda>d.
     mbind (mthrow_if (gs_capacityBytes d < gs_sizeBytes d) (JsError ''Gradle statistics exceed the applied budget'')) (\<lambda>_.
     mbind (mget sys_now) (\<lambda>now.
     mret \<lparr>sx_observedAt = now, sx_source = ''gradle-http-status'', sx_usedBytes = gs_sizeBytes d,
       sx_capacityBytes = gs_capacityBytes d, sx_itemCount = gs_entries d, sx_reservedBytes = None,
       sx_uncompressedBytes = None, sx_requestCounts = Some (gs_counts d)\<rparr>))))"

text \<open>KubernetesClient.readStatistics: the probe credentials of the owned instance, and the reader of
  its template.\<close>

definition probe_credential :: "'w fetcher \<Rightarrow> secret \<Rightarrow> string \<Rightarrow> string" where
  "probe_credential ft sec key =
     ft_utf8 ft (from_base64 (case map_of (se_data sec) key of None \<Rightarrow> [] | Some v \<Rightarrow> v))"

definition readStatistics :: "'w kube_api \<Rightarrow> 'w fetcher \<Rightarrow> cache_object \<Rightarrow> ('w sys, instance_statistics) action" where
  "readStatistics api ft object =
     (let ns = om_namespace (co_metadata object); name = om_name (co_metadata object); spec = co_spec object; t = sp_templateRef spec in
      mbind (readSecret api ns (ac_credentialsSecretRef (sp_access spec))) (\<lambda>sec.
      mbind (mthrow_if (prop_of (km_labels (se_meta sec)) ''cache.expbuild.io/project-id'' \<noteq> Some (sp_projectId spec) \<or>
                        prop_of (km_labels (se_meta sec)) ''cache.expbuild.io/instance-id'' \<noteq> Some (sp_instanceId spec))
        (OperationError ''credential_ownership_conflict'' False)) (\<lambda>_.
      let username = probe_credential ft sec ''probe-username''; password = probe_credential ft sec ''probe-password'' in
      if tr_name t = ''webdav-apache'' \<and> tr_version t = ''0.2.0'' then readWebDAVStatistics ft ns name username password
      else if tr_name t = ''bazel-remote'' \<and> tr_version t = ''0.1.0'' then readEngineStatistics ft ns name username password
      else if tr_name t = ''gradle-http'' \<and> tr_version t \<in> {''0.1.0'', ''0.2.0''} then readGradleStatistics ft ns name username password
      else mthrow (OperationError ''statistics_template_unsupported'' False))))"


section \<open>History of lookups\<close>

datatype window = W1h | W6h | W24h

definition historyWindow :: "window schema" where
  "historyWindow v = Option.bind (z_string v) (\<lambda>s.
     map_of [(''1h'', W1h), (''6h'', W6h), (''24h'', W24h)] s)"

text \<open>Seconds covered and the step, for each window.\<close>

fun window_steps :: "window \<Rightarrow> int \<times> int" where
  "window_steps W1h = (3600, 60)"
| "window_steps W6h = (21600, 120)"
| "window_steps W24h = (86400, 300)"

text \<open>\<open>Math.floor(now / 1000 / step) * step\<close>. The clock is a whole number of milliseconds below
  \<open>2\<^sup>5\<^sup>3\<close>; the two divisions are off by less than the distance of a non-whole quotient to the next
  integer, so the floor is that of the exact quotient.\<close>

definition range_end :: "int \<Rightarrow> int \<Rightarrow> int" where
  "range_end now step = now div (1000 * step) * step"

text \<open>\<open>z.tuple([z.number().finite(), z.string().max(64)])\<close>\<close>

fun sample_pair :: "(rat \<times> string) schema" where
  "sample_pair (Some (JArr [JNum t, JStr raw])) = (if length raw \<le> 64 then Some (t, raw) else None)"
| "sample_pair _ = None"

definition z_max :: "nat \<Rightarrow> 'a list schema \<Rightarrow> 'a list schema" where
  "z_max n sc = z_check sc (\<lambda>xs. length xs \<le> n)"

record lookup_series =
  ls_kind :: string
  ls_method :: string
  ls_outcome :: string
  ls_values :: "(rat \<times> string) list"

definition history_series :: "lookup_series schema" where
  "history_series v =
     Option.bind (z_object v) (\<lambda>fs.
     Option.bind (z_field fs ''metric'' (z_strict [''kind'', ''method'', ''status''])) (\<lambda>metric.
     Option.bind (z_field metric ''kind'' (z_enum [''ac'', ''cas''])) (\<lambda>kind.
     Option.bind (z_field metric ''method'' (z_enum [''get'', ''contains''])) (\<lambda>method.
     Option.bind (z_field metric ''status'' (z_enum [''hit'', ''miss''])) (\<lambda>status.
     Option.bind (z_field fs ''values'' (z_max 300 (z_array sample_pair))) (\<lambda>values.
     Some \<lparr>ls_kind = kind, ls_method = method, ls_outcome = status, ls_values = values\<rparr>))))))"

text \<open>The envelope of a range query: success, no warnings, a matrix of series.\<close>

definition matrix_of :: "'a list schema \<Rightarrow> 'a list schema" where
  "matrix_of result v =
     Option.bind (z_object v) (\<lambda>fs.
     Option.bind (z_field fs ''status'' (z_literal ''success'')) (\<lambda>_.
     Option.bind (z_field fs ''warnings'' (z_optional (z_max 0 (z_array z_string)))) (\<lambda>_.
     Option.bind (z_field fs ''data'' z_object) (\<lambda>d.
     Option.bind (z_field d ''resultType'' (z_literal ''matrix'')) (\<lambda>_.
     z_field d ''result'' result)))))"

definition history_matrix :: "lookup_series list schema" where
  "history_matrix = matrix_of (z_max 8 (z_array history_series))"

text \<open>The value of a point: a marker of a missing value is null, anything else a finite rate.\<close>

definition history_value :: "string \<Rightarrow> rat option result" where
  "history_value raw =
     (if raw \<in> {''NaN'', ''+Inf'', ''-Inf''} then Inr None
      else throw_if (js_trim raw = []) (JsError ''Invalid history value'')
        (case finite_number raw of
           None \<Rightarrow> Inl (JsError ''Invalid history rate'')
         | Some x \<Rightarrow> throw_if (x < 0) (JsError ''Invalid history rate'') (Inr (Some x))))"

fun history_points :: "rat \<Rightarrow> rat \<Rightarrow> rat \<Rightarrow> (rat \<times> string) list \<Rightarrow> (rat \<times> rat option) list result" where
  "history_points first final previous [] = Inr []"
| "history_points first final previous ((t, raw) # values) =
     throw_if (t < first \<or> final < t \<or> t \<le> previous) (JsError ''Invalid history timestamp'')
       (rbind (history_value raw) (\<lambda>x.
        rbind (history_points first final t values) (\<lambda>points. Inr ((t, x) # points))))"

record history_line =
  hl_kind :: string
  hl_method :: string
  hl_outcome :: string
  hl_points :: "(rat \<times> rat option) list"

fun history_lines :: "int \<Rightarrow> int \<Rightarrow> string list \<Rightarrow> lookup_series list \<Rightarrow> history_line list result" where
  "history_lines first final keys [] = Inr []"
| "history_lines first final keys (s # rest) =
     (let key = ls_kind s @ ''/'' @ ls_method s @ ''/'' @ ls_outcome s in
      throw_if (key \<in> set keys) (JsError ''Duplicate history series'')
        (rbind (history_points (of_int first) (of_int final) (of_int first - 1) (ls_values s)) (\<lambda>points.
         rbind (history_lines first final (key # keys) rest) (\<lambda>ls.
           Inr (\<lparr>hl_kind = ls_kind s, hl_method = ls_method s, hl_outcome = ls_outcome s, hl_points = points\<rparr> # ls)))))"

record history =
  hi_window :: window
  hi_start :: int
  hi_end :: int
  hi_stepSeconds :: int
  hi_rateWindowSeconds :: int
  hi_series :: "history_line list"

record prometheus_history =
  ph_base :: url
  ph_authorization :: "string option"

definition new_PrometheusHistory :: "'w fetcher \<Rightarrow> string \<Rightarrow> string option \<Rightarrow> prometheus_history result" where
  "new_PrometheusHistory ft address bearerToken =
     throw_if (case bearerToken of None \<Rightarrow> False | Some t \<Rightarrow> 8192 < length t \<or> \<not> bearer_text t)
       (JsError ''Invalid Prometheus bearer token'')
       (rbind (service_url ft address ''Invalid Prometheus URL'') (\<lambda>u.
        Inr \<lparr>ph_base = u, ph_authorization = map_option (\<lambda>t. ''Bearer '' @ t) bearerToken\<rparr>))"

definition lookup_query :: "string \<Rightarrow> string \<Rightarrow> string" where
  "lookup_query project uid =
     ''sum by (kind, method, status) (rate(bazel_remote_incoming_requests_total{expbuild_project_id=\"'' @ project @
     ''\",expbuild_instance_uid=\"'' @ uid @ ''\",kind=~\"ac|cas\",method=~\"get|contains\",status=~\"hit|miss\"}[5m]))''"

definition history_call :: "prometheus_history \<Rightarrow> string \<Rightarrow> string \<Rightarrow> int \<Rightarrow> int \<Rightarrow> int \<Rightarrow> http_call" where
  "history_call ph project uid first final step =
     \<lparr>hc_method = ''GET'',
      hc_url = relative_url (ph_base ph) ''api/v1/query_range'' (Some [(''query'', lookup_query project uid),
        (''start'', show_int first), (''end'', show_int final), (''step'', show_int step), (''timeout'', ''4s'')]),
      hc_headers = (''Accept'', ''application/json'') #
        (case ph_authorization ph of None \<Rightarrow> [] | Some a \<Rightarrow> [(''Authorization'', a)]),
      hc_payload = None\<rparr>"

definition read_history ::
  "'w fetcher \<Rightarrow> prometheus_history \<Rightarrow> string \<Rightarrow> string \<Rightarrow> window \<Rightarrow> ('w sys, history) action" where
  "read_history ft ph project uid w =
     mbind (mthrow_if (\<not> identity_text project \<or> \<not> identity_text uid) ZodError) (\<lambda>_.
     mbind (mget sys_now) (\<lambda>now.
     let (seconds, step) = window_steps w; final = range_end now step; first = final - seconds in
     mbind (ft_call ft (history_call ph project uid first final step)) (\<lambda>r.
     case re_body r of
       None \<Rightarrow> mthrow (JsError ''History unavailable'')
     | Some body \<Rightarrow>
         mbind (mthrow_if (\<not> re_ok r) (JsError ''History unavailable'')) (\<lambda>_.
         mbind (mlift (read_json ft (1024 * 1024) ''History response too large'' body)) (\<lambda>doc.
         mbind (mlift (z_parse history_matrix doc)) (\<lambda>data.
         mbind (mlift (history_lines first final [] data)) (\<lambda>lines.
         mret \<lparr>hi_window = w, hi_start = first, hi_end = final, hi_stepSeconds = step, hi_rateWindowSeconds = 300,
           hi_series = lines\<rparr>)))))))"

end
