(* ===== verification/Backends.thy ===== *)
theory Backends
  imports Statistics
begin

text \<open>
  observation-backends.ts: the clients of Prometheus, Loki and Alertmanager. Callers choose only among
  fixed queries, restricted to one instance by its identity; every answer is bounded, checked and
  compared with what was asked before it is returned. The number of requests of a backend already
  under way, which other requests of the process decide, is an argument.
\<close>

section \<open>Targets and requests\<close>

record target =
  tg_projectId :: string
  tg_instanceUID :: string
  tg_namespace :: string
  tg_template :: string
  tg_version :: string

datatype group = Capacity | Lookups | Resources | Performance

record bounds_range =
  br_start :: int
  br_end :: int
  br_step :: int

definition bounds :: "window \<Rightarrow> int \<Rightarrow> bounds_range" where
  "bounds w now =
     (let (seconds, step) = window_steps w; final = range_end now step
      in \<lparr>br_start = final - seconds, br_end = final, br_step = step\<rparr>)"

record backend =
  bk_url :: url
  bk_token :: "string option"

definition new_Backend :: "'w fetcher \<Rightarrow> string \<Rightarrow> string option \<Rightarrow> backend result" where
  "new_Backend ft address token =
     rbind (service_url ft address ''Invalid observability backend URL'') (\<lambda>u.
     throw_if (case token of None \<Rightarrow> False | Some t \<Rightarrow> t = [] \<or> 8192 < length t \<or> \<not> bearer_text t)
       (JsError ''Invalid observability backend token'') (Inr \<lparr>bk_url = u, bk_token = token\<rparr>))"

definition backend_call :: "backend \<Rightarrow> string \<Rightarrow> (string \<times> string) list option \<Rightarrow> json option \<Rightarrow> http_call" where
  "backend_call be path params payload =
     \<lparr>hc_method = (if payload = None then ''GET'' else ''POST''), hc_url = relative_url (bk_url be) path params,
      hc_headers = [(''Accept'', ''application/json'')] @
        (if payload = None then [] else [(''Content-Type'', ''application/json'')]) @
        (if truthy (bk_token be) then [(''Authorization'', ''Bearer '' @ the (bk_token be))] else []),
      hc_payload = map_option json_text payload\<rparr>"

definition request ::
  "'w fetcher \<Rightarrow> backend \<Rightarrow> nat \<Rightarrow> string \<Rightarrow> (string \<times> string) list option \<Rightarrow> json option \<Rightarrow> ('w sys, json) action" where
  "request ft be active path params payload =
     mbind (mthrow_if (8 \<le> active) (JsError ''Observation query limit reached'')) (\<lambda>_.
     mbind (ft_call ft (backend_call be path params payload)) (\<lambda>r.
     case re_body r of
       None \<Rightarrow> mthrow (JsError ''Observation backend unavailable'')
     | Some body \<Rightarrow>
         mbind (mthrow_if (\<not> re_ok r) (JsError ''Observation backend unavailable'')) (\<lambda>_.
         mlift (read_json ft (1024 * 1024) ''Observation response limit'' body))))"

definition identity_parse :: "string \<Rightarrow> string result" where
  "identity_parse s = throw_if (\<not> identity_text s) ZodError (Inr s)"

definition selector :: "target \<Rightarrow> string \<Rightarrow> string result" where
  "selector t cluster =
     rbind (identity_parse cluster) (\<lambda>c.
     rbind (identity_parse (tg_projectId t)) (\<lambda>p.
     rbind (identity_parse (tg_instanceUID t)) (\<lambda>u.
       Inr (''expbuild_cluster_id=\"'' @ c @ ''\",expbuild_project_id=\"'' @ p @ ''\",expbuild_instance_uid=\"'' @ u @ ''\"''))))"

section \<open>Metric queries\<close>

text \<open>A descriptor is a series name with its query and its unit; the list keeps the order in which
  the object's properties are added.\<close>

type_synonym descriptor = "string \<times> string \<times> string"

definition gradle_metrics :: "target \<Rightarrow> bool" where
  "gradle_metrics t \<longleftrightarrow> tg_template t = ''gradle-http'' \<and> tg_version t = ''0.2.0''"

definition capacity_descriptors :: "target \<Rightarrow> string \<Rightarrow> descriptor list" where
  "capacity_descriptors t sel =
     map (\<lambda>(name, unit). (name,
       ''max(expbuild_instance_'' @ name @ ''{'' @ sel @ ''} and on(expbuild_cluster_id,expbuild_project_id,expbuild_instance_uid,source) '' @
       ''(expbuild_instance_statistics_timestamp_seconds{'' @ sel @ ''} > time()-120))'', unit))
       [(''used_bytes'', ''bytes''), (''capacity_bytes'', ''bytes''), (''entries'', ''entries'')] @
     (if gradle_metrics t then
        [(''evictions'', ''sum(rate(expbuild_cache_evictions_total{'' @ sel @ ''}[5m]))'', ''entries/second''),
         (''evicted_bytes'', ''sum(rate(expbuild_cache_evicted_bytes_total{'' @ sel @ ''}[5m]))'', ''bytes/second'')]
      else [])"

definition bazel_lookup :: "string \<Rightarrow> string \<Rightarrow> string \<Rightarrow> string \<Rightarrow> descriptor" where
  "bazel_lookup sel kind method outcome =
     (kind @ ''_'' @ method @ ''_'' @ outcome,
      ''sum(rate(bazel_remote_incoming_requests_total{'' @ sel @ '',kind=\"'' @ kind @ ''\",method=\"'' @ method @ ''\",status=\"'' @ outcome @ ''\"}[5m]))'',
      ''lookups/second'')"

definition lookup_base :: "target \<Rightarrow> string \<Rightarrow> descriptor list" where
  "lookup_base t sel =
     (if tg_template t = ''bazel-remote'' \<and> tg_version t = ''0.1.0'' then
        concat (map (\<lambda>kind. concat (map (\<lambda>method. map (bazel_lookup sel kind method) [''hit'', ''miss'']) [''get'', ''contains''])) [''ac'', ''cas''])
      else if gradle_metrics t then
        map (\<lambda>outcome. (''get_'' @ outcome,
          ''sum(rate(expbuild_cache_lookups_total{'' @ sel @ '',outcome=\"'' @ outcome @ ''\"}[5m]))'', ''lookups/second'')) [''hit'', ''miss'']
      else [])"

text \<open>For every series of hits, the ratio of hits to the sum with the misses of the same series.\<close>

definition ends_with :: "string \<Rightarrow> string \<Rightarrow> bool" where
  "ends_with suffix s \<longleftrightarrow> length suffix \<le> length s \<and> drop (length s - length suffix) s = suffix"

definition hit_ratio :: "descriptor list \<Rightarrow> descriptor \<Rightarrow> descriptor" where
  "hit_ratio base d =
     (case d of (name, hit, _) \<Rightarrow>
        let miss = fst (the (map_of base (take (length name - 4) name @ ''_miss'')))
        in (name @ ''_ratio'', ''100 * ('' @ hit @ '') / ((('' @ hit @ '') + ('' @ miss @ '')) > 0)'', ''percent''))"

definition lookup_descriptors :: "target \<Rightarrow> string \<Rightarrow> descriptor list" where
  "lookup_descriptors t sel =
     (let base = lookup_base t sel in base @ map (hit_ratio base) (filter (\<lambda>d. ends_with ''_hit'' (fst d)) base))"

definition resource_descriptors :: "string \<Rightarrow> string \<Rightarrow> string \<Rightarrow> descriptor list" where
  "resource_descriptors ns uid cluster =
     (let pods = ''max by(namespace,pod) (kube_pod_labels{namespace=\"'' @ ns @ ''\",label_cache_expbuild_io_instance_uid=\"'' @ uid @
            ''\",expbuild_cluster_id=\"'' @ cluster @ ''\"})'';
          volumes = ''max by(namespace,persistentvolumeclaim) (kube_persistentvolumeclaim_labels{namespace=\"'' @ ns @
            ''\",label_cache_expbuild_io_instance_uid=\"'' @ uid @ ''\",expbuild_cluster_id=\"'' @ cluster @ ''\"})'';
          running = '',container!=\"\",container!=\"POD\",expbuild_cluster_id=\"'' @ cluster @ ''\"}'';
          joined_pods = '' * on(namespace,pod) group_left() '' @ pods @ '')''
      in [(''cpu_cores'', ''sum(max by(namespace,pod,container)(rate(container_cpu_usage_seconds_total{namespace=\"'' @ ns @ ''\"'' @ running @ ''[5m]))'' @ joined_pods, ''cores''),
          (''memory_bytes'', ''sum(max by(namespace,pod,container)(container_memory_working_set_bytes{namespace=\"'' @ ns @ ''\"'' @ running @ '')'' @ joined_pods, ''bytes''),
          (''restarts'', ''sum(max by(namespace,pod,container)(kube_pod_container_status_restarts_total{namespace=\"'' @ ns @ ''\",expbuild_cluster_id=\"'' @ cluster @ ''\"})'' @ joined_pods, ''restarts''),
          (''memory_limit_bytes'', ''sum(max by(namespace,pod,container)(kube_pod_container_resource_limits{namespace=\"'' @ ns @ ''\",resource=\"memory\",unit=\"byte\",expbuild_cluster_id=\"'' @ cluster @ ''\"})'' @ joined_pods, ''bytes''),
          (''cpu_limit_cores'', ''sum(max by(namespace,pod,container)(kube_pod_container_resource_limits{namespace=\"'' @ ns @ ''\",resource=\"cpu\",unit=\"core\",expbuild_cluster_id=\"'' @ cluster @ ''\"})'' @ joined_pods, ''cores''),
          (''throttled_seconds'', ''sum(max by(namespace,pod,container)(rate(container_cpu_cfs_throttled_seconds_total{namespace=\"'' @ ns @ ''\"'' @ running @ ''[5m]))'' @ joined_pods, ''seconds/second'')] @
         map (\<lambda>name. (''volume_'' @ name, ''max(kubelet_volume_stats_'' @ name @ ''{namespace=\"'' @ ns @ ''\",expbuild_cluster_id=\"'' @ cluster @
           ''\"} * on(namespace,persistentvolumeclaim) group_left() '' @ volumes @ '')'', ''bytes'')) [''used_bytes'', ''capacity_bytes''])"

definition performance_descriptors :: "target \<Rightarrow> string \<Rightarrow> descriptor list" where
  "performance_descriptors t sel =
     (if gradle_metrics t then
        concat (map (\<lambda>method.
          [(method @ ''_requests'', ''sum(rate(expbuild_cache_requests_total{'' @ sel @ '',method=\"'' @ method @ ''\"}[5m]))'', ''requests/second''),
           (method @ ''_errors'', ''sum(rate(expbuild_cache_requests_total{'' @ sel @ '',method=\"'' @ method @ ''\",status_class=\"5xx\"}[5m]))'', ''requests/second''),
           (method @ ''_p95'', ''histogram_quantile(0.95,sum by(le)(rate(expbuild_cache_request_duration_seconds_bucket{'' @ sel @ '',method=\"'' @ method @ ''\"}[5m])))'', ''seconds'')])
          [''GET'', ''PUT'']) @
        map (\<lambda>direction. (direction @ ''_bytes'', ''sum(rate(expbuild_cache_transfer_bytes_total{'' @ sel @ '',direction=\"'' @ direction @ ''\"}[5m]))'', ''bytes/second''))
          [''read'', ''write'']
      else [])"

definition anchored :: "target \<Rightarrow> group \<Rightarrow> string \<Rightarrow> descriptor \<Rightarrow> descriptor" where
  "anchored t g sel d =
     (let anchor = (if tg_template t = ''bazel-remote'' then ''bazel_remote_incoming_requests_total''
            else if g = Lookups then ''expbuild_cache_lookups_total'' else ''expbuild_cache_requests_total'')
      in case d of (name, q, unit) \<Rightarrow>
        (name, ''('' @ q @ '') and on() (max(timestamp('' @ anchor @ ''{'' @ sel @ ''})) > time()-120)'', unit))"

definition descriptors :: "target \<Rightarrow> string \<Rightarrow> group \<Rightarrow> string \<Rightarrow> descriptor list result" where
  "descriptors t cluster g sel =
     (case g of
        Capacity \<Rightarrow> Inr (capacity_descriptors t sel)
      | Lookups \<Rightarrow> Inr (map (anchored t g sel) (lookup_descriptors t sel))
      | Resources \<Rightarrow> rbind (identity_parse (tg_namespace t)) (\<lambda>ns.
          rbind (identity_parse (tg_instanceUID t)) (\<lambda>uid. Inr (resource_descriptors ns uid cluster)))
      | Performance \<Rightarrow> Inr (map (anchored t g sel) (performance_descriptors t sel)))"

definition combined_query :: "descriptor list \<Rightarrow> string" where
  "combined_query ds = joined '' or '' (map (\<lambda>(name, q, _). ''label_replace(('' @ q @ ''),\"series\",\"'' @ name @ ''\",\"\",\"\")'') ds)"


section \<open>Metric answers\<close>

text \<open>\<open>z.record(z.string(), z.string().max(n))\<close>\<close>

fun z_strings :: "nat \<Rightarrow> strmap schema" where
  "z_strings n (Some (JObj fs)) =
     those (map (\<lambda>(k, v). map_option (\<lambda>s. (k, s)) (z_check z_string (\<lambda>s. length s \<le> n) (Some v))) fs)"
| "z_strings n _ = None"

definition metric_series :: "(strmap \<times> (rat \<times> string) list) schema" where
  "metric_series v =
     Option.bind (z_object v) (\<lambda>fs.
     Option.bind (z_field fs ''metric'' (z_strings 150)) (\<lambda>metric.
     Option.bind (z_field fs ''values'' (z_max 361 (z_array sample_pair))) (\<lambda>values.
     Some (metric, values))))"

definition metric_matrix :: "(strmap \<times> (rat \<times> string) list) list schema" where
  "metric_matrix = matrix_of (z_max 20 (z_array metric_series))"

text \<open>The descriptors are a plain object, so reading a property finds those of its prototype too.\<close>

definition inherited :: "string list" where
  "inherited = [''constructor'', ''hasOwnProperty'', ''isPrototypeOf'', ''propertyIsEnumerable'', ''toLocaleString'',
     ''toString'', ''valueOf'', ''__proto__'', ''__defineGetter__'', ''__defineSetter__'', ''__lookupGetter__'', ''__lookupSetter__'']"

definition known_series :: "descriptor list \<Rightarrow> string \<Rightarrow> bool" where
  "known_series ds name \<longleftrightarrow> map_of ds name \<noteq> None \<or> name \<in> set inherited"

definition metric_value :: "string \<Rightarrow> rat option result" where
  "metric_value raw =
     (if raw \<in> {''NaN'', ''+Inf'', ''-Inf''} then Inr None
      else case finite_number raw of
        None \<Rightarrow> Inl (JsError ''Invalid metric value'')
      | Some x \<Rightarrow> throw_if (js_trim raw = [] \<or> x < 0) (JsError ''Invalid metric value'') (Inr (Some x)))"

definition on_grid :: "bounds_range \<Rightarrow> rat \<Rightarrow> bool" where
  "on_grid r t \<longleftrightarrow> (let k = (t - of_int (br_start r)) / of_int (br_step r) in of_int \<lfloor>k\<rfloor> = k)"

fun metric_points :: "bounds_range \<Rightarrow> rat \<Rightarrow> (rat \<times> string) list \<Rightarrow> (rat \<times> rat option) list result" where
  "metric_points r previous [] = Inr []"
| "metric_points r previous ((t, raw) # values) =
     throw_if (t < of_int (br_start r) \<or> of_int (br_end r) < t \<or> t \<le> previous \<or> \<not> on_grid r t) (JsError ''Invalid metric timestamp'')
       (rbind (metric_value raw) (\<lambda>x.
        rbind (metric_points r t values) (\<lambda>points. Inr ((t, x) # points))))"

text \<open>\<open>latest = Math.max(latest, time)\<close> over the points with a value.\<close>

definition latest_point :: "rat \<Rightarrow> (rat \<times> rat option) list \<Rightarrow> rat" where
  "latest_point latest points = fold (\<lambda>(t, x) m. if x = None then m else max m t) points latest"

text \<open>The explicit points of the range: \<open>for (time = start; time <= end; time += step)\<close>.\<close>

definition grid_times :: "bounds_range \<Rightarrow> int list" where
  "grid_times r = map (\<lambda>k. br_start r + int k * br_step r) [0..<Suc (nat ((br_end r - br_start r) div br_step r))]"

definition complete_points :: "bounds_range \<Rightarrow> (rat \<times> rat option) list \<Rightarrow> (int \<times> rat option) list" where
  "complete_points r points =
     map (\<lambda>t. (t, case map_of points (of_int t) of None \<Rightarrow> None | Some x \<Rightarrow> x)) (grid_times r)"

record metric_line =
  ml_name :: string
  ml_unit :: "string option"
  ml_points :: "(int \<times> rat option) list"

fun metric_lines ::
  "bounds_range \<Rightarrow> descriptor list \<Rightarrow> string list \<Rightarrow> rat \<Rightarrow> (strmap \<times> (rat \<times> string) list) list \<Rightarrow> (rat \<times> metric_line list) result" where
  "metric_lines r ds names latest [] = Inr (latest, [])"
| "metric_lines r ds names latest ((metric, values) # rest) =
     (case map_of metric ''series'' of
        None \<Rightarrow> Inl (JsError ''Unexpected metric series'')
      | Some name \<Rightarrow>
          throw_if (name = [] \<or> \<not> known_series ds name \<or> name \<in> set names \<or> list_ex (\<lambda>(k, _). k \<noteq> ''series'') metric)
            (JsError ''Unexpected metric series'')
            (rbind (metric_points r (of_int (br_start r) - 1) values) (\<lambda>points.
             rbind (metric_lines r ds (name # names) (latest_point latest points) rest) (\<lambda>(final, ls).
               Inr (final, \<lparr>ml_name = name, ml_unit = map_option snd (map_of ds name), ml_points = complete_points r points\<rparr> # ls)))))"

record metrics_reply =
  mr_state :: string
  mr_group :: group
  mr_range :: bounds_range
  mr_observedAt :: "rat option"
  mr_series :: "metric_line list"

definition metrics_state :: "bounds_range \<Rightarrow> rat \<Rightarrow> string" where
  "metrics_state r latest =
     (if latest = 0 then ''no_data'' else if latest < of_int (br_end r - br_step r * 2) then ''stale'' else ''ok'')"

definition read_metrics ::
  "'w fetcher \<Rightarrow> backend \<Rightarrow> nat \<Rightarrow> string \<Rightarrow> target \<Rightarrow> group \<Rightarrow> window \<Rightarrow> ('w sys, metrics_reply) action" where
  "read_metrics ft be active cluster t g w =
     mbind (mlift (selector t cluster)) (\<lambda>sel.
     mbind (mget sys_now) (\<lambda>now.
     let r = bounds w now in
     mbind (mlift (descriptors t cluster g sel)) (\<lambda>ds.
     if ds = [] then mret \<lparr>mr_state = ''unsupported'', mr_group = g, mr_range = r, mr_observedAt = None, mr_series = []\<rparr>
     else
       mbind (request ft be active ''api/v1/query_range'' (Some [(''query'', combined_query ds), (''start'', show_int (br_start r)),
         (''end'', show_int (br_end r)), (''step'', show_int (br_step r)), (''timeout'', ''4s'')]) None) (\<lambda>doc.
       mbind (mlift (z_parse metric_matrix doc)) (\<lambda>data.
       mbind (mlift (metric_lines r ds [] 0 data)) (\<lambda>(latest, ls).
       mret \<lparr>mr_state = metrics_state r latest, mr_group = g, mr_range = r,
         mr_observedAt = (if latest = 0 then None else Some (latest * 1000)), mr_series = ls\<rparr>))))))"

section \<open>Redaction of log text\<close>

definition is_word :: "char \<Rightarrow> bool" where
  "is_word c \<longleftrightarrow> is_alnum c \<or> c = CHR ''_''"

definition to_lower :: "char \<Rightarrow> char" where
  "to_lower c = (if is_upper c then char_of (of_char c + 32 :: nat) else c)"

definition starts_ci :: "string \<Rightarrow> string \<Rightarrow> bool" where
  "starts_ci p s \<longleftrightarrow> map to_lower (take (length p) s) = p"

text \<open>\<open>text.replace(/.../g, ...)\<close>: the matcher gets the preceding character and the remaining text, and
  answers with the length of a match beyond its first character and the replacement.\<close>

type_synonym matcher = "char option \<Rightarrow> string \<Rightarrow> (nat \<times> string) option"

function replace_all :: "matcher \<Rightarrow> char option \<Rightarrow> string \<Rightarrow> string" where
  "replace_all m prev [] = []"
| "replace_all m prev (c # s) =
     (case m prev (c # s) of
        None \<Rightarrow> c # replace_all m (Some c) s
      | Some (n, replacement) \<Rightarrow> replacement @ replace_all m (Some (last (c # take n s))) (drop n s))"
  by pat_completeness auto
termination by (relation "measure (\<lambda>(m, prev, s). length s)") auto

text \<open>\<open>/\b(Bearer|Basic)\s+[^\s",;]+/gi\<close>\<close>

definition scheme_match :: "string \<Rightarrow> string \<Rightarrow> (nat \<times> string) option" where
  "scheme_match w s =
     (let r = drop (length w) s; sp = takeWhile is_space r;
          tok = takeWhile (\<lambda>c. \<not> is_space c \<and> c \<notin> {CHR 0x22, CHR '','', CHR '';''}) (dropWhile is_space r)
      in if starts_ci w s \<and> sp \<noteq> [] \<and> tok \<noteq> []
         then Some (length w + length sp + length tok - 1, take (length w) s @ '' [redacted]'') else None)"

definition credential_scheme :: matcher where
  "credential_scheme prev s =
     (if (case prev of None \<Rightarrow> False | Some c \<Rightarrow> is_word c) then None
      else case scheme_match ''bearer'' s of Some x \<Rightarrow> Some x | None \<Rightarrow> scheme_match ''basic'' s)"

text \<open>\<open>"(?:\\.|[^"\\])*"\<close> after its opening quote: the number of characters up to the closing one.\<close>

fun quoted_length :: "char \<Rightarrow> string \<Rightarrow> nat option" where
  "quoted_length q [] = None"
| "quoted_length q [c] = (if c = q then Some 1 else None)"
| "quoted_length q (c # d # s) =
     (if c = q then Some 1
      else if c = CHR 0x5C then (if d \<in> {CHR 0x0A, CHR 0x0D} then None else map_option (\<lambda>n. n + 2) (quoted_length q s))
      else map_option Suc (quoted_length q (d # s)))"

text \<open>\<open>(?:"..."|'...'|[^\s,;}]+)\<close>: the length of a value.\<close>

definition value_length :: "string \<Rightarrow> nat option" where
  "value_length s =
     (let bare = length (takeWhile (\<lambda>c. \<not> is_space c \<and> c \<notin> {CHR '','', CHR '';'', CHR ''}''}) s);
          quoted = (if s \<noteq> [] \<and> hd s \<in> {CHR 0x22, CHR 0x27} then map_option Suc (quoted_length (hd s) (tl s)) else None)
      in case quoted of Some n \<Rightarrow> Some n | None \<Rightarrow> if bare = 0 then None else Some bare)"

text \<open>\<open>(keyword[\w-]*["']?\s*[:=]\s*)value\<close>\<close>

definition keyword_match :: "string \<Rightarrow> string \<Rightarrow> (nat \<times> string) option" where
  "keyword_match w s =
     (let r1 = dropWhile (\<lambda>c. is_word c \<or> c = CHR ''-'') (drop (length w) s);
          r2 = (if r1 \<noteq> [] \<and> hd r1 \<in> {CHR 0x22, CHR 0x27} then tl r1 else r1);
          r3 = dropWhile is_space r2;
          r4 = dropWhile is_space (tl r3)
      in if starts_ci w s \<and> r3 \<noteq> [] \<and> hd r3 \<in> {CHR '':'', CHR ''=''}
         then map_option (\<lambda>n. (length s - length r4 + n - 1, take (length s - length r4) s @ ''[redacted]'')) (value_length r4)
         else None)"

definition secret_field :: matcher where
  "secret_field prev s =
     fold (\<lambda>w found. case found of Some x \<Rightarrow> Some x | None \<Rightarrow> keyword_match w s)
       [''password'', ''token'', ''authorization'', ''cookie'', ''secret'', ''credential''] None"

text \<open>\<open>/https?:\/\/[^\s/@]+:[^\s/@]+@/gi\<close>\<close>

definition url_credentials :: matcher where
  "url_credentials prev s =
     (let r = (if starts_ci ''https'' s then drop 5 s else drop 4 s); u = drop 3 r;
          run = takeWhile (\<lambda>c. \<not> is_space c \<and> c \<notin> {CHR ''/'', CHR ''@''}) u; rest = drop (length run) u
      in if starts_ci ''http'' s \<and> starts ''://'' r \<and> starts ''@'' rest \<and>
            list_ex (\<lambda>i. 1 \<le> i \<and> i + 1 < length run \<and> run ! i = CHR '':'') [0..<length run]
         then Some (length s - length rest, ''https://[redacted]@'') else None)"

definition control_char :: "char \<Rightarrow> bool" where
  "control_char c \<longleftrightarrow> (let n = (of_char c :: nat) in n \<le> 8 \<or> n = 11 \<or> n = 12 \<or> (14 \<le> n \<and> n \<le> 31))"

definition sanitizeLog :: "string \<Rightarrow> string" where
  "sanitizeLog v =
     take 4096 (filter (\<lambda>c. \<not> control_char c)
       (replace_all url_credentials None (replace_all secret_field None (replace_all credential_scheme None v))))"


section \<open>Logs\<close>

text \<open>\<open>z.tuple([z.string().regex(/^\d{10,25}$/), z.string().max(65536)])\<close>\<close>

fun log_pair :: "(string \<times> string) schema" where
  "log_pair (Some (JArr [JStr time, JStr line])) =
     (if 10 \<le> length time \<and> length time \<le> 25 \<and> list_all is_digit time \<and> length line \<le> 65536 then Some (time, line) else None)"
| "log_pair _ = None"

fun z_record :: "strmap schema" where
  "z_record (Some (JObj fs)) = those (map (\<lambda>(k, v). map_option (\<lambda>s. (k, s)) (z_string (Some v))) fs)"
| "z_record _ = None"

definition log_stream :: "(strmap \<times> (string \<times> string) list) schema" where
  "log_stream v =
     Option.bind (z_object v) (\<lambda>fs.
     Option.bind (z_field fs ''stream'' z_record) (\<lambda>labels.
     Option.bind (z_field fs ''values'' (z_max 1001 (z_array log_pair))) (\<lambda>values.
     Some (labels, values))))"

definition logResult :: "(strmap \<times> (string \<times> string) list) list schema" where
  "logResult v =
     Option.bind (z_object v) (\<lambda>fs.
     Option.bind (z_field fs ''status'' (z_literal ''success'')) (\<lambda>_.
     Option.bind (z_field fs ''data'' z_object) (\<lambda>d.
     Option.bind (z_field d ''resultType'' (z_literal ''streams'')) (\<lambda>_.
     z_field d ''result'' (z_max 100 (z_array log_stream))))))"

text \<open>\<open>new Date(Number(BigInt(time) / 1000000n)).toISOString()\<close>: whole milliseconds; a date beyond the
  range of Date throws.\<close>

definition log_line :: "string \<times> string \<Rightarrow> (int \<times> string) result" where
  "log_line entry =
     (let ms = int (digits_val (fst entry) div 1000000)
      in throw_if (8640000000000000 < ms) (JsError ''Invalid time value'') (Inr (ms, sanitizeLog (snd entry))))"

definition stream_lines :: "target \<Rightarrow> string \<Rightarrow> strmap \<times> (string \<times> string) list \<Rightarrow> (int \<times> string) list result" where
  "stream_lines t cluster s =
     throw_if (map_of (fst s) ''expbuild_cluster_id'' \<noteq> Some cluster \<or> map_of (fst s) ''expbuild_project_id'' \<noteq> Some (tg_projectId t) \<or>
               map_of (fst s) ''expbuild_instance_uid'' \<noteq> Some (tg_instanceUID t))
       (JsError ''Log ownership mismatch'') (rmap log_line (snd s))"

record logs_reply =
  lr_state :: string
  lr_start :: int
  lr_end :: int
  lr_truncated :: bool
  lr_items :: "(int \<times> string) list"

definition logs_of :: "int \<Rightarrow> int \<Rightarrow> (int \<times> string) list \<Rightarrow> logs_reply result" where
  "logs_of first final unsorted =
     (let ls = sort_key (\<lambda>l. - fst l) unsorted
      in throw_if (list_ex (\<lambda>l. fst l < first \<or> final < fst l) ls) (JsError ''Log timestamp outside query'')
           (Inr \<lparr>lr_state = (if ls = [] then ''no_data'' else ''ok''), lr_start = first, lr_end = final,
              lr_truncated = (500 < length ls), lr_items = take 500 ls\<rparr>))"

definition read_logs ::
  "'w fetcher \<Rightarrow> backend \<Rightarrow> nat \<Rightarrow> string \<Rightarrow> target \<Rightarrow> int \<Rightarrow> string option \<Rightarrow> ('w sys, logs_reply) action" where
  "read_logs ft be active cluster t minutes level =
     mbind (mget sys_now) (\<lambda>final.
     let first = final - minutes * 60000 in
     mbind (mlift (selector t cluster)) (\<lambda>sel.
     mbind (mthrow_if (truthy level \<and> the level \<notin> {''info'', ''warn'', ''error''}) ZodError) (\<lambda>_.
     let q = ''{'' @ sel @ ''}'' @ (if truthy level then '' | json | level=\"'' @ the level @ ''\"'' else []) in
     mbind (request ft be active ''loki/api/v1/query_range'' (Some [(''query'', q), (''start'', show_int first @ ''000000''),
       (''end'', show_int final @ ''000000''), (''limit'', ''501''), (''direction'', ''backward'')]) None) (\<lambda>doc.
     mbind (mlift (z_parse logResult doc)) (\<lambda>streams.
     mbind (mlift (rmap (stream_lines t cluster) streams)) (\<lambda>ls.
     mlift (logs_of first final (concat ls))))))))"

section \<open>Alerts\<close>

text \<open>\<open>/^[a-fA-F0-9]{1,128}$/\<close>\<close>

definition fingerprint_text :: "string \<Rightarrow> bool" where
  "fingerprint_text s \<longleftrightarrow> s \<noteq> [] \<and> length s \<le> 128 \<and> list_all is_hex s"

record alert =
  at_fingerprint :: string
  at_labels :: strmap
  at_annotations :: "strmap option"
  at_startsAt :: string
  at_endsAt :: string
  at_state :: "string option"

definition alert_status :: "string schema" where
  "alert_status v =
     Option.bind (z_object v) (\<lambda>fs.
     Option.bind (z_field fs ''state'' (z_enum [''unprocessed'', ''active'', ''suppressed''])) (\<lambda>state.
     Option.bind (z_field fs ''silencedBy'' (z_optional (z_array z_string))) (\<lambda>_.
     Some state)))"

definition alertSchema :: "(string \<Rightarrow> bool) \<Rightarrow> alert schema" where
  "alertSchema isIso v =
     Option.bind (z_object v) (\<lambda>fs.
     Option.bind (z_field fs ''fingerprint'' (z_check z_string fingerprint_text)) (\<lambda>fp.
     Option.bind (z_field fs ''labels'' (z_strings 512)) (\<lambda>labels.
     Option.bind (z_field fs ''annotations'' (z_optional (z_strings 4096))) (\<lambda>notes.
     Option.bind (z_field fs ''startsAt'' (z_check z_string isIso)) (\<lambda>starts_at.
     Option.bind (z_field fs ''endsAt'' (z_check z_string isIso)) (\<lambda>ends_at.
     Option.bind (z_field fs ''status'' (z_optional alert_status)) (\<lambda>status.
     Some \<lparr>at_fingerprint = fp, at_labels = labels, at_annotations = notes, at_startsAt = starts_at, at_endsAt = ends_at, at_state = status\<rparr>)))))))"

text \<open>\<open>/^[a-zA-Z0-9_:-]{1,128}$/\<close>\<close>

definition alert_code :: "string option \<Rightarrow> string" where
  "alert_code v =
     (case v of None \<Rightarrow> ''Unknown''
      | Some s \<Rightarrow> if s \<noteq> [] \<and> length s \<le> 128 \<and> list_all (\<lambda>c. is_alnum c \<or> c \<in> set ''_:-'') s then s else ''Unknown'')"

definition severity_of :: "strmap \<Rightarrow> string" where
  "severity_of lbs =
     (case map_of lbs ''severity'' of
        None \<Rightarrow> ''warning'' | Some s \<Rightarrow> if s \<in> {''critical'', ''warning'', ''info''} then s else ''warning'')"

definition alert_note :: "strmap option \<Rightarrow> string" where
  "alert_note notes = sanitizeLog (case prop_of notes ''summary'' of None \<Rightarrow> [] | Some s \<Rightarrow> s)"

record observed_alert =
  oa_fingerprint :: string
  oa_instanceUID :: "string option"
  oa_name :: string
  oa_severity :: string
  oa_summary :: string
  oa_startsAt :: string
  oa_endsAt :: string
  oa_state :: string

definition observed_alert_of :: "alert \<Rightarrow> observed_alert" where
  "observed_alert_of a = \<lparr>oa_fingerprint = at_fingerprint a, oa_instanceUID = map_of (at_labels a) ''expbuild_instance_uid'',
     oa_name = alert_code (map_of (at_labels a) ''alertname''), oa_severity = severity_of (at_labels a),
     oa_summary = alert_note (at_annotations a), oa_startsAt = at_startsAt a, oa_endsAt = at_endsAt a,
     oa_state = (case at_state a of None \<Rightarrow> ''active'' | Some s \<Rightarrow> s)\<rparr>"

definition read_alerts ::
  "'w fetcher \<Rightarrow> backend \<Rightarrow> nat \<Rightarrow> string \<Rightarrow> string \<Rightarrow> string option \<Rightarrow> ('w sys, observed_alert list) action" where
  "read_alerts ft be active cluster projectId uid =
     mbind (mthrow_if (\<not> identity_text projectId \<or> \<not> identity_text cluster \<or> (truthy uid \<and> \<not> identity_text (the uid))) ZodError) (\<lambda>_.
     mbind (request ft be active ''api/v2/alerts'' (Some [(''filter'', ''expbuild_project_id=\"'' @ projectId @ ''\"''),
       (''active'', ''true''), (''silenced'', ''true''), (''inhibited'', ''true'')]) None) (\<lambda>doc.
     mbind (mlift (z_parse (z_max 500 (z_array (alertSchema (ft_iso ft)))) doc)) (\<lambda>alerts.
     mret (map observed_alert_of (filter (\<lambda>a.
       map_of (at_labels a) ''expbuild_project_id'' = Some projectId \<and> map_of (at_labels a) ''expbuild_cluster_id'' = Some cluster \<and>
       (\<not> truthy uid \<or> map_of (at_labels a) ''expbuild_instance_uid'' = uid)) alerts)))))"

definition matcher_json :: "string \<times> string \<Rightarrow> json" where
  "matcher_json nv = JObj [(''name'', JStr (fst nv)), (''value'', JStr (snd nv)), (''isRegex'', JBool False), (''isEqual'', JBool True)]"

definition silence_payload :: "(int \<Rightarrow> string) \<Rightarrow> string \<Rightarrow> string \<Rightarrow> string \<Rightarrow> string \<Rightarrow> int \<Rightarrow> int \<Rightarrow> json" where
  "silence_payload show_date cluster projectId uid name now minutes = JObj [
     (''matchers'', JArr (map matcher_json [(''expbuild_cluster_id'', cluster), (''expbuild_project_id'', projectId),
        (''expbuild_instance_uid'', uid), (''alertname'', name)])),
     (''startsAt'', JStr (show_date now)), (''endsAt'', JStr (show_date (now + minutes * 60000))),
     (''createdBy'', JStr ''expbuild''), (''comment'', JStr ''Project-scoped maintenance window'')]"

definition silenceID :: "(string \<Rightarrow> bool) \<Rightarrow> string schema" where
  "silenceID isUuid v = Option.bind (z_object v) (\<lambda>fs. z_field fs ''silenceID'' (z_check z_string isUuid))"

definition silence ::
  "'w fetcher \<Rightarrow> backend \<Rightarrow> ('w sys \<Rightarrow> nat) \<Rightarrow> (string \<Rightarrow> bool) \<Rightarrow> string \<Rightarrow> string \<Rightarrow> string \<Rightarrow> string \<Rightarrow> int \<Rightarrow> ('w sys, string) action" where
  "silence ft be under_way isUuid cluster projectId uid fingerprint minutes =
     mbind (mget under_way) (\<lambda>active.
     mbind (read_alerts ft be active cluster projectId (Some uid)) (\<lambda>alerts.
     case sql_first (\<lambda>a. oa_fingerprint a = fingerprint) alerts of
       None \<Rightarrow> mthrow (JsError ''Alert no longer active'')
     | Some a \<Rightarrow>
         mbind (mget sys_now) (\<lambda>now.
         mbind (mget under_way) (\<lambda>active'.
         mbind (request ft be active' ''api/v2/silences'' None
           (Some (silence_payload (ft_show_date ft) cluster projectId uid (oa_name a) now minutes))) (\<lambda>doc.
         mlift (z_parse (silenceID isUuid) doc))))))"

end
