(* ===== verification/Observation.thy ===== *)
theory Observation
  imports Kube_Port Fetch
begin

text \<open>
  observation-store.ts: the collector that keeps one latest snapshot per instance, a bounded list of
  diagnostic events, and the gauges a scrape reads. One process holds a session lock of the database
  and keeps the in-memory samples; its state is the record \<open>collector\<close>. The environment
  \<open>'w collector_env\<close> gives the lock, the connection and the cluster; \<open>ce_lost\<close> says that the
  connection that holds the lock is gone, which the event handler notices while a call is awaited and
  after which every query on it throws. Random event ids are an argument. The texts of \<open>signature\<close>
  are compared only for equality, and condition types are ASCII words, so the linear order used to
  sort them does not matter.
\<close>

section \<open>Snapshots\<close>

text \<open>\<open>/^[a-zA-Z0-9_.-]{1,100}$/\<close>\<close>

definition code_text :: "string \<Rightarrow> string" where
  "code_text s =
     (if s \<noteq> [] \<and> length s \<le> 100 \<and> list_all (\<lambda>c. is_alnum c \<or> c \<in> set ''_.-'') s then s else ''Unknown'')"

definition condition_of :: "int option \<Rightarrow> condition \<Rightarrow> condition_view" where
  "condition_of generation c =
     \<lparr>cv_type = code_text (cn_type c),
      cv_status = (if cn_status c \<in> {''True'', ''False'', ''Unknown''} then cn_status c else ''Unknown''),
      cv_reason = code_text (cn_reason c), cv_current = (cn_observedGeneration c = generation)\<rparr>"

definition foreign_snapshot :: "cache_object \<Rightarrow> binding_row \<Rightarrow> string \<Rightarrow> bool" where
  "foreign_snapshot object b ns \<longleftrightarrow>
     om_uid (co_metadata object) \<noteq> b_kubernetes_uid b \<or> sp_instanceId (co_spec object) \<noteq> b_id b \<or>
     sp_projectId (co_spec object) \<noteq> b_project_id b \<or> om_namespace (co_metadata object) \<noteq> ns \<or>
     om_name (co_metadata object) \<noteq> b_resource_name b \<or>
     tr_name (sp_templateRef (co_spec object)) \<noteq> b_template_name b \<or>
     Some (tr_version (sp_templateRef (co_spec object))) \<noteq> b_template_version b"

definition ownedSnapshot :: "cache_object \<Rightarrow> binding_row \<Rightarrow> string \<Rightarrow> instance_snapshot result" where
  "ownedSnapshot object b ns =
     throw_if (foreign_snapshot object b ns) (JsError ''Observation ownership conflict'')
       (let meta = co_metadata object;
            given = (case co_status object of None \<Rightarrow> [] | Some st \<Rightarrow> (case cs_conditions st of None \<Rightarrow> [] | Some cs \<Rightarrow> cs));
            conditions = map (condition_of (om_generation meta)) (take 20 given);
            suspended = (sp_desiredState (co_spec object) = ''Suspended'')
        in Inr \<lparr>ss_phase =
               (if truthy (om_deletionTimestamp meta) then PhDeleting
                else if suspended then PhSuspended
                else if list_ex (\<lambda>c. cv_type c = ''Ready'' \<and> cv_status c = ''True'' \<and> cv_current c) conditions then PhReady
                else PhStarting),
             ss_collection = (if suspended then ColSuspended else ColUnsupported),
             ss_generation = om_generation meta, ss_conditions = conditions, ss_statistics = None, ss_eventsCollection = None\<rparr>)"

definition unknown_snapshot :: instance_snapshot where
  "unknown_snapshot = \<lparr>ss_phase = PhUnknown, ss_collection = ColError, ss_generation = None, ss_conditions = [],
     ss_statistics = None, ss_eventsCollection = Some ''error''\<rparr>"

section \<open>The collector\<close>

record sample =
  sm_at :: int
  sm_project :: string
  sm_uid :: string
  sm_source :: string
  sm_snapshot :: instance_snapshot

record collector =
  oc_cursor :: string
  oc_lastCleanup :: int
  oc_leader :: bool
  oc_samples :: "(string \<times> sample) list"

record 'w observatory =
  ob_sys :: "'w sys"
  ob_collector :: collector

record 'w collector_env =
  ce_lock :: "('w sys, bool) action"
  ce_unlock :: "('w sys, unit) action"
  ce_ping :: "('w sys, unit) action"
  ce_lost :: "'w sys \<Rightarrow> bool"
  ce_getInstance :: "string \<Rightarrow> string \<Rightarrow> ('w sys, cache_object option) action"
  ce_events :: "(cache_object \<Rightarrow> ('w sys, string \<times> diagnostic_event list) action) option"
  ce_statistics :: "cache_object \<Rightarrow> ('w sys, instance_statistics) action"

definition zero_uuid :: string where
  "zero_uuid = ''00000000-0000-0000-0000-000000000000''"

definition lostLeadership :: "collector \<Rightarrow> collector" where
  "lostLeadership c = c\<lparr>oc_leader := False, oc_samples := [], oc_cursor := zero_uuid\<rparr>"

definition set_collector :: "(collector \<Rightarrow> collector) \<Rightarrow> ('w observatory, unit) action" where
  "set_collector f = mput (\<lambda>t. t\<lparr>ob_collector := f (ob_collector t)\<rparr>)"

text \<open>An awaited call: afterwards the handler of a lost connection has run.\<close>

definition awaited :: "'w collector_env \<Rightarrow> ('w sys, 'a) action \<Rightarrow> ('w observatory, 'a) action" where
  "awaited env m t =
     (case m (ob_sys t) of (s, r) \<Rightarrow>
        (t\<lparr>ob_sys := s, ob_collector :=
           (if ce_lost env s \<and> oc_leader (ob_collector t) then lostLeadership (ob_collector t) else ob_collector t)\<rparr>, r))"

text \<open>A statement or transaction on the session that holds the lock.\<close>

definition session :: "'w collector_env \<Rightarrow> ('w sys, 'a) action \<Rightarrow> ('w observatory, 'a) action" where
  "session env m = awaited env (\<lambda>s. if ce_lost env s then (s, Inl (JsError ''Connection terminated unexpectedly'')) else m s)"

section \<open>One instance\<close>

text \<open>The part under the inner \<open>try\<close>: events, then statistics where the template has them.\<close>

definition observe_object ::
  "'w collector_env \<Rightarrow> binding_row \<Rightarrow> string \<Rightarrow> cache_object \<Rightarrow> ('w observatory, instance_snapshot \<times> diagnostic_event list) action" where
  "observe_object env b ns object =
     mbind (mlift (ownedSnapshot object b ns)) (\<lambda>owned.
     mbind (case ce_events env of
         None \<Rightarrow> mret (''unsupported'', [])
       | Some f \<Rightarrow> mcatch (awaited env (f object)) (\<lambda>_. mret (''error'', []))) (\<lambda>(state, events).
     let sn = owned\<lparr>ss_eventsCollection := Some state\<rparr> in
     if (ss_phase sn = PhReady \<or> ss_phase sn = PhStarting) \<and>
        (case instanceCapabilities (b_template_name b) (b_template_version b) of None \<Rightarrow> False | Some cap \<Rightarrow> cap_statistics cap)
     then mcatch (mbind (awaited env (ce_statistics env object)) (\<lambda>st.
                    mret (sn\<lparr>ss_statistics := Some st, ss_collection := ColOk\<rparr>, events)))
                 (\<lambda>_. mret (sn\<lparr>ss_collection := ColError\<rparr>, events))
     else mret (sn, events)))"

definition observe :: "'w collector_env \<Rightarrow> binding_row \<times> project_row \<Rightarrow> ('w observatory, instance_snapshot \<times> diagnostic_event list) action" where
  "observe env bp =
     mcatch
       (mbind (awaited env (ce_getInstance env (p_namespace (snd bp)) (b_resource_name (fst bp)))) (\<lambda>found.
        case found of
          None \<Rightarrow> mret (unknown_snapshot, [])
        | Some object \<Rightarrow> observe_object env (fst bp) (p_namespace (snd bp)) object))
       (\<lambda>_. mret (unknown_snapshot, []))"

section \<open>Saving a snapshot\<close>

definition signature :: "instance_snapshot \<Rightarrow> phase \<times> int option \<times> condition_view list" where
  "signature s = (ss_phase s, ss_generation s, sort_key cv_type (ss_conditions s))"

definition event_text :: "diagnostic_event \<Rightarrow> string" where
  "event_text e = ''kubernetes.'' @ de_reason e"

text \<open>\<open>INSERT ... ON CONFLICT(instance_uid,source_uid) DO UPDATE SET observed_at=now(),details=EXCLUDED.details
  WHERE details IS DISTINCT FROM EXCLUDED.details\<close>\<close>

definition upsert_event :: "int \<Rightarrow> string \<Rightarrow> binding_row \<Rightarrow> string \<Rightarrow> diagnostic_event \<Rightarrow> event_row list \<Rightarrow> event_row list" where
  "upsert_event now eid b uid e rows =
     (if list_ex (\<lambda>r. er_instance_uid r = uid \<and> er_source_uid r = Some (de_uid e)) rows
      then sql_update (\<lambda>r. er_instance_uid r = uid \<and> er_source_uid r = Some (de_uid e) \<and> er_details r \<noteq> Diagnosed e)
             (\<lambda>r. r\<lparr>er_observed_at := now, er_details := Diagnosed e\<rparr>) rows
      else rows @ [\<lparr>er_id = eid, er_project_id = b_project_id b, er_instance_id = b_id b, er_instance_uid = uid,
             er_observed_at = now, er_code = event_text e, er_source_uid = Some (de_uid e), er_details = Diagnosed e\<rparr>])"

fun upsert_events :: "int \<Rightarrow> (nat \<Rightarrow> string) \<Rightarrow> nat \<Rightarrow> binding_row \<Rightarrow> string \<Rightarrow> diagnostic_event list \<Rightarrow> event_row list \<Rightarrow> event_row list" where
  "upsert_events now ids n b uid [] rows = rows"
| "upsert_events now ids n b uid (e # es) rows = upsert_events now ids (Suc n) b uid es (upsert_event now (ids n) b uid e rows)"

text \<open>\<open>ORDER BY observed_at DESC,id DESC OFFSET 1000\<close>: the rows of an instance after its latest 1000.\<close>

definition newer_event :: "event_row \<Rightarrow> event_row \<Rightarrow> bool" where
  "newer_event r x \<longleftrightarrow> er_observed_at r < er_observed_at x \<or> (er_observed_at r = er_observed_at x \<and> er_id r < er_id x)"

definition trim_events :: "string \<Rightarrow> event_row list \<Rightarrow> event_row list" where
  "trim_events iid rows =
     (let mine = filter (\<lambda>r. er_instance_id r = iid) rows
      in filter (\<lambda>r. er_instance_id r = iid \<longrightarrow> length (filter (newer_event r) mine) < 1000) rows)"

definition upsert_snapshot :: "snapshot_row \<Rightarrow> snapshot_row list \<Rightarrow> snapshot_row list" where
  "upsert_snapshot row rows =
     (if list_ex (\<lambda>r. sr_instance_id r = sr_instance_id row) rows
      then sql_update (\<lambda>r. sr_instance_id r = sr_instance_id row)
             (\<lambda>r. r\<lparr>sr_instance_uid := sr_instance_uid row, sr_observed_at := sr_observed_at row, sr_payload := sr_payload row\<rparr>) rows
      else rows @ [row])"

definition observed_binding :: "binding_row \<Rightarrow> bool" where
  "observed_binding b \<longleftrightarrow> b_lifecycle b = Active \<or> b_lifecycle b = Deleting"

definition superseded_binding :: "binding_row \<Rightarrow> database \<Rightarrow> bool" where
  "superseded_binding b d =
     (case sql_first (\<lambda>r. b_id r = b_id b) (db_bindings d) of
        None \<Rightarrow> True
      | Some cur \<Rightarrow> b_kubernetes_uid cur \<noteq> b_kubernetes_uid b \<or> \<not> observed_binding cur)"

definition changed_state :: "string \<Rightarrow> instance_snapshot \<Rightarrow> snapshot_row option \<Rightarrow> bool" where
  "changed_state uid sn old =
     (case old of None \<Rightarrow> True
      | Some r \<Rightarrow> sr_instance_uid r \<noteq> uid \<or> signature (sr_payload r) \<noteq> signature sn)"

text \<open>A write of the events table checks its primary key.\<close>

definition write_events :: "(event_row list \<Rightarrow> event_row list) \<Rightarrow> (database, unit) action" where
  "write_events f d =
     (let rows = f (db_events d)
      in if distinct (map er_id rows) then (d\<lparr>db_events := rows\<rparr>, Inr ()) else (d, Inl (PgError ''23505'')))"

definition save_tx ::
  "(nat \<Rightarrow> string) \<Rightarrow> int \<Rightarrow> binding_row \<Rightarrow> instance_snapshot \<Rightarrow> diagnostic_event list \<Rightarrow> int \<Rightarrow> (database, bool) action" where
  "save_tx ids taken b sn events now =
     mbind (tx_get (superseded_binding b)) (\<lambda>stale.
     if stale then mret False
     else
       let uid = the (b_kubernetes_uid b) in
       mbind (tx_get (\<lambda>d. sql_first (\<lambda>r. sr_instance_id r = b_id b) (db_snapshots d))) (\<lambda>old.
       mbind (if changed_state uid sn old
              then write_events (\<lambda>rows. rows @
                     [\<lparr>er_id = ids 0, er_project_id = b_project_id b, er_instance_id = b_id b, er_instance_uid = uid,
                       er_observed_at = now, er_code = ''instance.observed'', er_source_uid = None,
                       er_details = Observed (ss_phase sn) (ss_generation sn) (ss_conditions sn)\<rparr>])
              else mret ()) (\<lambda>_.
       mbind (write_events (upsert_events now ids 1 b uid events)) (\<lambda>_.
       mbind (write_events (trim_events (b_id b))) (\<lambda>_.
       mbind (tx_put (\<lambda>d. d\<lparr>db_snapshots := upsert_snapshot
                \<lparr>sr_instance_id = b_id b, sr_project_id = b_project_id b, sr_instance_uid = uid, sr_observed_at = taken, sr_payload = sn\<rparr>
                (db_snapshots d)\<rparr>)) (\<lambda>_.
       mret True))))))"

definition publish :: "int \<Rightarrow> binding_row \<Rightarrow> instance_snapshot \<Rightarrow> collector \<Rightarrow> collector" where
  "publish taken b sn c =
     (if oc_leader c \<and> (length (oc_samples c) < 10000 \<or> map_of (oc_samples c) (b_id b) \<noteq> None)
      then c\<lparr>oc_samples := AList.update (b_id b)
             \<lparr>sm_at = taken, sm_project = b_project_id b, sm_uid = the (b_kubernetes_uid b),
              sm_source = (case ss_statistics sn of None \<Rightarrow> ''operator-status'' | Some st \<Rightarrow> sx_source st), sm_snapshot = sn\<rparr>
             (oc_samples c)\<rparr>
      else c)"

definition save ::
  "'w collector_env \<Rightarrow> (nat \<Rightarrow> string) \<Rightarrow> binding_row \<Rightarrow> instance_snapshot \<Rightarrow> diagnostic_event list \<Rightarrow> ('w observatory, unit) action" where
  "save env ids b sn events =
     mbind (mget (\<lambda>t. sys_now (ob_sys t))) (\<lambda>taken.
     mbind (session env (transaction (save_tx ids taken b sn events))) (\<lambda>saved.
     set_collector (if saved then publish taken b sn else (\<lambda>c. c\<lparr>oc_samples := AList.delete (b_id b) (oc_samples c)\<rparr>))))"


section \<open>A tick\<close>

definition observed_rows :: "string \<Rightarrow> int \<Rightarrow> database \<Rightarrow> (binding_row \<times> project_row) list" where
  "observed_rows cursor now d =
     take 20 (sort_key (\<lambda>bp. b_id (fst bp))
       (List.map_filter (\<lambda>b.
          if b_kubernetes_uid b \<noteq> None \<and> observed_binding b \<and> cursor < b_id b
          then map_option (\<lambda>p. (b, p)) (sql_first (\<lambda>p. p_id p = b_project_id b) (db_projects d)) else None) (db_bindings d)))"

fun chunks_of_4 :: "'a list \<Rightarrow> 'a list list" where
  "chunks_of_4 [] = []"
| "chunks_of_4 (x # xs) = take 4 (x # xs) # chunks_of_4 (drop 4 (x # xs))"

fun observe_all ::
  "'w collector_env \<Rightarrow> (binding_row \<times> project_row) list \<Rightarrow>
   ('w observatory, (binding_row \<times> instance_snapshot \<times> diagnostic_event list) list) action" where
  "observe_all env [] = mret []"
| "observe_all env (bp # bps) =
     mbind (observe env bp) (\<lambda>(sn, events). mbind (observe_all env bps) (\<lambda>rest. mret ((fst bp, sn, events) # rest)))"

definition collect_batch :: "'w collector_env \<Rightarrow> (string \<Rightarrow> nat \<Rightarrow> string) \<Rightarrow> (binding_row \<times> project_row) list \<Rightarrow> ('w observatory, unit) action" where
  "collect_batch env ids batch =
     mbind (observe_all env batch) (\<lambda>observed. mfor observed (\<lambda>(b, sn, events). save env (ids (b_id b)) b sn events))"

text \<open>\<open>DELETE ... WHERE observed_at < now()-interval '30 days' ORDER BY observed_at LIMIT 1000\<close>, and the
  resolved alerts of that age, at most 1000 of them.\<close>

definition thirty_days :: int where
  "thirty_days = 2592000000"

definition expired_events :: "int \<Rightarrow> event_row list \<Rightarrow> string list" where
  "expired_events now rows = map er_id (take 1000 (sort_key er_observed_at (filter (\<lambda>r. er_observed_at r < now - thirty_days) rows)))"

fun drop_first :: "nat \<Rightarrow> ('a \<Rightarrow> bool) \<Rightarrow> 'a list \<Rightarrow> 'a list" where
  "drop_first n p [] = []"
| "drop_first 0 p xs = xs"
| "drop_first (Suc n) p (x # xs) = (if p x then drop_first n p xs else x # drop_first (Suc n) p xs)"

definition cleanup_events :: "int \<Rightarrow> database \<Rightarrow> database" where
  "cleanup_events now d = d\<lparr>db_events := filter (\<lambda>r. er_id r \<notin> set (expired_events now (db_events d))) (db_events d)\<rparr>"

definition cleanup_alerts :: "int \<Rightarrow> database \<Rightarrow> database" where
  "cleanup_alerts now d = d\<lparr>db_alerts :=
     drop_first 1000 (\<lambda>r. al_received_at r < now - thirty_days \<and> al_state r = Resolved) (db_alerts d)\<rparr>"

definition acquire :: "'w collector_env \<Rightarrow> ('w observatory, bool) action" where
  "acquire env =
     mbind (mget (\<lambda>t. oc_leader (ob_collector t))) (\<lambda>leader.
     if leader then mret True
     else mbind (awaited env (ce_lock env)) (\<lambda>acquired.
       mbind (if acquired then set_collector (\<lambda>c. c\<lparr>oc_leader := True\<rparr>) else mret ()) (\<lambda>_. mret acquired)))"

definition purge_samples :: "int \<Rightarrow> collector \<Rightarrow> collector" where
  "purge_samples now c = c\<lparr>oc_samples := filter (\<lambda>(k, s). now - 120000 \<le> sm_at s) (oc_samples c)\<rparr>"

definition collect_all :: "'w collector_env \<Rightarrow> (string \<Rightarrow> nat \<Rightarrow> string) \<Rightarrow> ('w observatory, bool) action" where
  "collect_all env ids =
     mbind (session env (ce_ping env)) (\<lambda>_.
     mbind (mget (\<lambda>t. oc_cursor (ob_collector t))) (\<lambda>cursor.
     mbind (session env (query (observed_rows cursor))) (\<lambda>rows.
     mbind (if rows = [] then set_collector (\<lambda>c. c\<lparr>oc_cursor := zero_uuid\<rparr>) else mret ()) (\<lambda>_.
     mbind (mfor (chunks_of_4 rows) (collect_batch env ids)) (\<lambda>_.
     mbind (if rows \<noteq> [] then set_collector (\<lambda>c. c\<lparr>oc_cursor := b_id (fst (last rows))\<rparr>) else mret ()) (\<lambda>_.
     mbind (mget (\<lambda>t. sys_now (ob_sys t))) (\<lambda>now.
     mbind (set_collector (purge_samples now)) (\<lambda>_.
     mbind (mget (\<lambda>t. oc_lastCleanup (ob_collector t))) (\<lambda>lastCleanup.
     mbind (if 3600000 < now - lastCleanup
            then mbind (session env (exec_sql cleanup_events)) (\<lambda>_.
                 mbind (session env (exec_sql cleanup_alerts)) (\<lambda>_.
                 mbind (mget (\<lambda>t. sys_now (ob_sys t))) (\<lambda>later.
                 set_collector (\<lambda>c. c\<lparr>oc_lastCleanup := later\<rparr>))))
            else mret ()) (\<lambda>_.
     mret (length rows = 20)))))))))))"

definition collector_tick :: "'w collector_env \<Rightarrow> (string \<Rightarrow> nat \<Rightarrow> string) \<Rightarrow> ('w observatory, bool) action" where
  "collector_tick env ids =
     mbind (acquire env) (\<lambda>acquired.
     if \<not> acquired then mret False
     else mcatch (collect_all env ids) (\<lambda>e.
       mbind (set_collector (\<lambda>c. if oc_leader c then lostLeadership c else c)) (\<lambda>_. mthrow e)))"

definition collector_close :: "'w collector_env \<Rightarrow> ('w observatory, unit) action" where
  "collector_close env =
     mbind (mget (\<lambda>t. oc_leader (ob_collector t))) (\<lambda>leader.
     mbind (set_collector (\<lambda>c. c\<lparr>oc_leader := False, oc_samples := []\<rparr>)) (\<lambda>_.
     if leader then mcatch (awaited env (ce_unlock env)) (\<lambda>_. mret ()) else mret ()))"

section \<open>Gauges\<close>

definition gauge_value :: "sample \<Rightarrow> string \<Rightarrow> rat option" where
  "gauge_value s name =
     (let sn = sm_snapshot s; st = ss_statistics sn; flag = (\<lambda>b. Some (if b then 1 else 0)) in
      if name = ''snapshot_timestamp_seconds'' then Some (of_int (sm_at s) / 1000)
      else if name = ''statistics_timestamp_seconds'' then map_option (\<lambda>x. of_int (sx_observedAt x) / 1000) st
      else if name = ''ready'' then flag (ss_phase sn = PhReady)
      else if name = ''expected_running'' then flag (ss_phase sn = PhReady \<or> ss_phase sn = PhStarting)
      else if name = ''statistics_available'' then
        (if ss_collection sn = ColUnsupported \<or> ss_collection sn = ColSuspended then None else flag (ss_collection sn = ColOk))
      else if name = ''used_bytes'' then map_option (\<lambda>x. of_int (sx_usedBytes x)) st
      else if name = ''capacity_bytes'' then map_option (\<lambda>x. of_int (sx_capacityBytes x)) st
      else if name = ''entries'' then map_option (\<lambda>x. of_int (sx_itemCount x)) st
      else None)"

text \<open>What one gauge exports: a value per label set, of the samples of the last two minutes; a later
  sample with the same labels replaces an earlier one.\<close>

definition gauge_values :: "int \<Rightarrow> collector \<Rightarrow> string \<Rightarrow> ((string \<times> string \<times> string) \<times> rat) list" where
  "gauge_values now c name =
     fold (\<lambda>(k, s) out. if 120000 < now - sm_at s then out
             else case gauge_value s name of None \<Rightarrow> out
                  | Some v \<Rightarrow> AList.update (sm_project s, sm_uid s, sm_source s) v out) (oc_samples c) []"

end
