(* ===== verification/Observability.thy ===== *)
theory Observability
  imports Backends Observation Instance_Routes
begin

text \<open>
  The routes of observability.ts and the two statistics routes of instance-routes.ts, and the
  reconciliation of alert history of alert-reconciliation.ts. The parsed query string of a request is
  an argument; a backend that is not configured is \<open>None\<close>. \<open>oo_active\<close> is the number of backend
  requests the process has under way. The text of a time is represented by the instant it denotes,
  where the code only stores or compares it. Random ids of audit rows, which nothing reads, are left
  out.
\<close>

section \<open>Options and targets\<close>

record 'w obs_options =
  oo_fetch :: "'w fetcher"
  oo_cluster :: string
  oo_metrics :: "(backend \<times> string) option"
  oo_logs :: "(backend \<times> string) option"
  oo_alerts :: "(backend \<times> string) option"
  oo_webhookToken :: "string option"
  oo_active :: "'w sys \<Rightarrow> nat"

abbreviation all_roles :: "role list" where
  "all_roles \<equiv> [Admin, Maintainer, Viewer]"

definition empty_query :: "unit schema" where
  "empty_query v = map_option (\<lambda>_. ()) (z_strict [] v)"

definition target_of :: "'w app_env \<Rightarrow> string \<Rightarrow> string \<Rightarrow> ('w sys, target) action" where
  "target_of env pid iid =
     mbind (pause env) (\<lambda>_.
     mbind (query (\<lambda>_ d. find_binding d pid iid)) (\<lambda>found.
     case found of
       None \<Rightarrow> http_error 404 ''Instance not found''
     | Some (b, p) \<Rightarrow>
         if \<not> truthy (b_kubernetes_uid b) then http_error 409 ''Instance identity has not been established''
         else mret \<lparr>tg_projectId = pid, tg_instanceUID = the (b_kubernetes_uid b), tg_namespace = p_namespace p,
                tg_template = b_template_name b, tg_version = (case b_template_version b of None \<Rightarrow> [] | Some v \<Rightarrow> v)\<rparr>))"

section \<open>Project overview\<close>

datatype freshness = NoData | Stale | DataError | DataOk

definition data_state :: "int \<Rightarrow> snapshot_row option \<Rightarrow> freshness" where
  "data_state now row =
     (case row of None \<Rightarrow> NoData
      | Some r \<Rightarrow> if 120000 < now - sr_observed_at r then Stale
          else if ss_collection (sr_payload r) = ColError then DataError else DataOk)"

record overview =
  ov_total :: nat
  ov_covered :: nat
  ov_truncated :: bool
  ov_items :: "(binding_row \<times> snapshot_row option \<times> freshness) list"

definition snapshot_of :: "database \<Rightarrow> binding_row \<Rightarrow> snapshot_row option" where
  "snapshot_of d b = sql_first (\<lambda>r. sr_instance_id r = b_id b \<and> Some (sr_instance_uid r) = b_kubernetes_uid b) (db_snapshots d)"

definition overview_rows :: "string \<Rightarrow> database \<Rightarrow> (binding_row \<times> snapshot_row option) list" where
  "overview_rows pid d =
     map (\<lambda>b. (b, snapshot_of d b)) (sort_key (\<lambda>b. (b_created_at b, b_id b))
       (filter (\<lambda>b. b_project_id b = pid \<and> b_lifecycle b \<noteq> Deleted \<and> b_lifecycle b \<noteq> Detached) (db_bindings d)))"

definition project_observability ::
  "'w app_env \<Rightarrow> http_request \<Rightarrow> json option \<Rightarrow> string \<Rightarrow> ('w sys, overview) action" where
  "project_observability env req params projectId =
     mbind (parse_uuid env projectId) (\<lambda>pid.
     mbind (projectAccess env req pid all_roles) (\<lambda>_.
     mbind (parse empty_query params) (\<lambda>_.
     mbind (pause env) (\<lambda>_.
     mbind (query (\<lambda>_ d. overview_rows pid d)) (\<lambda>rows.
     mbind (mget sys_now) (\<lambda>now.
     let items = map (\<lambda>(b, r). (b, r, data_state now r)) (take 500 rows) in
     mret \<lparr>ov_total = length rows, ov_covered = length (filter (\<lambda>(_, _, st). st = DataOk) items),
       ov_truncated = (length items < length rows), ov_items = items\<rparr>))))))"

section \<open>Metrics and logs\<close>

definition group_schema :: "group schema" where
  "group_schema v = Option.bind (z_string v) (\<lambda>s.
     map_of [(''capacity'', Capacity), (''lookups'', Lookups), (''resources'', Resources), (''performance'', Performance)] s)"

definition metrics_query :: "(window \<times> group) schema" where
  "metrics_query v =
     Option.bind (z_strict [''window'', ''group''] v) (\<lambda>fs.
     Option.bind (z_field fs ''window'' (z_default W1h historyWindow)) (\<lambda>w.
     Option.bind (z_field fs ''group'' (z_default Capacity group_schema)) (\<lambda>g. Some (w, g))))"

datatype 'a answer = NotConfigured | Failed_Answer | Answer 'a

text \<open>\<open>try { return await read() } catch { return { state: "error" } }\<close>\<close>

definition answered :: "('s, 'a) action \<Rightarrow> ('s, 'a answer) action" where
  "answered m = mcatch (mbind m (\<lambda>x. mret (Answer x))) (\<lambda>_. mret Failed_Answer)"

definition get_metrics ::
  "'w app_env \<Rightarrow> 'w obs_options \<Rightarrow> http_request \<Rightarrow> json option \<Rightarrow> string \<Rightarrow> string \<Rightarrow> ('w sys, metrics_reply answer) action" where
  "get_metrics env oo req params projectId instanceId =
     mbind (parse_uuid env projectId) (\<lambda>pid.
     mbind (parse_uuid env instanceId) (\<lambda>iid.
     mbind (projectAccess env req pid all_roles) (\<lambda>_.
     mbind (parse metrics_query params) (\<lambda>(w, g).
     mbind (target_of env pid iid) (\<lambda>t.
     case oo_metrics oo of
       None \<Rightarrow> mret NotConfigured
     | Some (be, cluster) \<Rightarrow>
         mbind (mget (oo_active oo)) (\<lambda>n. answered (read_metrics (oo_fetch oo) be n cluster t g w)))))))"

text \<open>\<open>z.coerce.number().int().min(1).max(60)\<close> on a query parameter, which is text.\<close>

definition minutes_schema :: "int schema" where
  "minutes_schema v = Option.bind (z_string v) (\<lambda>s. Option.bind (finite_number s) (\<lambda>r. z_int 1 60 (Some (JNum r))))"

definition logs_query :: "(int \<times> string option) schema" where
  "logs_query v =
     Option.bind (z_strict [''minutes'', ''level''] v) (\<lambda>fs.
     Option.bind (z_field fs ''minutes'' (z_default 15 minutes_schema)) (\<lambda>m.
     Option.bind (z_field fs ''level'' (z_optional (z_enum [''info'', ''warn'', ''error'']))) (\<lambda>l. Some (m, l))))"

definition get_logs ::
  "'w app_env \<Rightarrow> 'w obs_options \<Rightarrow> http_request \<Rightarrow> json option \<Rightarrow> string \<Rightarrow> string \<Rightarrow> ('w sys, logs_reply answer) action" where
  "get_logs env oo req params projectId instanceId =
     mbind (parse_uuid env projectId) (\<lambda>pid.
     mbind (parse_uuid env instanceId) (\<lambda>iid.
     mbind (projectAccess env req pid [Admin, Maintainer]) (\<lambda>_.
     mbind (parse logs_query params) (\<lambda>(m, l).
     mbind (target_of env pid iid) (\<lambda>t.
     case oo_logs oo of
       None \<Rightarrow> mret NotConfigured
     | Some (be, cluster) \<Rightarrow>
         mbind (mget (oo_active oo)) (\<lambda>n. answered (read_logs (oo_fetch oo) be n cluster t m l)))))))"

section \<open>Events\<close>

datatype timeline_item = Event_Item event_row | Operation_Item op_row

fun item_time :: "timeline_item \<Rightarrow> int" where
  "item_time (Event_Item r) = er_observed_at r"
| "item_time (Operation_Item r) = o_updated_at r"

definition timeline :: "string \<Rightarrow> string \<Rightarrow> string \<Rightarrow> database \<Rightarrow> timeline_item list" where
  "timeline pid uid iid d =
     take 101 (sort_key (\<lambda>x. - item_time x)
       (map Event_Item (filter (\<lambda>r. er_project_id r = pid \<and> er_instance_uid r = uid \<and> er_instance_id r = iid) (db_events d)) @
        map Operation_Item (filter (\<lambda>r. o_project_id r = pid \<and> o_instance_id r = Some iid) (db_operations d))))"

record events_reply =
  ey_state :: string
  ey_collectionState :: string
  ey_truncated :: bool
  ey_items :: "timeline_item list"

definition collection_state :: "int \<Rightarrow> snapshot_row option \<Rightarrow> string" where
  "collection_state now row =
     (case row of None \<Rightarrow> ''no_data''
      | Some r \<Rightarrow> if 120000 < now - sr_observed_at r then ''stale''
          else (case ss_eventsCollection (sr_payload r) of None \<Rightarrow> ''unsupported'' | Some s \<Rightarrow> s))"

definition get_events ::
  "'w app_env \<Rightarrow> http_request \<Rightarrow> json option \<Rightarrow> string \<Rightarrow> string \<Rightarrow> ('w sys, events_reply) action" where
  "get_events env req params projectId instanceId =
     mbind (parse_uuid env projectId) (\<lambda>pid.
     mbind (parse_uuid env instanceId) (\<lambda>iid.
     mbind (projectAccess env req pid all_roles) (\<lambda>_.
     mbind (parse empty_query params) (\<lambda>_.
     mbind (target_of env pid iid) (\<lambda>t.
     mbind (pause env) (\<lambda>_.
     mbind (query (\<lambda>_ d. timeline pid (tg_instanceUID t) iid d)) (\<lambda>rows.
     mbind (pause env) (\<lambda>_.
     mbind (query (\<lambda>_ d. sql_first (\<lambda>r. sr_instance_id r = iid \<and> sr_instance_uid r = tg_instanceUID t) (db_snapshots d))) (\<lambda>row.
     mbind (mget sys_now) (\<lambda>now.
     mret \<lparr>ey_state = (if rows = [] then ''no_data'' else ''ok''), ey_collectionState = collection_state now row,
       ey_truncated = (100 < length rows), ey_items = take 100 rows\<rparr>))))))))))"


section \<open>Active alerts and silences\<close>

definition named_alerts :: "binding_row list \<Rightarrow> observed_alert list \<Rightarrow> (observed_alert \<times> string \<times> string) list" where
  "named_alerts rows alerts =
     List.map_filter (\<lambda>a.
       if \<not> truthy (oa_instanceUID a) then None
       else map_option (\<lambda>b. (a, b_id b, b_display_name b)) (sql_first (\<lambda>b. b_kubernetes_uid b = oa_instanceUID a) (rev rows))) alerts"

definition alert_bindings :: "string \<Rightarrow> observed_alert list \<Rightarrow> database \<Rightarrow> binding_row list" where
  "alert_bindings pid alerts d =
     filter (\<lambda>b. b_project_id b = pid \<and> b_kubernetes_uid b \<in> set (filter truthy (map oa_instanceUID alerts))) (db_bindings d)"

definition get_alerts ::
  "'w app_env \<Rightarrow> 'w obs_options \<Rightarrow> http_request \<Rightarrow> json option \<Rightarrow> string \<Rightarrow>
   ('w sys, (observed_alert \<times> string \<times> string) list answer) action" where
  "get_alerts env oo req params projectId =
     mbind (parse_uuid env projectId) (\<lambda>pid.
     mbind (projectAccess env req pid all_roles) (\<lambda>_.
     mbind (parse empty_query params) (\<lambda>_.
     case oo_alerts oo of
       None \<Rightarrow> mret NotConfigured
     | Some (be, cluster) \<Rightarrow>
         mbind (mget (oo_active oo)) (\<lambda>n. answered
           (mbind (read_alerts (oo_fetch oo) be n cluster pid None) (\<lambda>alerts.
            mbind (query (\<lambda>_ d. alert_bindings pid alerts d)) (\<lambda>rows.
            mret (named_alerts rows alerts))))))))"

definition silence_body :: "(string \<times> int) schema" where
  "silence_body v =
     Option.bind (z_strict [''fingerprint'', ''minutes''] v) (\<lambda>fs.
     Option.bind (z_field fs ''fingerprint'' (z_check z_string fingerprint_text)) (\<lambda>fp.
     Option.bind (z_field fs ''minutes'' (z_int 5 1440)) (\<lambda>m. Some (fp, m))))"

definition audit_now :: "string \<Rightarrow> string \<Rightarrow> string \<Rightarrow> string \<Rightarrow> json \<Rightarrow> ('w sys, unit) action" where
  "audit_now actorId pid iid act details =
     transaction (\<lambda>_. audit (Some actorId) (Some pid) (Some iid) None act details)"

text \<open>From the record of the request on: the audit row is written before the alert manager is asked.\<close>

definition record_silence ::
  "'w app_env \<Rightarrow> 'w obs_options \<Rightarrow> string \<Rightarrow> actor \<Rightarrow> string \<Rightarrow> string \<Rightarrow> string \<Rightarrow> int \<Rightarrow> target \<Rightarrow> ('w sys, string) action" where
  "record_silence env oo requestId actor pid iid fp minutes t =
     (case oo_alerts oo of
        None \<Rightarrow> http_error 503 ''Alerting is not configured''
      | Some (be, cluster) \<Rightarrow>
          mbind (pause env) (\<lambda>_.
          mbind (audit_now (ac_id actor) pid iid ''alert.silence.requested''
                   (JObj [(''fingerprint'', JStr fp), (''minutes'', JNum (of_int minutes))])) (\<lambda>_.
          mbind (mcatch (silence (oo_fetch oo) be (oo_active oo) (en_uuid env) cluster pid (tg_instanceUID t) fp minutes)
                   (\<lambda>_. http_error 503 ''Silence outcome unavailable; check active alerts before retrying'')) (\<lambda>result.
          mbind (pause env) (\<lambda>_.
          mbind (audit_now (ac_id actor) pid iid ''alert.silence.created''
                   (JObj [(''silenceID'', JStr result), (''requestId'', JStr requestId)])) (\<lambda>_.
          mret result))))))"

definition post_silence ::
  "'w app_env \<Rightarrow> 'w obs_options \<Rightarrow> string \<Rightarrow> http_request \<Rightarrow> string \<Rightarrow> string \<Rightarrow> ('w sys, string) action" where
  "post_silence env oo requestId req projectId instanceId =
     mbind (parse_uuid env projectId) (\<lambda>pid.
     mbind (parse_uuid env instanceId) (\<lambda>iid.
     mbind (projectAccess env req pid [Admin, Maintainer]) (\<lambda>actor.
     mbind (parse silence_body (hr_body req)) (\<lambda>(fp, minutes).
     mbind (target_of env pid iid) (record_silence env oo requestId actor pid iid fp minutes)))))"

section \<open>Alert history\<close>

definition history_rows :: "string \<Rightarrow> database \<Rightarrow> (alert_row \<times> string \<times> string) list" where
  "history_rows pid d =
     take 101 (sort_key (\<lambda>x. - al_received_at (fst x))
       (concat (map (\<lambda>a. map (\<lambda>b. (a, b_id b, b_display_name b))
            (filter (\<lambda>b. b_project_id b = al_project_id a \<and> b_kubernetes_uid b = Some (al_instance_uid a)) (db_bindings d)))
          (filter (\<lambda>a. al_project_id a = pid) (db_alerts d)))))"

definition get_alert_history ::
  "'w app_env \<Rightarrow> 'w obs_options \<Rightarrow> http_request \<Rightarrow> json option \<Rightarrow> string \<Rightarrow>
   ('w sys, string \<times> bool \<times> (alert_row \<times> string \<times> string) list) action" where
  "get_alert_history env oo req params projectId =
     mbind (parse_uuid env projectId) (\<lambda>pid.
     mbind (projectAccess env req pid all_roles) (\<lambda>_.
     mbind (parse empty_query params) (\<lambda>_.
     mbind (pause env) (\<lambda>_.
     mbind (query (\<lambda>_ d. history_rows pid d)) (\<lambda>rows.
     mret (if truthy (oo_webhookToken oo) then ''ok'' else ''not_configured'', 100 < length rows, take 100 rows))))))"

section \<open>The alert webhook\<close>

record hook_alert =
  ha_state :: alert_state
  ha_fingerprint :: string
  ha_startsAt :: string
  ha_endsAt :: string
  ha_labels :: strmap
  ha_annotations :: "strmap option"

definition z_state :: "alert_state schema" where
  "z_state v = Option.bind (z_string v) (\<lambda>s. map_of [(''firing'', Firing), (''resolved'', Resolved)] s)"

text \<open>\<open>z.record(z.string().max(128), z.string().max(n))\<close>\<close>

definition z_labels :: "nat \<Rightarrow> strmap schema" where
  "z_labels n = z_check (z_strings n) (list_all (\<lambda>(k, _). length k \<le> 128))"

definition hook_schema :: "(string \<Rightarrow> bool) \<Rightarrow> hook_alert schema" where
  "hook_schema isIso v =
     Option.bind (z_object v) (\<lambda>fs.
     Option.bind (z_field fs ''status'' z_state) (\<lambda>st.
     Option.bind (z_field fs ''fingerprint'' (z_check z_string fingerprint_text)) (\<lambda>fp.
     Option.bind (z_field fs ''startsAt'' (z_check z_string isIso)) (\<lambda>starts_at.
     Option.bind (z_field fs ''endsAt'' (z_check z_string isIso)) (\<lambda>ends_at.
     Option.bind (z_field fs ''labels'' (z_labels 512)) (\<lambda>lbs.
     Option.bind (z_field fs ''annotations'' (z_optional (z_labels 4096))) (\<lambda>notes.
     Some \<lparr>ha_state = st, ha_fingerprint = fp, ha_startsAt = starts_at, ha_endsAt = ends_at, ha_labels = lbs, ha_annotations = notes\<rparr>)))))))"

definition hook_body :: "(string \<Rightarrow> bool) \<Rightarrow> hook_alert list schema" where
  "hook_body isIso v = Option.bind (z_object v) (\<lambda>fs. z_field fs ''alerts'' (z_max 50 (z_array (hook_schema isIso))))"

definition hook_summary :: "hook_alert \<Rightarrow> alert_summary" where
  "hook_summary a = \<lparr>am_name = sanitizeLog (case map_of (ha_labels a) ''alertname'' of None \<Rightarrow> ''Unknown'' | Some s \<Rightarrow> s),
     am_severity = severity_of (ha_labels a), am_summary = alert_note (ha_annotations a)\<rparr>"

definition same_alert :: "alert_row \<Rightarrow> alert_row \<Rightarrow> bool" where
  "same_alert a b \<longleftrightarrow> al_project_id a = al_project_id b \<and> al_instance_uid a = al_instance_uid b \<and>
     al_fingerprint a = al_fingerprint b \<and> al_starts_at a = al_starts_at b"

definition merge_alert :: "int \<Rightarrow> alert_row \<Rightarrow> alert_row \<Rightarrow> alert_row" where
  "merge_alert now new old = old\<lparr>
     al_state := (if al_state old = Resolved then Resolved else al_state new),
     al_ends_at := (if al_state new = Resolved then al_ends_at new else al_ends_at old),
     al_received_at := now, al_payload := al_payload new\<rparr>"

definition upsert_alert :: "int \<Rightarrow> alert_row \<Rightarrow> alert_row list \<Rightarrow> alert_row list" where
  "upsert_alert now new rows =
     (if list_ex (same_alert new) rows then sql_update (same_alert new) (merge_alert now new) rows else rows @ [new])"

definition alert_of :: "hook_alert \<Rightarrow> string \<Rightarrow> string \<Rightarrow> int \<Rightarrow> int option \<Rightarrow> int \<Rightarrow> alert_row" where
  "alert_of a pid uid starts_at ends_at now =
     \<lparr>al_project_id = pid, al_instance_uid = uid, al_fingerprint = ha_fingerprint a, al_starts_at = starts_at,
      al_ends_at = ends_at, al_received_at = now, al_state = ha_state a,
      al_active_confirmed = None, al_checked_at = None, al_payload = hook_summary a\<rparr>"

text \<open>The database reads the two timestamps itself and refuses one it cannot read.\<close>

definition store_alert ::
  "'w app_env \<Rightarrow> 'w obs_options \<Rightarrow> hook_alert \<Rightarrow> ('w sys, unit) action" where
  "store_alert env oo a =
     (case (map_of (ha_labels a) ''expbuild_project_id'', map_of (ha_labels a) ''expbuild_instance_uid'') of
        (Some pid, Some uid) \<Rightarrow>
          if map_of (ha_labels a) ''expbuild_cluster_id'' \<noteq> Some (oo_cluster oo) \<or> \<not> en_uuid env pid \<or> \<not> identity_text uid then mret ()
          else
            mbind (pause env) (\<lambda>_.
            mbind (query (\<lambda>_ d. list_ex (\<lambda>b. b_project_id b = pid \<and> b_kubernetes_uid b = Some uid) (db_bindings d))) (\<lambda>bound.
            if \<not> bound then mret ()
            else
              mbind (pause env) (\<lambda>_.
              let ends_at = (if ha_state a = Resolved then ft_date (oo_fetch oo) (ha_endsAt a) else None) in
              case ft_date (oo_fetch oo) (ha_startsAt a) of
                None \<Rightarrow> mthrow (PgError ''22007'')
              | Some starts_at \<Rightarrow>
                  mbind (mthrow_if (ha_state a = Resolved \<and> ends_at = None) (PgError ''22007'')) (\<lambda>_.
                  exec_sql (\<lambda>now d. d\<lparr>db_alerts := upsert_alert now (alert_of a pid uid starts_at ends_at now) (db_alerts d)\<rparr>)))))
      | _ \<Rightarrow> mret ())"

definition post_alerts :: "'w app_env \<Rightarrow> 'w obs_options \<Rightarrow> http_request \<Rightarrow> ('w sys, unit) action" where
  "post_alerts env oo req =
     (if \<not> authorizedToken (hr_authorization req) (oo_webhookToken oo) then http_error 401 ''Alert authentication required''
      else mbind (parse (hook_body (ft_iso (oo_fetch oo))) (hr_body req)) (\<lambda>alerts. mfor alerts (store_alert env oo)))"

section \<open>Reconciliation of alert history\<close>

definition firing_projects :: "string \<Rightarrow> int \<Rightarrow> database \<Rightarrow> string list" where
  "firing_projects cursor now d =
     take 10 (remdups_adj (sort (map al_project_id (filter (\<lambda>a. al_state a = Firing \<and> cursor < al_project_id a) (db_alerts d)))))"

text \<open>\<open>`${a.instanceUID}/${a.fingerprint}/${new Date(a.startsAt).toISOString()}`\<close>: the parts contain no
  slash where they can match, so the text is represented by its parts.\<close>

definition active_key :: "'w fetcher \<Rightarrow> observed_alert \<Rightarrow> (string \<times> string \<times> int) result" where
  "active_key ft a =
     (case ft_date ft (oa_startsAt a) of
        None \<Rightarrow> Inl (JsError ''Invalid time value'')
      | Some t \<Rightarrow> Inr (case oa_instanceUID a of None \<Rightarrow> ''null'' | Some u \<Rightarrow> u, oa_fingerprint a, t))"

definition confirm_alerts :: "string \<Rightarrow> (string \<times> string \<times> int) list \<Rightarrow> int \<Rightarrow> database \<Rightarrow> database" where
  "confirm_alerts pid keys now d = d\<lparr>db_alerts :=
     sql_update (\<lambda>a. al_project_id a = pid \<and> al_state a = Firing)
       (\<lambda>a. a\<lparr>al_active_confirmed := Some ((al_instance_uid a, al_fingerprint a, al_starts_at a) \<in> set keys), al_checked_at := Some now\<rparr>)
       (db_alerts d)\<rparr>"

definition reconcile_project ::
  "'w fetcher \<Rightarrow> (string \<Rightarrow> ('w sys, observed_alert list) action) \<Rightarrow> string \<Rightarrow> ('w sys, unit) action" where
  "reconcile_project ft reader pid =
     mcatch (mbind (reader pid) (\<lambda>active.
             mbind (mlift (rmap (active_key ft) active)) (\<lambda>keys.
             exec_sql (confirm_alerts pid keys))))
       (\<lambda>_. mret ())"

definition reconciliation_tick ::
  "'w fetcher \<Rightarrow> (string \<Rightarrow> ('w sys, observed_alert list) action) \<Rightarrow> ('w sys, bool) action \<Rightarrow> string \<Rightarrow> ('w sys, string) action" where
  "reconciliation_tick ft reader lock cursor =
     mbind lock (\<lambda>acquired.
     if \<not> acquired then mret cursor
     else
       mbind (query (firing_projects cursor)) (\<lambda>projects.
       mbind (mfor projects (reconcile_project ft reader)) (\<lambda>_.
       mret (if length projects = 10 then last projects else zero_uuid))))"

section \<open>Statistics of an instance\<close>

record 'w statistics_options =
  so_history :: "(string \<Rightarrow> string \<Rightarrow> window \<Rightarrow> ('w sys, history) action) option"
  so_statistics :: "(cache_object \<Rightarrow> ('w sys, instance_statistics) action) option"

definition history_query :: "window schema" where
  "history_query v = Option.bind (z_strict [''window''] v) (\<lambda>fs. z_field fs ''window'' (z_default W1h historyWindow))"

definition get_history ::
  "'w app_env \<Rightarrow> 'w statistics_options \<Rightarrow> http_request \<Rightarrow> json option \<Rightarrow> string \<Rightarrow> string \<Rightarrow> ('w sys, history) action" where
  "get_history env so req params projectId instanceId =
     mbind (parse_uuid env projectId) (\<lambda>pid.
     mbind (parse_uuid env instanceId) (\<lambda>iid.
     mbind (projectAccess env req pid all_roles) (\<lambda>_.
     mbind (parse history_query params) (\<lambda>w.
     mbind (pause env) (\<lambda>_.
     mbind (binding pid iid) (\<lambda>(b, p).
     if \<not> truthy (b_kubernetes_uid b) then http_error 409 ''Instance identity has not been established''
     else if \<not> (case instanceCapabilities (b_template_name b) (b_template_version b) of None \<Rightarrow> False | Some cap \<Rightarrow> cap_lookupHistory cap)
     then http_error 409 ''This template does not support lookup history''
     else case so_history so of
       None \<Rightarrow> http_error 503 ''Prometheus history is not configured''
     | Some f \<Rightarrow> mcatch (f pid (the (b_kubernetes_uid b)) w) (\<lambda>_. http_error 503 ''Lookup history is temporarily unavailable'')))))))"

definition get_statistics ::
  "'w app_env \<Rightarrow> 'w instance_options \<Rightarrow> 'w statistics_options \<Rightarrow> http_request \<Rightarrow> string \<Rightarrow> string \<Rightarrow> ('w sys, instance_statistics) action" where
  "get_statistics env opts so req projectId instanceId =
     mbind (parse_uuid env projectId) (\<lambda>pid.
     mbind (parse_uuid env instanceId) (\<lambda>iid.
     mbind (projectAccess env req pid all_roles) (\<lambda>_.
     mbind (pause env) (\<lambda>_.
     mbind (binding pid iid) (\<lambda>bp.
     mbind (readOwned opts bp) (\<lambda>found.
     case found of
       None \<Rightarrow> http_error 409 ''Instance is not available''
     | Some current \<Rightarrow>
         if truthy (om_deletionTimestamp (co_metadata current)) then http_error 409 ''Instance is not available''
         else if sp_desiredState (co_spec current) \<noteq> ''Running'' then http_error 409 ''Statistics are unavailable while the instance is suspended''
         else if \<not> (case instanceCapabilities (tr_name (sp_templateRef (co_spec current))) (Some (tr_version (sp_templateRef (co_spec current))))
                     of None \<Rightarrow> False | Some cap \<Rightarrow> cap_statistics cap)
         then http_error 409 ''This template does not support engine statistics''
         else case so_statistics so of
           None \<Rightarrow> http_error 503 ''Statistics collection is not configured''
         | Some f \<Rightarrow> mcatch (f current) (\<lambda>_. http_error 503 ''Engine statistics are temporarily unavailable'')))))))"

end
