(* ===== verification/Telemetry.thy ===== *)
theory Telemetry
  imports Observability
begin

text \<open>
  telemetry.ts: the counters and gauges the process exports, the hooks that feed them from every HTTP
  request, the wrapper of the background workers, the view of the operation queue, and the two routes
  that publish them. A counter or gauge is an association list from label values to its value, a
  histogram the list of what was observed, with its labels; \<open>Gauge.set\<close> and \<open>Counter.inc\<close> replace or add
  an entry. A request object, the key of the WeakMap \<open>starts\<close>, is a number. The clock in milliseconds
  stands for \<open>performance.now()\<close> too. Names, help texts and bucket bounds of the metrics and the default
  metrics of the process are configuration of the library and are left out.
\<close>

section \<open>State\<close>

record worker_state =
  wk_lastSuccess :: "int option"
  wk_lastFailure :: "int option"

record telemetry =
  tm_clusterId :: string
  tm_requests :: "((string \<times> string \<times> string) \<times> nat) list"
  tm_duration :: "((string \<times> string) \<times> rat) list"
  tm_inflight :: int
  tm_starts :: "(nat \<times> int) list"
  tm_workerRuns :: "((string \<times> string) \<times> nat) list"
  tm_workerDuration :: "(string \<times> rat) list"
  tm_workerSuccess :: "(string \<times> rat) list"
  tm_workers :: "(string \<times> worker_state) list"
  tm_completedOperations :: "((op_kind \<times> op_state) \<times> nat) list"
  tm_operationDuration :: "((op_kind \<times> op_state) \<times> rat) list"
  tm_queue :: "((string \<times> op_state) \<times> nat) list"
  tm_oldest :: "((string \<times> op_state) \<times> rat) list"
  tm_connections :: "(string \<times> nat) list"
  tm_controlSnapshot :: "rat option"

definition counted_once :: "'k \<Rightarrow> ('k \<times> nat) list \<Rightarrow> ('k \<times> nat) list" where
  "counted_once k xs = AList.update k (case map_of xs k of None \<Rightarrow> 1 | Some n \<Rightarrow> n + 1) xs"

definition validToken :: "string \<Rightarrow> bool" where
  "validToken token \<longleftrightarrow> 32 \<le> length token \<and> length token \<le> 8192 \<and> bearer_text token"

text \<open>\<open>/^[a-zA-Z0-9][a-zA-Z0-9-]{0,62}$/\<close>\<close>

definition cluster_text :: "string \<Rightarrow> bool" where
  "cluster_text s \<longleftrightarrow> s \<noteq> [] \<and> length s \<le> 63 \<and> is_alnum (hd s) \<and> list_all (\<lambda>c. is_alnum c \<or> c = CHR ''-'') (tl s)"

definition new_Telemetry :: "string \<Rightarrow> telemetry result" where
  "new_Telemetry clusterId =
     throw_if (\<not> cluster_text clusterId) (JsError ''Invalid observability cluster ID'')
       (Inr \<lparr>tm_clusterId = clusterId, tm_requests = [], tm_duration = [], tm_inflight = 0, tm_starts = [],
          tm_workerRuns = [], tm_workerDuration = [], tm_workerSuccess = [], tm_workers = [],
          tm_completedOperations = [], tm_operationDuration = [], tm_queue = [], tm_oldest = [],
          tm_connections = [], tm_controlSnapshot = None\<rparr>)"

text \<open>The checks made when the hooks and the observation routes are registered.\<close>

definition attach :: "string option \<Rightarrow> unit result" where
  "attach scrapeToken = throw_if (scrapeToken \<noteq> None \<and> \<not> validToken (the scrapeToken)) (JsError ''Invalid metrics scrape token'') (Inr ())"

definition registerObservability :: "'w obs_options \<Rightarrow> unit result" where
  "registerObservability oo =
     throw_if (oo_webhookToken oo \<noteq> None \<and> \<not> validToken (the (oo_webhookToken oo))) (JsError ''Invalid alert webhook token'') (Inr ())"

section \<open>Workers\<close>

record 'w monitored =
  md_sys :: "'w sys"
  md_telemetry :: telemetry

definition md_now :: "'w monitored \<Rightarrow> int" where
  "md_now t = sys_now (md_sys t)"

definition set_telemetry :: "(telemetry \<Rightarrow> telemetry) \<Rightarrow> ('w monitored, unit) action" where
  "set_telemetry f = mput (\<lambda>t. t\<lparr>md_telemetry := f (md_telemetry t)\<rparr>)"

definition worker_of :: "telemetry \<Rightarrow> string \<Rightarrow> worker_state" where
  "worker_of tm w = (case map_of (tm_workers tm) w of None \<Rightarrow> \<lparr>wk_lastSuccess = None, wk_lastFailure = None\<rparr> | Some st \<Rightarrow> st)"

definition enter_worker :: "string \<Rightarrow> telemetry \<Rightarrow> telemetry" where
  "enter_worker w tm = tm\<lparr>tm_workers := AList.update w (worker_of tm w) (tm_workers tm)\<rparr>"

definition worker_succeeded :: "string \<Rightarrow> int \<Rightarrow> telemetry \<Rightarrow> telemetry" where
  "worker_succeeded w now tm = tm\<lparr>
     tm_workers := AList.update w ((worker_of tm w)\<lparr>wk_lastSuccess := Some now\<rparr>) (tm_workers tm),
     tm_workerSuccess := AList.update w (of_int now / 1000) (tm_workerSuccess tm),
     tm_workerRuns := counted_once (w, ''success'') (tm_workerRuns tm)\<rparr>"

definition worker_failed :: "string \<Rightarrow> int \<Rightarrow> telemetry \<Rightarrow> telemetry" where
  "worker_failed w now tm = tm\<lparr>
     tm_workers := AList.update w ((worker_of tm w)\<lparr>wk_lastFailure := Some now\<rparr>) (tm_workers tm),
     tm_workerRuns := counted_once (w, ''error'') (tm_workerRuns tm)\<rparr>"

definition worker_timed :: "string \<Rightarrow> int \<Rightarrow> int \<Rightarrow> telemetry \<Rightarrow> telemetry" where
  "worker_timed w begun now tm = tm\<lparr>tm_workerDuration := tm_workerDuration tm @ [(w, of_int (now - begun) / 1000)]\<rparr>"

definition telemetry_run :: "string \<Rightarrow> ('w monitored, 'a) action \<Rightarrow> ('w monitored, 'a) action" where
  "telemetry_run w fn =
     mbind (mget md_now) (\<lambda>begun.
     mbind (set_telemetry (enter_worker w)) (\<lambda>_.
     \<lambda>t. case fn t of (t', r) \<Rightarrow>
       (t'\<lparr>md_telemetry := worker_timed w begun (md_now t')
             ((case r of Inr _ \<Rightarrow> worker_succeeded w (md_now t') | Inl _ \<Rightarrow> worker_failed w (md_now t')) (md_telemetry t'))\<rparr>, r)))"

text \<open>What \<open>OperationWorker.finish\<close> reports after its transaction has committed.\<close>

definition count_completion :: "op_kind \<Rightarrow> op_state \<Rightarrow> int \<Rightarrow> int \<Rightarrow> telemetry \<Rightarrow> telemetry" where
  "count_completion k st created now tm = tm\<lparr>
     tm_completedOperations := counted_once (k, st) (tm_completedOperations tm),
     tm_operationDuration := tm_operationDuration tm @ [((k, st), max 0 (of_int (now - created) / 1000))]\<rparr>"

section \<open>The operation queue\<close>

fun kind_text :: "op_kind \<Rightarrow> string" where
  "kind_text ProjectCreate = ''project.create''"
| "kind_text InstanceCreate = ''instance.create''"
| "kind_text InstanceReclaim = ''instance.reclaim''"
| "kind_text InstanceUpdate = ''instance.update''"
| "kind_text InstanceRotate = ''instance.rotate''"
| "kind_text InstanceDelete = ''instance.delete''"
| "kind_text VolumeDelete = ''volume.delete''"
| "kind_text (OtherKind s) = s"

definition known_kinds :: "string list" where
  "known_kinds = [''project.create'', ''instance.create'', ''instance.update'', ''instance.delete'', ''instance.rotate'',
     ''instance.reclaim'', ''volume.delete'']"

definition kind_label :: "op_kind \<Rightarrow> string" where
  "kind_label k = (if kind_text k \<in> set known_kinds then kind_text k else ''other'')"

record queue_row =
  qr_kind :: op_kind
  qr_state :: op_state
  qr_count :: nat
  qr_age :: rat

text \<open>\<open>SELECT kind,state,count(*),extract(epoch FROM now()-min(created_at)) ... GROUP BY kind,state\<close>\<close>

definition queue_rows :: "int \<Rightarrow> database \<Rightarrow> queue_row list" where
  "queue_rows now d =
     (let waiting = filter (\<lambda>r. unfinished (o_state r)) (db_operations d)
      in map (\<lambda>(k, st).
           let rows = filter (\<lambda>r. o_kind r = k \<and> o_state r = st) waiting
           in \<lparr>qr_kind = k, qr_state = st, qr_count = length rows,
               qr_age = of_int (now - Min (set (map o_created_at rows))) / 1000\<rparr>)
         (remdups (map (\<lambda>r. (o_kind r, o_state r)) waiting)))"

record pool_counts =
  pc_total :: nat
  pc_idle :: nat
  pc_waiting :: nat

definition observed_queue :: "queue_row list \<Rightarrow> pool_counts \<Rightarrow> int \<Rightarrow> telemetry \<Rightarrow> telemetry" where
  "observed_queue rows pc now tm = tm\<lparr>
     tm_queue := fold (\<lambda>r. AList.update (kind_label (qr_kind r), qr_state r) (qr_count r)) rows [],
     tm_oldest := fold (\<lambda>r. AList.update (kind_label (qr_kind r), qr_state r) (max 0 (qr_age r))) rows [],
     tm_connections := fold (\<lambda>(k, v). AList.update k v)
       [(''total'', pc_total pc), (''idle'', pc_idle pc), (''waiting'', pc_waiting pc)] (tm_connections tm),
     tm_controlSnapshot := Some (of_int now / 1000)\<rparr>"

definition observeControlPlane :: "pool_counts \<Rightarrow> ('w monitored, unit) action" where
  "observeControlPlane pc t =
     (let now = md_now t
      in (t\<lparr>md_telemetry := observed_queue (queue_rows now (sys_db (md_sys t))) pc now (md_telemetry t)\<rparr>, Inr ()))"

section \<open>Request hooks\<close>

definition on_request :: "nat \<Rightarrow> int \<Rightarrow> telemetry \<Rightarrow> telemetry" where
  "on_request r now tm = tm\<lparr>tm_starts := AList.update r now (tm_starts tm), tm_inflight := tm_inflight tm + 1\<rparr>"

definition finish_request :: "nat \<Rightarrow> telemetry \<Rightarrow> telemetry" where
  "finish_request r tm =
     (if map_of (tm_starts tm) r \<noteq> None
      then tm\<lparr>tm_inflight := tm_inflight tm - 1, tm_starts := AList.delete r (tm_starts tm)\<rparr> else tm)"

definition route_label :: "string option \<Rightarrow> string" where
  "route_label route = (case route of None \<Rightarrow> ''unmatched'' | Some u \<Rightarrow> u)"

definition method_label :: "string \<Rightarrow> string" where
  "method_label m = (if m \<in> {''GET'', ''POST'', ''PUT'', ''PATCH'', ''DELETE'', ''HEAD'', ''OPTIONS''} then m else ''OTHER'')"

definition status_class :: "nat \<Rightarrow> string" where
  "status_class status = show_nat (status div 100) @ ''xx''"

definition on_response :: "nat \<Rightarrow> string option \<Rightarrow> string \<Rightarrow> nat \<Rightarrow> int \<Rightarrow> telemetry \<Rightarrow> telemetry" where
  "on_response r route meth status now tm =
     (let seconds = max 0 (of_int (now - (case map_of (tm_starts tm) r of None \<Rightarrow> now | Some t \<Rightarrow> t)) / 1000);
          tm' = finish_request r tm; u = route_label route; m = method_label meth
      in if u = ''/internal/metrics'' then tm'
         else tm'\<lparr>tm_requests := counted_once (u, m, status_class status) (tm_requests tm'),
                  tm_duration := tm_duration tm' @ [((u, m), seconds)]\<rparr>)"

datatype log_level = Log_Error | Log_Info

text \<open>The line logged for a response, if any.\<close>

definition response_log :: "string option \<Rightarrow> nat \<Rightarrow> log_level option" where
  "response_log route status =
     (if 500 \<le> status then Some Log_Error
      else if route_label route \<notin> {''/healthz'', ''/readyz'', ''/internal/metrics''} then Some Log_Info else None)"

definition on_abort :: "nat \<Rightarrow> telemetry \<Rightarrow> telemetry" where
  "on_abort r tm = finish_request r tm"

section \<open>Routes\<close>

definition internal_metrics :: "string option \<Rightarrow> http_request \<Rightarrow> ('w monitored, telemetry) action" where
  "internal_metrics scrapeToken req =
     (if \<not> authorizedToken (hr_authorization req) scrapeToken then http_error 401 ''Metrics authentication required''
      else mget md_telemetry)"

record platform_overview =
  po_clusterId :: string
  po_workers :: "(string \<times> worker_state) list"
  po_queues :: "queue_row list"
  po_connections :: pool_counts
  po_metrics :: bool
  po_logs :: bool
  po_alerts :: bool
  po_alertHistory :: bool
  po_metricsEndpoint :: bool

fun state_order :: "op_state \<Rightarrow> string" where
  "state_order OpPending = ''pending''"
| "state_order Applying = ''applying''"
| "state_order Reconciling = ''reconciling''"
| "state_order Succeeded = ''succeeded''"
| "state_order OpFailed = ''failed''"
| "state_order Superseded = ''superseded''"

definition platform_observability ::
  "'w app_env \<Rightarrow> 'w obs_options \<Rightarrow> telemetry \<Rightarrow> pool_counts \<Rightarrow> string option \<Rightarrow> http_request \<Rightarrow> ('w sys, platform_overview) action" where
  "platform_observability env oo tm pc metricsToken req =
     mbind (user env req) (\<lambda>actor.
     mbind (mthrow_if (\<not> ac_platform_admin actor) (HttpError 403 ''Platform administrator required'')) (\<lambda>_.
     mbind (pause env) (\<lambda>_.
     mbind (query queue_rows) (\<lambda>rows.
     mret \<lparr>po_clusterId = tm_clusterId tm, po_workers = tm_workers tm,
       po_queues = sort_key (\<lambda>r. (kind_text (qr_kind r), state_order (qr_state r))) rows, po_connections = pc,
       po_metrics = (oo_metrics oo \<noteq> None), po_logs = (oo_logs oo \<noteq> None), po_alerts = (oo_alerts oo \<noteq> None),
       po_alertHistory = truthy (oo_webhookToken oo), po_metricsEndpoint = truthy metricsToken\<rparr>))))"


section \<open>The in-flight gauge\<close>

text \<open>
  The states the telemetry can reach, with the requests received so far and those of them still open.
  Fastify runs the first hook once per request, so a received request is a new one; a response and an
  abort may both be reported for one request, in either order, and may be reported for a request that
  is already closed. The other activities of the process, workers and queue observations, come in
  between.
\<close>

inductive reached :: "telemetry \<Rightarrow> nat set \<Rightarrow> nat set \<Rightarrow> bool" where
  created: "new_Telemetry c = Inr tm \<Longrightarrow> reached tm {} {}"
| received: "reached tm seen live \<Longrightarrow> r \<notin> seen \<Longrightarrow> reached (on_request r now tm) (insert r seen) (insert r live)"
| responded: "reached tm seen live \<Longrightarrow> reached (on_response r route meth status now tm) seen (live - {r})"
| aborted: "reached tm seen live \<Longrightarrow> reached (on_abort r tm) seen (live - {r})"
| worker_entered: "reached tm seen live \<Longrightarrow> reached (enter_worker w tm) seen live"
| worker_left: "reached tm seen live \<Longrightarrow>
    reached (worker_timed w begun now ((if ok then worker_succeeded w now else worker_failed w now) tm)) seen live"
| completed: "reached tm seen live \<Longrightarrow> reached (count_completion k st created_at now tm) seen live"
| queue_seen: "reached tm seen live \<Longrightarrow> reached (observed_queue rows pc now tm) seen live"

lemmas hook_defs = on_request_def finish_request_def on_response_def on_abort_def enter_worker_def worker_timed_def
  worker_succeeded_def worker_failed_def count_completion_def observed_queue_def

lemma finish_request_open:
  assumes "tm_inflight tm = int (card live)" "fst ` set (tm_starts tm) = live" "finite live"
  shows "tm_inflight (finish_request r tm) = int (card (live - {r})) \<and> fst ` set (tm_starts (finish_request r tm)) = live - {r}"
proof (cases "r \<in> live")
  case True
  then have "map_of (tm_starts tm) r \<noteq> None" using assms(2) by (simp add: map_of_eq_None_iff)
  moreover have "0 < card live" using True assms(3) by (auto simp: card_gt_0_iff)
  moreover have "fst ` set (AList.delete r (tm_starts tm)) = live - {r}"
    using assms(2) by (metis delete_keys list.set_map set_removeAll)
  ultimately show ?thesis
    using True assms by (simp add: finish_request_def card_Diff_singleton of_nat_diff)
next
  case False
  then have "map_of (tm_starts tm) r = None" using assms(2) by (simp add: map_of_eq_None_iff)
  then show ?thesis using False assms by (simp add: finish_request_def)
qed

lemma on_response_hooks:
  "tm_inflight (on_response r route meth status now tm) = tm_inflight (finish_request r tm)"
  "tm_starts (on_response r route meth status now tm) = tm_starts (finish_request r tm)"
  by (simp_all add: on_response_def Let_def)

lemma new_Telemetry_Inr: "new_Telemetry c = Inr tm \<Longrightarrow> tm_inflight tm = 0 \<and> tm_starts tm = [] \<and> tm_requests tm = []"
  by (auto simp: new_Telemetry_def)

text \<open>The in-flight gauge is exact. In every state the process can reach, whatever the order of
  requests, responses and aborted connections, the gauge is the number of requests received and neither
  answered nor aborted, so it never drifts and is never negative: a request that is both aborted and
  answered is counted out once. Exactly the open requests have a recorded start.\<close>

theorem inflight_exact:
  assumes "reached tm seen live"
  shows "tm_inflight tm = int (card live) \<and> fst ` set (tm_starts tm) = live \<and> live \<subseteq> seen \<and> finite live"
  using assms
proof induction
  case (created c tm)
  then show ?case by (simp add: new_Telemetry_Inr)
next
  case (received tm seen live r now)
  then have "r \<notin> live" by blast
  then show ?case using received by (auto simp: on_request_def dom_update)
next
  case (responded tm seen live r)
  then show ?case using finish_request_open[of tm live r] by (auto simp: on_response_hooks)
next
  case (aborted tm seen live r)
  then show ?case using finish_request_open[of tm live r] by (auto simp: on_abort_def)
qed (simp_all add: hook_defs)

theorem inflight_exact_witness:
  "\<exists>tm. new_Telemetry ''primary'' = Inr tm \<and>
     tm_inflight (on_response 1 (Some ''/v1/projects'') ''GET'' 200 9 (on_abort 1 (on_request 2 6 (on_request 1 5 tm)))) = 1"
proof -
  obtain tm where tm: "new_Telemetry ''primary'' = Inr tm" by (simp add: new_Telemetry_def cluster_text_def is_alnum_def is_lower_def)
  have "reached (on_response 1 (Some ''/v1/projects'') ''GET'' 200 9 (on_abort 1 (on_request 2 6 (on_request 1 5 tm)))) {2, 1} ({2, 1} - {1} - {1})"
    by (intro reached.responded reached.aborted reached.received reached.created[OF tm]) auto
  from inflight_exact[OF this] show ?thesis using tm by auto
qed

end
