(* ===== verification/Startup.thy ===== *)
theory Startup
  imports Accounts Telemetry
begin

text \<open>
  What runs before the server listens: the migrations of db.ts, the creation of the first administrator
  by bootstrap.ts, and the checks main.ts makes of its environment. The SQL of a migration acts on the
  schema, of which nothing is known (type \<open>'d\<close>); how a statement runs and the digest are parameters.
  Both scripts run one transaction or statement.
\<close>

section \<open>Migrations\<close>

record 'd schema_state =
  mg_schema :: 'd
  mg_applied :: "(string \<times> string) list"

text \<open>\<open>/^\d+_.*\.sql$/\<close>\<close>

definition migration_file :: "string \<Rightarrow> bool" where
  "migration_file x \<longleftrightarrow> takeWhile is_digit x \<noteq> [] \<and> starts ''_'' (dropWhile is_digit x) \<and>
     ends_with ''.sql'' (tl (dropWhile is_digit x)) \<and> list_all (\<lambda>c. c \<notin> {CHR 0x0A, CHR 0x0D}) x"

fun apply_migrations ::
  "(string \<Rightarrow> ('d, unit) action) \<Rightarrow> (string \<Rightarrow> string) \<Rightarrow> (string \<Rightarrow> string) \<Rightarrow> string list \<Rightarrow> ('d schema_state, unit) action" where
  "apply_migrations exec digest readFile [] = mret ()"
| "apply_migrations exec digest readFile (name # names) = (\<lambda>st.
     let sql = readFile name; checksum = digest sql in
     case map_of (mg_applied st) name of
       Some recorded \<Rightarrow>
         if recorded \<noteq> checksum then (st, Inl (JsError (''Migration checksum mismatch: '' @ name)))
         else apply_migrations exec digest readFile names st
     | None \<Rightarrow>
         (case exec sql (mg_schema st) of
            (d, Inl e) \<Rightarrow> (st\<lparr>mg_schema := d\<rparr>, Inl e)
          | (d, Inr _) \<Rightarrow> apply_migrations exec digest readFile names
              \<lparr>mg_schema = d, mg_applied = mg_applied st @ [(name, checksum)]\<rparr>))"

definition migrate ::
  "(string \<Rightarrow> ('d, unit) action) \<Rightarrow> (string \<Rightarrow> string) \<Rightarrow> (string \<Rightarrow> string) \<Rightarrow> string list \<Rightarrow> ('d schema_state, unit) action" where
  "migrate exec digest readFile directory st =
     (case apply_migrations exec digest readFile (sort (filter migration_file directory)) st of
        (st', Inr _) \<Rightarrow> (st', Inr ())
      | (_, Inl e) \<Rightarrow> (st, Inl e))"

section \<open>The first administrator\<close>

record bootstrap_env =
  bs_email :: string
  bs_password :: string

definition bootstrap_schema :: "'w app_env \<Rightarrow> bootstrap_env schema" where
  "bootstrap_schema env v =
     Option.bind (z_object v) (\<lambda>fs.
     Option.bind (z_field fs ''DATABASE_URL'' (z_check z_string (\<lambda>s. s \<noteq> []))) (\<lambda>_.
     Option.bind (z_field fs ''ADMIN_EMAIL'' (z_check z_string (en_email env))) (\<lambda>email.
     Option.bind (z_field fs ''ADMIN_PASSWORD'' (password_schema 12)) (\<lambda>password.
     Some \<lparr>bs_email = email, bs_password = password\<rparr>))))"

definition bootstrap :: "'w app_env \<Rightarrow> string \<Rightarrow> string \<Rightarrow> json \<Rightarrow> ('w sys, unit) action" where
  "bootstrap env newId salt environment =
     mbind (mlift (z_parse (bootstrap_schema env) environment)) (\<lambda>b.
     transaction (\<lambda>_. insert_user \<lparr>u_id = newId, u_email = toLowerCase (bs_email b),
       u_password_hash = hashPassword (en_derive env) (bs_password b) salt, u_platform_admin = True, u_active = True\<rparr>))"

section \<open>The environment of the server\<close>

record settings =
  sg_connection :: string
  sg_origin :: string
  sg_key :: string
  sg_storageClass :: string
  sg_telemetry :: telemetry
  sg_metrics :: "(backend \<times> string) option"
  sg_logs :: "(backend \<times> string) option"
  sg_alerts :: "(backend \<times> string) option"
  sg_history :: "prometheus_history option"
  sg_secureCookies :: bool
  sg_reconcile :: bool

definition optional_backend :: "'w fetcher \<Rightarrow> string option \<Rightarrow> string option \<Rightarrow> string \<Rightarrow> (backend \<times> string) option result" where
  "optional_backend ft address token cluster =
     (if truthy address then rbind (new_Backend ft (the address) token) (\<lambda>be. Inr (Some (be, cluster))) else Inr None)"

text \<open>The part of main.ts before the server is built; \<open>origin_of\<close> is \<open>new URL(...).origin\<close>. The
  Kubernetes client is built from its own configuration file and is left out. A cluster name that the
  telemetry accepts is one the metric client accepts.\<close>

definition settings_of :: "'w fetcher \<Rightarrow> (string \<Rightarrow> string option) \<Rightarrow> (string \<Rightarrow> string option) \<Rightarrow> settings result" where
  "settings_of ft origin_of var =
     (let url = var ''PROMETHEUS_URL''; bearer = var ''PROMETHEUS_BEARER_TOKEN'' in
      throw_if (\<not> truthy (var ''DATABASE_URL'') \<or> \<not> truthy (var ''APP_ORIGIN'')) (JsError ''DATABASE_URL and APP_ORIGIN are required'')
     (let origin = the (var ''APP_ORIGIN'') in
      case origin_of origin of
        None \<Rightarrow> Inl (JsError ''Invalid URL'')
      | Some canonical \<Rightarrow>
      throw_if (canonical \<noteq> origin) (JsError ''APP_ORIGIN must be an origin without a path'')
     (rbind (encryptionKey (case var ''OPERATION_ENCRYPTION_KEY'' of None \<Rightarrow> [] | Some k \<Rightarrow> k)) (\<lambda>key.
      throw_if (\<not> truthy (var ''STORAGE_CLASS'')) (JsError ''STORAGE_CLASS is required'')
     (throw_if (bearer \<noteq> None \<and> \<not> truthy url) (JsError ''Prometheus query authentication requires PROMETHEUS_URL'')
     (rbind (new_Telemetry (case var ''OBSERVABILITY_CLUSTER_ID'' of None \<Rightarrow> ''primary'' | Some c \<Rightarrow> c)) (\<lambda>tm.
      rbind (optional_backend ft url bearer (tm_clusterId tm)) (\<lambda>metrics.
      rbind (optional_backend ft (var ''LOKI_URL'') (var ''LOKI_BEARER_TOKEN'') (tm_clusterId tm)) (\<lambda>logs.
      rbind (optional_backend ft (var ''ALERTMANAGER_URL'') (var ''ALERTMANAGER_BEARER_TOKEN'') (tm_clusterId tm)) (\<lambda>alerts.
      rbind (if truthy url then rbind (new_PrometheusHistory ft (the url) bearer) (\<lambda>ph. Inr (Some ph)) else Inr None) (\<lambda>history.
      Inr \<lparr>sg_connection = the (var ''DATABASE_URL''), sg_origin = origin, sg_key = key, sg_storageClass = the (var ''STORAGE_CLASS''),
        sg_telemetry = tm, sg_metrics = metrics, sg_logs = logs, sg_alerts = alerts, sg_history = history,
        sg_secureCookies = (\<not> starts ''http://localhost:'' origin \<and> \<not> starts ''http://127.0.0.1:'' origin),
        sg_reconcile = (alerts \<noteq> None \<and> truthy (var ''ALERT_WEBHOOK_TOKEN''))\<rparr>))))))))))) "

section \<open>Properties\<close>

lemma cluster_identity: "cluster_text c \<Longrightarrow> identity_text c"
  by (cases c) (auto simp: cluster_text_def identity_text_def)

lemma apply_migrations_Inr:
  assumes "apply_migrations exec digest readFile names st = (st', Inr ())"
  shows "(\<exists>zs. mg_applied st' = mg_applied st @ zs \<and> fst ` set zs = set names - fst ` set (mg_applied st)) \<and>
    (\<forall>n \<in> set names. map_of (mg_applied st') n = Some (digest (readFile n))) \<and>
    (set names \<subseteq> fst ` set (mg_applied st) \<longrightarrow> st' = st)"
  using assms
proof (induction names arbitrary: st)
  case (Cons n ns)
  show ?case
  proof (cases "map_of (mg_applied st) n")
    case None
    then obtain d where d: "apply_migrations exec digest readFile ns \<lparr>mg_schema = d, mg_applied = mg_applied st @ [(n, digest (readFile n))]\<rparr> = (st', Inr ())"
      using Cons.prems by (auto simp: Let_def split: prod.splits sum.splits)
    have n: "n \<notin> fst ` set (mg_applied st)" using None by (simp add: map_of_eq_None_iff)
    from Cons.IH[OF d] obtain zs where z: "mg_applied st' = mg_applied st @ (n, digest (readFile n)) # zs"
      "fst ` set zs = set ns - insert n (fst ` set (mg_applied st))" "\<forall>m \<in> set ns. map_of (mg_applied st') m = Some (digest (readFile m))"
      by auto
    have "map_of (mg_applied st') n = Some (digest (readFile n))" using z(1) None by (simp add: map_add_Some_iff)
    then show ?thesis using z n by (intro conjI exI[of _ "(n, digest (readFile n)) # zs"]) auto
  next
    case (Some c)
    then have c: "c = digest (readFile n)" "apply_migrations exec digest readFile ns st = (st', Inr ())"
      using Cons.prems by (auto simp: Let_def split: if_splits)
    have n: "n \<in> fst ` set (mg_applied st)" using Some by (force dest: map_of_SomeD)
    from Cons.IH[OF c(2)] obtain zs where z: "mg_applied st' = mg_applied st @ zs" "fst ` set zs = set ns - fst ` set (mg_applied st)" by blast
    then have "map_of (mg_applied st') n = Some (digest (readFile n))" using Some c(1) by (simp add: map_add_Some_iff)
    then show ?thesis using Cons.IH[OF c(2)] z n by auto
  qed
qed simp

lemma apply_recorded:
  "\<forall>n \<in> set names. map_of (mg_applied st) n = Some (digest (readFile n)) \<Longrightarrow>
    apply_migrations exec digest readFile names st = (st, Inr ())"
  by (induction names) auto


definition sample_files :: "string list" where
  "sample_files = [''002_b.sql'', ''README.md'', ''001_a.sql'']"


text \<open>The bootstrap script adds an active platform administrator or changes nothing: an existing account
  is never overwritten.\<close>

lemma bootstrap_adds:
  assumes "bootstrap env newId salt environment s = (s', r)"
  shows "if r = Inr () then (\<exists>u. db_users (sys_db s') = db_users (sys_db s) @ [u] \<and> u_platform_admin u \<and> u_active u \<and>
      u_email u \<notin> u_email ` set (db_users (sys_db s))) else s' = s"
  using assms unfolding bootstrap_def
  by (fastforce simp: mbind_def transaction_def insert_user_def list_ex_iff split: sum.splits if_splits)

end
