(* ===== verification/Observation_Props.thy ===== *)
theory Observation_Props
  imports Observability Accounts_Props
begin

text \<open>
  Correctness of the observation component: only the leader exports samples and their number is
  bounded, a snapshot is stored only for the instance that is bound now, the events of an instance
  are bounded, a resolved alert stays resolved, and what is returned of metrics and statistics is
  complete, plausible and of the instance that was asked for.
\<close>

section \<open>The collector's view\<close>

definition collector_ok :: "collector \<Rightarrow> bool" where
  "collector_ok c \<longleftrightarrow> (\<not> oc_leader c \<longrightarrow> oc_samples c = []) \<and> length (oc_samples c) \<le> 10000 \<and> distinct (map fst (oc_samples c))"

definition view_kept :: "'w observatory \<Rightarrow> 'w observatory \<Rightarrow> bool" where
  "view_kept t t' \<longleftrightarrow> (collector_ok (ob_collector t) \<longrightarrow> collector_ok (ob_collector t'))"

lemma view_refl: "reflp view_kept" and view_trans: "transp view_kept"
  by (auto simp: view_kept_def intro!: reflpI transpI)

lemma lostLeadership_ok [simp]: "collector_ok (lostLeadership c)"
  by (simp add: collector_ok_def lostLeadership_def)

lemma keeps_awaited: "keeps view_kept (awaited env m)"
  by (auto simp: keeps_def view_kept_def awaited_def split: prod.splits)

lemma keeps_session: "keeps view_kept (session env m)"
  unfolding session_def by (rule keeps_awaited)

lemma keeps_set_collector: "(\<And>c. collector_ok c \<Longrightarrow> collector_ok (f c)) \<Longrightarrow> keeps view_kept (set_collector f)"
  by (simp add: keeps_def view_kept_def set_collector_def)

lemma length_update: "length (AList.update k v m) = (if k \<in> fst ` set m then length m else Suc (length m))"
  by (induction m) (auto simp: image_iff)

lemma length_update_le: "length m < 10000 \<or> map_of m k \<noteq> None \<Longrightarrow> length m \<le> 10000 \<Longrightarrow> length (AList.update k v m) \<le> 10000"
  by (auto simp: length_update map_of_eq_None_iff)

lemma publish_ok: "collector_ok c \<Longrightarrow> collector_ok (publish taken b sn c)"
  using length_update_le[of "oc_samples c" "b_id b"]
  by (auto simp: collector_ok_def publish_def distinct_update split: if_splits)

lemma delete_ok: "collector_ok c \<Longrightarrow> collector_ok (c\<lparr>oc_samples := AList.delete k (oc_samples c)\<rparr>)"
  using length_delete_le[of k "oc_samples c"] by (auto simp: collector_ok_def distinct_delete)

lemma filter_ok: "collector_ok c \<Longrightarrow> collector_ok (purge_samples now c)"
  by (auto simp: collector_ok_def purge_samples_def distinct_map_filter intro: order_trans[OF length_filter_le])

lemmas view_steps = keeps_mbind[OF view_trans] keeps_mcatch[OF view_trans] keeps_mret[OF view_refl] keeps_mthrow[OF view_refl]
  keeps_mget[OF view_refl] keeps_mlift[OF view_refl] keeps_awaited keeps_session keeps_if keeps_mfor[OF view_refl view_trans]

lemma save_view: "keeps view_kept (save env ids b sn events)"
  unfolding save_def
  by (intro view_steps keeps_set_collector) (auto intro: publish_ok delete_ok)

lemma observe_all_view: "keeps view_kept (observe_all env bps)"
proof (induction bps)
  case (Cons bp bps)
  have "keeps view_kept (observe env bp)"
    unfolding observe_def observe_object_def Let_def
    by (intro view_steps keeps_option keeps_pair)
  then show ?case using Cons by (auto intro!: view_steps keeps_pair)
qed (simp only: observe_all.simps view_steps)


lemma collect_all_view: "keeps view_kept (collect_all env ids)"
  unfolding collect_all_def collect_batch_def
  by (intro view_steps keeps_pair observe_all_view save_view keeps_set_collector filter_ok) (auto simp: collector_ok_def)

lemma tick_view: "keeps view_kept (collector_tick env ids)"
  unfolding collector_tick_def acquire_def
  by (intro view_steps collect_all_view keeps_set_collector) (auto simp: collector_ok_def lostLeadership_def)

lemma close_view: "keeps view_kept (collector_close env)"
  unfolding collector_close_def
  by (intro view_steps keeps_set_collector) (auto simp: collector_ok_def)

text \<open>The life of a collector process: it starts without leadership; each step is a tick or the
  shutdown, in any environment (the database session, the cluster and other replicas may behave
  differently each time).\<close>

definition new_collector :: collector where
  "new_collector = \<lparr>oc_cursor = zero_uuid, oc_lastCleanup = 0, oc_leader = False, oc_samples = []\<rparr>"

inductive collector_step :: "'w observatory \<Rightarrow> 'w observatory \<Rightarrow> bool" where
  tick_step: "collector_tick env ids t = (t', r) \<Longrightarrow> collector_step t t'"
| close_step: "collector_close env t = (t', r') \<Longrightarrow> collector_step t t'"

lemma step_view: "collector_step t t' \<Longrightarrow> view_kept t t'"
  by (induction rule: collector_step.induct) (blast dest: keepsD[OF tick_view] keepsD[OF close_view])+

lemma run_ok:
  assumes "collector_step\<^sup>*\<^sup>* t t'" "ob_collector t = new_collector"
  shows "collector_ok (ob_collector t')"
  using assms
proof (induction rule: rtranclp_induct)
  case base
  then show ?case by (simp add: collector_ok_def new_collector_def)
next
  case (step u v)
  then show ?case using step_view by (auto simp: view_kept_def)
qed



definition sample_collector_env :: "unit collector_env" where
  "sample_collector_env = \<lparr>ce_lock = mret True, ce_unlock = mret (), ce_ping = mret (), ce_lost = (\<lambda>_. False),
     ce_getInstance = (\<lambda>_ _. mret None), ce_events = None, ce_statistics = (\<lambda>_. mthrow (ApiError None))\<rparr>"


section \<open>Snapshots\<close>

text \<open>Of a finite set with a linear key, at most \<open>n\<close> elements have fewer than \<open>n\<close> elements above them.\<close>

lemma ranked_bound:
  fixes key :: "'a \<Rightarrow> 'k :: linorder"
  assumes "finite S" "inj_on key S"
  shows "card {r \<in> S. card {x \<in> S. key r < key x} < n} \<le> n"
proof (cases "{r \<in> S. card {x \<in> S. key r < key x} < n} = {}")
  case False
  define K where "K = {r \<in> S. card {x \<in> S. key r < key x} < n}"
  have f: "finite K" "K \<noteq> {}" "K \<subseteq> S" using assms(1) False by (auto simp: K_def)
  obtain m where m: "m \<in> K" "\<And>x. x \<in> K \<Longrightarrow> key m \<le> key x"
    using ex_min_if_finite[of "key ` K"] f by (metis (mono_tags, lifting) arg_min_if_finite not_le)
  have "K - {m} \<subseteq> {x \<in> S. key m < key x}"
    using m f(3) assms(2) by (auto simp: inj_on_def) (metis order.not_eq_order_implies_strict subsetD)
  then have "card (K - {m}) \<le> card {x \<in> S. key m < key x}" using assms(1) by (intro card_mono) auto
  moreover have "card {x \<in> S. key m < key x} < n" using m(1) by (simp add: K_def)
  ultimately have "card K \<le> n" using m(1) f(1) by (simp add: card_Diff_singleton)
  then show ?thesis by (simp add: K_def)
next
  case True
  then show ?thesis unfolding True by simp
qed

lemma newer_event_key: "newer_event r x \<longleftrightarrow> (er_observed_at r, er_id r) < (er_observed_at x, er_id x)"
  by (auto simp: newer_event_def)

lemma distinct_filter_card: "distinct xs \<Longrightarrow> length (filter p xs) = card {x \<in> set xs. p x}"
  by (simp add: distinct_length_filter Int_def conj_commute)

lemma trim_bound:
  assumes "distinct (map er_id rows)"
  shows "length (filter (\<lambda>r. er_instance_id r = iid) (trim_events iid rows)) \<le> 1000"
proof -
  define mine where "mine = filter (\<lambda>r. er_instance_id r = iid) rows"
  have d: "distinct mine" "inj_on er_id (set mine)" using assms by (auto simp: mine_def distinct_map inj_on_def)
  then have i: "inj_on (\<lambda>r. (er_observed_at r, er_id r)) (set mine)" by (auto simp: inj_on_def)
  have "filter (\<lambda>r. er_instance_id r = iid) (trim_events iid rows) = filter (\<lambda>r. length (filter (newer_event r) mine) < 1000) mine"
    by (simp add: trim_events_def mine_def Let_def filter_filter) (auto intro!: filter_cong)
  then have "length (filter (\<lambda>r. er_instance_id r = iid) (trim_events iid rows)) =
      card {r \<in> set mine. card {x \<in> set mine. (er_observed_at r, er_id r) < (er_observed_at x, er_id x)} < 1000}"
    using d(1) by (simp add: distinct_filter_card newer_event_key)
  then show ?thesis using ranked_bound[OF _ i, of 1000] by simp
qed

lemma trim_other: "filter (\<lambda>r. er_instance_id r \<noteq> iid \<and> p r) (trim_events iid rows) = filter (\<lambda>r. er_instance_id r \<noteq> iid \<and> p r) rows"
  by (simp add: trim_events_def Let_def filter_filter) (auto intro!: filter_cong)

lemma upsert_event_other:
  "filter (\<lambda>r. er_instance_id r \<noteq> b_id b \<and> er_instance_uid r \<noteq> uid) (upsert_event now eid b uid e rows) =
   filter (\<lambda>r. er_instance_id r \<noteq> b_id b \<and> er_instance_uid r \<noteq> uid) rows"
  by (auto simp: upsert_event_def intro!: filter_sql_update_other)

lemma upsert_events_other:
  "filter (\<lambda>r. er_instance_id r \<noteq> b_id b \<and> er_instance_uid r \<noteq> uid) (upsert_events now ids n b uid es rows) =
   filter (\<lambda>r. er_instance_id r \<noteq> b_id b \<and> er_instance_uid r \<noteq> uid) rows"
  by (induction es arbitrary: n rows) (simp_all add: upsert_event_other)


lemma write_events_Inr:
  "write_events f d = (d', Inr ()) \<longleftrightarrow> distinct (map er_id (f (db_events d))) \<and> d' = d\<lparr>db_events := f (db_events d)\<rparr>"
  by (auto simp: write_events_def Let_def)

lemma upsert_snapshot_mine:
  assumes "distinct (map sr_instance_id rows)"
  shows "\<exists>r. filter (\<lambda>r. sr_instance_id r = sr_instance_id row) (upsert_snapshot row rows) = [r] \<and>
    sr_instance_uid r = sr_instance_uid row \<and> sr_observed_at r = sr_observed_at row \<and> sr_payload r = sr_payload row"
proof (cases "list_ex (\<lambda>r. sr_instance_id r = sr_instance_id row) rows")
  case True
  then obtain x where x: "x \<in> set rows" "sr_instance_id x = sr_instance_id row" by (auto simp: list_ex_iff)
  have "filter (\<lambda>r. sr_instance_id r = sr_instance_id row) rows = [x]"
    using assms x
  proof (induction rows)
    case (Cons y rows)
    then show ?case by (cases "sr_instance_id y = sr_instance_id row") (auto simp: filter_empty_conv rev_image_eqI)
  qed simp
  then show ?thesis using True x by (simp add: upsert_snapshot_def filter_sql_update)
next
  case False
  then have "filter (\<lambda>r. sr_instance_id r = sr_instance_id row) rows = []" by (auto simp: list_ex_iff filter_empty_conv)
  then show ?thesis using False by (simp add: upsert_snapshot_def)
qed

lemma upsert_snapshot_other:
  "filter (\<lambda>r. sr_instance_id r \<noteq> sr_instance_id row) (upsert_snapshot row rows) = filter (\<lambda>r. sr_instance_id r \<noteq> sr_instance_id row) rows"
  by (auto simp: upsert_snapshot_def intro!: filter_sql_update_other)

lemma save_tx_cases:
  assumes "save_tx ids taken b sn events now d = (d', Inr saved)"
  shows "(\<not> saved \<and> superseded_binding b d \<and> d' = d) \<or>
    (saved \<and> \<not> superseded_binding b d \<and>
     (\<exists>rows. distinct (map er_id rows) \<and>
        filter (\<lambda>r. er_instance_id r \<noteq> b_id b \<and> er_instance_uid r \<noteq> the (b_kubernetes_uid b)) rows =
          filter (\<lambda>r. er_instance_id r \<noteq> b_id b \<and> er_instance_uid r \<noteq> the (b_kubernetes_uid b)) (db_events d) \<and>
        d' = d\<lparr>db_events := trim_events (b_id b) rows, db_snapshots := upsert_snapshot
            \<lparr>sr_instance_id = b_id b, sr_project_id = b_project_id b, sr_instance_uid = the (b_kubernetes_uid b), sr_observed_at = taken, sr_payload = sn\<rparr>
            (db_snapshots d)\<rparr>))"
proof (cases "superseded_binding b d")
  case True
  then show ?thesis using assms by (auto simp: save_tx_def mbind_Inr)
next
  case False
  then show ?thesis
    using assms unfolding save_tx_def Let_def
    by (auto simp: mbind_Inr write_events_Inr upsert_events_other split: if_splits)
qed

text \<open>C18: A snapshot is stored for the present instance only. Saving either finds that the instance
  was deleted, detached or bound to another object in the meantime and changes nothing, or stores
  exactly one snapshot for it, under the identity the instance still has, keeps at most a thousand of
  its events, and leaves the snapshots and events of every other instance and all other tables as
  they were.\<close>

theorem snapshot_is_current:
  assumes "save_tx ids taken b sn events now d = (d', Inr saved)" and "distinct (map sr_instance_id (db_snapshots d))"
    and "b_kubernetes_uid b = Some uid"
  shows "if saved
    then (\<exists>cur. sql_first (\<lambda>r. b_id r = b_id b) (db_bindings d') = Some cur \<and> b_kubernetes_uid cur = Some uid \<and> observed_binding cur) \<and>
      (\<exists>r. filter (\<lambda>r. sr_instance_id r = b_id b) (db_snapshots d') = [r] \<and> sr_instance_uid r = uid \<and> sr_observed_at r = taken \<and> sr_payload r = sn) \<and>
      length (filter (\<lambda>r. er_instance_id r = b_id b) (db_events d')) \<le> 1000 \<and>
      filter (\<lambda>r. sr_instance_id r \<noteq> b_id b) (db_snapshots d') = filter (\<lambda>r. sr_instance_id r \<noteq> b_id b) (db_snapshots d) \<and>
      filter (\<lambda>r. er_instance_id r \<noteq> b_id b \<and> er_instance_uid r \<noteq> uid) (db_events d') =
        filter (\<lambda>r. er_instance_id r \<noteq> b_id b \<and> er_instance_uid r \<noteq> uid) (db_events d) \<and>
      d' = d\<lparr>db_events := db_events d', db_snapshots := db_snapshots d'\<rparr>
    else superseded_binding b d \<and> d' = d"
proof (cases saved)
  case True
  with save_tx_cases[OF assms(1)] obtain rows where n: "\<not> superseded_binding b d" and r: "distinct (map er_id rows)"
      "filter (\<lambda>r. er_instance_id r \<noteq> b_id b \<and> er_instance_uid r \<noteq> uid) rows = filter (\<lambda>r. er_instance_id r \<noteq> b_id b \<and> er_instance_uid r \<noteq> uid) (db_events d)"
    and d': "d' = d\<lparr>db_events := trim_events (b_id b) rows, db_snapshots := upsert_snapshot
            \<lparr>sr_instance_id = b_id b, sr_project_id = b_project_id b, sr_instance_uid = uid, sr_observed_at = taken, sr_payload = sn\<rparr>
            (db_snapshots d)\<rparr>"
    using assms(3) by auto
  from n obtain cur where "sql_first (\<lambda>r. b_id r = b_id b) (db_bindings d') = Some cur" "b_kubernetes_uid cur = Some uid" "observed_binding cur"
    using assms(3) by (auto simp: d' superseded_binding_def split: option.splits)
  moreover have "length (filter (\<lambda>r. er_instance_id r = b_id b) (db_events d')) \<le> 1000" using trim_bound[OF r(1)] by (simp add: d')
  moreover have "filter (\<lambda>r. er_instance_id r \<noteq> b_id b \<and> er_instance_uid r \<noteq> uid) (db_events d') =
      filter (\<lambda>r. er_instance_id r \<noteq> b_id b \<and> er_instance_uid r \<noteq> uid) (db_events d)"
    using r(2) by (simp add: d' trim_other)
  ultimately show ?thesis
    using True upsert_snapshot_mine[OF assms(2), of "\<lparr>sr_instance_id = b_id b, sr_project_id = b_project_id b, sr_instance_uid = uid, sr_observed_at = taken, sr_payload = sn\<rparr>"]
      upsert_snapshot_other[of "\<lparr>sr_instance_id = b_id b, sr_project_id = b_project_id b, sr_instance_uid = uid, sr_observed_at = taken, sr_payload = sn\<rparr>" "db_snapshots d"]
    by (simp add: d')
next
  case False
  then show ?thesis using save_tx_cases[OF assms(1)] by simp
qed


definition watched_binding :: binding_row where
  "watched_binding = sample_binding\<lparr>b_kubernetes_uid := Some ''uid'', b_lifecycle := Active\<rparr>"

definition watched_db :: database where
  "watched_db = empty_db\<lparr>db_bindings := [watched_binding]\<rparr>"

lemma watched_simps [simp]:
  "db_bindings watched_db = [watched_binding]" "db_snapshots watched_db = []" "db_events watched_db = []" "db_alerts watched_db = []"
  "b_id watched_binding = ''i1''" "b_project_id watched_binding = ''p1''" "b_kubernetes_uid watched_binding = Some ''uid''"
  "b_lifecycle watched_binding = Active"
  by (simp_all add: watched_db_def empty_db_def watched_binding_def sample_binding_def)

theorem snapshot_is_current_witness:
  "\<exists>d' r. save_tx (\<lambda>_. ''e1'') 5 watched_binding unknown_snapshot [] 7 watched_db = (d', Inr True) \<and>
     filter (\<lambda>r. sr_instance_id r = ''i1'') (db_snapshots d') = [r] \<and> sr_instance_uid r = ''uid'' \<and>
     length (filter (\<lambda>r. er_instance_id r = ''i1'') (db_events d')) \<le> 1000"
proof -
  obtain d' where s: "save_tx (\<lambda>_. ''e1'') 5 watched_binding unknown_snapshot [] 7 watched_db = (d', Inr True)"
    by (simp add: save_tx_def mbind_def superseded_binding_def observed_binding_def Let_def changed_state_def write_events_def trim_events_def)
  from snapshot_is_current[OF s, of "''uid''"] show ?thesis using s by auto
qed

section \<open>Alert history\<close>

text \<open>How the alert rows may change: a row keeps its identity, a resolved one stays resolved, and no
  two rows get the same identity.\<close>

definition alert_key :: "alert_row \<Rightarrow> string \<times> string \<times> string \<times> int" where
  "alert_key a = (al_project_id a, al_instance_uid a, al_fingerprint a, al_starts_at a)"

definition alert_kept :: "alert_row \<Rightarrow> alert_row \<Rightarrow> bool" where
  "alert_kept a a' \<longleftrightarrow> alert_key a' = alert_key a \<and> (al_state a = Resolved \<longrightarrow> al_state a' = Resolved)"

definition alerts_grow :: "alert_row list \<Rightarrow> alert_row list \<Rightarrow> bool" where
  "alerts_grow rows rows' \<longleftrightarrow> (\<exists>ys zs. rows' = ys @ zs \<and> list_all2 alert_kept rows ys) \<and>
     (distinct (map alert_key rows) \<longrightarrow> distinct (map alert_key rows'))"

definition alerts_kept :: "'w sys \<Rightarrow> 'w sys \<Rightarrow> bool" where
  "alerts_kept s s' \<longleftrightarrow> alerts_grow (db_alerts (sys_db s)) (db_alerts (sys_db s'))"

lemma alert_kept_refl: "alert_kept a a" and alert_kept_trans: "alert_kept a b \<Longrightarrow> alert_kept b c \<Longrightarrow> alert_kept a c"
  by (auto simp: alert_kept_def)

lemma alerts_grow_refl: "alerts_grow rows rows"
  using list_all2_refl[of alert_kept rows] alert_kept_refl unfolding alerts_grow_def by (metis append_Nil2)

lemma alerts_grow_trans:
  assumes "alerts_grow a b" "alerts_grow b c"
  shows "alerts_grow a c"
proof -
  obtain ys zs us vs where y: "b = ys @ zs" "list_all2 alert_kept a ys" and u: "c = us @ vs" "list_all2 alert_kept b us"
    using assms by (auto simp: alerts_grow_def)
  obtain us1 us2 where s: "us = us1 @ us2" "list_all2 alert_kept ys us1" using u(2) unfolding y(1) list_all2_append1 by blast
  have "list_all2 alert_kept a us1" using list_all2_trans[OF _ y(2) s(2)] alert_kept_trans by blast
  then show ?thesis using assms u(1) s(1) by (auto simp: alerts_grow_def)
qed

lemma alerts_refl: "reflp alerts_kept" and alerts_trans: "transp alerts_kept"
  using alerts_grow_refl alerts_grow_trans by (auto simp: alerts_kept_def intro!: reflpI transpI)

lemma same_alert_key: "same_alert a b \<longleftrightarrow> alert_key a = alert_key b"
  by (auto simp: same_alert_def alert_key_def)

lemma alerts_grow_update:
  assumes "\<And>a. p a \<Longrightarrow> alert_kept a (f a)"
  shows "alerts_grow rows (sql_update p f rows)"
proof -
  have "list_all2 alert_kept rows (sql_update p f rows)"
    using assms by (induction rows) (auto simp: alert_kept_refl)
  moreover have "map alert_key (sql_update p f rows) = map alert_key rows"
    using assms by (intro map_sql_update) (simp add: alert_kept_def)
  ultimately show ?thesis by (auto simp: alerts_grow_def)
qed

lemma upsert_alert_grows: "alerts_grow rows (upsert_alert now new rows)"
proof (cases "list_ex (same_alert new) rows")
  case True
  then show ?thesis
    by (simp add: upsert_alert_def) (rule alerts_grow_update, auto simp: alert_kept_def merge_alert_def alert_key_def same_alert_def)
next
  case False
  then have "alert_key new \<notin> alert_key ` set rows" by (auto simp: list_ex_iff same_alert_key)
  then show ?thesis using False list_all2_refl[of alert_kept rows] alert_kept_refl
    by (auto simp: upsert_alert_def alerts_grow_def)
qed


text \<open>The relation, provided other requests keep it.\<close>

definition given_others :: "('w sys \<Rightarrow> 'w sys \<Rightarrow> bool) \<Rightarrow> 'w app_env \<Rightarrow> 'w sys \<Rightarrow> 'w sys \<Rightarrow> bool" where
  "given_others R env s s' \<longleftrightarrow> ((\<forall>t. R t (en_others env t)) \<longrightarrow> R s s')"

lemma given_refl: "reflp R \<Longrightarrow> reflp (given_others R env)" and given_trans: "transp R \<Longrightarrow> transp (given_others R env)"
  by (auto simp: given_others_def reflp_def transp_def)

lemma given_keeps: "keeps R m \<Longrightarrow> keeps (given_others R env) m"
  by (simp add: keeps_def given_others_def)

lemma given_route: "reflp R \<Longrightarrow> transp R \<Longrightarrow> route_relation (given_others R env) env"
  by unfold_locales (simp_all add: given_refl given_trans given_others_def)

interpretation alert_routes: route_relation "given_others alerts_kept env" env for env
  by (rule given_route[OF alerts_refl alerts_trans])

lemma keeps_exec_alerts:
  "(\<And>now d. alerts_grow (db_alerts d) (db_alerts (f now d))) \<Longrightarrow> keeps (given_others alerts_kept env) (exec_sql f)"
  by (rule given_keeps) (simp add: keeps_def alerts_kept_def exec_sql_def)

lemma store_alert_keeps: "keeps (given_others alerts_kept env) (store_alert env oo a)"
  unfolding store_alert_def Let_def
  by (auto split: option.splits intro!: alert_routes.steps keeps_if keeps_exec_alerts upsert_alert_grows)

lemma post_alerts_keeps: "keeps (given_others alerts_kept env) (post_alerts env oo req)"
  unfolding post_alerts_def
  by (intro keeps_if alert_routes.steps keeps_mfor[OF alert_routes.R_refl alert_routes.R_trans] store_alert_keeps)

lemma confirm_grows: "alerts_grow (db_alerts d) (db_alerts (confirm_alerts pid keys now d))"
  by (auto simp: confirm_alerts_def alert_kept_def alert_key_def intro!: alerts_grow_update)

lemma reconciliation_keeps:
  assumes "keeps alerts_kept lock" "\<And>pid. keeps alerts_kept (reader pid)"
  shows "keeps alerts_kept (reconciliation_tick ft reader lock cursor)"
proof -
  have q: "keeps alerts_kept (query f)" and c: "keeps alerts_kept (exec_sql (confirm_alerts pid keys))" for f :: "int \<Rightarrow> database \<Rightarrow> string list" and pid keys
    using confirm_grows alerts_grow_refl by (auto simp: keeps_def alerts_kept_def query_def exec_sql_def)
  show ?thesis
    unfolding reconciliation_tick_def reconcile_project_def
    by (intro keeps_mbind[OF alerts_trans] keeps_if keeps_mret[OF alerts_refl] keeps_mfor[OF alerts_refl alerts_trans]
        keeps_mcatch[OF alerts_trans] keeps_mlift[OF alerts_refl] q c assms)
qed

text \<open>C22: A resolved alert stays resolved. Whatever a webhook delivers, in whatever order and however
  often, and whatever a reconciliation finds, every row keeps its identity and a resolved one stays
  resolved; rows are only added, and no two rows describe the same episode. Other requests are only
  assumed to do the same.\<close>

theorem resolved_is_final:
  assumes "\<forall>t. alerts_kept t (en_others env t)" and "keeps alerts_kept lock" and "\<forall>pid. keeps alerts_kept (reader pid)"
    and "post_alerts env oo req s = (s', r) \<or> reconciliation_tick ft reader lock cursor s = (s', r')"
  shows "alerts_grow (db_alerts (sys_db s)) (db_alerts (sys_db s'))"
proof -
  have "alerts_kept s s'" using assms(4)
  proof
    assume "post_alerts env oo req s = (s', r)"
    then show ?thesis using keepsD[OF post_alerts_keeps] assms(1) by (fastforce simp: given_others_def)
  next
    assume "reconciliation_tick ft reader lock cursor s = (s', r')"
    then show ?thesis using keepsD[OF reconciliation_keeps[OF assms(2)]] assms(3) by blast
  qed
  then show ?thesis by (simp add: alerts_kept_def)
qed

section \<open>Silences\<close>

definition audit_kept :: "'w sys \<Rightarrow> 'w sys \<Rightarrow> bool" where
  "audit_kept s s' \<longleftrightarrow> (\<exists>xs. db_audit (sys_db s') = db_audit (sys_db s) @ xs)"

lemma audit_refl: "reflp audit_kept" and audit_trans: "transp audit_kept"
  by (auto simp: audit_kept_def intro!: reflpI transpI)

interpretation audit_routes: route_relation "given_others audit_kept env" env for env
  by (rule given_route[OF audit_refl audit_trans])

lemma keeps_fetch:
  assumes "\<And>c. keeps audit_kept (ft_call ft c)"
  shows "keeps audit_kept (silence ft be n isUuid cluster pid uid fp minutes)"
  unfolding silence_def read_alerts_def request_def
  by (intro keeps_mbind[OF audit_trans] keeps_mget[OF audit_refl] keeps_mlift[OF audit_refl] keeps_mret[OF audit_refl] keeps_mthrow[OF audit_refl]
      keeps_mthrow_if[OF audit_refl] keeps_option assms)


text \<open>Actions that do not fail in a given way.\<close>

definition never :: "error \<Rightarrow> ('s, 'a) action \<Rightarrow> bool" where
  "never e m \<longleftrightarrow> (\<forall>s. snd (m s) \<noteq> Inl e)"

lemma never_mbind: "never e m \<Longrightarrow> (\<And>x. never e (f x)) \<Longrightarrow> never e (mbind m f)"
  by (auto simp: never_def mbind_def split: prod.splits sum.splits) (metis snd_conv)+

lemma never_mret: "never e (mret x)"
  by (simp add: never_def)

lemma never_query: "never e (query q)"
  by (simp add: never_def query_def)

lemma never_pause: "never e (pause env)"
  by (simp add: never_def pause_def)

lemma never_error: "HttpError c m \<noteq> e \<Longrightarrow> never e (http_error c m)"
  by (simp add: never_def)

lemma never_throw_if: "e' \<noteq> e \<Longrightarrow> never e (mthrow_if b e')"
  by (simp add: never_def mthrow_if_def)

lemma never_parse: "ZodError \<noteq> e \<Longrightarrow> never e (parse sc v)"
  by (auto simp: never_def parse_def z_parse_def split: option.splits)

lemma never_parse_uuid: "ZodError \<noteq> e \<Longrightarrow> never e (parse_uuid env x)"
  unfolding parse_uuid_def by (rule never_parse)

lemmas never_simple = never_mret never_query never_pause never_error never_throw_if never_parse never_parse_uuid

definition outcome_unknown :: error where
  "outcome_unknown = HttpError 503 ''Silence outcome unavailable; check active alerts before retrying''"

lemma never_access: "never outcome_unknown (projectAccess env req pid roles)"
  unfolding projectAccess_def user_def
  by (auto intro!: never_mbind never_simple simp: outcome_unknown_def split: option.splits prod.splits)

lemma never_target: "never outcome_unknown (target_of env pid iid)"
  unfolding target_of_def
  by (auto intro!: never_mbind never_simple simp: outcome_unknown_def split: option.splits prod.splits)

lemma mbind_never:
  assumes "mbind m f s = (s', r)" "never e m" "r = Inl e \<or> (\<exists>x. r = Inr x)"
  shows "\<exists>t x. m s = (t, Inr x) \<and> f x t = (s', r)"
  using assms by (auto simp: mbind_def never_def split: prod.splits sum.splits) (metis snd_conv)+

definition silence_rows :: "string \<Rightarrow> string \<Rightarrow> string \<Rightarrow> audit_row \<Rightarrow> bool" where
  "silence_rows act uid pid a \<longleftrightarrow> a_action a = act \<and> a_actor a = Some uid \<and> a_project a = Some pid"

lemma audit_now_run:
  "audit_now uid pid iid act details s = (s', r) \<Longrightarrow> r = Inr () \<and> (\<exists>a. db_audit (sys_db s') = db_audit (sys_db s) @ [a] \<and> silence_rows act uid pid a)"
  by (auto simp: audit_now_def transaction_def audit_run silence_rows_def)

lemma uuid_never:
  assumes "mbind (parse_uuid env x) f s = (s', r)" "r = Inl outcome_unknown \<or> (\<exists>y. r = Inr y)"
  shows "f x s = (s', r)"
proof -
  have "ZodError \<noteq> outcome_unknown" by (simp add: outcome_unknown_def)
  from mbind_never[OF assms(1) never_parse_uuid[OF this] assms(2)] show ?thesis
    by (auto simp: parse_uuid_def z_check_def split: option.splits if_splits)
qed

lemma post_silence_steps:
  assumes "post_silence env oo requestId req pid iid s = (s', r)" "r = Inl outcome_unknown \<or> (\<exists>x. r = Inr x)"
  shows "\<exists>actor fp minutes t1 t2 t. user env req s = (s, Inr actor) \<and> projectAccess env req pid [Admin, Maintainer] s = (t1, Inr actor) \<and>
    target_of env pid iid t1 = (t2, Inr t) \<and> record_silence env oo requestId actor pid iid fp minutes t t2 = (s', r)"
proof -
  have z: "ZodError \<noteq> outcome_unknown" by (simp add: outcome_unknown_def)
  note b = mbind_never[OF _ _ assms(2)]
  note r2 = uuid_never[OF uuid_never[OF assms(1)[unfolded post_silence_def] assms(2)] assms(2)]
  from b[OF r2 never_access] obtain t1 actor where a: "projectAccess env req pid [Admin, Maintainer] s = (t1, Inr actor)" and
    r3: "mbind (parse silence_body (hr_body req)) (\<lambda>(fp, minutes).
      mbind (target_of env pid iid) (record_silence env oo requestId actor pid iid fp minutes)) t1 = (s', r)" by blast
  from b[OF r3 never_parse[OF z]] obtain fp minutes where
    r4: "mbind (target_of env pid iid) (record_silence env oo requestId actor pid iid fp minutes) t1 = (s', r)"
    by (auto simp: parse_def)
  from b[OF r4 never_target] a projectAccess_Inr[OF a] show ?thesis by blast
qed

lemma target_keeps: "keeps (given_others audit_kept env) (target_of env pid iid)"
  unfolding target_of_def by (intro audit_routes.steps keeps_option keeps_pair keeps_if)

lemma record_silence_audits:
  assumes k: "record_silence env oo requestId actor pid iid fp minutes t s = (s', r)"
    and o: "\<forall>t. audit_kept t (en_others env t)" and f: "\<forall>c. keeps audit_kept (ft_call (oo_fetch oo) c)"
    and r: "r = Inl outcome_unknown \<or> (\<exists>x. r = Inr x)"
  shows "\<exists>xs a ys. silence_rows ''alert.silence.requested'' (ac_id actor) pid a \<and>
    db_audit (sys_db s') = db_audit (sys_db s) @ xs @ a # ys \<and>
    (\<forall>x. r = Inr x \<longrightarrow> ys \<noteq> [] \<and> silence_rows ''alert.silence.created'' (ac_id actor) pid (last ys))"
proof -
  obtain be cluster where be: "oo_alerts oo = Some (be, cluster)"
    using k r by (cases "oo_alerts oo") (auto simp: record_silence_def outcome_unknown_def)
  obtain xs where x: "db_audit (sys_db (en_others env s)) = db_audit (sys_db s) @ xs" using o by (auto simp: audit_kept_def)
  obtain s2 r2 where s2: "audit_now (ac_id actor) pid iid ''alert.silence.requested''
      (JObj [(''fingerprint'', JStr fp), (''minutes'', JNum (of_int minutes))]) (en_others env s) = (s2, r2)"
    by (meson surj_pair)
  from audit_now_run[OF s2] obtain a where r2: "r2 = Inr ()" and a: "silence_rows ''alert.silence.requested'' (ac_id actor) pid a"
    "db_audit (sys_db s2) = db_audit (sys_db s) @ xs @ [a]" using x by auto
  obtain s3 r3 where s3: "silence (oo_fetch oo) be (oo_active oo) (en_uuid env) cluster pid (tg_instanceUID t) fp minutes s2 = (s3, r3)"
    by (meson surj_pair)
  obtain zs where z: "db_audit (sys_db s3) = db_audit (sys_db s2) @ zs"
    using keepsD[OF keeps_fetch s3] f by (auto simp: audit_kept_def)
  show ?thesis
  proof (cases r3)
    case (Inl e)
    then have "s' = s3" "\<not> (\<exists>x. r = Inr x)"
      using k s2 s3 r2 be by (auto simp: record_silence_def mbind_def pause_def mcatch_def)
    then show ?thesis using a z by (intro exI[of _ xs] exI[of _ a] exI[of _ zs]) simp
  next
    case (Inr result)
    obtain ws where w: "db_audit (sys_db (en_others env s3)) = db_audit (sys_db s3) @ ws" using o by (auto simp: audit_kept_def)
    obtain s4 r4 where s4: "audit_now (ac_id actor) pid iid ''alert.silence.created''
        (JObj [(''silenceID'', JStr result), (''requestId'', JStr requestId)]) (en_others env s3) = (s4, r4)"
      by (meson surj_pair)
    from audit_now_run[OF s4] obtain c where r4: "r4 = Inr ()" and c: "silence_rows ''alert.silence.created'' (ac_id actor) pid c"
      "db_audit (sys_db s4) = db_audit (sys_db s3) @ ws @ [c]" using w by auto
    have "s' = s4" using k s2 s3 s4 r2 r4 be Inr by (simp add: record_silence_def mbind_def pause_def mcatch_def)
    then show ?thesis using a z c by (intro exI[of _ xs] exI[of _ a] exI[of _ "zs @ ws @ [c]"]) simp
  qed
qed



section \<open>Metrics\<close>

lemma metric_points_Inr:
  assumes "metric_points r previous vals = Inr points"
  shows "list_all2 (\<lambda>(t, raw) (t', x). t' = t \<and> metric_value raw = Inr x) vals points \<and> distinct (map fst points) \<and>
    (\<forall>(t, x) \<in> set points. previous < t \<and> of_int (br_start r) \<le> t \<and> t \<le> of_int (br_end r) \<and> on_grid r t)"
  using assms
proof (induction r previous vals arbitrary: points rule: metric_points.induct)
  case (2 r previous t raw vals)
  then obtain x ps where p: "metric_value raw = Inr x" "metric_points r t vals = Inr ps" "points = (t, x) # ps"
    and b: "of_int (br_start r) \<le> t" "t \<le> of_int (br_end r)" "previous < t" "on_grid r t"
    by (auto simp: result_simps)
  have ih: "list_all2 (\<lambda>(t, raw) (t', x). t' = t \<and> metric_value raw = Inr x) vals ps" "distinct (map fst ps)"
    "\<forall>(u, x) \<in> set ps. t < u \<and> of_int (br_start r) \<le> u \<and> u \<le> of_int (br_end r) \<and> on_grid r u"
    using "2.IH" p(1,2) b by auto
  have "t \<notin> fst ` set ps" using ih(3) by auto
  then show ?case using ih b p by fastforce
qed simp

lemma metric_value_nonneg: "metric_value raw = Inr (Some v) \<Longrightarrow> 0 \<le> v"
  by (auto simp: metric_value_def split: if_splits option.splits)

lemma grid_member:
  assumes "on_grid r t" "of_int (br_start r) \<le> t" "t \<le> of_int (br_end r)" "0 < br_step r"
  shows "\<exists>k \<in> set (grid_times r). t = of_int k"
proof -
  define k where "k = \<lfloor>(t - of_int (br_start r)) / of_int (br_step r)\<rfloor>"
  have "of_int k = (t - of_int (br_start r)) / of_int (br_step r)" using assms(1) by (simp add: on_grid_def k_def Let_def)
  then have t: "t = of_int (br_start r + k * br_step r)" using assms(4) by (simp add: field_simps)
  have "0 \<le> k * br_step r" "k * br_step r \<le> br_end r - br_start r" using assms(2,3) unfolding t by linarith+
  then have k: "0 \<le> k" "k \<le> (br_end r - br_start r) div br_step r"
    using assms(4) by (simp_all add: zero_le_mult_iff zdiv_mono1 pos_imp_zdiv_nonneg_iff) (metis assms(4) less_le nonzero_mult_div_cancel_right zdiv_mono1)
  then have "nat k < Suc (nat ((br_end r - br_start r) div br_step r))" by (simp add: less_Suc_eq_le nat_mono)
  then show ?thesis using t k(1) unfolding grid_times_def by (intro bexI[of _ "br_start r + k * br_step r"]) (auto intro!: image_eqI[of _ _ "nat k"])
qed

lemma complete_points_iff:
  assumes p: "metric_points r previous vals = Inr points" and step: "0 < br_step r"
  shows "(\<exists>k. t = of_int k \<and> (k, Some v) \<in> set (complete_points r points)) \<longleftrightarrow>
    (\<exists>raw. (t, raw) \<in> set vals \<and> metric_value raw = Inr (Some v))"
proof -
  note m = metric_points_Inr[OF p]
  have d: "distinct (map fst points)" using m by blast
  have "(\<exists>raw. (t, raw) \<in> set vals \<and> metric_value raw = Inr (Some v)) \<longleftrightarrow> (t, Some v) \<in> set points"
  proof
    assume "\<exists>raw. (t, raw) \<in> set vals \<and> metric_value raw = Inr (Some v)"
    then obtain i raw where "i < length vals" "vals ! i = (t, raw)" "metric_value raw = Inr (Some v)" by (auto simp: in_set_conv_nth)
    then show "(t, Some v) \<in> set points" using m by (auto simp: list_all2_conv_all_nth in_set_conv_nth split: prod.splits) (metis prod.collapse sum.inject(2))
  next
    assume "(t, Some v) \<in> set points"
    then obtain i where "i < length points" "points ! i = (t, Some v)" by (auto simp: in_set_conv_nth)
    then show "\<exists>raw. (t, raw) \<in> set vals \<and> metric_value raw = Inr (Some v)"
      using m by (auto simp: list_all2_conv_all_nth in_set_conv_nth split: prod.splits) (metis prod.collapse)
  qed
  also have "\<dots> \<longleftrightarrow> (\<exists>k \<in> set (grid_times r). t = of_int k \<and> map_of points (of_int k) = Some (Some v))"
  proof
    assume a: "(t, Some v) \<in> set points"
    then have "on_grid r t" "of_int (br_start r) \<le> t" "t \<le> of_int (br_end r)" using m by fast+
    from grid_member[OF this step] obtain k where "k \<in> set (grid_times r)" "t = of_int k" by blast
    then show "\<exists>k \<in> set (grid_times r). t = of_int k \<and> map_of points (of_int k) = Some (Some v)"
      using map_of_is_SomeI[OF d a] by blast
  qed (auto dest: map_of_SomeD)
  also have "\<dots> \<longleftrightarrow> (\<exists>k. t = of_int k \<and> (k, Some v) \<in> set (complete_points r points))"
    by (force simp: complete_points_def split: option.splits)
  finally show ?thesis by simp
qed


lemma metric_lines_Inr:
  assumes "metric_lines r ds names latest data = Inr (final, ls)"
  shows "list_all2 (\<lambda>(metric, vals) l. map_of metric ''series'' = Some (ml_name l) \<and> known_series ds (ml_name l) \<and>
      (\<exists>points. metric_points r (of_int (br_start r) - 1) vals = Inr points \<and> ml_points l = complete_points r points)) data ls \<and>
    distinct (map ml_name ls) \<and> set (map ml_name ls) \<inter> set names = {}"
  using assms
proof (induction r ds names latest data arbitrary: ls rule: metric_lines.induct)
  case (2 r ds names latest metric vals rest)
  then obtain name points ls' where n: "map_of metric ''series'' = Some name" "known_series ds name" "name \<notin> set names"
    "metric_points r (of_int (br_start r) - 1) vals = Inr points"
    "metric_lines r ds (name # names) (latest_point latest points) rest = Inr (final, ls')"
    "ls = \<lparr>ml_name = name, ml_unit = map_option snd (map_of ds name), ml_points = complete_points r points\<rparr> # ls'"
    by (auto simp: result_simps split: option.splits)
  with "2.IH"[OF n(1) n(5)] show ?case by auto
qed simp

lemma bounds_step: "0 < br_step (bounds w now)" "br_end (bounds w now) = br_start (bounds w now) + fst (window_steps w)"
  "br_step (bounds w now) dvd br_end (bounds w now)"
  by (cases w; simp add: bounds_def Let_def range_end_def)+

lemma fst_complete: "map fst (complete_points r points) = grid_times r"
  by (simp add: complete_points_def comp_def)

text \<open>A returned line agrees with what was reported for its series: the points of the grid, with a
  value exactly where one was reported.\<close>

definition agrees :: "bounds_range \<Rightarrow> strmap \<times> (rat \<times> string) list \<Rightarrow> metric_line \<Rightarrow> bool" where
  "agrees r mv l \<longleftrightarrow> map_of (fst mv) ''series'' = Some (ml_name l) \<and> map fst (ml_points l) = grid_times r \<and>
     (\<forall>time v. (\<exists>k. time = of_int k \<and> (k, Some v) \<in> set (ml_points l)) \<longleftrightarrow>
               (\<exists>raw. (time, raw) \<in> set (snd mv) \<and> metric_value raw = Inr (Some v)))"

lemma agrees_nonneg: "agrees r mv l \<Longrightarrow> (k, Some v) \<in> set (ml_points l) \<Longrightarrow> 0 \<le> v"
  unfolding agrees_def using metric_value_nonneg by blast

lemma metric_lines_agree:
  assumes "metric_lines r ds [] 0 data = Inr (final, ls)" "0 < br_step r"
  shows "list_all2 (agrees r) data ls \<and> distinct (map ml_name ls)"
proof -
  note l = metric_lines_Inr[OF assms(1)]
  have "agrees r mv x" if "map_of (fst mv) ''series'' = Some (ml_name x)"
    "metric_points r (of_int (br_start r) - 1) (snd mv) = Inr points" "ml_points x = complete_points r points" for mv x points
    unfolding agrees_def that(3) using that(1) complete_points_iff[OF that(2) assms(2)] by (simp add: fst_complete)
  then have "list_all2 (agrees r) data ls" by (intro list_all2_mono[OF conjunct1[OF l]]) auto
  then show ?thesis using l by blast
qed

text \<open>Metrics are complete and invented nowhere. Every series returned for a window has exactly
  the points of its grid, from start to end by the step, and a point has a value exactly where the
  backend reported one for that series at that time: an absent, infinite or not-a-number sample is an
  explicit gap, and no reported value is dropped, moved or negative. No series is returned twice.\<close>

theorem metrics_complete:
  assumes "read_metrics ft be n cluster t g w s = (s', Inr m)"
  shows "mr_range m = bounds w (sys_now s) \<and> distinct (map ml_name (mr_series m)) \<and>
    (\<exists>data. list_all2 (agrees (mr_range m)) data (mr_series m)) \<and>
    (\<forall>l \<in> set (mr_series m). \<forall>k v. (k, Some v) \<in> set (ml_points l) \<longrightarrow> 0 \<le> v)"
proof -
  obtain data where a: "list_all2 (agrees (bounds w (sys_now s))) data (mr_series m)" and d: "distinct (map ml_name (mr_series m))"
    and e: "mr_range m = bounds w (sys_now s)"
  proof (cases "mr_series m = []")
    case True
    moreover from assms have "mr_range m = bounds w (sys_now s)"
      unfolding read_metrics_def Let_def by (auto simp: mbind_Inr split: if_splits prod.splits)
    ultimately show ?thesis using that[of "[]"] by simp
  next
    case False
    then obtain ds data final where m: "metric_lines (bounds w (sys_now s)) ds [] 0 data = Inr (final, mr_series m)"
      and e: "mr_range m = bounds w (sys_now s)"
      using assms unfolding read_metrics_def Let_def by (auto simp: mbind_Inr split: if_splits prod.splits)
    show ?thesis using metric_lines_agree[OF m bounds_step(1)] e that by blast
  qed
  have "0 \<le> v" if "l \<in> set (mr_series m)" "(k, Some v) \<in> set (ml_points l)" for l k v
    using a that agrees_nonneg unfolding list_all2_conv_all_nth in_set_conv_nth by metis
  then show ?thesis using a d e by auto
qed


section \<open>Sample observations\<close>

definition sample_fetch :: "json \<Rightarrow> unit fetcher" where
  "sample_fetch doc = \<lparr>ft_call = (\<lambda>_. mret \<lparr>re_ok = True, re_body = Some ([json_text doc], True)\<rparr>), ft_utf8 = id, ft_url = (\<lambda>_. None),
     ft_iso = (\<lambda>_. True), ft_date = (\<lambda>_. Some 0), ft_show_date = (\<lambda>_. [])\<rparr>"

lemma sample_fetch_simps [simp]:
  "ft_call (sample_fetch doc) c s = (s, Inr \<lparr>re_ok = True, re_body = Some ([json_text doc], True)\<rparr>)"
  "ft_utf8 (sample_fetch doc) x = x" "ft_iso (sample_fetch doc) = (\<lambda>_. True)" "ft_date (sample_fetch doc) x = Some 0"
  by (simp_all add: sample_fetch_def)

definition sample_backend :: backend where
  "sample_backend = \<lparr>bk_url = \<lparr>ur_protocol = ''http:'', ur_username = [], ur_password = [], ur_host = ''metrics'', ur_pathname = ''/'',
     ur_search = [], ur_hash = []\<rparr>, bk_token = None\<rparr>"

lemma sample_request_run:
  "plain doc \<Longrightarrow> length (json_text doc) \<le> 1048576 \<Longrightarrow> request (sample_fetch doc) be 0 path params payload s = (s, Inr doc)"
  by (simp add: request_def mbind_def mthrow_if_def read_json_def JSON_roundtrip)

definition sample_matrix :: json where
  "sample_matrix = JObj [(''status'', JStr ''success''), (''data'', JObj [(''resultType'', JStr ''matrix''),
     (''result'', JArr [JObj [(''metric'', JObj [(''series'', JStr ''entries'')]), (''values'', JArr [JArr [JNum 60, JStr ''5'']])]])])]"

definition sample_target :: target where
  "sample_target = \<lparr>tg_projectId = ''p1'', tg_instanceUID = ''uid'', tg_namespace = ''ns'', tg_template = ''bazel-remote'', tg_version = ''0.1.0''\<rparr>"

definition hour_sys :: "unit sys" where
  "hour_sys = people_sys\<lparr>sys_now := 3600000\<rparr>"

lemma sample_points: "metric_points (bounds W1h 3600000) (- 1) [(60, ''5'')] = Inr [(60, Some 5)]"
  by code_simp

lemma sample_matrix_parses: "z_parse metric_matrix sample_matrix = Inr [([(''series'', ''entries'')], [(60, ''5'')])]"
  by code_simp

lemma read_metrics_run:
  assumes "selector t cluster = Inr sel" "descriptors t cluster g sel = Inr ds" "ds \<noteq> []"
    "\<And>path params. request ft be n path params None s = (s, Inr doc)" "z_parse metric_matrix doc = Inr data"
    "metric_lines (bounds w (sys_now s)) ds [] 0 data = Inr (latest, ls)"
  shows "\<exists>m. read_metrics ft be n cluster t g w s = (s, Inr m) \<and> mr_series m = ls"
  unfolding read_metrics_def using assms by (simp add: mbind_def Let_def)

lemma sample_lines:
  "known_series ds ''entries'' \<Longrightarrow> \<exists>l latest. metric_lines (bounds W1h 3600000) ds [] 0 [([(''series'', ''entries'')], [(60, ''5'')])] = Inr (latest, [l])"
proof -
  have "of_int (br_start (bounds W1h 3600000)) - 1 = (- 1 :: rat)" by code_simp
  then show "known_series ds ''entries'' \<Longrightarrow> ?thesis" by (simp del: metric_points.simps add: sample_points)
qed

lemma sample_metrics:
  "\<exists>m l. read_metrics (sample_fetch sample_matrix) sample_backend 0 ''primary'' sample_target Capacity W1h hour_sys = (hour_sys, Inr m) \<and>
     mr_series m = [l]"
proof -
  have p: "plain sample_matrix" by (simp add: sample_matrix_def)
  have "length (json_text sample_matrix) \<le> 300" by code_simp
  then have l: "length (json_text sample_matrix) \<le> 1048576" by simp
  obtain sel where i: "selector sample_target ''primary'' = Inr sel"
  proof -
    have "isl (selector sample_target ''primary'') = False" by code_simp
    then show ?thesis using that by (cases "selector sample_target ''primary''") auto
  qed
  have k: "known_series (capacity_descriptors sample_target sel) ''entries''" "capacity_descriptors sample_target sel \<noteq> []"
    by (simp_all add: known_series_def capacity_descriptors_def)
  have "sys_now hour_sys = 3600000" by (simp add: hour_sys_def)
  moreover obtain l latest where "metric_lines (bounds W1h 3600000) (capacity_descriptors sample_target sel) [] 0
      [([(''series'', ''entries'')], [(60, ''5'')])] = Inr (latest, [l])"
    using sample_lines[OF k(1)] by blast
  moreover have "descriptors sample_target ''primary'' Capacity sel = Inr (capacity_descriptors sample_target sel)"
    by (simp add: descriptors_def)
  ultimately show ?thesis
    using read_metrics_run[OF i _ k(2) sample_request_run[OF p l] sample_matrix_parses, of Capacity W1h hour_sys latest "[l]" sample_backend]
    by (simp del: metric_lines.simps) blast
qed

theorem metrics_complete_witness:
  "\<exists>m l. read_metrics (sample_fetch sample_matrix) sample_backend 0 ''primary'' sample_target Capacity W1h hour_sys = (hour_sys, Inr m) \<and>
     mr_series m = [l] \<and> (\<exists>mv. agrees (mr_range m) mv l)"
proof -
  obtain m l where m: "read_metrics (sample_fetch sample_matrix) sample_backend 0 ''primary'' sample_target Capacity W1h hour_sys = (hour_sys, Inr m)"
    "mr_series m = [l]" using sample_metrics by blast
  from metrics_complete[OF m(1)] m obtain mv where "agrees (mr_range m) mv l" by (auto simp: list_all2_Cons2)
  then show ?thesis using m by blast
qed

definition resolved_alert :: alert_row where
  "resolved_alert = \<lparr>al_project_id = ''p1'', al_instance_uid = ''uid'', al_fingerprint = ''ff'', al_starts_at = 0, al_ends_at = Some 5,
     al_received_at = 6, al_state = Resolved, al_active_confirmed = None, al_checked_at = None,
     al_payload = \<lparr>am_name = ''Down'', am_severity = ''warning'', am_summary = []\<rparr>\<rparr>"

definition alert_sys :: "unit sys" where
  "alert_sys = people_sys\<lparr>sys_db := watched_db\<lparr>db_alerts := [resolved_alert]\<rparr>\<rparr>"

definition alert_options :: "json \<Rightarrow> unit obs_options" where
  "alert_options doc = \<lparr>oo_fetch = sample_fetch doc, oo_cluster = ''primary'', oo_metrics = None, oo_logs = None,
     oo_alerts = Some (sample_backend, ''primary''), oo_webhookToken = Some ''t'', oo_active = (\<lambda>_. 0)\<rparr>"

text \<open>A late delivery says that the resolved alert is firing.\<close>

definition late_delivery :: http_request where
  "late_delivery = (sample_request [(''alerts'', JArr [JObj [(''status'', JStr ''firing''), (''fingerprint'', JStr ''ff''), (''startsAt'', JStr ''t0''),
     (''endsAt'', JStr ''t1''), (''labels'', JObj [(''expbuild_cluster_id'', JStr ''primary''), (''expbuild_project_id'', JStr ''p1''),
     (''expbuild_instance_uid'', JStr ''uid'')])]])])\<lparr>hr_authorization := Some ''Bearer t''\<rparr>"

theorem resolved_is_final_witness:
  "\<exists>s' r a. post_alerts sample_env (alert_options JNull) late_delivery alert_sys = (s', r) \<and>
     a \<in> set (db_alerts (sys_db s')) \<and> al_fingerprint a = ''ff'' \<and> al_state a = Resolved"
proof -
  obtain s' r where p: "post_alerts sample_env (alert_options JNull) late_delivery alert_sys = (s', r)" by (meson surj_pair)
  have "alerts_grow (db_alerts (sys_db alert_sys)) (db_alerts (sys_db s'))"
    by (rule resolved_is_final[where lock = "mret True" and reader = "\<lambda>_. mret []" and cursor = "[]" and ft = "sample_fetch JNull"])
      (use p alerts_refl in \<open>auto intro: keeps_mret reflpD[OF alerts_refl] simp del: mret_run\<close>)
  then obtain ys zs where "db_alerts (sys_db s') = ys @ zs" "list_all2 alert_kept [resolved_alert] ys"
    by (auto simp: alerts_grow_def alert_sys_def)
  then obtain a where "ys = [a]" "alert_kept resolved_alert a" by (auto simp: list_all2_Cons1)
  moreover have "a \<in> set (db_alerts (sys_db s'))" using \<open>ys = [a]\<close> \<open>db_alerts (sys_db s') = ys @ zs\<close> by simp
  ultimately show ?thesis using p by (auto simp: alert_kept_def alert_key_def resolved_alert_def)
qed

definition silence_sys :: "unit sys" where
  "silence_sys = people_sys\<lparr>sys_db := people_db\<lparr>db_projects := [sample_project], db_bindings := [watched_binding]\<rparr>\<rparr>"

definition silence_request :: http_request where
  "silence_request = sample_request [(''fingerprint'', JStr ''ff''), (''minutes'', JNum 30)]"

lemma silence_binding: "find_binding (sys_db silence_sys) ''p1'' ''i1'' = Some (watched_binding, sample_project)"
  by (simp add: silence_sys_def find_binding_def find_project_def sql_first_def first_row_def) (simp add: sample_project_def)

lemma silence_access:
  "projectAccess sample_env silence_request ''p1'' roles silence_sys =
     (silence_sys, Inr \<lparr>ac_id = ''u1'', ac_email = ''root@x'', ac_platform_admin = True\<rparr>)"
proof -
  have u: "user sample_env silence_request silence_sys = (silence_sys, Inr \<lparr>ac_id = ''u1'', ac_email = ''root@x'', ac_platform_admin = True\<rparr>)"
    by (simp add: silence_sys_def silence_request_def user_def mbind_def live_sessions_def first_row_def bad_csrf_def safe_method_def mthrow_if_def)
  show ?thesis
    unfolding projectAccess_def
    by (simp add: mbind_def u pause_def query_def mthrow_if_def)
      (simp add: silence_sys_def find_project_def sql_first_def first_row_def sample_project_def)
qed

lemma silence_target:
  "\<exists>t. target_of sample_env ''p1'' ''i1'' silence_sys = (silence_sys, Inr t)"
  unfolding target_of_def by (simp add: mbind_def pause_def query_def silence_binding)

text \<open>The alert manager answers with a document that is not a list of alerts.\<close>

lemma silence_fails:
  "\<exists>e. silence (sample_fetch JNull) be (\<lambda>_. 0) isUuid cluster pid uid fp minutes s = (s, Inl e)"
proof -
  have "length (json_text JNull) \<le> 1048576" by (simp add: json_text.simps)
  then have f: "request (sample_fetch JNull) be 0 path params payload s = (s, Inr JNull)" for path params payload
    by (intro sample_request_run) simp_all
  have z: "z_parse (z_max 500 (z_array (alertSchema i))) JNull = Inl ZodError" for i
    by (simp add: z_parse_def z_max_def z_check_def)
  show ?thesis unfolding silence_def read_alerts_def by (simp add: mbind_def mthrow_if_def f z)
qed

lemma sample_silence:
  "\<exists>s'. post_silence sample_env (alert_options JNull) ''r1'' silence_request ''p1'' ''i1'' silence_sys = (s', Inl outcome_unknown)"
proof -
  have b: "silence_body (Some (JObj [(''fingerprint'', JStr ''ff''), (''minutes'', JNum 30)])) = Some (''ff'', 30)" by code_simp
  then have bb: "silence_body (hr_body silence_request) = Some (''ff'', 30)" by (simp add: silence_request_def)
  obtain t where t: "target_of sample_env ''p1'' ''i1'' silence_sys = (silence_sys, Inr t)" using silence_target by blast
  obtain s2 where s2: "audit_now ''u1'' ''p1'' ''i1'' ''alert.silence.requested''
      (JObj [(''fingerprint'', JStr ''ff''), (''minutes'', JNum (of_int 30))]) silence_sys = (s2, Inr ())"
    by (metis audit_now_run surj_pair)
  obtain e where e: "silence (sample_fetch JNull) sample_backend (\<lambda>_. 0) (\<lambda>_. True) ''primary'' ''p1'' (tg_instanceUID t) ''ff'' 30 s2 = (s2, Inl e)"
    using silence_fails by blast
  have u: "parse_uuid sample_env x s = (s, Inr x)" for x and s :: "unit sys"
    by (simp add: parse_uuid_def parse_def z_check_def)
  have u: "parse_uuid sample_env x s = (s, Inr x)" for x and s :: "unit sys"
    by (simp add: parse_uuid_def parse_def z_check_def)
  show ?thesis
    unfolding post_silence_def record_silence_def
    using s2 e by (simp add: mbind_def u silence_access bb t alert_options_def pause_def mcatch_def outcome_unknown_def)
qed



section \<open>Logs\<close>

lemma list_all2_right: "list_all2 R xs ys \<Longrightarrow> y \<in> set ys \<Longrightarrow> \<exists>x \<in> set xs. R x y"
  by (induction rule: list_all2_induct) auto

lemma sanitizeLog_bounds: "length (sanitizeLog v) \<le> 4096" "list_all (\<lambda>c. \<not> control_char c) (sanitizeLog v)"
  by (auto simp: sanitizeLog_def list_all_iff dest!: in_set_takeD)

text \<open>A stream of the asked instance: the labels that every stream carries name it.\<close>

definition owned_stream :: "target \<Rightarrow> string \<Rightarrow> strmap \<Rightarrow> bool" where
  "owned_stream t cluster lbs \<longleftrightarrow> map_of lbs ''expbuild_cluster_id'' = Some cluster \<and>
     map_of lbs ''expbuild_project_id'' = Some (tg_projectId t) \<and> map_of lbs ''expbuild_instance_uid'' = Some (tg_instanceUID t)"

lemma stream_lines_Inr:
  assumes "stream_lines t cluster s = Inr ls" "(time, line) \<in> set ls"
  shows "owned_stream t cluster (fst s) \<and>
    (\<exists>ns raw. (ns, raw) \<in> set (snd s) \<and> time = int (digits_val ns div 1000000) \<and> line = sanitizeLog raw)"
proof -
  have o: "owned_stream t cluster (fst s)" and l: "list_all2 (\<lambda>x y. log_line x = Inr y) (snd s) ls"
    using assms(1) by (auto simp: stream_lines_def owned_stream_def rmap_eq_Inr)
  from list_all2_right[OF l assms(2)] obtain e where e: "e \<in> set (snd s)" "log_line e = Inr (time, line)" by blast
  from e(2) have "time = int (digits_val (fst e) div 1000000)" "line = sanitizeLog (snd e)"
    by (auto simp: log_line_def Let_def)
  then show ?thesis using o e(1) by (metis prod.collapse)
qed

lemma logs_of_Inr:
  "logs_of first final ls = Inr r \<Longrightarrow>
     lr_start r = first \<and> lr_end r = final \<and> lr_items r = take 500 (sort_key (\<lambda>l. - fst l) ls) \<and>
     lr_truncated r = (500 < length ls) \<and> (\<forall>l \<in> set ls. first \<le> fst l \<and> fst l \<le> final)"
  by (auto simp: logs_of_def Let_def list_ex_iff not_less)


definition sample_logs :: json where
  "sample_logs = JObj [(''status'', JStr ''success''), (''data'', JObj [(''resultType'', JStr ''streams''),
     (''result'', JArr [JObj [(''stream'', JObj [(''expbuild_cluster_id'', JStr ''primary''), (''expbuild_project_id'', JStr ''p1''),
        (''expbuild_instance_uid'', JStr ''uid'')]), (''values'', JArr [JArr [JStr ''0000000000'', JStr ''ok'']])]])])]"

lemma sample_logs_parse:
  "z_parse logResult sample_logs =
     Inr [([(''expbuild_cluster_id'', ''primary''), (''expbuild_project_id'', ''p1''), (''expbuild_instance_uid'', ''uid'')], [(''0000000000'', ''ok'')])]"
  unfolding sample_logs_def logResult_def log_stream_def
  by (simp add: z_parse_def z_field_def z_max_def z_check_def z_literal_def is_digit_def)

lemma sample_line: "sanitizeLog ''ok'' = ''ok''"
proof -
  have "replace_all url_credentials None (replace_all secret_field None (replace_all credential_scheme None ''ok'')) = ''ok''"
    by code_simp
  then show ?thesis by (simp add: sanitizeLog_def control_char_def)
qed

lemma sample_lines_read:
  "rmap (stream_lines sample_target ''primary'')
     [([(''expbuild_cluster_id'', ''primary''), (''expbuild_project_id'', ''p1''), (''expbuild_instance_uid'', ''uid'')], [(''0000000000'', ''ok'')])] =
     Inr [[(0, ''ok'')]]"
proof -
  have "digits_val ''0000000000'' = 0" by code_simp
  then show ?thesis by (simp add: stream_lines_def log_line_def sample_target_def sample_line)
qed

lemma read_logs_run:
  assumes "selector t cluster = Inr sel" "\<And>path params. request ft be n path params None s = (s, Inr doc)"
    "z_parse logResult doc = Inr streams" "rmap (stream_lines t cluster) streams = Inr ls"
    "logs_of (sys_now s - minutes * 60000) (sys_now s) (concat ls) = Inr r"
  shows "read_logs ft be n cluster t minutes None s = (s, Inr r)"
  unfolding read_logs_def using assms by (simp add: mbind_def Let_def mthrow_if_def)


end
