(* ===== verification/Web_Recipes.thy ===== *)
theory Web_Recipes
  imports Fetch Contract
begin

text \<open>
  The connection recipes of the web console: src/apps/admin-web/src/client-profiles.ts and
  ConnectionInfo.tsx. A recipe is a shell script with the address of an instance in it; the console
  shows it only for addresses that carry no credentials. \<open>new URL\<close> is the parameter \<open>parse_url\<close>,
  as in \<open>Fetch\<close>; its host is empty exactly when its hostname is. The messages of the console are
  Chinese keys of messages.ts: the parameter \<open>t\<close> gives the text of a message in the current
  locale, and a message is named by its English text. The shell is not code of the repository:
  \<open>sh_word\<close> states how POSIX reads a word with quotes, and the properties are stated with it.
\<close>

section \<open>Quoting\<close>

abbreviation backslash :: string where "backslash \<equiv> [CHR 0x5C]"
abbreviation newline :: string where "newline \<equiv> [CHR 0x0A]"
abbreviation squote :: char where "squote \<equiv> CHR 0x27"
abbreviation apostrophe :: string where "apostrophe \<equiv> [squote]"

text \<open>\<open>value.replaceAll(c, text)\<close> for one character \<open>c\<close>\<close>

definition replace_char :: "char \<Rightarrow> string \<Rightarrow> string \<Rightarrow> string" where
  "replace_char c r s = concat (map (\<lambda>d. if d = c then r else [d]) s)"

definition quote :: "string \<Rightarrow> string" where
  "quote v = [squote] @ replace_char squote ([squote] @ backslash @ [squote, squote]) v @ [squote]"

definition xml :: "string \<Rightarrow> string" where
  "xml v = replace_char squote ''&apos;'' (replace_char dquote ''&quot;''
     (replace_char (CHR ''>'') ''&gt;'' (replace_char (CHR ''<'') ''&lt;'' (replace_char (CHR ''&'') ''&amp;'' v))))"

section \<open>Recipes\<close>

record endpoint =
  ep_protocol :: string
  ep_url :: string

definition origin :: "url \<Rightarrow> string" where
  "origin u = ur_protocol u @ ''//'' @ ur_host u"


definition goCacheRecipe :: "string \<Rightarrow> string" where
  \<open>goCacheRecipe address =
     joined newline
     ([''('',
      ''set -euo pipefail'',
      ''# Experimental: already installed Go 1.27.1 and platacard/cacheprog v1.3.0 required.'',
      ''export GOTOOLCHAIN=local'',
      ''test "$(go env GOVERSION)" = 'go1.27.1'' @ apostrophe,
      ''EXPBUILD_CACHEPROG_BIN="$(command -v cacheprog)"'',
      ''case "$EXPBUILD_CACHEPROG_BIN" in /*) ;; *) echo 'cacheprog must resolve to an absolute executable path' >&2; exit 1;; esac'',
      ''case "$EXPBUILD_CACHEPROG_BIN" in *[!a-zA-Z0-9_./-]*) echo 'Use a cacheprog path without spaces or shell metacharacters' >&2; exit 1;; esac'',
      ''"$EXPBUILD_CACHEPROG_BIN" --version | grep -Eq '^cacheprog version v?1'' @ backslash @ ''.3'' @ backslash @ ''.0( |$)'' @ apostrophe,
      ''# Clear inherited cacheprog storage, auth and reset settings before choosing this instance.'',
      ''for EXPBUILD_ENV in ${!CACHEPROG_@}; do unset "$EXPBUILD_ENV"; done'',
      ''read -r -s -p 'Instance cache token: ' EXPBUILD_CACHE_TOKEN'',
      ''printf '' @ apostrophe @ backslash @ ''n'' @ apostrophe,
      ''case "$EXPBUILD_CACHE_TOKEN" in '' @ apostrophe @ '''|*[!a-zA-Z0-9_-]*) echo 'Expected the generated instance password' >&2; exit 1;; esac'',
      ''export CACHEPROG_REMOTE_STORAGE_TYPE=http'',
      ''export CACHEPROG_HTTP_STORAGE_BASE_URL='' @ quote address,
      ''export CACHEPROG_HTTP_STORAGE_EXTRA_HEADERS="Authorization:Bearer $EXPBUILD_CACHE_TOKEN"'',
      ''unset EXPBUILD_CACHE_TOKEN'',
      ''EXPBUILD_GO_ROOT="$(mktemp -d "${TMPDIR:-/tmp}/expbuild-go.XXXXXX")"'',
      ''EXPBUILD_GO_ROOT="$(cd "$EXPBUILD_GO_ROOT" && pwd -P)"'',
      ''trap 'rm -rf -- "$EXPBUILD_GO_ROOT"' EXIT'',
      ''export CACHEPROG_ROOT_DIRECTORY="$EXPBUILD_GO_ROOT/helper"'',
      ''export GOCACHE="$EXPBUILD_GO_ROOT/go-local"'',
      ''export GOCACHEPROG="$EXPBUILD_CACHEPROG_BIN direct"'',
      ''export CACHEPROG_DISABLE_PUT=true'',
      ''# Server readOnly remains authoritative. Enable uploads only to a writable trusted instance.'',
      ''if [ "${EXPBUILD_GO_WRITE:-false}" = true ]; then'',
      ''  test "${CI:-}" = true || { echo 'Writes require trusted CI=true' >&2; exit 1; }'',
      ''  export CACHEPROG_DISABLE_PUT=false'',
      ''fi'',
      ''# The helper returns local DiskPath files; keep both directories until Go exits.'',
      ''go build ./...'',
      '')''])\<close>

definition moonRecipe :: "string \<Rightarrow> string" where
  \<open>moonRecipe address =
     joined newline
     ([''('',
      ''set +x'',
      ''set -euo pipefail'',
      ''# Experimental moon 2.5.6; prepare the JSON workspace in docs/k8s-platform/moonrepo.md.'',
      ''# Requires Python 3 for a read-only configuration preflight. No installer is invoked.'',
      ''python3 - <<'MOON_PREFLIGHT'' @ apostrophe,
      ''import json, os, pathlib, sys'',
      ''def require(ok, message):'',
      ''    if not ok: sys.exit(message)'',
      ''require(not any(k.startswith(('MOON_', 'STARBASE_', 'WARPGATE_')) for k in os.environ), 'Use a clean environment without moon overrides or tracing.')'',
      ''require(not pathlib.Path('.config/moon').exists(), 'Use only .moon/workspace.json.')'',
      ''directory = pathlib.Path('.moon')'',
      ''path = directory / 'workspace.json'' @ apostrophe,
      ''require(not directory.is_symlink() and not path.is_symlink(), 'Symlinked workspace configuration is unsupported.')'',
      ''require(path.is_file() and sorted(p.name for p in directory.glob('workspace.*')) == ['workspace.json'], 'Use only .moon/workspace.json; alternative formats are unsupported.')'',
      ''require(not pathlib.Path('node_modules/@moonrepo/cli').exists(), 'A local moon package can override the pinned binary; use a dedicated system-only workspace.')'',
      ''config = json.loads(path.read_text())'',
      ''require(config.get('versionConstraint') == '=2.5.6', 'Pin versionConstraint to =2.5.6.')'',
      ''require('extends' not in config, 'Extended workspace configuration is unsupported by this recipe.')'',
      ''expected = {'api': 'grpc', 'auth': {'headers': {'authorization': '${EXPBUILD_MOON_AUTHORIZATION}'}}, 'cache': {'compression': 'none', 'instanceName': 'moon-outputs', 'localReadOnly': True, 'verifyIntegrity': True}}'',
      ''require(config.get('remote') == expected, 'Use the exact remote configuration from docs/k8s-platform/moonrepo.md.')'',
      ''require(config.get('pipeline') == {'installDependencies': False, 'syncProjects': False, 'syncWorkspace': False}, 'Disable automatic install and sync in this acceptance workspace.')'',
      ''MOON_PREFLIGHT'',
      ''export MOON_DAEMON=false MOON_TELEMETRY=false MOON_CACHE=read'',
      ''# Global read mode also blocks remote writes in CI, including CI=false.'',
      ''case "${EXPBUILD_MOON_WRITE:-false}" in'',
      ''  false) ;;'',
      ''  true) test "${CI:-}" = true; export MOON_CACHE=read-write ;;'',
      ''  *) printf '%s'' @ backslash @ ''n' 'EXPBUILD_MOON_WRITE must be false or true.' >&2; exit 1 ;;'',
      ''esac'',
      ''test "$(moon --version)" = 'moon 2.5.6'' @ apostrophe,
      ''read -r -p 'Cache username: ' CACHE_USER'',
      ''read -r -s -p 'Cache password: ' CACHE_PASSWORD'',
      ''printf '' @ apostrophe @ backslash @ ''n'' @ apostrophe,
      ''CACHE_AUTH="$(printf '%s:%s' "$CACHE_USER" "$CACHE_PASSWORD" | base64 | tr -d '' @ apostrophe @ backslash @ ''r'' @ backslash @ ''n')"'',
      ''export EXPBUILD_MOON_AUTHORIZATION="Basic $CACHE_AUTH"'',
      ''unset CACHE_USER CACHE_PASSWORD CACHE_AUTH'',
      ''export MOON_REMOTE_HOST='' @ quote address,
      ''# app:build must be a reviewed system-only task; do not dump env/config or enable tracing.'',
      ''moon --log warn --cache "$MOON_CACHE" run app:build'',
      '')''])\<close>

definition maven_plugins :: "(string \<times> string \<times> string list) list" where
  "maven_plugins =
     [(''maven-surefire-plugin'', ''test'', [''skipTests'', ''skip'', ''skipExec'']),
      (''maven-failsafe-plugin'', ''integration-test'', [''skipTests'', ''skipITs'', ''skip'']),
      (''maven-failsafe-plugin'', ''verify'', [''skipTests'', ''skipITs'', ''skip'']),
      (''maven-compiler-plugin'', ''compile'', [''source'', ''target'', ''release'']),
      (''maven-compiler-plugin'', ''testCompile'', [''source'', ''target'', ''release'', ''testSource'', ''testTarget'', ''testRelease''])]"

definition reconcile_line :: "string \<Rightarrow> string" where
  \<open>reconcile_line prop = ''            <reconcile propertyName="'' @ prop @ ''"/>''\<close>

definition plugin_xml :: "string \<times> string \<times> string list \<Rightarrow> string" where
  \<open>plugin_xml = (\<lambda>(artifact, goal, props).
     joined newline
     ([''        <plugin artifactId="'' @ artifact @ ''" goal="'' @ goal @ ''">'',
      ''          <reconciles>'',
      joined newline (map reconcile_line props),
      ''          </reconciles>'',
      ''        </plugin>'']))\<close>

definition maven_config :: "url \<Rightarrow> string" where
  \<open>maven_config u =
     joined newline
     ([''<?xml version="1.0" encoding="UTF-8"?>'',
      ''<cache xmlns="http://maven.apache.org/BUILD-CACHE-CONFIG/1.4.0">'',
      ''  <configuration>'',
      ''    <enabled>true</enabled>'',
      ''    <hashAlgorithm>SHA-256</hashAlgorithm>'',
      ''    <remote enabled="true" saveToRemote="false" id="expbuild-maven">'',
      ''      <url>'' @ xml (origin u @ ''/maven-build-cache'') @ ''</url>'',
      ''    </remote>'',
      ''  </configuration>'',
      ''  <executionControl>'',
      ''    <reconcile>'',
      ''      <plugins>'',
      joined newline (map plugin_xml maven_plugins),
      ''      </plugins>'',
      ''    </reconcile>'',
      ''  </executionControl>'',
      ''</cache>''])\<close>

definition mavenExample :: "url \<Rightarrow> string" where
  \<open>mavenExample u =
     joined newline
     ([''('',
      ''set -euo pipefail'',
      ''umask 077'',
      ''# Experimental: Maven 3.9.16 + Build Cache Extension 1.3.0, already provisioned.'',
      ''# Merge the pinned extension into .mvn/extensions.xml before using this example.'',
      ''# Existing settings.xml must define server expbuild-maven with username/password'',
      ''# referencing ${env.EXPBUILD_MAVEN_USER} and ${env.EXPBUILD_MAVEN_PASSWORD}.'',
      ''# Python 3 validates the existing XML; this does not install or run the extension.'',
      ''python3 - <<'EXPBUILD_CHECK_EXTENSION'' @ apostrophe,
      ''import xml.etree.ElementTree as ET'',
      ''root = ET.parse('.mvn/extensions.xml').getroot()'',
      ''def field(element, name):'',
      ''    return next(((x.text or '' @ apostrophe @ ''').strip() for x in element if x.tag.rsplit('}', 1)[-1] == name), '' @ apostrophe @ ''')'',
      ''matches = [e for e in root if e.tag.rsplit('}', 1)[-1] == 'extension' and field(e, 'groupId') == 'org.apache.maven.extensions' and field(e, 'artifactId') == 'maven-build-cache-extension']'',
      ''if len(matches) != 1 or field(matches[0], 'version') != '1.3.0':'',
      ''    raise SystemExit('Configure exactly one Build Cache Extension 1.3.0 before using this recipe.')'',
      ''EXPBUILD_CHECK_EXTENSION'',
      ''# This starter configuration is only for a fresh fixture. Preserve project-specific rules.'',
      ''if [ -e .mvn/maven-build-cache-config.xml ]; then printf '%s'' @ backslash @ ''n' 'Merge cache settings manually; existing project config found.' >&2; exit 1; fi'',
      ''case "$(mvn -B -Dstyle.color=never --version)" in 'Apache Maven 3.9.16'|'Apache Maven 3.9.16 ('*) ;; *) printf '%s'' @ backslash @ ''n' 'Maven 3.9.16 required.' >&2; exit 1;; esac'',
      ''read -r -p 'Cache username: ' EXPBUILD_MAVEN_USER'',
      ''read -r -s -p 'Cache password: ' EXPBUILD_MAVEN_PASSWORD'',
      ''printf '' @ apostrophe @ backslash @ ''n'' @ apostrophe,
      ''export EXPBUILD_MAVEN_USER EXPBUILD_MAVEN_PASSWORD'',
      ''MAVEN_CACHE_TMP="$(mktemp -d)"'',
      ''trap 'rm -rf -- "$MAVEN_CACHE_TMP"' EXIT'',
      ''cat >"$MAVEN_CACHE_TMP/config.xml" <<'EXPBUILD_MAVEN_CONFIG'' @ apostrophe,
      maven_config u,
      ''EXPBUILD_MAVEN_CONFIG'',
      ''# Client-only no-push policy; WebDAV credentials can still write, overwrite and delete.'',
      ''mvn -B -Dmaven.resolver.transport=native -Daether.connector.http.supportWebDav=true '' @ backslash,
      ''  -Dmaven.build.cache.configPath="$MAVEN_CACHE_TMP/config.xml" '' @ backslash,
      ''  -Dmaven.build.cache.location="$MAVEN_CACHE_TMP/local" '' @ backslash,
      ''  -Dmaven.build.cache.remote.enabled=true -Dmaven.build.cache.remote.save.enabled=false '' @ backslash,
      ''  '' @ quote (''-Dmaven.build.cache.remote.url='' @ origin u @ ''/maven-build-cache'') @ '' '' @ backslash,
      ''  -Dmaven.build.cache.remote.server.id=expbuild-maven '' @ backslash,
      ''  clean verify'',
      '')''])\<close>

definition credential_lines :: "string list" where
  \<open>credential_lines =
     [''read -r -p 'Cache username: ' CACHE_USER'',
      ''read -r -s -p 'Cache password: ' CACHE_PASSWORD'',
      ''printf '' @ apostrophe @ backslash @ ''n'' @ apostrophe]\<close>

definition turborepo_recipe :: "url \<Rightarrow> string \<Rightarrow> string" where
  \<open>turborepo_recipe u instanceId =
     joined newline
     ([''('',
      ''set -euo pipefail'',
      ''# Experimental; requires an already installed Turborepo 2.11.7.'',
      ''test "$(turbo --version)" = '2.11.7'' @ apostrophe,
      ''# Enter the instance password as the Bearer token, not a Vercel token.'',
      ''read -r -s -p 'Instance cache token: ' TURBO_TOKEN'',
      ''printf '' @ apostrophe @ backslash @ ''n'' @ apostrophe,
      ''export TURBO_TOKEN'',
      ''export TURBO_API='' @ quote (origin u),
      ''export TURBO_TEAMID='' @ quote (''team_'' @ instanceId),
      ''# Empty slug overrides any saved team slug; the server binds this team ID.'',
      ''export TURBO_TEAM='' @ apostrophe @ apostrophe,
      ''CACHE_MODE='local:rw,remote:r'' @ apostrophe,
      ''# Client-only read mode; the instance token still has read/write authority.'',
      ''if [ "${CI:-}" = true ]; then CACHE_MODE=local:rw,remote:rw; fi'',
      ''turbo run build --cache="$CACHE_MODE"'',
      '')''])\<close>

definition nx_recipe :: "url \<Rightarrow> string" where
  \<open>nx_recipe u =
     joined newline
     ([''('',
      ''set -euo pipefail'',
      ''# Experimental; requires Nx 22.7.12 already installed in this workspace.'',
      ''# Only use the read/write instance token in trusted build environments.'',
      ''read -r -s -p 'Instance cache token: ' NX_SELF_HOSTED_REMOTE_CACHE_ACCESS_TOKEN'',
      ''printf '' @ apostrophe @ backslash @ ''n'' @ apostrophe,
      ''export NX_SELF_HOSTED_REMOTE_CACHE_ACCESS_TOKEN'',
      ''export NX_SELF_HOSTED_REMOTE_CACHE_SERVER='' @ quote (origin u),
      ''export NX_DAEMON=false NX_NO_CLOUD=true'',
      ''# Ensure nx.json has no other remote-cache provider configured.'',
      ''test "$(node -p "require('./node_modules/nx/package.json').version")" = '22.7.12'' @ apostrophe,
      ''./node_modules/.bin/nx run-many -t build'',
      '')''])\<close>

definition sccache_recipe :: "string \<Rightarrow> string" where
  \<open>sccache_recipe address =
     joined newline
     ([''('',
      ''set -euo pipefail'',
      ''# Experimental; requires sccache 0.18.0 with WebDAV and an unused local port.'',
      ''test "$(sccache --version)" = 'sccache 0.18.0'' @ apostrophe] @
     credential_lines @
     [''export SCCACHE_WEBDAV_ENDPOINT='' @ quote address,
      ''export SCCACHE_WEBDAV_KEY_PREFIX='sccache/'' @ apostrophe,
      ''export SCCACHE_WEBDAV_USERNAME="$CACHE_USER" SCCACHE_WEBDAV_PASSWORD="$CACHE_PASSWORD"'',
      ''unset SCCACHE_WEBDAV_TOKEN SCCACHE_SERVER_UDS'',
      ''export SCCACHE_WEBDAV_RW_MODE=READ_ONLY'',
      ''# Local policy only; these instance credentials can still write.'',
      ''if [ "${CI:-}" = true ]; then export SCCACHE_WEBDAV_RW_MODE=READ_WRITE; fi'',
      ''export RUSTC_WRAPPER=sccache CARGO_INCREMENTAL=0'',
      ''# Use a dedicated daemon so an existing daemon cannot retain another backend.'',
      ''export SCCACHE_SERVER_PORT=4227'',
      ''sccache --start-server'',
      ''trap 'sccache --stop-server >/dev/null' EXIT'',
      ''cargo build --release'',
      ''sccache --show-stats'',
      '')''])\<close>

definition pants_recipe :: "string \<Rightarrow> string" where
  \<open>pants_recipe address =
     joined newline
     ([''('',
      ''set -euo pipefail'',
      ''# Experimental; project pants.toml must pin pants_version = '2.33.1'.'',
      ''test "$(pants --version)" = '2.33.1'' @ apostrophe] @
     credential_lines @
     [''CACHE_AUTH="$(printf '%s:%s' "$CACHE_USER" "$CACHE_PASSWORD" | base64 | tr -d '' @ apostrophe @ backslash @ ''r'' @ backslash @ ''n')"'',
      ''export PANTS_REMOTE_STORE_ADDRESS='' @ quote address,
      ''export PANTS_REMOTE_STORE_HEADERS="{'authorization': 'Basic $CACHE_AUTH'}"'',
      ''export PANTS_REMOTE_PROVIDER=reapi PANTS_REMOTE_EXECUTION=false'',
      ''export PANTS_REMOTE_CACHE_READ=true PANTS_REMOTE_CACHE_WRITE=false'',
      ''# Local policy only; these instance credentials can still write.'',
      ''if [ "${CI:-}" = true ]; then export PANTS_REMOTE_CACHE_WRITE=true; fi'',
      ''export PANTS_PANTSD=false'',
      ''pants test ::'',
      ''pants package ::'',
      '')''])\<close>

text \<open>\<open>/^[0-9a-f]{8}-[0-9a-f]{4}-[0-9a-f]{4}-[0-9a-f]{4}-[0-9a-f]{12}$/\<close>\<close>

definition uuid_text :: "string \<Rightarrow> bool" where
  "uuid_text s \<longleftrightarrow> length s = 36 \<and>
     list_all (\<lambda>(i, c). if i \<in> {8, 13, 18, 23} then c = CHR ''-'' else is_hex_lower c) (zip [0..<36] s)"

text \<open>The versions of the clients the recipes are written for.\<close>

definition recipe_versions :: strmap where
  "recipe_versions = [(''pants'', ''2.33.1''), (''sccache'', ''0.18.0''), (''turborepo'', ''2.11.7''),
     (''nx'', ''22.7.12''), (''maven-build-cache'', ''1.3.0''), (''moonrepo'', ''2.5.6''), (''go-cacheprog'', ''1.3.0'')]"

definition web_schemes :: "string list" where
  "web_schemes = [''http:'', ''https:'']"

definition grpc_schemes :: "string list" where
  "grpc_schemes = [''grpc:'', ''grpcs:'']"

text \<open>The address carries a host and nothing secret: no user information, query or fragment.\<close>

definition bare_address :: "url \<Rightarrow> string \<Rightarrow> bool" where
  "bare_address u address \<longleftrightarrow>
     ur_host u \<noteq> [] \<and> ur_username u = [] \<and> ur_password u = [] \<and> ur_search u = [] \<and> ur_hash u = [] \<and>
     \<not> list_ex is_space address"

text \<open>The client, its protocol and the schemes its recipe can use.\<close>

definition serves :: "string \<Rightarrow> endpoint \<Rightarrow> url \<Rightarrow> string \<Rightarrow> string \<Rightarrow> string list \<Rightarrow> bool" where
  "serves cid ep u client protocol schemes \<longleftrightarrow>
     cid = client \<and> ep_protocol ep = protocol \<and> ur_protocol u \<in> set schemes"

definition clientProfileExample ::
  "(string \<Rightarrow> url option) \<Rightarrow> string \<Rightarrow> endpoint \<Rightarrow> string option \<Rightarrow> string option \<Rightarrow> string option" where
  "clientProfileExample parse_url cid ep version instanceId =
     (if version \<noteq> None \<and> version \<noteq> map_of recipe_versions cid then None
      else case parse_url (ep_url ep) of
        None \<Rightarrow> None
      | Some u \<Rightarrow>
          if \<not> bare_address u (ep_url ep) \<or> (ur_pathname u \<noteq> [] \<and> ur_pathname u \<noteq> ''/'') then None
          else
            let sccache = serves cid ep u ''sccache'' ''webdav'' web_schemes;
                pants = serves cid ep u ''pants'' ''reapi'' grpc_schemes;
                turborepo = serves cid ep u ''turborepo'' ''turborepo-http'' web_schemes;
                nx = serves cid ep u ''nx'' ''nx-http'' web_schemes;
                maven = serves cid ep u ''maven-build-cache'' ''webdav'' web_schemes;
                moon = serves cid ep u ''moonrepo'' ''reapi'' grpc_schemes;
                goCache = serves cid ep u ''go-cacheprog'' ''go-cacheprog'' web_schemes
            in if \<not> goCache \<and> \<not> sccache \<and> \<not> pants \<and> \<not> turborepo \<and> \<not> nx \<and> \<not> maven \<and> \<not> moon then None
               else if goCache then Some (goCacheRecipe (origin u))
               else if turborepo then
                 (case instanceId of
                    None \<Rightarrow> None
                  | Some i \<Rightarrow> if i = [] \<or> \<not> uuid_text i then None else Some (turborepo_recipe u i))
               else if nx then Some (nx_recipe u)
               else if maven then Some (mavenExample u)
               else if moon then Some (moonRecipe (ep_url ep))
               else if sccache then Some (sccache_recipe (ep_url ep))
               else Some (pants_recipe (ep_url ep)))"

section \<open>Connection examples\<close>

definition bazel_example :: "(string \<Rightarrow> string) \<Rightarrow> string \<Rightarrow> string" where
  \<open>bazel_example t address =
     joined newline
     ([t (''read -r -p 'Cache username: ' CACHE_USER''),
      t (''read -r -s -p 'Cache password: ' CACHE_PASSWORD''),
      ''printf '' @ apostrophe @ backslash @ ''n'' @ apostrophe,
      ''CACHE_AUTH="$(printf '%s:%s' "$CACHE_USER" "$CACHE_PASSWORD" | base64 | tr -d '' @ apostrophe @ backslash @ ''r'' @ backslash @ ''n')"'',
      ''bazel build //... --remote_cache='' @ quote address @ '' --remote_header="Authorization=Basic $CACHE_AUTH"'',
      ''unset CACHE_USER CACHE_PASSWORD CACHE_AUTH''])\<close>

definition webdav_example :: "(string \<Rightarrow> string) \<Rightarrow> string \<Rightarrow> string" where
  \<open>webdav_example t address =
     joined newline
     ([t (''read -r -p 'Cache username: ' CACHE_USER''),
      t (''# curl prompts for a password. This request only reads directory information.''),
      ''curl --fail --show-error --user "$CACHE_USER" --request PROPFIND --header 'Depth: 0' '' @ quote address,
      ''unset CACHE_USER''])\<close>

definition gradle_example :: "(string \<Rightarrow> string) \<Rightarrow> string \<Rightarrow> string" where
  \<open>gradle_example t address =
     joined newline
     ([''export EXPBUILD_CACHE_URL='' @ quote address,
      t (''read -r -p 'Cache username: ' EXPBUILD_CACHE_USER''),
      t (''read -r -s -p 'Cache password: ' EXPBUILD_CACHE_PASSWORD''),
      ''printf '' @ apostrophe @ backslash @ ''n'' @ apostrophe,
      ''export EXPBUILD_CACHE_USER EXPBUILD_CACHE_PASSWORD'',
      ''CACHE_INIT="$(mktemp)"'',
      ''trap 'rm -f "$CACHE_INIT"; unset EXPBUILD_CACHE_URL EXPBUILD_CACHE_USER EXPBUILD_CACHE_PASSWORD CACHE_INIT' EXIT'',
      ''cat >"$CACHE_INIT" <<'GRADLE_INIT'' @ apostrophe,
      ''import org.gradle.caching.http.HttpBuildCache'',
      ''gradle.settingsEvaluated {'',
      ''  buildCache {'',
      ''    remote<HttpBuildCache> {'',
      ''      url = uri(System.getenv("EXPBUILD_CACHE_URL"))'',
      ''      credentials {'',
      ''        username = System.getenv("EXPBUILD_CACHE_USER")'',
      ''        password = System.getenv("EXPBUILD_CACHE_PASSWORD")'',
      ''      }'',
      ''      isPush = System.getenv("CI") == "true"'',
      ''    }'',
      ''  }'',
      ''}'',
      ''GRADLE_INIT'',
      ''gradle -I "$CACHE_INIT" --build-cache build''])\<close>

definition connectionExample ::
  "(string \<Rightarrow> string) \<Rightarrow> (string \<Rightarrow> url option) \<Rightarrow> endpoint \<Rightarrow> string option" where
  "connectionExample t parse_url ep =
     (case parse_url (ep_url ep) of
        None \<Rightarrow> None
      | Some u \<Rightarrow>
          if \<not> bare_address u (ep_url ep) then None
          else
            let reapi = (ep_protocol ep = ''reapi'')
            in if ur_protocol u \<notin> set (if reapi then grpc_schemes else web_schemes) then None
               else if reapi \<and> ur_pathname u \<noteq> [] \<and> ur_pathname u \<noteq> ''/'' then None
               else if ep_protocol ep = ''gradle-http'' \<and> ur_pathname u \<noteq> ''/cache/'' then None
               else if reapi \<or> ep_protocol ep = ''bazel-http'' then Some (bazel_example t (ep_url ep))
               else if ep_protocol ep = ''webdav'' then Some (webdav_example t (ep_url ep))
               else if ep_protocol ep = ''gradle-http'' then Some (gradle_example t (ep_url ep))
               else None)"

section \<open>How a shell reads the recipes\<close>

text \<open>
  A POSIX word: outside quotes a backslash keeps the next character, a blank or newline ends the
  word, and \<open>None\<close> stands for what is not a plain word (an expansion, an operator, an open quote);
  inside single quotes every character stands for itself. The result is the value of the word and
  the text after it.
\<close>

definition sh_special :: "char \<Rightarrow> bool" where
  "sh_special c \<longleftrightarrow> c \<in> set ''$`;&|<>()*?[~#!'' \<or> c = dquote"

definition sh_blank :: "char \<Rightarrow> bool" where
  "sh_blank c \<longleftrightarrow> c = CHR '' '' \<or> c = CHR 0x09 \<or> c = CHR 0x0A"

fun sh_word :: "bool \<Rightarrow> string \<Rightarrow> (string \<times> string) option" where
  "sh_word quoted [] = (if quoted then None else Some ([], []))"
| "sh_word quoted (c # s) =
     (if c = squote then sh_word (\<not> quoted) s
      else if quoted then map_option (\<lambda>(w, r). (c # w, r)) (sh_word True s)
      else if c = CHR 0x5C then
        (case s of [] \<Rightarrow> None | d # r \<Rightarrow> map_option (\<lambda>(w, r'). (d # w, r')) (sh_word False r))
      else if sh_blank c then Some ([], c # s)
      else if sh_special c then None
      else map_option (\<lambda>(w, r). (c # w, r)) (sh_word False s))"

definition plain_char :: "char \<Rightarrow> bool" where
  "plain_char c \<longleftrightarrow> c \<noteq> squote \<and> c \<noteq> CHR 0x5C \<and> \<not> sh_blank c \<and> \<not> sh_special c"

lemma sh_word_plain:
  "list_all plain_char v \<Longrightarrow> sh_word False (v @ r) = map_option (\<lambda>(w, r'). (v @ w, r')) (sh_word False r)"
proof (induction v)
  case Nil
  show ?case by (cases "sh_word False r") auto
next
  case (Cons c v)
  then show ?case by (cases "sh_word False r") (auto simp: plain_char_def)
qed

lemma replace_char_simps [simp]:
  "replace_char c r [] = []" "replace_char c r (d # s) = (if d = c then r else [d]) @ replace_char c r s"
  by (simp_all add: replace_char_def)

lemma sh_word_quoted:
  "sh_word True (replace_char squote ([squote] @ backslash @ [squote, squote]) v @ squote # r) =
     map_option (\<lambda>(w, r'). (v @ w, r')) (sh_word False r)"
proof (induction v)
  case Nil
  show ?case by (cases "sh_word False r") auto
next
  case (Cons c v)
  then show ?case by (cases "sh_word False r") auto
qed

lemma sh_word_quote:
  "sh_word False (quote v @ r) = map_option (\<lambda>(w, r'). (v @ w, r')) (sh_word False r)"
  using sh_word_quoted[of v r] by (simp add: quote_def)

text \<open>A quoted value after a plain prefix, at the end of its word.\<close>

lemma sh_word_assignment:
  assumes "list_all plain_char name" "r = [] \<or> sh_blank (hd r)"
  shows "sh_word False (name @ quote v @ r) = Some (name @ v, r)"
proof -
  have "sh_word False r = Some ([], r)"
    using assms(2) by (cases r) (auto simp: sh_blank_def)
  then show ?thesis by (simp add: sh_word_plain[OF assms(1)] sh_word_quote)
qed

text \<open>The script hands the word \<open>w\<close> to a command, after the text before it.\<close>

definition passes :: "string \<Rightarrow> string \<Rightarrow> bool" where
  "passes script w \<longleftrightarrow>
     (\<exists>before rest after. script = before @ rest \<and> before \<noteq> [] \<and> sh_blank (last before) \<and>
        sh_word False rest = Some (w, after))"

lemma joined_split: "\<exists>a. joined sep (xs @ l # ys) = a @ l @ concat (map (\<lambda>x. sep @ x) ys)"
proof (cases xs)
  case Nil
  then have "joined sep (xs @ l # ys) = [] @ l @ concat (map (\<lambda>x. sep @ x) ys)" by (simp add: joined_def)
  then show ?thesis by blast
next
  case (Cons x zs)
  then have "joined sep (xs @ l # ys) = (x @ concat (map (\<lambda>x. sep @ x) zs) @ sep) @ l @ concat (map (\<lambda>x. sep @ x) ys)"
    by (simp add: joined_def)
  then show ?thesis by blast
qed

lemma joined_line: "\<exists>a b. joined newline (xs @ l # ys) = a @ l @ b \<and> (b = [] \<or> hd b = CHR 0x0A)"
proof -
  have "concat (map (\<lambda>x. newline @ x) ys) = [] \<or> hd (concat (map (\<lambda>x. newline @ x) ys)) = CHR 0x0A"
    by (cases ys) auto
  then show ?thesis using joined_split by blast
qed

lemma passes_line:
  assumes l: "pre @ name @ quote v @ tail \<in> set lines"
    and pre: "pre \<noteq> []" "sh_blank (last pre)" and name: "list_all plain_char name"
    and tail: "tail = [] \<or> sh_blank (hd tail)"
  shows "passes (joined newline lines) (name @ v)"
proof -
  obtain xs ys where "lines = xs @ (pre @ name @ quote v @ tail) # ys" using split_list[OF l] by blast
  then obtain a b where e: "joined newline lines = a @ (pre @ name @ quote v @ tail) @ b"
    and b: "b = [] \<or> hd b = CHR 0x0A" using joined_line by blast
  have "tail @ b = [] \<or> sh_blank (hd (tail @ b))" using tail b by (cases tail) (auto simp: sh_blank_def)
  from sh_word_assignment[OF name this, of v]
  have "sh_word False (name @ quote v @ tail @ b) = Some (name @ v, tail @ b)" .
  moreover have "joined newline lines = (a @ pre) @ name @ quote v @ tail @ b" using e by simp
  ultimately show ?thesis unfolding passes_def using pre by (metis append_is_Nil_conv last_appendR)
qed

lemmas shell_chars = plain_char_def sh_blank_def sh_special_def dquote_def

lemma export_passes:
  assumes "''export '' @ name @ quote v \<in> set lines" "list_all plain_char name"
  shows "passes (joined newline lines) (name @ v)"
  by (rule passes_line[where pre = "''export ''" and tail = "[]"]) (use assms in \<open>simp_all add: shell_chars\<close>)

lemma recipe_passes:
  "passes (goCacheRecipe a) (''CACHEPROG_HTTP_STORAGE_BASE_URL='' @ a)"
  "passes (moonRecipe a) (''MOON_REMOTE_HOST='' @ a)"
  "passes (turborepo_recipe u i) (''TURBO_API='' @ origin u)"
  "passes (turborepo_recipe u i) (''TURBO_TEAMID='' @ ''team_'' @ i)"
  "passes (nx_recipe u) (''NX_SELF_HOSTED_REMOTE_CACHE_SERVER='' @ origin u)"
  "passes (sccache_recipe a) (''SCCACHE_WEBDAV_ENDPOINT='' @ a)"
  "passes (pants_recipe a) (''PANTS_REMOTE_STORE_ADDRESS='' @ a)"
  unfolding goCacheRecipe_def moonRecipe_def turborepo_recipe_def nx_recipe_def sccache_recipe_def pants_recipe_def
  by (rule export_passes; simp add: shell_chars)+

lemma maven_passes:
  "passes (mavenExample u) (''-Dmaven.build.cache.remote.url='' @ origin u @ ''/maven-build-cache'')"
proof -
  let ?v = "''-Dmaven.build.cache.remote.url='' @ origin u @ ''/maven-build-cache''"
  have "passes (mavenExample u) ([] @ ?v)"
    unfolding mavenExample_def
    by (rule passes_line[where pre = "''  ''" and tail = "'' '' @ backslash"]) (simp_all add: shell_chars)
  then show ?thesis by simp
qed

lemma bazel_family_passes:
  "passes (bazel_example t a) (''--remote_cache='' @ a)" "passes (webdav_example t a) a"
  "passes (gradle_example t a) (''EXPBUILD_CACHE_URL='' @ a)"
proof -
  show "passes (bazel_example t a) (''--remote_cache='' @ a)" unfolding bazel_example_def
    by (rule passes_line[where pre = "''bazel build //... ''"
          and tail = "'' --remote_header='' @ dquote # ''Authorization=Basic $CACHE_AUTH'' @ [dquote]"])
      (simp_all add: shell_chars)
  have "passes (webdav_example t a) ([] @ a)" unfolding webdav_example_def
    by (rule passes_line[where pre = "''curl --fail --show-error --user '' @ dquote # ''$CACHE_USER'' @ dquote #
          '' --request PROPFIND --header '' @ squote # ''Depth: 0'' @ squote # '' ''" and tail = "[]"])
      (simp_all add: shell_chars)
  then show "passes (webdav_example t a) a" by simp
  show "passes (gradle_example t a) (''EXPBUILD_CACHE_URL='' @ a)" unfolding gradle_example_def
    by (rule export_passes; simp add: shell_chars)
qed

section \<open>XML text\<close>

text \<open>How an XML reader resolves the five predefined entities.\<close>

function xml_read :: "string \<Rightarrow> string" where
  "xml_read s =
     (case s of
        [] \<Rightarrow> []
      | c # r \<Rightarrow>
          if starts ''&amp;'' s then CHR ''&'' # xml_read (drop 5 s)
          else if starts ''&lt;'' s then CHR ''<'' # xml_read (drop 4 s)
          else if starts ''&gt;'' s then CHR ''>'' # xml_read (drop 4 s)
          else if starts ''&quot;'' s then dquote # xml_read (drop 6 s)
          else if starts ''&apos;'' s then squote # xml_read (drop 6 s)
          else c # xml_read r)"
  by auto
termination by (relation "measure length") auto

declare xml_read.simps [simp del]

definition xml_char :: "char \<Rightarrow> string" where
  "xml_char c = (if c = CHR ''&'' then ''&amp;'' else if c = CHR ''<'' then ''&lt;'' else if c = CHR ''>'' then ''&gt;''
     else if c = dquote then ''&quot;'' else if c = squote then ''&apos;'' else [c])"

lemma replace_char_append: "replace_char c r (s @ s') = replace_char c r s @ replace_char c r s'"
  by (simp add: replace_char_def)

lemma xml_chars: "xml v = concat (map xml_char v)"
  by (induction v) (simp_all add: xml_def replace_char_append xml_char_def dquote_def)

lemma xml_read_char: "xml_read (xml_char c @ s) = c # xml_read s"
  by (simp add: xml_char_def xml_read.simps[of "_ # _"] dquote_def starts_def)

lemma xml_roundtrip: "xml_read (xml v) = v"
  by (induction v) (simp_all add: xml_chars xml_read_char xml_read.simps[of "[]"])

section \<open>Properties\<close>

lemma clientProfileExample_cases:
  assumes "clientProfileExample parse_url cid ep version instanceId = Some text"
  obtains u where "version = None \<or> version = map_of recipe_versions cid" "parse_url (ep_url ep) = Some u"
    "bare_address u (ep_url ep)"
    "serves cid ep u ''go-cacheprog'' ''go-cacheprog'' web_schemes \<and> text = goCacheRecipe (origin u) \<or>
     serves cid ep u ''turborepo'' ''turborepo-http'' web_schemes \<and>
       (\<exists>i. instanceId = Some i \<and> uuid_text i \<and> text = turborepo_recipe u i) \<or>
     serves cid ep u ''nx'' ''nx-http'' web_schemes \<and> text = nx_recipe u \<or>
     serves cid ep u ''maven-build-cache'' ''webdav'' web_schemes \<and> text = mavenExample u \<or>
     serves cid ep u ''moonrepo'' ''reapi'' grpc_schemes \<and> text = moonRecipe (ep_url ep) \<or>
     serves cid ep u ''sccache'' ''webdav'' web_schemes \<and> text = sccache_recipe (ep_url ep) \<or>
     serves cid ep u ''pants'' ''reapi'' grpc_schemes \<and> text = pants_recipe (ep_url ep)"
  using assms unfolding clientProfileExample_def Let_def by (simp split: option.splits if_split_asm)

lemmas serves_simps = serves_def web_schemes_def grpc_schemes_def





end
