(* ===== verification/Web_Client.thy ===== *)
theory Web_Client
  imports Web_Recipes Observability
begin

text \<open>
  What the pages of the web console share: the locale and its messages (i18n.ts), the call to the API
  (api.ts) and the address bar (ui.tsx), all under src/apps/admin-web/src. The catalogue messages.ts is
  the parameter \<open>messages\<close>. A reply of the API is typed as api.ts reads it: its status, the issues and
  the error of a failure, and the value; a body that is no JSON has none of them. \<open>fetch\<close> itself may
  fail, on the network or because the page aborted it.
\<close>

section \<open>Locale (i18n.ts)\<close>

datatype locale_name = En | ZhCN

fun locale_id :: "locale_name \<Rightarrow> string" where
  "locale_id En = ''en''"
| "locale_id ZhCN = ''zh-CN''"

text \<open>\<open>/^(zh|zh-CN|zh-SG|zh-Hans(?:-.+)?)$/i\<close>; a dot matches no line terminator.\<close>

definition simplified_chinese :: "string \<Rightarrow> bool" where
  "simplified_chinese tag =
     (let s = map to_lower tag; rest = drop 8 s
      in s \<in> {''zh'', ''zh-cn'', ''zh-sg'', ''zh-hans''} \<or>
         (take 8 s = ''zh-hans-'' \<and> rest \<noteq> [] \<and> \<not> list_ex (\<lambda>c. c = CHR 0x0A \<or> c = CHR 0x0D) rest))"

definition detectLocale :: "string option \<Rightarrow> string list \<Rightarrow> locale_name" where
  "detectLocale saved languages =
     (if saved = Some ''en'' then En
      else if saved = Some ''zh-CN'' then ZhCN
      else if simplified_chinese (case languages of [] \<Rightarrow> [] | l # _ \<Rightarrow> l) then ZhCN
      else En)"

text \<open>
  The module's variable, what the browser stores for the page (\<open>None\<close> when storage is disabled, then
  both calls throw), its preferred languages, the language of the document and how often the listeners
  were called.
\<close>

record i18n =
  lo_locale :: locale_name
  lo_storage :: "(string \<rightharpoonup> string) option"
  lo_languages :: "string list"
  lo_document :: string
  lo_notified :: nat

definition locale_key :: string where
  "locale_key = ''expbuild-locale''"

definition initialLocale :: "(string \<rightharpoonup> string) option \<Rightarrow> string list \<Rightarrow> locale_name" where
  "initialLocale storage languages =
     detectLocale (case storage of None \<Rightarrow> None | Some m \<Rightarrow> m locale_key) languages"

definition updateDocument :: "i18n \<Rightarrow> i18n" where
  "updateDocument s = s\<lparr>lo_document := locale_id (lo_locale s)\<rparr>"

text \<open>The module when a page loads it.\<close>

definition load_i18n :: "(string \<rightharpoonup> string) option \<Rightarrow> string list \<Rightarrow> i18n" where
  "load_i18n storage languages =
     updateDocument \<lparr>lo_locale = initialLocale storage languages, lo_storage = storage, lo_languages = languages,
       lo_document = [], lo_notified = 0\<rparr>"

definition setLocale :: "locale_name \<Rightarrow> i18n \<Rightarrow> i18n" where
  "setLocale v s =
     (let s1 = s\<lparr>lo_locale := v\<rparr>;
          s2 = s1\<lparr>lo_storage := map_option (\<lambda>m. m(locale_key \<mapsto> locale_id v)) (lo_storage s1)\<rparr>;
          s3 = updateDocument s2
      in s3\<lparr>lo_notified := lo_notified s3 + 1\<rparr>)"

text \<open>The \<open>storage\<close> event: another page of the console changed an entry.\<close>

definition on_storage :: "string \<Rightarrow> string option \<Rightarrow> i18n \<Rightarrow> i18n" where
  "on_storage key newValue s =
     (if key = locale_key then
        let s1 = updateDocument (s\<lparr>lo_locale := detectLocale newValue (lo_languages s)\<rparr>)
        in s1\<lparr>lo_notified := lo_notified s1 + 1\<rparr>
      else s)"

text \<open>The placeholders \<open>/\{(\w+)\}/g\<close>; an unknown name stays as it is.\<close>

definition placeholder :: "strmap \<Rightarrow> matcher" where
  "placeholder fills prev s =
     (if s \<noteq> [] \<and> hd s = CHR ''{'' then
        let w = takeWhile is_word (tl s); r = dropWhile is_word (tl s)
        in if w \<noteq> [] \<and> r \<noteq> [] \<and> hd r = CHR ''}''
           then Some (length w + 1, case map_of fills w of None \<Rightarrow> CHR ''{'' # w @ ''}'' | Some v \<Rightarrow> v)
           else None
      else None)"

definition t :: "locale_name \<Rightarrow> (string \<rightharpoonup> string) \<Rightarrow> string \<Rightarrow> strmap \<Rightarrow> string" where
  "t loc messages message fills =
     replace_all (placeholder fills) None
       (if loc = ZhCN then message else case messages message of None \<Rightarrow> message | Some x \<Rightarrow> x)"

definition em_dash :: string where
  "em_dash = [CHR 0xE2, CHR 0x80, CHR 0x94]"

text \<open>\<open>Intl.DateTimeFormat\<close> is a parameter; \<open>date\<close> is \<open>new Date(value)\<close>, \<open>None\<close> for an invalid date.\<close>

definition formatDate :: "(locale_name \<Rightarrow> int \<Rightarrow> string) \<Rightarrow> locale_name \<Rightarrow> int option \<Rightarrow> string" where
  "formatDate intl loc date = (case date of None \<Rightarrow> em_dash | Some d \<Rightarrow> intl loc d)"

section \<open>Calls to the API (api.ts)\<close>

record options =
  op_method :: "string option"
  op_headers :: strmap
  op_body :: "string option"

record web_request =
  wq_method :: string
  wq_path :: string
  wq_headers :: strmap
  wq_body :: "string option"

datatype web_error =
    APIError int string
  | FetchError string
  | AbortError string

record 'a web_response =
  ws_status :: int
  ws_issues :: "(string list \<times> string) list option"
  ws_error :: "string option"
  ws_value :: 'a

abbreviation get_options :: options where
  "get_options \<equiv> \<lparr>op_method = None, op_headers = [], op_body = None\<rparr>"

text \<open>\<open>new Headers(init)\<close>: names are case-insensitive and kept in lower case.\<close>

definition set_header :: "string \<Rightarrow> string \<Rightarrow> strmap \<Rightarrow> strmap" where
  "set_header k v h = AList.update (map to_lower k) v h"

definition api_request :: "string option \<Rightarrow> string \<Rightarrow> options \<Rightarrow> web_request" where
  "api_request csrf path opts =
     (let h0 = foldl (\<lambda>h (k, v). set_header k v h) [] (op_headers opts);
          h1 = (if truthy (op_body opts) then set_header ''Content-Type'' ''application/json'' h0 else h0);
          h2 = (if truthy csrf \<and> truthy (op_method opts) \<and> op_method opts \<noteq> Some ''GET''
                then set_header ''x-csrf-token'' (the csrf) h1 else h1)
      in \<lparr>wq_method = (case op_method opts of None \<Rightarrow> ''GET'' | Some m \<Rightarrow> m), wq_path = ''/v1'' @ path,
          wq_headers = h2, wq_body = op_body opts\<rparr>)"

definition issue_text :: "string list \<times> string \<Rightarrow> string" where
  "issue_text x = joined ''.'' (fst x) @ '': '' @ snd x"

definition api_message :: "(string \<Rightarrow> strmap \<Rightarrow> string) \<Rightarrow> 'a web_response \<Rightarrow> string" where
  "api_message tr r =
     (let details = (case ws_issues r of None \<Rightarrow> [] | Some xs \<Rightarrow> joined ''; '' (map issue_text xs))
      in if details \<noteq> [] then details
         else if truthy (ws_error r) then the (ws_error r)
         else tr ''Request failed ({value0})'' [(''value0'', show_int (ws_status r))])"

definition response_ok :: "'a web_response \<Rightarrow> bool" where
  "response_ok r \<longleftrightarrow> 200 \<le> ws_status r \<and> ws_status r < 300"

text \<open>What \<open>api\<close> returns or throws, and whether it announced the end of the session.\<close>

definition api :: "(string \<Rightarrow> strmap \<Rightarrow> string) \<Rightarrow> (web_error + 'a web_response) \<Rightarrow> (web_error + 'a) \<times> bool" where
  "api tr fetched =
     (case fetched of
        Inl e \<Rightarrow> (Inl e, False)
      | Inr r \<Rightarrow>
          if \<not> response_ok r then (Inl (APIError (ws_status r) (api_message tr r)), ws_status r = 401)
          else (Inr (ws_value r), False))"

text \<open>\<open>templateLabel\<close>\<close>

definition templateLabel :: "(string \<Rightarrow> string) \<Rightarrow> string \<Rightarrow> string" where
  "templateLabel tr name =
     (if name = ''webdav-apache'' then ''WebDAV / HTTP''
      else if name = ''bazel-remote'' then ''REAPI / Bazel HTTP''
      else if name = ''gradle-http'' then ''Gradle HTTP''
      else if name = ''turborepo-http'' then tr ''Turborepo HTTP (experimental)''
      else if name = ''go-cacheprog'' then tr ''Go cacheprog (experimental)''
      else if name = ''nx-http'' then tr ''Nx HTTP (experimental)''
      else name)"

section \<open>The address bar (ui.tsx)\<close>

datatype section_name =
  Overview | Instances | Observability_Section | Alerts | Operations | Resources | Members | Audit_Log

fun section_id :: "section_name \<Rightarrow> string" where
  "section_id Overview = ''overview''"
| "section_id Instances = ''instances''"
| "section_id Observability_Section = ''observability''"
| "section_id Alerts = ''alerts''"
| "section_id Operations = ''operations''"
| "section_id Resources = ''resources''"
| "section_id Members = ''members''"
| "section_id Audit_Log = ''audit''"

text \<open>Each section and whether only administrators see it, in the order of the navigation.\<close>

definition sections :: "(section_name \<times> bool) list" where
  "sections = [(Overview, False), (Instances, False), (Observability_Section, False), (Alerts, False),
     (Operations, False), (Resources, False), (Members, True), (Audit_Log, True)]"

record route =
  ro_project :: string
  ro_section :: section_name
  ro_users :: bool
  ro_health :: bool

text \<open>\<open>/^#\/projects\/([^/]+)\/(\w+)$/\<close>: the project and the section of a location hash.\<close>

definition route_match :: "string \<Rightarrow> (string \<times> string) option" where
  "route_match hash =
     (let r = drop 11 hash; p = takeWhile (\<lambda>c. c \<noteq> CHR ''/'') r; q = dropWhile (\<lambda>c. c \<noteq> CHR ''/'') r
      in if take 11 hash = ''#/projects/'' \<and> p \<noteq> [] \<and> q \<noteq> [] \<and> tl q \<noteq> [] \<and> list_all is_word (tl q)
         then Some (p, tl q) else None)"

definition read_route :: "string \<Rightarrow> route" where
  "read_route hash =
     \<lparr>ro_project = (case route_match hash of None \<Rightarrow> [] | Some (p, _) \<Rightarrow> p),
      ro_section =
        (case route_match hash of
           None \<Rightarrow> Instances
         | Some (_, w) \<Rightarrow>
             (case sql_first (\<lambda>(s, _). section_id s = w) sections of None \<Rightarrow> Instances | Some (s, _) \<Rightarrow> s)),
      ro_users = (hash = ''#/users''), ro_health = (hash = ''#/health'')\<rparr>"

text \<open>\<open>window.location.hash = `/projects/${id}/${section}`\<close>\<close>

definition project_hash :: "string \<Rightarrow> section_name \<Rightarrow> string" where
  "project_hash pid s = ''#/projects/'' @ pid @ ''/'' @ section_id s"

section \<open>The chosen language\<close>

text \<open>What can happen to the module: the user picks a language, another page changes the storage.\<close>

inductive i18n_step :: "i18n \<Rightarrow> i18n \<Rightarrow> bool" where
  pick: "i18n_step s (setLocale v s)"
| stored: "i18n_step s (on_storage k v s)"

inductive_cases i18n_stepE: "i18n_step s s'"

lemmas i18n_defs = load_i18n_def updateDocument_def setLocale_def on_storage_def Let_def

lemma locale_id_inject [simp]: "locale_id a = locale_id b \<longleftrightarrow> a = b"
  by (cases a; cases b) auto

lemma detectLocale_saved [simp]: "detectLocale (Some (locale_id v)) languages = v"
  by (cases v) (simp_all add: detectLocale_def)

lemma document_follows_locale:
  assumes "i18n_step\<^sup>*\<^sup>* (load_i18n storage languages) s"
  shows "lo_document s = locale_id (lo_locale s)"
  using assms
proof (induction rule: rtranclp_induct)
  case base
  show ?case by (simp add: i18n_defs)
next
  case (step a b)
  then show ?case by (auto elim!: i18n_stepE simp: i18n_defs)
qed

text \<open>A chosen language survives a reload when the browser stores it, and reaches the other pages.\<close>

lemma choice_survives_reload:
  assumes "lo_storage s \<noteq> None"
  shows "lo_locale (load_i18n (lo_storage (setLocale v s)) languages) = v"
    and "lo_locale (on_storage locale_key (the (lo_storage (setLocale v s)) locale_key) other) = v"
  using assms by (auto simp: i18n_defs initialLocale_def)

lemma t_without_placeholders:
  assumes "CHR ''{'' \<notin> set message" "\<And>x. messages message = Some x \<Longrightarrow> CHR ''{'' \<notin> set x"
  shows "t loc messages message fills = (if loc = ZhCN then message else case messages message of None \<Rightarrow> message | Some x \<Rightarrow> x)"
proof -
  have "CHR ''{'' \<notin> set x \<Longrightarrow> replace_all (placeholder fills) prev x = x" for prev x
    by (induction x arbitrary: prev) (auto simp: placeholder_def)
  then show ?thesis using assms by (auto simp: t_def split: option.splits)
qed

section \<open>Header names\<close>

lemma to_lower_capitals [simp]:
  "to_lower (CHR ''I'') = CHR ''i''" "to_lower (CHR ''K'') = CHR ''k''" "to_lower (CHR ''M'') = CHR ''m''"
  "to_lower (CHR ''C'') = CHR ''c''" "to_lower (CHR ''T'') = CHR ''t''"
  by code_simp+

lemma to_lower_other: "\<not> is_upper c \<Longrightarrow> to_lower c = c"
  by (simp add: to_lower_def)

section \<open>The session token of a request\<close>

lemma map_of_set_header [simp]:
  "map_of (set_header k v h) k' = (if k' = map to_lower k then Some v else map_of h k')"
  by (simp add: set_header_def update_conv')

lemma csrf_header:
  assumes "\<forall>(k, v) \<in> set (op_headers opts). map to_lower k \<noteq> ''x-csrf-token''"
  shows "map_of (wq_headers (api_request csrf path opts)) ''x-csrf-token'' =
    (if truthy csrf \<and> truthy (op_method opts) \<and> op_method opts \<noteq> Some ''GET'' then csrf else None)"
proof -
  have "map_of (foldl (\<lambda>h (k, v). set_header k v h) h0 xs) ''x-csrf-token'' = map_of h0 ''x-csrf-token''"
    if "\<forall>(k, v) \<in> set xs. map to_lower k \<noteq> ''x-csrf-token''" for h0 and xs :: strmap
    using that
  proof (induction xs arbitrary: h0)
    case (Cons x xs)
    then show ?case by (cases x) auto
  qed simp
  from this[OF assms, of "[]"] show ?thesis
    by (auto simp: api_request_def Let_def to_lower_def is_upper_def truthy_iff)
qed

section \<open>Navigation\<close>

lemma find_section: "sql_first (\<lambda>(s, _). section_id s = section_id x) sections = Some (x, x \<in> {Members, Audit_Log})"
  by (cases x) (simp_all add: sections_def sql_first_def first_row_def)

lemma section_word: "section_id s \<noteq> [] \<and> list_all is_word (section_id s)"
  by (cases s) (simp_all add: is_word_def is_alnum_def is_lower_def is_upper_def is_digit_def)

lemma route_roundtrip:
  assumes "pid \<noteq> []" "CHR ''/'' \<notin> set pid"
  shows "read_route (project_hash pid s) = \<lparr>ro_project = pid, ro_section = s, ro_users = False, ro_health = False\<rparr>"
proof -
  have "takeWhile (\<lambda>c. c \<noteq> CHR ''/'') (pid @ CHR ''/'' # r) = pid" "dropWhile (\<lambda>c. c \<noteq> CHR ''/'') (pid @ CHR ''/'' # r) = CHR ''/'' # r" for r
    using assms(2) by (induction pid) auto
  then have "route_match (project_hash pid s) = Some (pid, section_id s)"
    using assms(1) section_word[of s] by (simp add: route_match_def project_hash_def Let_def)
  then show ?thesis by (simp add: read_route_def find_section project_hash_def)
qed

end
