(* ===== verification/Web_Session.thy ===== *)
theory Web_Session
  imports Web_Client Accounts_Props
begin

text \<open>
  The session of the web console (App, Login and Console of src/apps/admin-web/src/App.tsx and
  PasswordForm.tsx). A component's state is the record of its \<open>useState\<close> variables; sessionStorage holds
  the CSRF token. A handler that awaits the API is two functions: what it does before it sends, and what
  it does with the outcome, which is an argument. An expired session announces itself on the window,
  whichever call met it.
\<close>

section \<open>Errors\<close>

text \<open>\<open>message(e)\<close>: every exception of \<open>api\<close> is an Error.\<close>

fun message :: "web_error \<Rightarrow> string" where
  "message (APIError _ m) = m"
| "message (FetchError m) = m"
| "message (AbortError m) = m"

section \<open>App\<close>

record web_user =
  wu_id :: string
  wu_email :: string
  wu_platform_admin :: bool

record app_state =
  as_user :: "web_user option"
  as_loading :: bool
  as_error :: string
  as_csrf :: "string option"

definition app_init :: "string option \<Rightarrow> app_state" where
  "app_init csrf = \<lparr>as_user = None, as_loading = True, as_error = [], as_csrf = csrf\<rparr>"

definition expired :: "app_state \<Rightarrow> app_state" where
  "expired s = s\<lparr>as_user := None, as_csrf := None\<rparr>"

text \<open>A call to the API: its outcome for the caller, after the announcement of an expired session.\<close>

definition call :: "(string \<Rightarrow> strmap \<Rightarrow> string) \<Rightarrow> (web_error + 'a web_response) \<Rightarrow> app_state \<Rightarrow> app_state \<times> (web_error + 'a)" where
  "call tr fetched s = (case api tr fetched of (outcome, gone) \<Rightarrow> (if gone then expired s else s, outcome))"

text \<open>The effect of the first render: the session is restored when a token is stored. The result is
  the request, if one is sent.\<close>

definition app_mount :: "app_state \<Rightarrow> app_state \<times> web_request option" where
  "app_mount s =
     (if truthy (as_csrf s) then (s, Some (api_request (as_csrf s) ''/auth/me'' get_options))
      else (s\<lparr>as_loading := False\<rparr>, None))"

definition app_restored :: "(string \<Rightarrow> strmap \<Rightarrow> string) \<Rightarrow> (web_error + web_user web_response) \<Rightarrow> app_state \<Rightarrow> app_state" where
  "app_restored tr fetched s =
     (case call tr fetched s of
        (s1, Inr u) \<Rightarrow> s1\<lparr>as_user := Some u, as_loading := False\<rparr>
      | (s1, Inl e) \<Rightarrow>
          (case e of
             AbortError _ \<Rightarrow> s1
           | APIError st _ \<Rightarrow> (if st = 401 then s1 else s1\<lparr>as_error := message e\<rparr>)\<lparr>as_loading := False\<rparr>
           | FetchError _ \<Rightarrow> s1\<lparr>as_error := message e, as_loading := False\<rparr>))"

section \<open>Login\<close>

record login_state =
  ls_error :: string
  ls_busy :: bool

definition login_body_json :: "string \<Rightarrow> string \<Rightarrow> json" where
  "login_body_json email password = JObj [(''email'', JStr email), (''password'', JStr password)]"

definition login_request :: "string option \<Rightarrow> string \<Rightarrow> string \<Rightarrow> web_request" where
  "login_request csrf email password =
     api_request csrf ''/auth/login'' \<lparr>op_method = Some ''POST'', op_headers = [],
       op_body = Some (json_text (login_body_json email password))\<rparr>"

text \<open>The rest of \<open>submit\<close>: the reply to the login, then the reply to \<open>/auth/me\<close>.\<close>

definition login_done ::
  "(string \<Rightarrow> strmap \<Rightarrow> string) \<Rightarrow> (web_error + string web_response) \<Rightarrow> (web_error + web_user web_response) \<Rightarrow>
   login_state \<times> app_state \<Rightarrow> login_state \<times> app_state" where
  "login_done tr reply me st =
     (case call tr reply (snd st) of
        (s1, Inl e) \<Rightarrow> (\<lparr>ls_error = message e, ls_busy = False\<rparr>, s1)
      | (s1, Inr csrfToken) \<Rightarrow>
          (case call tr me (s1\<lparr>as_csrf := Some csrfToken\<rparr>) of
             (s2, Inl e) \<Rightarrow> (\<lparr>ls_error = message e, ls_busy = False\<rparr>, s2)
           | (s2, Inr u) \<Rightarrow> (\<lparr>ls_error = [], ls_busy = False\<rparr>, s2\<lparr>as_user := Some u\<rparr>)))"

section \<open>Leaving\<close>

definition logout_request :: "string option \<Rightarrow> web_request" where
  "logout_request csrf = api_request csrf ''/auth/logout'' \<lparr>op_method = Some ''POST'', op_headers = [], op_body = None\<rparr>"

text \<open>The click on the sign-out button; the error is the console's.\<close>

definition logout_done :: "(string \<Rightarrow> strmap \<Rightarrow> string) \<Rightarrow> (web_error + unit web_response) \<Rightarrow> string \<times> app_state \<Rightarrow> string \<times> app_state" where
  "logout_done tr reply st =
     (case call tr reply (snd st) of
        (s1, Inl e) \<Rightarrow> (message e, s1)
      | (s1, Inr _) \<Rightarrow> (fst st, s1\<lparr>as_csrf := None, as_user := None\<rparr>))"

text \<open>PasswordForm: the new password twice, and the current one unless an administrator resets
  another account (\<open>target\<close>).\<close>

record password_state =
  ps_error :: string
  ps_busy :: bool
  ps_done :: bool

definition password_body_json :: "string option \<Rightarrow> string \<Rightarrow> string \<Rightarrow> json" where
  "password_body_json target password currentPassword =
     JObj ((''password'', JStr password) # (if target = None then [(''currentPassword'', JStr currentPassword)] else []))"

definition password_submit ::
  "(string \<Rightarrow> string) \<Rightarrow> string option \<Rightarrow> string option \<Rightarrow> string \<Rightarrow> string \<Rightarrow> string \<Rightarrow> password_state \<Rightarrow> password_state \<times> web_request option" where
  "password_submit tr csrf target password confirmation currentPassword s =
     (if password \<noteq> confirmation then (s\<lparr>ps_error := tr ''The new passwords do not match.''\<rparr>, None)
      else (s\<lparr>ps_error := [], ps_busy := True\<rparr>,
        Some (api_request csrf (case target of None \<Rightarrow> ''/auth/password'' | Some uid \<Rightarrow> ''/users/'' @ uid @ ''/password'')
          \<lparr>op_method = Some ''POST'', op_headers = [],
           op_body = Some (json_text (password_body_json target password currentPassword))\<rparr>)))"

definition password_done ::
  "(string \<Rightarrow> strmap \<Rightarrow> string) \<Rightarrow> string option \<Rightarrow> (web_error + unit web_response) \<Rightarrow> password_state \<times> app_state \<Rightarrow> password_state \<times> app_state" where
  "password_done tr target reply st =
     (case call tr reply (snd st) of
        (s1, Inl e) \<Rightarrow> ((fst st)\<lparr>ps_error := message e, ps_busy := False\<rparr>, s1)
      | (s1, Inr _) \<Rightarrow>
          ((fst st)\<lparr>ps_done := True, ps_busy := False\<rparr>,
           if target = None then s1\<lparr>as_csrf := None, as_user := None\<rparr> else s1))"

section \<open>The signed-in console\<close>

text \<open>Everything that changes the session: while the page restores it nothing else is shown; then
  the login form; and, once signed in, any call of any page, the sign-out and a change of password.\<close>

inductive app_step :: "app_state \<Rightarrow> app_state \<Rightarrow> bool" where
  restore: "as_loading s \<Longrightarrow> truthy (as_csrf s) \<Longrightarrow> app_step s (app_restored tr reply s)"
| no_session: "as_loading s \<Longrightarrow> \<not> truthy (as_csrf s) \<Longrightarrow> app_step s (fst (app_mount s))"
| sign_in: "\<not> as_loading s \<Longrightarrow> as_user s = None \<Longrightarrow> app_step s (snd (login_done tr reply me (ls, s)))"
| page_call: "as_user s \<noteq> None \<Longrightarrow> app_step s (fst (call tr (reply :: web_error + unit web_response) s))"
| sign_out: "as_user s \<noteq> None \<Longrightarrow> app_step s (snd (logout_done tr reply (err, s)))"
| change_password: "as_user s \<noteq> None \<Longrightarrow> app_step s (snd (password_done tr target reply (ps, s)))"

inductive_cases app_stepE: "app_step s s'"

definition token_kept :: "app_state \<Rightarrow> bool" where
  "token_kept s \<longleftrightarrow> (as_user s \<noteq> None \<longrightarrow> as_csrf s \<noteq> None)"

lemma call_cases:
  "(\<exists>e. call tr fetched s = (expired s, Inl e)) \<or> (\<exists>outcome. call tr fetched s = (s, outcome))"
  by (cases "api tr fetched") (auto simp: call_def api_def split: sum.splits if_splits)

lemma token_kept_expired [simp]: "token_kept (expired s)"
  by (simp add: token_kept_def expired_def)

lemma token_kept_call: "token_kept s \<Longrightarrow> token_kept (fst (call tr fetched s))"
  using call_cases[of tr fetched s] by auto

lemma token_kept_restored: "truthy (as_csrf s) \<Longrightarrow> token_kept (app_restored tr reply s)"
  using call_cases[of tr reply s]
  by (elim disjE exE) (auto simp: app_restored_def token_kept_def expired_def truthy_iff split: sum.splits web_error.splits)

lemma token_kept_login:
  assumes "token_kept s"
  shows "token_kept (snd (login_done tr reply me (ls, s)))"
proof (cases "\<exists>tok. call tr reply s = (s, Inr tok)")
  case True
  then obtain tok where "call tr reply s = (s, Inr tok)" by blast
  then show ?thesis
    using call_cases[of tr me "s\<lparr>as_csrf := Some tok\<rparr>"]
    by (auto simp: login_done_def token_kept_def expired_def split: sum.splits)
next
  case False
  then show ?thesis
    using call_cases[of tr reply s] assms
    by (auto simp: login_done_def token_kept_def expired_def split: sum.splits)
qed

lemma token_kept_mount: "token_kept s \<Longrightarrow> token_kept (fst (app_mount s))"
  by (simp add: app_mount_def token_kept_def)

lemma token_kept_logout: "token_kept s \<Longrightarrow> token_kept (snd (logout_done tr reply (err, s)))"
  using call_cases[of tr reply s] by (auto simp: logout_done_def token_kept_def expired_def split: sum.splits)

lemma token_kept_password: "token_kept s \<Longrightarrow> token_kept (snd (password_done tr target reply (ps, s)))"
  using call_cases[of tr reply s] by (auto simp: password_done_def token_kept_def expired_def split: sum.splits if_splits)

lemma app_step_token: "app_step s s' \<Longrightarrow> token_kept s \<Longrightarrow> token_kept s'"
  by (erule app_stepE)
    (use token_kept_mount in \<open>simp_all add: token_kept_call token_kept_restored token_kept_login token_kept_logout token_kept_password\<close>)

text \<open>A user is shown as signed in only while the page holds a session token.\<close>

lemma signed_in_has_token:
  assumes "app_step\<^sup>*\<^sup>* (app_init stored) s" "as_user s \<noteq> None"
  shows "as_csrf s \<noteq> None"
proof -
  have "token_kept s"
    using assms(1)
  proof (induction rule: rtranclp_induct)
    case base
    show ?case by (simp add: app_init_def token_kept_def)
  qed (rule app_step_token)
  then show ?thesis using assms(2) by (simp add: token_kept_def)
qed

section \<open>Login and the requests after it\<close>

text \<open>The row a login writes is the only session with its token.\<close>

lemma login_session:
  assumes "login env dummyHash tok csrf req a = (a', Inr r)"
  shows "\<exists>uid f. find_user (sys_db (ap_sys a')) uid = Some f \<and> u_active f \<and> r = (tok, csrf) \<and>
    filter (\<lambda>x. s_token_hash x = en_digest env tok) (db_sessions (sys_db (ap_sys a'))) =
      [\<lparr>s_token_hash = en_digest env tok, s_user_id = uid, s_csrf_hash = en_digest env csrf,
        s_expires_at = sys_now (ap_sys a') + 86400000\<rparr>]"
proof -
  let ?s = "en_others env (ap_sys a)"
  from assms obtain body where "authenticate env dummyHash tok csrf req body (ap_sys a) = (ap_sys a', Inr r)"
    by (auto simp: login_def mbind_Inr count_attempt_run on_sys_def split: option.splits prod.splits)
  from authenticate_Inr[OF this] obtain u d' where
    tx: "login_tx env u (hr_session req) tok csrf (sys_now ?s) (sys_db ?s) = (d', Inr ())"
    and s': "ap_sys a' = ?s\<lparr>sys_db := d'\<rparr>" and r: "r = (tok, csrf)"
    by blast
  from login_tx_Inr[OF tx] obtain f where f: "find_user (sys_db ?s) (u_id u) = Some f" "u_active f"
    and users: "db_users d' = db_users (sys_db ?s)" by blast
  let ?row = "\<lparr>s_token_hash = en_digest env tok, s_user_id = u_id u, s_csrf_hash = en_digest env csrf,
        s_expires_at = sys_now ?s + 86400000\<rparr>"
  obtain rows where "en_digest env tok \<notin> s_token_hash ` set rows" "db_sessions d' = rows @ [?row]"
    using tx unfolding login_tx_def
    by (auto simp: mbind_Inr mthrow_if_def insert_session_Inr audit_run delete_session_def simp del: set_filter
        split: option.splits if_splits)
  then have "filter (\<lambda>x. s_token_hash x = en_digest env tok) (db_sessions d') = [?row]"
    by (simp add: filter_empty_conv image_iff) metis
  then show ?thesis using f users s' r by (intro exI[of _ "u_id u"] exI[of _ f]) (simp add: find_user_def)
qed

lemma filter_single:
  assumes "filter P xs = [y]" "P x" "x \<in> set xs"
  shows "x = y"
proof -
  have "set (filter P xs) = set [y]" using assms(1) by (rule arg_cong)
  then show ?thesis using assms(2,3) by auto
qed


definition patch_options :: options where
  "patch_options = \<lparr>op_method = Some ''PATCH'', op_headers = [(''If-Match'', ''1'')], op_body = Some ''{}''\<rparr>"

definition patch_request :: http_request where
  "patch_request = (sample_request [])\<lparr>hr_method := ''PATCH'', hr_session := Some ''t'', hr_csrf := Some ''c''\<rparr>"


end
