(* ===== verification/Web_Console.thy ===== *)
theory Web_Console
  imports Web_Session
begin

text \<open>
  The pages of the web console around a project: Console and ProjectView (App.tsx), RetryOperation.tsx
  and the administration pages (Management.tsx), under src/apps/admin-web/src. Each load loop is the
  function that takes its outcome; an aborted call changes nothing. Random keys (\<open>crypto.randomUUID\<close>)
  are arguments. Kinds, states and roles are the API's own names, so the console's records reuse its
  datatypes; the rest of a component, its markup, is not modelled beyond the conditions under which its
  controls appear and the requests they send.
\<close>

section \<open>Console\<close>

record web_project =
  wp_id :: string
  wp_name :: string
  wp_state :: string
  wp_role :: "role option"

record console_state =
  cs_projects :: "web_project list"
  cs_projectId :: string
  cs_error :: string
  cs_loading :: bool
  cs_creating :: bool
  cs_busy :: bool
  cs_refresh :: nat
  cs_hash :: string

definition console_init :: "string \<Rightarrow> console_state" where
  "console_init hash = \<lparr>cs_projects = [], cs_projectId = ro_project (read_route hash), cs_error = [], cs_loading = True,
     cs_creating = False, cs_busy = False, cs_refresh = 0, cs_hash = hash\<rparr>"

definition find_web_project :: "console_state \<Rightarrow> string \<Rightarrow> web_project option" where
  "find_web_project s pid = sql_first (\<lambda>p. wp_id p = pid) (cs_projects s)"

text \<open>The effect on \<open>[route.project, projects]\<close>: a project named in the address bar is selected.\<close>

definition follow_route :: "console_state \<Rightarrow> console_state" where
  "follow_route s =
     (let pid = ro_project (read_route (cs_hash s))
      in if pid \<noteq> [] \<and> find_web_project s pid \<noteq> None then s\<lparr>cs_projectId := pid\<rparr> else s)"

definition projects_loaded :: "web_error + web_project list \<Rightarrow> console_state \<Rightarrow> console_state" where
  "projects_loaded outcome s =
     (case outcome of
        Inr xs \<Rightarrow>
          follow_route (s\<lparr>cs_projects := xs,
            cs_projectId := (if list_ex (\<lambda>p. wp_id p = cs_projectId s) xs then cs_projectId s
              else case xs of [] \<Rightarrow> [] | p # _ \<Rightarrow> wp_id p),
            cs_error := [], cs_loading := False\<rparr>)
      | Inl (AbortError _) \<Rightarrow> s
      | Inl e \<Rightarrow> s\<lparr>cs_error := message e, cs_loading := False\<rparr>)"

definition hash_changed :: "string \<Rightarrow> console_state \<Rightarrow> console_state" where
  "hash_changed hash s = follow_route (s\<lparr>cs_hash := hash\<rparr>)"

definition create_project_request :: "string option \<Rightarrow> string \<Rightarrow> web_request" where
  "create_project_request csrf name =
     api_request csrf ''/projects'' \<lparr>op_method = Some ''POST'', op_headers = [], op_body = Some (json_text (JObj [(''name'', JStr name)]))\<rparr>"

definition create_project_done :: "web_error + web_project \<Rightarrow> console_state \<Rightarrow> console_state" where
  "create_project_done outcome s =
     (case outcome of
        Inr p \<Rightarrow> s\<lparr>cs_projectId := wp_id p, cs_hash := project_hash (wp_id p) Instances, cs_creating := False,
          cs_refresh := cs_refresh s + 1, cs_busy := False\<rparr>
      | Inl e \<Rightarrow> s\<lparr>cs_error := message e, cs_busy := False\<rparr>)"

definition console_can_admin :: "web_user \<Rightarrow> console_state \<Rightarrow> bool" where
  "console_can_admin u s \<longleftrightarrow>
     wu_platform_admin u \<or> (case find_web_project s (cs_projectId s) of None \<Rightarrow> False | Some p \<Rightarrow> wp_role p = Some Admin)"

definition current_section :: "web_user \<Rightarrow> console_state \<Rightarrow> section_name" where
  "current_section u s =
     (let x = ro_section (read_route (cs_hash s))
      in if \<not> console_can_admin u s \<and> x \<in> {Members, Audit_Log} then Instances else x)"

definition selectProject :: "web_user \<Rightarrow> string \<Rightarrow> console_state \<Rightarrow> console_state" where
  "selectProject u pid s =
     s\<lparr>cs_projectId := pid, cs_hash := project_hash pid (current_section u s)\<rparr>"

definition navigation :: "web_user \<Rightarrow> console_state \<Rightarrow> (section_name \<times> string) list" where
  "navigation u s = map (\<lambda>(x, _). (x, project_hash (cs_projectId s) x))
     (filter (\<lambda>(x, admin). \<not> admin \<or> console_can_admin u s) sections)"

text \<open>What the main column shows.\<close>

datatype console_page = HealthPage | UsersPage | ProjectPage web_project section_name | LoadingPage | EmptyPage

definition shown_page :: "web_user \<Rightarrow> console_state \<Rightarrow> console_page" where
  "shown_page u s =
     (let r = read_route (cs_hash s); usersOpen = (ro_users r \<and> wu_platform_admin u); healthOpen = (ro_health r \<and> wu_platform_admin u)
      in if healthOpen then HealthPage
         else if usersOpen \<and> wu_platform_admin u then UsersPage
         else case find_web_project s (cs_projectId s) of
           Some p \<Rightarrow> ProjectPage p (current_section u s)
         | None \<Rightarrow> if cs_loading s then LoadingPage else EmptyPage)"

section \<open>ProjectView\<close>

record web_instance =
  wi_id :: string
  wi_display_name :: string
  wi_lifecycle :: lifecycle
  wi_resource_name :: string
  wi_template_name :: string

record filters =
  fi_search :: string
  fi_protocol :: "string option"
  fi_lifecycle :: "lifecycle option"

definition can_write :: "web_user \<Rightarrow> web_project \<Rightarrow> bool" where
  "can_write u p \<longleftrightarrow> wu_platform_admin u \<or> wp_role p = Some Admin \<or> wp_role p = Some Maintainer"

definition can_admin :: "web_user \<Rightarrow> web_project \<Rightarrow> bool" where
  "can_admin u p \<longleftrightarrow> wu_platform_admin u \<or> wp_role p = Some Admin"

text \<open>\<open>text.includes(part)\<close>\<close>

definition includes_text :: "string \<Rightarrow> string \<Rightarrow> bool" where
  "includes_text s part \<longleftrightarrow> (\<exists>i \<in> set [0..<Suc (length s)]. take (length part) (drop i s) = part)"

text \<open>The filter \<open>all\<close> is \<open>None\<close>.\<close>

definition visibleInstances :: "filters \<Rightarrow> web_instance list \<Rightarrow> web_instance list" where
  "visibleInstances f xs =
     filter (\<lambda>i. (fi_protocol f = None \<or> fi_protocol f = Some (wi_template_name i)) \<and>
        (fi_lifecycle f = None \<or> fi_lifecycle f = Some (wi_lifecycle i)) \<and>
        includes_text (toLowerCase (wi_display_name i @ '' '' @ wi_resource_name i)) (js_trim (toLowerCase (fi_search f)))) xs"

definition is_current :: "web_instance \<Rightarrow> bool" where
  "is_current i \<longleftrightarrow> wi_lifecycle i \<noteq> Deleted \<and> wi_lifecycle i \<noteq> Detached"

record summary =
  su_current :: nat
  su_pending :: nat
  su_failed :: nat
  su_protocols :: nat

definition project_summary :: "web_instance list \<Rightarrow> op_summary list \<Rightarrow> summary" where
  "project_summary xs ops =
     \<lparr>su_current = length (filter is_current xs),
      su_pending = length (filter (\<lambda>x. os_state x \<in> {OpPending, Applying, Reconciling}) ops),
      su_failed = length (filter (\<lambda>x. os_state x = OpFailed) ops),
      su_protocols = length (remdups (map wi_template_name (filter is_current xs)))\<rparr>"

definition listed_operations :: "section_name \<Rightarrow> op_summary list \<Rightarrow> op_summary list" where
  "listed_operations x ops = (if x = Overview then take 5 ops else ops)"

text \<open>The condition of the retry control of an operation.\<close>

definition retry_offered :: "web_user \<Rightarrow> web_project \<Rightarrow> op_summary \<Rightarrow> bool" where
  "retry_offered u p x \<longleftrightarrow>
     can_admin u p \<and> os_state x = OpFailed \<and>
     (os_kind x = InstanceDelete \<or> os_kind x = InstanceCreate \<or> os_kind x = InstanceReclaim \<or>
      (os_target_generation x \<noteq> None \<and> os_kind x \<in> {InstanceCreate, InstanceReclaim, InstanceUpdate, InstanceRotate}))"

definition may_create :: "web_user \<Rightarrow> web_project \<Rightarrow> bool" where
  "may_create u p \<longleftrightarrow> can_write u p \<and> wp_state p = ''ready''"

subsection \<open>Retry of a project's initialization\<close>

record retry_state =
  rt_busy :: bool
  rt_operation :: string
  rt_error :: string
  rt_key :: string
  rt_refresh :: nat

definition retry_project_offered :: "web_user \<Rightarrow> web_project \<Rightarrow> retry_state \<Rightarrow> bool" where
  "retry_project_offered u p s \<longleftrightarrow> wp_state p = ''failed'' \<and> can_admin u p \<and> \<not> rt_busy s \<and> rt_operation s = []"

definition retryProject :: "string option \<Rightarrow> string \<Rightarrow> retry_state \<Rightarrow> retry_state \<times> web_request" where
  "retryProject csrf base s =
     (s\<lparr>rt_busy := True, rt_error := []\<rparr>,
      api_request csrf (base @ ''/retry'') \<lparr>op_method = Some ''POST'', op_headers = [(''Idempotency-Key'', rt_key s)], op_body = None\<rparr>)"

definition retryProject_done :: "web_error + string \<Rightarrow> retry_state \<Rightarrow> retry_state" where
  "retryProject_done outcome s =
     (case outcome of
        Inr oid \<Rightarrow> s\<lparr>rt_operation := oid, rt_refresh := rt_refresh s + 1, rt_busy := False\<rparr>
      | Inl e \<Rightarrow> s\<lparr>rt_error := message e, rt_busy := False\<rparr>)"

text \<open>The effect on \<open>[operations, retryOperation]\<close>: the retried operation failed again.\<close>

definition retry_failed_again :: "(string \<Rightarrow> string) \<Rightarrow> string \<Rightarrow> op_summary list \<Rightarrow> retry_state \<Rightarrow> retry_state" where
  "retry_failed_again tr newKey ops s =
     (if rt_operation s \<noteq> [] \<and> list_ex (\<lambda>x. os_id x = rt_operation s \<and> os_state x = OpFailed) ops
      then s\<lparr>rt_key := newKey, rt_operation := [],
        rt_error := tr ''Initialization failed again. Check the operation log, resolve the issue, and retry.''\<rparr>
      else s)"

section \<open>RetryOperation\<close>

record resume_state =
  rs_key :: string
  rs_confirming :: bool
  rs_busy :: bool
  rs_accepted :: bool
  rs_error :: string

definition resume_submit :: "string option \<Rightarrow> string \<Rightarrow> op_summary \<Rightarrow> resume_state \<Rightarrow> resume_state \<times> web_request option" where
  "resume_submit csrf base operation s =
     (if rs_busy s \<or> rs_accepted s then (s, None)
      else (s\<lparr>rs_busy := True, rs_error := []\<rparr>,
        Some (api_request csrf (base @ ''/operations/'' @ os_id operation @ ''/retry'')
          \<lparr>op_method = Some ''POST'', op_headers = [(''Idempotency-Key'', rs_key s)], op_body = None\<rparr>)))"

definition resume_done :: "web_error + unit \<Rightarrow> resume_state \<Rightarrow> resume_state" where
  "resume_done outcome s =
     (case outcome of
        Inr _ \<Rightarrow> s\<lparr>rs_accepted := True, rs_busy := False\<rparr>
      | Inl e \<Rightarrow> s\<lparr>rs_error := message e, rs_busy := False\<rparr>)"

section \<open>Administration pages (Management.tsx)\<close>

record 'a rows_state =
  rw_rows :: "'a list"
  rw_error :: string
  rw_revision :: nat
  rw_loading :: bool

definition rows_requested :: "'a rows_state \<Rightarrow> 'a rows_state" where
  "rows_requested s = s\<lparr>rw_loading := True\<rparr>"

definition rows_loaded :: "web_error + 'a list \<Rightarrow> 'a rows_state \<Rightarrow> 'a rows_state" where
  "rows_loaded outcome s =
     (case outcome of
        Inr xs \<Rightarrow> s\<lparr>rw_rows := xs, rw_error := [], rw_loading := False\<rparr>
      | Inl (AbortError _) \<Rightarrow> s
      | Inl e \<Rightarrow> s\<lparr>rw_error := message e, rw_loading := False\<rparr>)"

definition reload_rows :: "'a rows_state \<Rightarrow> 'a rows_state" where
  "reload_rows s = rows_requested (s\<lparr>rw_revision := rw_revision s + 1\<rparr>)"

record account =
  wa_id :: string
  wa_email :: string
  wa_platform_admin :: bool
  wa_active :: bool

record users_state =
  us_rows :: "account rows_state"
  us_error :: string
  us_busy :: bool
  us_confirm :: "account option"
  us_passwordTarget :: "account option"

definition create_user_body :: "string \<Rightarrow> string \<Rightarrow> json" where
  "create_user_body email password = JObj [(''email'', JStr email), (''password'', JStr password)]"

definition create_user_submit :: "string option \<Rightarrow> string \<Rightarrow> string \<Rightarrow> users_state \<Rightarrow> users_state \<times> web_request" where
  "create_user_submit csrf email password s =
     (s\<lparr>us_busy := True, us_error := []\<rparr>,
      api_request csrf ''/users'' \<lparr>op_method = Some ''POST'', op_headers = [], op_body = Some (json_text (create_user_body email password))\<rparr>)"

definition toggle_body :: "account \<Rightarrow> json" where
  "toggle_body a = JObj [(''active'', JBool (\<not> wa_active a))]"

definition toggle_submit :: "string option \<Rightarrow> account \<Rightarrow> users_state \<Rightarrow> users_state \<times> web_request" where
  "toggle_submit csrf a s =
     (s\<lparr>us_busy := True, us_error := []\<rparr>,
      api_request csrf (''/users/'' @ wa_id a) \<lparr>op_method = Some ''PATCH'', op_headers = [], op_body = Some (json_text (toggle_body a))\<rparr>)"

text \<open>Both handlers end alike; the change of an account also closes the confirmation.\<close>

definition users_done :: "bool \<Rightarrow> web_error + unit \<Rightarrow> users_state \<Rightarrow> users_state" where
  "users_done toggled outcome s =
     (case outcome of
        Inr _ \<Rightarrow> (if toggled then s\<lparr>us_confirm := None\<rparr> else s)\<lparr>us_rows := reload_rows (us_rows s), us_busy := False\<rparr>
      | Inl e \<Rightarrow> s\<lparr>us_error := message e, us_busy := False\<rparr>)"

text \<open>The two buttons of a row, disabled for the own account; disabling asks for confirmation first.\<close>

definition account_enabled :: "web_user \<Rightarrow> account \<Rightarrow> users_state \<Rightarrow> bool" where
  "account_enabled actor a s \<longleftrightarrow> \<not> us_busy s \<and> wa_id a \<noteq> wu_id actor"

definition toggle_clicked :: "string option \<Rightarrow> web_user \<Rightarrow> account \<Rightarrow> users_state \<Rightarrow> users_state \<times> web_request option" where
  "toggle_clicked csrf actor a s =
     (if \<not> account_enabled actor a s then (s, None)
      else if wa_active a then (s\<lparr>us_confirm := Some a\<rparr>, None)
      else case toggle_submit csrf a s of (s', r) \<Rightarrow> (s', Some r))"

definition confirm_clicked :: "string option \<Rightarrow> users_state \<Rightarrow> users_state \<times> web_request option" where
  "confirm_clicked csrf s =
     (case us_confirm s of
        None \<Rightarrow> (s, None)
      | Some a \<Rightarrow> if us_busy s then (s, None) else case toggle_submit csrf a s of (s', r) \<Rightarrow> (s', Some r))"

record member =
  wm_id :: string
  wm_email :: string
  wm_role :: role

record members_state =
  ms_rows :: "member rows_state"
  ms_error :: string
  ms_busy :: bool
  ms_remove :: "member option"

definition member_write :: "string option \<Rightarrow> string \<Rightarrow> string \<Rightarrow> json option \<Rightarrow> members_state \<Rightarrow> members_state \<times> web_request" where
  "member_write csrf path method body s =
     (s\<lparr>ms_busy := True, ms_error := []\<rparr>,
      api_request csrf path \<lparr>op_method = Some method, op_headers = [], op_body = map_option json_text body\<rparr>)"

definition member_write_done :: "web_error + unit \<Rightarrow> members_state \<Rightarrow> members_state" where
  "member_write_done outcome s =
     (case outcome of
        Inr _ \<Rightarrow> s\<lparr>ms_remove := None, ms_rows := reload_rows (ms_rows s), ms_busy := False\<rparr>
      | Inl e \<Rightarrow> s\<lparr>ms_error := message e, ms_busy := False\<rparr>)"

definition add_member_body :: "string \<Rightarrow> role \<Rightarrow> json" where
  "add_member_body email role = JObj [(''email'', JStr email), (''role'', JStr (role_name role))]"

definition add_member :: "string option \<Rightarrow> string \<Rightarrow> string \<Rightarrow> role \<Rightarrow> members_state \<Rightarrow> members_state \<times> web_request" where
  "add_member csrf base email role = member_write csrf (base @ ''/members'') ''POST'' (Some (add_member_body email role))"

definition change_role :: "string option \<Rightarrow> string \<Rightarrow> member \<Rightarrow> role \<Rightarrow> members_state \<Rightarrow> members_state \<times> web_request" where
  "change_role csrf base m role =
     member_write csrf (base @ ''/members/'' @ wm_id m) ''PUT'' (Some (JObj [(''role'', JStr (role_name role))]))"

definition member_removed :: "string option \<Rightarrow> string \<Rightarrow> member \<Rightarrow> members_state \<Rightarrow> members_state \<times> web_request" where
  "member_removed csrf base m = member_write csrf (base @ ''/members/'' @ wm_id m) ''DELETE'' None"

section \<open>What the pages guarantee\<close>

text \<open>The bodies these pages send are bodies the API accepts, with the meaning the page shows.\<close>

lemmas schema_defs = z_strict_def z_check_def z_field_def single_field_def

lemma toggle_body_accepted: "activeBody (Some (toggle_body a)) = Some (\<not> wa_active a)"
  by (simp add: activeBody_def toggle_body_def schema_defs)

lemma role_of_name [simp]: "role_of (role_name r) = r"
  by (cases r) (simp_all add: role_of_def role_name_def)

lemma role_schema_name: "role_schema (Some (JStr (role_name r))) = Some r"
  by (cases r) (simp_all add: role_schema_def z_enum_def z_check_def role_name_def role_of_def)

lemma add_member_accepted:
  "en_email env email \<Longrightarrow> length email \<le> 254 \<Longrightarrow>
   memberBody env (Some (add_member_body email r)) = Some (toLowerCase email, r)"
  by (simp add: memberBody_def add_member_body_def schema_defs email_schema_def role_schema_name)

text \<open>After a load, the selected project is one the user can see, and none only when there is none.\<close>

lemma projects_loaded_selects:
  "let s' = projects_loaded (Inr xs) s
   in (if xs = [] then cs_projectId s' = [] else \<exists>p \<in> set xs. wp_id p = cs_projectId s')"
proof (cases xs)
  case Nil
  then show ?thesis by (simp add: projects_loaded_def follow_route_def find_web_project_def Let_def)
next
  case (Cons p ps)
  then show ?thesis
    by (auto simp: projects_loaded_def follow_route_def find_web_project_def Let_def list_ex_iff sql_first_None
        dest: sql_first_Some)
qed

text \<open>Nobody switches themselves off: no button sends a change of the own account.\<close>

lemma own_account_kept:
  "toggle_clicked csrf actor a s = (s', Some r) \<Longrightarrow> wa_id a \<noteq> wu_id actor"
  "toggle_clicked csrf actor a s = (s', Some r) \<Longrightarrow> \<not> wa_active a"
  by (auto simp: toggle_clicked_def account_enabled_def split: if_splits)

text \<open>Project navigation leads to the section it names.\<close>

lemma navigation_leads:
  assumes "(x, hash) \<in> set (navigation u s)" "cs_projectId s \<noteq> []" "CHR ''/'' \<notin> set (cs_projectId s)"
  shows "ro_section (read_route hash) = x \<and> ro_project (read_route hash) = cs_projectId s \<and>
    (x \<in> {Members, Audit_Log} \<longrightarrow> console_can_admin u s)"
  using assms by (auto simp: navigation_def route_roundtrip sections_def split: if_splits)

text \<open>The administration pages are shown to administrators only, and a project page shows the selected
  project.\<close>

lemma shown_page_guarded:
  "shown_page u s \<in> {HealthPage, UsersPage} \<Longrightarrow> wu_platform_admin u"
  "shown_page u s = ProjectPage p x \<Longrightarrow> p \<in> set (cs_projects s) \<and> wp_id p = cs_projectId s \<and>
     (x \<in> {Members, Audit_Log} \<longrightarrow> can_admin u p)"
  by (auto simp: shown_page_def current_section_def console_can_admin_def can_admin_def find_web_project_def Let_def
      split: if_splits option.splits dest: sql_first_Some)

text \<open>C21: The console offers the retry of an operation exactly when the API can resume it: for a
  project administrator the control of an operation, read from its summary, is shown if and only if the
  API's transaction does not refuse the operation as unrecoverable, whatever the database holds.\<close>

theorem retry_control_matches_api:
  assumes "wu_platform_admin u \<or> wp_role p = Some Admin"
  shows "retry_offered u p (opSummary r) \<longleftrightarrow>
    \<not> (\<exists>d. resume_tx actor pid r key now d =
          (d, Inl (HttpError 409 ''Only failed instance operations with a recoverable request can be resumed'')))"
proof -
  have "retry_offered u p (opSummary r) \<longleftrightarrow> may_resume r"
    using assms
    by (cases "o_kind r") (auto simp: retry_offered_def can_admin_def may_resume_def creating_kind_def no_generation_def opSummary_def)
  moreover have "may_resume r \<longleftrightarrow>
    \<not> (\<exists>d. resume_tx actor pid r key now d =
          (d, Inl (HttpError 409 ''Only failed instance operations with a recoverable request can be resumed'')))"
    by (cases "may_resume r")
      (auto simp: resume_tx_def mbind_def mthrow_if_def audit_def mwhen_def set_lifecycle_def write_operations_def Let_def
        split: option.splits prod.splits if_splits sum.splits)
  ultimately show ?thesis by simp
qed

definition failed_rotation :: op_row where
  "failed_rotation = (new_operation ''o1'' ''p1'' (Some ''i1'') InstanceRotate ''key'' ''h'' empty_request None ''u1'' 0)
     \<lparr>o_state := OpFailed, o_target_generation := Some 2\<rparr>"

definition some_admin :: web_user where
  "some_admin = \<lparr>wu_id = ''u1'', wu_email = ''a@b'', wu_platform_admin = False\<rparr>"

definition some_project :: web_project where
  "some_project = \<lparr>wp_id = ''p1'', wp_name = ''team'', wp_state = ''ready'', wp_role = Some Admin\<rparr>"

theorem retry_control_matches_api_witness:
  "retry_offered some_admin some_project (opSummary failed_rotation) \<and>
   \<not> (\<exists>d. resume_tx \<lparr>ac_id = ''u1'', ac_email = ''a@b'', ac_platform_admin = False\<rparr> ''p1'' failed_rotation ''k'' 5 d =
       (d, Inl (HttpError 409 ''Only failed instance operations with a recoverable request can be resumed'')))"
proof -
  have "retry_offered some_admin some_project (opSummary failed_rotation)"
    by (simp add: retry_offered_def can_admin_def some_project_def opSummary_def failed_rotation_def new_operation_def)
  moreover have "wu_platform_admin some_admin \<or> wp_role some_project = Some Admin" by (simp add: some_project_def)
  ultimately show ?thesis using retry_control_matches_api by blast
qed

end
