(* ===== verification/Listings.thy ===== *)
theory Listings
  imports Project_Routes Instance_Routes
begin

text \<open>
  The reading routes of app.ts over accounts, projects and audit events. The column \<open>created_at\<close> of
  these tables is read by the listings only: it is an argument, a function of the identifier of a row or,
  for the audit events, which are only ever appended, of the position of a row.
\<close>

definition auth_me :: "'w app_env \<Rightarrow> http_request \<Rightarrow> ('w sys, actor) action" where
  "auth_me env req = user env req"

record user_item =
  ui_id :: string
  ui_email :: string
  ui_active :: bool
  ui_platform_admin :: bool
  ui_created_at :: int

definition user_item_of :: "(string \<Rightarrow> int) \<Rightarrow> user_row \<Rightarrow> user_item" where
  "user_item_of created u = \<lparr>ui_id = u_id u, ui_email = u_email u, ui_active = u_active u,
     ui_platform_admin = u_platform_admin u, ui_created_at = created (u_id u)\<rparr>"

definition list_users :: "'w app_env \<Rightarrow> (string \<Rightarrow> int) \<Rightarrow> http_request \<Rightarrow> ('w sys, user_item list) action" where
  "list_users env created req =
     mbind (user env req) (\<lambda>actor.
     mbind (mthrow_if (\<not> ac_platform_admin actor) (HttpError 403 ''Platform administrator required'')) (\<lambda>_.
     mbind (pause env) (\<lambda>_.
     query (\<lambda>_ d. map (user_item_of created) (newest_first 200 (\<lambda>u. created (u_id u)) (db_users d))))))"

record project_item =
  pi_id :: string
  pi_name :: string
  pi_namespace :: string
  pi_state :: project_state
  pi_role :: "role option"

definition project_item_of :: "role option \<Rightarrow> project_row \<Rightarrow> project_item" where
  "project_item_of role p = \<lparr>pi_id = p_id p, pi_name = p_name p, pi_namespace = p_namespace p, pi_state = p_state p, pi_role = role\<rparr>"

text \<open>\<open>projects p JOIN project_members m ON m.project_id=p.id WHERE m.user_id=$1\<close>\<close>

definition member_projects :: "string \<Rightarrow> database \<Rightarrow> (project_row \<times> member_row) list" where
  "member_projects uid d = [(p, m). p \<leftarrow> db_projects d, m \<leftarrow> db_members d, m_project_id m = p_id p \<and> m_user_id m = uid]"

definition list_projects :: "'w app_env \<Rightarrow> (string \<Rightarrow> int) \<Rightarrow> http_request \<Rightarrow> ('w sys, project_item list) action" where
  "list_projects env created req =
     mbind (user env req) (\<lambda>actor.
     mbind (pause env) (\<lambda>_.
     if ac_platform_admin actor
     then query (\<lambda>_ d. map (project_item_of None) (newest_first 200 (\<lambda>p. created (p_id p)) (db_projects d)))
     else query (\<lambda>_ d. map (\<lambda>(p, m). project_item_of (Some (m_role m)) p)
            (newest_first 200 (\<lambda>(p, m). created (p_id p)) (member_projects (ac_id actor) d)))))"

record audit_item =
  ai_actor_id :: "string option"
  ai_action :: string
  ai_details :: json
  ai_created_at :: int

definition project_audit :: "(nat \<Rightarrow> int) \<Rightarrow> string \<Rightarrow> database \<Rightarrow> (int \<times> audit_row) list" where
  "project_audit created pid d = filter (\<lambda>(_, a). a_project a = Some pid) (map (\<lambda>(i, a). (created i, a)) (enumerate 0 (db_audit d)))"

definition list_audit :: "'w app_env \<Rightarrow> (nat \<Rightarrow> int) \<Rightarrow> http_request \<Rightarrow> string \<Rightarrow> ('w sys, audit_item list) action" where
  "list_audit env created req projectId =
     mbind (parse_uuid env projectId) (\<lambda>pid.
     mbind (projectAccess env req pid [Admin]) (\<lambda>_.
     mbind (pause env) (\<lambda>_.
     query (\<lambda>_ d. map (\<lambda>(stamp, a). \<lparr>ai_actor_id = a_actor a, ai_action = a_action a, ai_details = a_details a, ai_created_at = stamp\<rparr>)
       (newest_first 100 fst (project_audit created pid d))))))"

section \<open>What the listings show\<close>

lemma newest_first_subset: "x \<in> set (newest_first n stamp rows) \<Longrightarrow> x \<in> set rows"
  by (auto simp: newest_first_def dest: in_set_takeD)

lemma newest_first_bounded: "length (newest_first n stamp rows) \<le> n"
  by (simp add: newest_first_def)

lemma newest_first_sorted: "sorted_wrt (\<lambda>x y. stamp y \<le> stamp x) (newest_first n stamp rows)"
proof -
  have "sorted_wrt (\<lambda>x y. - stamp x \<le> - stamp y) (sort_key (\<lambda>r. - stamp r) rows)"
    using sorted_sort_key[of "\<lambda>r. - stamp r" rows] by (simp add: sorted_wrt_map)
  then show ?thesis by (simp add: newest_first_def sorted_wrt_take)
qed

text \<open>A member sees the projects they belong to, with their role there, and nobody else's.\<close>

lemma listed_project:
  assumes "list_projects env created req s = (s', Inr items)" "item \<in> set items" "user env req s = (s1, Inr actor)"
  shows "\<exists>p \<in> set (db_projects (sys_db s')). p_id p = pi_id item \<and>
    (if ac_platform_admin actor then pi_role item = None
     else \<exists>m \<in> set (db_members (sys_db s')). m_project_id m = p_id p \<and> m_user_id m = ac_id actor \<and> pi_role item = Some (m_role m))"
  using assms
  by (auto simp: list_projects_def mbind_Inr query_def member_projects_def project_item_of_def
      split: if_splits prod.splits dest!: newest_first_subset; blast)

end
