(* ===== verification/Web_Project.thy ===== *)
theory Web_Project
  imports Web_Console Listings
begin

text \<open>
  The project page of the web console, \<open>ProjectView\<close> of src/apps/admin-web/src/App.tsx: the poll of
  instances and operations every three seconds, the filters and the listing, the dialogs. The filter of
  the listing, the counts of the summary and the retry controls are in the theory of the console.
\<close>

section \<open>State\<close>

record view_state =
  vs_filters :: filters
  vs_loading :: bool
  vs_hasSnapshot :: bool
  vs_instances :: "web_instance list"
  vs_operations :: "op_summary list"
  vs_error :: string
  vs_creating :: bool
  vs_selected :: string
  vs_refresh :: nat
  vs_credentials :: "(string \<times> string) option"

definition all_filters :: filters where
  "all_filters = \<lparr>fi_search = [], fi_protocol = None, fi_lifecycle = None\<rparr>"

definition view_init :: view_state where
  "view_init = \<lparr>vs_filters = all_filters, vs_loading = True, vs_hasSnapshot = False, vs_instances = [],
     vs_operations = [], vs_error = [], vs_creating = False, vs_selected = [], vs_refresh = 0, vs_credentials = None\<rparr>"

section \<open>The poll\<close>

definition view_requests :: "string option \<Rightarrow> string \<Rightarrow> web_request \<times> web_request" where
  "view_requests csrf base =
     (api_request csrf (base @ ''/instances'') get_options, api_request csrf (base @ ''/operations'') get_options)"

text \<open>\<open>Promise.all\<close>: both answers, or the first error.\<close>

definition view_polled :: "web_error + web_instance list \<times> op_summary list \<Rightarrow> view_state \<Rightarrow> view_state" where
  "view_polled outcome s =
     (case outcome of
        Inr (instances, operations) \<Rightarrow>
          s\<lparr>vs_hasSnapshot := True, vs_instances := instances, vs_operations := operations, vs_error := [], vs_loading := False\<rparr>
      | Inl (AbortError _) \<Rightarrow> s
      | Inl e \<Rightarrow> s\<lparr>vs_error := message e, vs_loading := False\<rparr>)"

section \<open>Filters and listing\<close>

text \<open>\<open>[...new Set(xs)]\<close>: the first occurrences, in order.\<close>

definition js_unique :: "'a list \<Rightarrow> 'a list" where
  "js_unique xs = rev (remdups (rev xs))"

definition protocol_choices :: "view_state \<Rightarrow> string list" where
  "protocol_choices s = js_unique (map wi_template_name (vs_instances s))"

definition lifecycle_choices :: "view_state \<Rightarrow> lifecycle list" where
  "lifecycle_choices s = js_unique (map wi_lifecycle (vs_instances s))"

definition clear_filters :: "view_state \<Rightarrow> view_state" where
  "clear_filters s = s\<lparr>vs_filters := all_filters\<rparr>"

datatype listing = ListLoading | ListUnavailable | ListRows "web_instance list" | ListNoMatch | ListNothing

definition shown_listing :: "view_state \<Rightarrow> listing" where
  "shown_listing s =
     (let rows = visibleInstances (vs_filters s) (vs_instances s)
      in if vs_loading s then ListLoading
         else if \<not> vs_hasSnapshot s then ListUnavailable
         else if rows \<noteq> [] then ListRows rows
         else if vs_instances s \<noteq> [] then ListNoMatch else ListNothing)"

text \<open>The clearing control is part of the listing without a match.\<close>

definition clear_offered :: "view_state \<Rightarrow> bool" where
  "clear_offered s \<longleftrightarrow> shown_listing s = ListNoMatch"

text \<open>The footer: the instances shown and all of them, a dash each before the first snapshot.\<close>

definition shown_counts :: "view_state \<Rightarrow> (nat \<times> nat) option" where
  "shown_counts s =
     (if vs_hasSnapshot s
      then Some (length (visibleInstances (vs_filters s) (vs_instances s)), length (vs_instances s)) else None)"

definition shown_summary :: "view_state \<Rightarrow> summary option" where
  "shown_summary s = (if vs_hasSnapshot s then Some (project_summary (vs_instances s) (vs_operations s)) else None)"

section \<open>Dialogs\<close>

definition create_clicked :: "web_user \<Rightarrow> web_project \<Rightarrow> view_state \<Rightarrow> view_state" where
  "create_clicked u p s = (if may_create u p then s\<lparr>vs_creating := True\<rparr> else s)"

definition instance_created :: "(string \<times> string) option \<Rightarrow> view_state \<Rightarrow> view_state" where
  "instance_created credentials s =
     s\<lparr>vs_creating := False, vs_credentials := credentials, vs_refresh := vs_refresh s + 1\<rparr>"

definition row_clicked :: "string \<Rightarrow> view_state \<Rightarrow> view_state" where
  "row_clicked i s = s\<lparr>vs_selected := (if vs_selected s = i then [] else i)\<rparr>"

section \<open>What the page shows\<close>

lemma set_js_unique [simp]: "set (js_unique xs) = set xs"
  by (simp add: js_unique_def)

lemma distinct_js_unique [simp]: "distinct (js_unique xs)"
  by (simp add: js_unique_def)

lemma includes_nothing [simp]: "includes_text s []"
  by (auto simp: includes_text_def)

lemma search_nothing [simp]: "js_trim (toLowerCase []) = []"
  by code_simp

lemma visible_all [simp]: "visibleInstances all_filters xs = xs"
  by (simp add: visibleInstances_def all_filters_def)

lemma offered_protocol_matches:
  "x \<in> set (protocol_choices s) \<Longrightarrow> visibleInstances (all_filters\<lparr>fi_protocol := Some x\<rparr>) (vs_instances s) \<noteq> []"
  by (auto simp: protocol_choices_def visibleInstances_def all_filters_def filter_empty_conv)

lemma offered_lifecycle_matches:
  "x \<in> set (lifecycle_choices s) \<Longrightarrow> visibleInstances (all_filters\<lparr>fi_lifecycle := Some x\<rparr>) (vs_instances s) \<noteq> []"
  by (auto simp: lifecycle_choices_def visibleInstances_def all_filters_def filter_empty_conv)

text \<open>Clearing the filters, where it is offered, brings every instance back.\<close>

lemma clearing_shows_all: "clear_offered s \<Longrightarrow> shown_listing (clear_filters s) = ListRows (vs_instances s)"
  by (auto simp: clear_offered_def shown_listing_def clear_filters_def Let_def split: if_splits)

text \<open>The page through polls, filters and dialogs.\<close>

datatype view_event =
    Polled "web_error + web_instance list \<times> op_summary list"
  | Filtered filters
  | FiltersCleared
  | CreateClicked web_user web_project
  | Created "(string \<times> string) option"
  | CredentialsClosed
  | RowClicked string

fun view_step :: "view_event \<Rightarrow> view_state \<Rightarrow> view_state" where
  "view_step (Polled outcome) s = view_polled outcome s"
| "view_step (Filtered f) s = s\<lparr>vs_filters := f\<rparr>"
| "view_step FiltersCleared s = (if clear_offered s then clear_filters s else s)"
| "view_step (CreateClicked u p) s = create_clicked u p s"
| "view_step (Created credentials) s = instance_created credentials s"
| "view_step CredentialsClosed s = s\<lparr>vs_credentials := None\<rparr>"
| "view_step (RowClicked i) s = row_clicked i s"

definition view_run :: "view_event list \<Rightarrow> view_state" where
  "view_run events = fold view_step events view_init"

text \<open>The answer of the last poll that succeeded.\<close>

fun answer_of :: "view_event \<Rightarrow> (web_instance list \<times> op_summary list) option" where
  "answer_of (Polled (Inr x)) = Some x"
| "answer_of _ = None"

definition last_snapshot :: "view_event list \<Rightarrow> (web_instance list \<times> op_summary list) option" where
  "last_snapshot events =
     (let xs = List.map_filter answer_of events in if xs = [] then None else Some (last xs))"

definition page_holds :: "(web_instance list \<times> op_summary list) option \<Rightarrow> view_state \<Rightarrow> bool" where
  "page_holds snapshot s \<longleftrightarrow>
     (case snapshot of
        None \<Rightarrow> \<not> vs_hasSnapshot s \<and> vs_instances s = [] \<and> vs_operations s = []
      | Some (instances, operations) \<Rightarrow> vs_hasSnapshot s \<and> \<not> vs_loading s \<and> vs_instances s = instances \<and> vs_operations s = operations)"

lemma last_snapshot_snoc:
  "last_snapshot (events @ [e]) = (case answer_of e of None \<Rightarrow> last_snapshot events | Some x \<Rightarrow> Some x)"
  by (simp add: last_snapshot_def List.map_filter_def split: option.splits)

lemmas view_defs = view_polled_def clear_filters_def create_clicked_def instance_created_def row_clicked_def

lemma view_step_shows:
  assumes "page_holds snapshot s"
  shows "page_holds (case answer_of e of None \<Rightarrow> snapshot | Some x \<Rightarrow> Some x) (view_step e s)"
proof (cases e)
  case (Polled outcome)
  show ?thesis
  proof (cases outcome)
    case (Inl err)
    then show ?thesis using assms Polled by (cases err) (auto simp: page_holds_def view_defs split: option.splits)
  next
    case (Inr x)
    then show ?thesis using Polled by (auto simp: page_holds_def view_defs split: prod.splits)
  qed
qed (use assms in \<open>auto simp: page_holds_def view_defs split: option.splits\<close>)

lemma view_run_shows: "page_holds (last_snapshot events) (view_run events)"
proof (induction events rule: rev_induct)
  case Nil
  show ?case by (simp add: page_holds_def last_snapshot_def view_run_def view_init_def List.map_filter_def)
next
  case (snoc e events)
  then show ?case using view_step_shows[OF snoc.IH, of e] by (simp add: last_snapshot_snoc view_run_def)
qed

text \<open>Whatever happens on the project page - failed or aborted polls, filters, dialogs - its counts and
  its listing are those of the last poll that succeeded, and before the first one it shows no numbers and
  no instances.\<close>

theorem page_shows_last_poll:
  "shown_summary (view_run events) = map_option (\<lambda>(instances, operations). project_summary instances operations) (last_snapshot events) \<and>
   map_option snd (shown_counts (view_run events)) = map_option (\<lambda>(instances, _). length instances) (last_snapshot events) \<and>
   (case last_snapshot events of
      None \<Rightarrow> shown_listing (view_run events) \<in> {ListLoading, ListUnavailable}
    | Some (instances, _) \<Rightarrow>
        shown_listing (view_run events) =
          (case visibleInstances (vs_filters (view_run events)) instances of
             [] \<Rightarrow> if instances = [] then ListNothing else ListNoMatch
           | rows \<Rightarrow> ListRows rows))"
  using view_run_shows[of events]
  by (auto simp: page_holds_def shown_summary_def shown_counts_def shown_listing_def Let_def split: option.splits list.splits)

section \<open>Rights on the page and at the API\<close>

text \<open>The account and the project as the console reads them from the answers of the API.\<close>

definition console_user :: "actor \<Rightarrow> web_user" where
  "console_user actor = \<lparr>wu_id = ac_id actor, wu_email = ac_email actor, wu_platform_admin = ac_platform_admin actor\<rparr>"

definition project_state_text :: "project_state \<Rightarrow> string" where
  "project_state_text x =
     (case x of PPending \<Rightarrow> ''pending'' | PReady \<Rightarrow> ''ready'' | PFailed \<Rightarrow> ''failed'' | PDeleting \<Rightarrow> ''deleting'')"

definition console_project :: "project_item \<Rightarrow> web_project" where
  "console_project x = \<lparr>wp_id = pi_id x, wp_name = pi_name x, wp_state = project_state_text (pi_state x), wp_role = pi_role x\<rparr>"

lemma member_role_unique:
  assumes "distinct (map (\<lambda>m. (m_project_id m, m_user_id m)) (db_members d))"
    and "m \<in> set (db_members d)" "m_project_id m = pid" "m_user_id m = uid"
  shows "member_role d pid uid = Some (m_role m)"
proof -
  let ?mine = "\<lambda>m. m_project_id m = pid \<and> m_user_id m = uid"
  obtain x where x: "sql_first ?mine (db_members d) = Some x"
    using assms(2-4) sql_first_None[of ?mine "db_members d"] by (cases "sql_first ?mine (db_members d)") auto
  have "inj_on (\<lambda>m. (m_project_id m, m_user_id m)) (set (db_members d))" using assms(1) by (simp add: distinct_map)
  then have "x = m" by (rule inj_onD) (use sql_first_Some[OF x] assms(2-4) in auto)
  then show ?thesis using x by (simp add: member_role_def)
qed

lemma projectAccess_iff:
  assumes "user env req s = (s, Inr actor)" "en_others env s = s"
  shows "(\<exists>a. projectAccess env req pid allowed s = (s, Inr a)) \<longleftrightarrow>
    find_project (sys_db s) pid \<noteq> None \<and>
    (ac_platform_admin actor \<or> member_role (sys_db s) pid (ac_id actor) \<in> Some ` set allowed)"
  using assms by (auto simp: projectAccess_def mbind_def query_def mthrow_if_def)

text \<open>C19: The controls of the console are those the account may use: for every project the API lists to an
  account, the page enables writing, respectively administration, exactly when the API grants that account
  the access of the routes behind those controls, as long as nothing changes in between; memberships are
  unique, as their primary key says.\<close>

theorem console_rights_match_api:
  assumes "user env req s = (s, Inr actor)" "list_projects env created req s = (s, Inr items)" "item \<in> set items"
    and "user env later s = (s, Inr actor)" "en_others env s = s"
    and "distinct (map (\<lambda>m. (m_project_id m, m_user_id m)) (db_members (sys_db s)))"
  shows "(can_write (console_user actor) (console_project item) \<longleftrightarrow>
      (\<exists>a. projectAccess env later (pi_id item) [Admin, Maintainer] s = (s, Inr a))) \<and>
    (can_admin (console_user actor) (console_project item) \<longleftrightarrow>
      (\<exists>a. projectAccess env later (pi_id item) [Admin] s = (s, Inr a)))"
proof -
  obtain p where p: "p \<in> set (db_projects (sys_db s))" "p_id p = pi_id item"
    and r: "if ac_platform_admin actor then pi_role item = None
      else \<exists>m \<in> set (db_members (sys_db s)). m_project_id m = p_id p \<and> m_user_id m = ac_id actor \<and> pi_role item = Some (m_role m)"
    using listed_project[OF assms(2,3,1)] by blast
  have f: "find_project (sys_db s) (pi_id item) \<noteq> None" using p by (auto simp: find_project_def sql_first_None)
  have role: "ac_platform_admin actor \<or> member_role (sys_db s) (pi_id item) (ac_id actor) = pi_role item"
    using r p(2) member_role_unique[OF assms(6)] by (auto split: if_splits)
  show ?thesis unfolding projectAccess_iff[OF assms(4,5)] using f role
    by (auto simp: can_write_def can_admin_def console_user_def console_project_def)
qed

definition team_user :: user_row where
  "team_user = root_user\<lparr>u_platform_admin := False\<rparr>"

definition team_sys :: "unit sys" where
  "team_sys = people_sys\<lparr>sys_db := people_db\<lparr>db_users := [team_user], db_projects := [new_project ''p1'' ''team'' ''ns'' ''u1'' 0],
     db_members := [\<lparr>m_project_id = ''p1'', m_user_id = ''u1'', m_role = Maintainer\<rparr>]\<rparr>\<rparr>"

lemma team_user_run:
  "user sample_env (sample_request b) team_sys = (team_sys, Inr \<lparr>ac_id = ''u1'', ac_email = ''root@x'', ac_platform_admin = False\<rparr>)"
  by (simp add: user_def mbind_def query_def live_sessions_def first_row_def bad_csrf_def safe_method_def mthrow_if_def
      team_sys_def team_user_def)

lemma team_projects_run:
  "list_projects sample_env (\<lambda>_. 0) (sample_request b) team_sys =
     (team_sys, Inr [project_item_of (Some Maintainer) (new_project ''p1'' ''team'' ''ns'' ''u1'' 0)])"
  unfolding list_projects_def
  by (simp add: mbind_def team_user_run query_def member_projects_def newest_first_def)
    (simp add: team_sys_def new_project_def)

theorem console_rights_match_api_witness:
  "(\<exists>a. projectAccess sample_env (sample_request []) ''p1'' [Admin, Maintainer] team_sys = (team_sys, Inr a)) \<and>
   \<not> (\<exists>a. projectAccess sample_env (sample_request []) ''p1'' [Admin] team_sys = (team_sys, Inr a))"
proof -
  let ?item = "project_item_of (Some Maintainer) (new_project ''p1'' ''team'' ''ns'' ''u1'' 0)"
  let ?actor = "\<lparr>ac_id = ''u1'', ac_email = ''root@x'', ac_platform_admin = False\<rparr>"
  have i: "pi_id ?item = ''p1''" "pi_role ?item = Some Maintainer" by (simp_all add: project_item_of_def new_project_def)
  have "(can_write (console_user ?actor) (console_project ?item) \<longleftrightarrow>
      (\<exists>a. projectAccess sample_env (sample_request []) (pi_id ?item) [Admin, Maintainer] team_sys = (team_sys, Inr a))) \<and>
    (can_admin (console_user ?actor) (console_project ?item) \<longleftrightarrow>
      (\<exists>a. projectAccess sample_env (sample_request []) (pi_id ?item) [Admin] team_sys = (team_sys, Inr a)))"
    by (rule console_rights_match_api[OF team_user_run team_projects_run _ team_user_run]) (simp_all add: team_sys_def)
  then show ?thesis by (simp add: i can_write_def can_admin_def console_user_def console_project_def)
qed

end
