(* ===== verification/Web_Instance.thy ===== *)
theory Web_Instance
  imports Web_Console
begin

text \<open>
  The pages of one instance in the web console, under src/apps/admin-web/src: InstanceForm and
  InstanceDetail (App.tsx), RetainedVolume.tsx, RotateCredential.tsx and ConnectionInfo.tsx. A number
  field of the form is \<open>None\<close> while it is empty (\<open>NaN\<close>); the browser submits the form only when every
  field is a whole number, because the fields are required and have step 1. The spec and the status of
  an instance are the API's records. Random keys are arguments.
\<close>

section \<open>Numbers in text\<close>

text \<open>\<open>parseInt(text)\<close> without a radix\<close>

definition parseInt :: "string \<Rightarrow> rat option" where
  "parseInt s =
     (let t = dropWhile is_space s; u = (if t \<noteq> [] \<and> is_sign (hd t) then tl t else t);
          negative = (t \<noteq> [] \<and> hd t = CHR ''-'');
          hex = (starts ''0x'' u \<or> starts ''0X'' u);
          ds = (if hex then takeWhile is_hex (drop 2 u) else takeWhile is_digit u);
          n = int (if hex then radix_value 16 ds else digits_val ds)
      in if ds = [] then None else to_double (of_int (if negative then - n else n)))"

text \<open>\<open>/^(\d+)(Ki|Mi|Gi|Ti)$/\<close>, rounded up to GiB with exact integers\<close>

definition volumeGiB :: "string \<Rightarrow> nat option" where
  "volumeGiB quantity =
     (let ds = takeWhile is_digit quantity
      in if ds = [] then None
         else case map_of [(''Ki'', 1024 :: nat), (''Mi'', 1024 ^ 2), (''Gi'', 1024 ^ 3), (''Ti'', 1024 ^ 4)] (dropWhile is_digit quantity) of
           None \<Rightarrow> None
         | Some factor \<Rightarrow>
             let bytes = digits_val ds * factor; gib = (bytes + 1024 ^ 3 - 1) div 1024 ^ 3
             in if gib \<le> 1048576 then Some gib else None)"

section \<open>InstanceForm\<close>

record form_input =
  fm_template :: string
  fm_exposure :: string
  fm_name :: string
  fm_storageGiB :: "rat option"
  fm_cacheGiB :: "rat option"
  fm_cpuMillis :: "rat option"
  fm_memoryMiB :: "rat option"
  fm_desiredState :: string
  fm_deletionPolicy :: string
  fm_readOnly :: "bool option"

definition defaults :: form_input where
  "defaults = \<lparr>fm_template = ''bazel-remote'', fm_exposure = ''ClusterInternal'', fm_name = [], fm_storageGiB = Some 20,
     fm_cacheGiB = Some 16, fm_cpuMillis = Some 500, fm_memoryMiB = Some 512, fm_desiredState = ''Running'',
     fm_deletionPolicy = ''Retain'', fm_readOnly = None\<rparr>"

definition limit_text :: "cache_spec \<Rightarrow> string \<Rightarrow> string" where
  "limit_text spec k = (case map_of (Contract.rs_limits (sp_resources spec)) k of None \<Rightarrow> [] | Some q \<Rightarrow> q)"

text \<open>The form of an existing instance.\<close>

definition form_of_spec :: "cache_spec \<Rightarrow> string \<Rightarrow> form_input" where
  "form_of_spec spec name =
     \<lparr>fm_template = tr_name (sp_templateRef spec), fm_exposure = ac_exposure (sp_access spec), fm_name = name,
      fm_storageGiB = parseInt (st_capacity (sp_storage spec)),
      fm_cacheGiB = Some (of_int (ev_maxCacheGiB (sp_eviction spec))),
      fm_cpuMillis =
        (let cpu = limit_text spec ''cpu''
         in if ends_with ''m'' cpu then parseInt cpu
            else Option.bind (finite_number cpu) (\<lambda>r. to_double (r * 1000))),
      fm_memoryMiB = parseInt (limit_text spec ''memory''),
      fm_desiredState = sp_desiredState spec, fm_deletionPolicy = st_deletionPolicy (sp_storage spec),
      fm_readOnly =
        (if tr_name (sp_templateRef spec) = ''go-cacheprog''
         then Some (case ac_readOnly (sp_access spec) of None \<Rightarrow> False | Some b \<Rightarrow> b) else None)\<rparr>"

record volume =
  vo_name :: string
  vo_uid :: string
  vo_capacity :: string
  vo_allocatedCapacity :: string
  vo_phase :: string
  vo_deleting :: bool

record reclaim_target =
  rc_path :: string
  rc_volume :: volume
  rc_name :: string
  rc_template :: string
  rc_templateVersion :: "string option"

definition gib_or :: "nat \<Rightarrow> string \<Rightarrow> nat" where
  "gib_or d q = (case volumeGiB q of None \<Rightarrow> d | Some n \<Rightarrow> n)"

definition form_of_reclaim :: "reclaim_target \<Rightarrow> form_input" where
  "form_of_reclaim rc =
     (let minimum = max (gib_or 0 (vo_capacity (rc_volume rc))) (max (gib_or 0 (vo_allocatedCapacity (rc_volume rc))) 2)
      in defaults\<lparr>fm_name := rc_name rc, fm_template := rc_template rc, fm_storageGiB := Some (of_nat minimum),
           fm_cacheGiB := Some (if rc_template rc = ''webdav-apache'' then 0 else of_nat (max 1 (min 16 (minimum - 1))))\<rparr>)"

text \<open>The catalog arrives: a new instance takes a template that can be created; a reclaim checks that
  its template version is still there. The result is the form and the catalog error.\<close>

definition catalog_legacy_webdav :: "reclaim_target \<Rightarrow> catalog_entry list \<Rightarrow> bool" where
  "catalog_legacy_webdav rc supported \<longleftrightarrow>
     rc_template rc = ''webdav-apache'' \<and> rc_templateVersion rc = Some ''0.1.0'' \<and>
     list_ex (\<lambda>x. ce_name x = ''webdav-apache'') supported"

definition templates_loaded ::
  "(string \<Rightarrow> string) \<Rightarrow> cache_spec option \<Rightarrow> reclaim_target option \<Rightarrow> catalog_entry list \<Rightarrow> form_input \<Rightarrow> form_input \<times> string" where
  "templates_loaded tr baseline reclaim supported f =
     (case reclaim of
        Some rc \<Rightarrow>
          (f, if \<not> catalog_legacy_webdav rc supported \<and>
                \<not> list_ex (\<lambda>x. ce_name x = rc_template rc \<and> Some (ce_version x) = rc_templateVersion rc) supported
              then tr ''The original template version is unavailable. This instance cannot be reclaimed.'' else [])
      | None \<Rightarrow>
          if baseline \<noteq> None then (f, [])
          else (case supported of
            [] \<Rightarrow> (f, tr ''No templates are currently available.'')
          | first # _ \<Rightarrow>
              let selected = (case sql_first (\<lambda>x. ce_name x = fm_template f) supported of None \<Rightarrow> first | Some x \<Rightarrow> x)
              in (f\<lparr>fm_template := ce_name selected,
                    fm_exposure := (if fm_exposure f \<in> set (ce_exposures selected) then fm_exposure f else ''ClusterInternal''),
                    fm_cacheGiB := (if cap_capacity (ce_capabilities selected) then fm_cacheGiB f else Some 0)\<rparr>, [])))"

text \<open>The template select changes; \<open>Math.min\<close> with NaN is NaN.\<close>

definition template_chosen :: "catalog_entry \<Rightarrow> form_input \<Rightarrow> form_input" where
  "template_chosen selected f =
     f\<lparr>fm_template := ce_name selected,
       fm_exposure := (if fm_exposure f \<in> set (ce_exposures selected) then fm_exposure f else ''ClusterInternal''),
       fm_cacheGiB := (if cap_capacity (ce_capabilities selected)
         then map_option (\<lambda>s. min 16 (s - 1)) (fm_storageGiB f) else Some 0)\<rparr>"

definition selectedTemplate ::
  "cache_spec option \<Rightarrow> reclaim_target option \<Rightarrow> catalog_entry list \<Rightarrow> form_input \<Rightarrow> catalog_entry option" where
  "selectedTemplate spec reclaim catalog f =
     sql_first (\<lambda>x. ce_name x = fm_template f \<and>
        (case spec of None \<Rightarrow> True | Some sp \<Rightarrow> ce_version x = tr_version (sp_templateRef sp)) \<and>
        (case reclaim of None \<Rightarrow> True | Some rc \<Rightarrow> Some (ce_version x) = rc_templateVersion rc)) catalog"

definition supportsCapacity :: "cache_spec option \<Rightarrow> catalog_entry option \<Rightarrow> bool" where
  "supportsCapacity spec selected =
     (case selected of
        Some x \<Rightarrow> cap_capacity (ce_capabilities x)
      | None \<Rightarrow> (case spec of None \<Rightarrow> False | Some sp \<Rightarrow> 0 < ev_maxCacheGiB (sp_eviction sp)))"

definition canSubmit :: "cache_spec option \<Rightarrow> reclaim_target option \<Rightarrow> catalog_entry list \<Rightarrow> form_input \<Rightarrow> bool" where
  "canSubmit spec reclaim catalog f \<longleftrightarrow>
     spec \<noteq> None \<or> selectedTemplate spec reclaim catalog f \<noteq> None \<or>
     (case reclaim of None \<Rightarrow> False | Some rc \<Rightarrow> catalog_legacy_webdav rc catalog)"

text \<open>\<open>JSON.stringify\<close> of the input: NaN becomes null, and only Go instances have \<open>readOnly\<close>. The
  fields are in the order of the defaults; a form never changes its order, and the API does not read it.\<close>

definition json_number :: "rat option \<Rightarrow> json" where
  "json_number n = (case n of None \<Rightarrow> JNull | Some r \<Rightarrow> JNum r)"

definition form_body :: "form_input \<Rightarrow> json" where
  "form_body f =
     JObj ([(''exposure'', JStr (fm_exposure f)), (''template'', JStr (fm_template f)), (''name'', JStr (fm_name f)),
        (''storageGiB'', json_number (fm_storageGiB f)), (''cacheGiB'', json_number (fm_cacheGiB f)),
        (''cpuMillis'', json_number (fm_cpuMillis f)), (''memoryMiB'', json_number (fm_memoryMiB f)),
        (''desiredState'', JStr (fm_desiredState f)), (''deletionPolicy'', JStr (fm_deletionPolicy f))] @
       (if fm_template f = ''go-cacheprog''
        then [(''readOnly'', JBool (case fm_readOnly f of None \<Rightarrow> True | Some b \<Rightarrow> b))] else []))"

record form_state =
  fs_input :: form_input
  fs_error :: string
  fs_busy :: bool
  fs_last :: "(json \<times> string) option"

text \<open>What the form edits: a new instance of a project, an existing one with the revision it was read
  at, or a retained volume.\<close>

datatype form_mode = NewInstance | EditInstance string string cache_spec | ReclaimVolume reclaim_target

fun mode_spec :: "form_mode \<Rightarrow> cache_spec option" where
  "mode_spec (EditInstance _ _ spec) = Some spec"
| "mode_spec _ = None"

fun mode_reclaim :: "form_mode \<Rightarrow> reclaim_target option" where
  "mode_reclaim (ReclaimVolume rc) = Some rc"
| "mode_reclaim _ = None"

fun submit_path :: "string \<Rightarrow> form_mode \<Rightarrow> string" where
  "submit_path base NewInstance = base @ ''/instances''"
| "submit_path base (EditInstance iid _ _) = base @ ''/instances/'' @ iid"
| "submit_path base (ReclaimVolume rc) = rc_path rc @ ''/reclaim''"

fun submit_headers :: "form_mode \<Rightarrow> strmap" where
  "submit_headers NewInstance = []"
| "submit_headers (EditInstance _ rv _) = [(''If-Match'', dquote # rv @ [dquote])]"
| "submit_headers (ReclaimVolume rc) = [(''If-Match'', vo_uid (rc_volume rc))]"

definition submit_options :: "form_mode \<Rightarrow> string \<Rightarrow> json \<Rightarrow> options" where
  "submit_options mode key body =
     \<lparr>op_method = Some (if mode_spec mode \<noteq> None then ''PATCH'' else ''POST''),
      op_headers = (''Idempotency-Key'', key) # submit_headers mode, op_body = Some (json_text body)\<rparr>"

text \<open>\<open>NaN >= x\<close> is false.\<close>

definition no_space_left :: "form_input \<Rightarrow> bool" where
  "no_space_left f = (case (fm_cacheGiB f, fm_storageGiB f) of (Some c, Some s) \<Rightarrow> s \<le> c | _ \<Rightarrow> False)"

definition form_submit ::
  "(string \<Rightarrow> string) \<Rightarrow> string option \<Rightarrow> string \<Rightarrow> form_mode \<Rightarrow> catalog_entry list \<Rightarrow> string \<Rightarrow> form_state \<Rightarrow>
   form_state \<times> (string \<times> json \<times> web_request) option" where
  "form_submit tr csrf base mode catalog newKey s =
     (let spec = mode_spec mode; reclaim = mode_reclaim mode; f = fs_input s; s1 = s\<lparr>fs_error := []\<rparr>
      in if \<not> canSubmit spec reclaim catalog f then (s1, None)
         else if supportsCapacity spec (selectedTemplate spec reclaim catalog f) \<and> no_space_left f
         then (s1\<lparr>fs_error := tr ''Cache capacity must be smaller than the volume capacity to leave operating space.''\<rparr>, None)
         else
           let body = form_body f;
               last = (case fs_last s of
                 Some (b, k) \<Rightarrow> if b \<noteq> body then (body, newKey) else (b, k)
               | None \<Rightarrow> (body, newKey))
           in (s1\<lparr>fs_busy := True, fs_last := Some last\<rparr>,
               Some (snd last, body, api_request csrf (submit_path base mode) (submit_options mode (snd last) body))))"

definition form_done :: "web_error + 'a \<Rightarrow> form_state \<Rightarrow> form_state" where
  "form_done outcome s =
     (case outcome of
        Inr _ \<Rightarrow> s\<lparr>fs_busy := False\<rparr>
      | Inl e \<Rightarrow> s\<lparr>fs_error := message e, fs_busy := False\<rparr>)"

section \<open>The form and the API's contract\<close>

lemma digits_prefix:
  assumes "r = [] \<or> \<not> is_digit (hd r)"
  shows "takeWhile is_digit (show_nat n @ r) = show_nat n"
proof -
  have "takeWhile is_digit r = []" using assms by (cases r) auto
  then show ?thesis using show_nat_correct[of n] by (simp add: takeWhile_append2 list_all_iff)
qed

lemma show_nat_not_radix:
  assumes "r \<noteq> [] \<longrightarrow> hd r \<noteq> CHR ''x'' \<and> hd r \<noteq> CHR ''X''"
  shows "\<not> starts ''0x'' (show_nat n @ r)" "\<not> starts ''0X'' (show_nat n @ r)"
proof -
  obtain c s where e: "show_nat n = c # s" using show_nat_correct[of n] by (cases "show_nat n") auto
  define w where "w = s @ r"
  have "list_all is_digit s" using show_nat_correct[of n] e by simp
  then have "w = [] \<or> hd w \<noteq> CHR ''x'' \<and> hd w \<noteq> CHR ''X''"
    using assms unfolding w_def by (cases s) (auto simp: is_digit_def)
  then have "\<not> starts ''x'' w \<and> \<not> starts ''X'' w" by (cases w) auto
  moreover have "show_nat n @ r = c # w" by (simp add: e w_def)
  ultimately show "\<not> starts ''0x'' (show_nat n @ r)" "\<not> starts ''0X'' (show_nat n @ r)" by simp_all
qed

text \<open>The number in front of a unit.\<close>

lemma parseInt_show:
  assumes "0 \<le> n" "n < 2 ^ 53" "r \<noteq> []" "\<not> is_digit (hd r)" "hd r \<noteq> CHR ''x''" "hd r \<noteq> CHR ''X''"
  shows "parseInt (show_int n @ r) = Some (of_int n)"
proof -
  let ?t = "show_nat (nat n) @ r"
  have "show_nat (nat n) \<noteq> []" "is_digit (hd (show_nat (nat n)))"
    using show_nat_correct[of "nat n"] by (cases "show_nat (nat n)"; simp)+
  then have h: "?t \<noteq> []" "is_digit (hd ?t)" by simp_all
  then have "\<not> is_space (hd ?t)" "\<not> is_sign (hd ?t)" "hd ?t \<noteq> CHR ''-''" by (auto simp: is_digit_def is_space_def is_sign_def)
  moreover from this h have "dropWhile is_space ?t = ?t" by (cases ?t) auto
  moreover have "takeWhile is_digit ?t = show_nat (nat n)" using assms(3,4) by (intro digits_prefix) simp
  moreover have "\<not> starts ''0x'' ?t" "\<not> starts ''0X'' ?t" using assms(5,6) by (auto simp: show_nat_not_radix)
  ultimately have "parseInt ?t = to_double (of_int (int (nat n)))"
    using show_nat_correct[of "nat n"] h(1) by (simp only: parseInt_def Let_def if_False if_True simp_thms not_False_eq_True)
  then show ?thesis using assms(1,2) to_double_int[of n] by (simp add: show_int_def)
qed

text \<open>The form that shows an input of the API.\<close>

definition input_form :: "instance_input \<Rightarrow> form_input" where
  "input_form x = \<lparr>fm_template = in_template x, fm_exposure = in_exposure x, fm_name = in_name x,
     fm_storageGiB = Some (of_int (in_storageGiB x)), fm_cacheGiB = Some (of_int (in_cacheGiB x)),
     fm_cpuMillis = Some (of_int (in_cpuMillis x)), fm_memoryMiB = Some (of_int (in_memoryMiB x)),
     fm_desiredState = in_desiredState x, fm_deletionPolicy = in_deletionPolicy x, fm_readOnly = in_readOnly x\<rparr>"

lemma ends_with_append [simp]: "ends_with s (p @ s)"
  by (simp add: ends_with_def)

lemma form_of_desired:
  assumes "valid_input x" "desiredObject x pid ns iid sc oid h = Inr d"
  shows "form_of_spec (co_spec d) (in_name x) = input_form x"
proof -
  have n: "parseInt (show_int k @ u) = Some (of_int k)" if "0 \<le> k" "k \<le> 1048576" "u \<in> {''Gi'', ''Mi'', ''m''}" for k u
    using that by (intro parseInt_show) (auto simp: is_digit_def)
  obtain t where t: "templateDefinition (in_template x) None = Inr t" "td_name t = in_template x"
    using templateDefinition_known[of "in_template x"] assms(1) by (auto simp: valid_input_def)
  have sp: "tr_name (sp_templateRef (co_spec d)) = in_template x"
    "st_capacity (sp_storage (co_spec d)) = show_int (in_storageGiB x) @ ''Gi''"
    "limit_text (co_spec d) ''cpu'' = show_int (in_cpuMillis x) @ ''m''"
    "limit_text (co_spec d) ''memory'' = show_int (in_memoryMiB x) @ ''Mi''"
    "sp_desiredState (co_spec d) = in_desiredState x" "st_deletionPolicy (sp_storage (co_spec d)) = in_deletionPolicy x"
    "ac_exposure (sp_access (co_spec d)) = in_exposure x" "ev_maxCacheGiB (sp_eviction (co_spec d)) = in_cacheGiB x"
    "ac_readOnly (sp_access (co_spec d)) = (if in_template x = ''go-cacheprog'' then in_readOnly x else None)"
    using assms(2) t by (auto simp: desiredObject_def Let_def limit_text_def)
  have "0 \<le> in_storageGiB x" "in_storageGiB x \<le> 1048576" "0 \<le> in_cpuMillis x" "in_cpuMillis x \<le> 1048576"
    "0 \<le> in_memoryMiB x" "in_memoryMiB x \<le> 1048576" "in_readOnly x \<noteq> None \<longleftrightarrow> in_template x = ''go-cacheprog''"
    using assms(1) by (simp_all add: valid_input_def)
  then show ?thesis
    using n[of "in_storageGiB x" "''Gi''"] n[of "in_cpuMillis x" "''m''"] n[of "in_memoryMiB x" "''Mi''"]
    by (cases "in_readOnly x") (simp_all add: form_of_spec_def input_form_def sp Let_def)
qed

lemma commonInput_form:
  assumes "common_ok x" "js_trim (in_name x) = in_name x"
    and "template (Some (JStr (in_template x))) = Some (in_template x)"
    and "cache (Some (JNum (of_int (in_cacheGiB x)))) = Some (in_cacheGiB x)"
    and "if in_template x = ''go-cacheprog''
         then in_readOnly x \<noteq> None \<and> extra = [''readOnly''] \<and> readOnly (Some (JBool (the (in_readOnly x)))) = Some (in_readOnly x)
         else readOnly None = Some (in_readOnly x)"
  shows "commonInput extra template cache readOnly (Some (form_body (input_form x))) = Some x"
  using assms unfolding common_ok_def
  by (auto simp: commonInput_def form_body_def input_form_def json_number_def z_strict_def z_check_def z_field_def
      z_name_def z_default_def z_enum_def z_int_JNum common_keys_def split: if_splits)

lemma commonInput_other:
  assumes "template (Some (JStr (fm_template f))) = None"
  shows "commonInput extra template cache readOnly (Some (form_body f)) = None"
  using assms
  by (auto simp: commonInput_def form_body_def z_strict_def z_check_def z_field_def split: option.splits)

lemma literal_simps:
  "z_literal n (Some (JStr s)) = (if s = n then Some s else None)"
  "z_default d (z_literal n) (Some (JStr s)) = (if s = n then Some s else None)"
  by (simp_all add: z_literal_def z_default_def z_check_def)

lemma dropWhile_idem: "dropWhile P (dropWhile P xs) = dropWhile P xs"
  by (induction xs) auto

lemma js_trim_idem: "js_trim (js_trim s) = js_trim s"
proof -
  let ?u = "dropWhile is_space s" and ?v = "js_trim s"
  have "rev ?u = takeWhile is_space (rev ?u) @ dropWhile is_space (rev ?u)" by simp
  then have "?u = ?v @ rev (takeWhile is_space (rev ?u))" unfolding js_trim_def by (metis rev_append rev_rev_ident)
  then have "?v \<noteq> [] \<Longrightarrow> ?u \<noteq> [] \<and> hd ?v = hd ?u" by (metis append_is_Nil_conv hd_append2)
  then have "?v \<noteq> [] \<Longrightarrow> \<not> is_space (hd ?v)" using hd_dropWhile[of is_space s] by auto
  then have "dropWhile is_space ?v = ?v" by (cases ?v) auto
  then show ?thesis by (simp add: js_trim_def dropWhile_idem)
qed

lemma commonInput_trimmed:
  "commonInput extra template cache readOnly v = Some x \<Longrightarrow> js_trim (in_name x) = in_name x"
  unfolding commonInput_def z_field_def
  by (auto simp: z_name_def Let_def js_trim_idem split: option.splits if_splits)

lemma instanceInput_trimmed:
  assumes "instanceInput v = Some x"
  shows "js_trim (in_name x) = in_name x"
proof -
  have "z_check (commonInput extra template cache readOnly) p v = Some y \<Longrightarrow> js_trim (in_name y) = in_name y"
    for extra template cache readOnly p y
    by (auto simp: z_check_def split: option.splits if_splits dest: commonInput_trimmed)
  then show ?thesis
    using assms
    by (auto simp: instanceInput_def bazelInput_def webdavInput_def gradleInput_def turborepoInput_def nxInput_def
        goCacheInput_def split: option.splits dest: commonInput_trimmed)
qed

lemmas input_schemas = bazelInput_def webdavInput_def gradleInput_def turborepoInput_def nxInput_def goCacheInput_def

lemma instanceInput_form:
  assumes "valid_input x" "js_trim (in_name x) = in_name x"
  shows "instanceInput (Some (form_body (input_form x))) = Some x"
proof -
  let ?b = "form_body (input_form x)"
  have ok: "common_ok x" "in_template x \<in> td_name ` set templates" using assms(1) by (auto simp: valid_input_def common_ok_def)
  have tmpl: "fm_template (input_form x) = in_template x" by (simp add: input_form_def)
  have no: "commonInput extra (z_literal n) cache ro (Some ?b) = None" if "in_template x \<noteq> n" for extra n cache ro
    by (rule commonInput_other) (simp add: tmpl literal_simps that)
  have nod: "commonInput extra (z_default n (z_literal n)) cache ro (Some ?b) = None" if "in_template x \<noteq> n" for extra n cache ro
    by (rule commonInput_other) (simp add: tmpl literal_simps that)
  show ?thesis
  proof (cases "in_template x = ''go-cacheprog''")
    case True
    then have v: "leaves_space x" "1 \<le> in_cacheGiB x" "in_cacheGiB x \<le> 1048575" "in_readOnly x \<noteq> None"
      using assms(1) by (simp_all add: valid_input_def leaves_space_def)
    have "commonInput [''readOnly''] (z_literal ''go-cacheprog'') (z_int 1 1048575)
        (\<lambda>v. map_option Some (z_default True z_bool v)) (Some ?b) = Some x"
      by (rule commonInput_form[OF ok(1) assms(2)]) (use True v in \<open>auto simp: literal_simps z_int_JNum z_default_def\<close>)
    then show ?thesis using True v by (simp add: instanceInput_def input_schemas z_check_def no nod)
  next
    case False
    then have ro: "in_readOnly x = None" using assms(1) by (simp add: valid_input_def)
    have yes: "commonInput [] tp cache no_readOnly (Some ?b) = Some x"
      if "tp (Some (JStr (in_template x))) = Some (in_template x)"
        "cache (Some (JNum (of_int (in_cacheGiB x)))) = Some (in_cacheGiB x)" for tp cache
      by (rule commonInput_form) (simp_all add: ok assms(2) that False ro no_readOnly_def)
    have v: "if in_template x = ''webdav-apache'' then in_cacheGiB x = 0
        else leaves_space x \<and> 1 \<le> in_cacheGiB x \<and> in_cacheGiB x \<le> 1048575"
      using assms(1) unfolding valid_input_def leaves_space_def by auto
    show ?thesis
      using ok(2)[unfolded template_names] v False
      by (elim insertE emptyE) (simp_all add: instanceInput_def input_schemas z_check_def no nod yes literal_simps z_int_JNum
          z_int_JNum[of 0 0 0, simplified])
  qed
qed

text \<open>C13: Editing an instance starts from what was accepted: for every creation request the API
  accepted, the edit form opened on the instance the platform built from it sends, unchanged, a body the
  API reads back as that very request, through the texts of the quantities, the number fields and the
  JSON of the form.\<close>

theorem edit_form_roundtrip:
  assumes "instanceInput v = Some x" "desiredObject x pid ns iid sc oid h = Inr d"
  shows "instanceInput (Some (form_body (form_of_spec (co_spec d) (in_name x)))) = Some x"
proof -
  have "valid_input x" using assms(1) by (rule instanceInput_valid_input)
  then show ?thesis
    using form_of_desired[OF _ assms(2)] instanceInput_form instanceInput_trimmed[OF assms(1)] by simp
qed

theorem edit_form_roundtrip_witness:
  "\<exists>d. desiredObject sample_input ''p'' ''ns'' ''i'' ''fast'' ''op'' ''h'' = Inr d \<and>
     instanceInput (Some (form_body (form_of_spec (co_spec d) ''cache''))) = Some sample_input"
proof -
  have p: "instanceInput (Some sample_body) = Some sample_input" using sample_parses by (simp add: z_parse_Inr)
  obtain d where d: "desiredObject sample_input ''p'' ''ns'' ''i'' ''fast'' ''op'' ''h'' = Inr d"
    using desiredObject_total[OF instanceInput_valid_input[OF p]] by blast
  have "in_name sample_input = ''cache''" by (simp add: sample_input_def)
  then show ?thesis using edit_form_roundtrip[OF p d] d by simp
qed

section \<open>Idempotency keys of the form\<close>

text \<open>The life of one form: the user edits, submits with a key drawn if the body changed, and a reply
  arrives. The second component lists the key and body of every request sent, latest first. A drawn
  key is new, as random UUIDs are.\<close>

type_synonym form_log = "form_state \<times> (string \<times> json) list"

inductive form_step :: "form_mode \<Rightarrow> form_log \<Rightarrow> form_log \<Rightarrow> bool" for mode where
  edit: "form_step mode (s, sent) (s\<lparr>fs_input := f\<rparr>, sent)"
| submit: "form_submit tr csrf base mode catalog newKey s = (s', Some (key, body, rq)) \<Longrightarrow>
     newKey \<notin> fst ` set sent \<Longrightarrow> form_step mode (s, sent) (s', (key, body) # sent)"
| refuse: "form_submit tr csrf base mode catalog newKey s = (s', None) \<Longrightarrow> form_step mode (s, sent) (s', sent)"
| reply: "form_step mode (s, sent) (form_done (outcome :: web_error + unit) s, sent)"

inductive_cases form_stepE: "form_step mode (s, sent) log'"

definition form_start :: "form_input \<Rightarrow> form_log" where
  "form_start f = (\<lparr>fs_input = f, fs_error = [], fs_busy = False, fs_last = None\<rparr>, [])"

text \<open>Keys determine bodies, and the remembered pair is one of those sent.\<close>

definition keys_fixed :: "form_log \<Rightarrow> bool" where
  "keys_fixed l \<longleftrightarrow>
     (\<forall>k b b'. (k, b) \<in> set (snd l) \<and> (k, b') \<in> set (snd l) \<longrightarrow> b = b') \<and>
     (case fs_last (fst l) of None \<Rightarrow> True | Some (b, k) \<Rightarrow> (k, b) \<in> set (snd l))"

lemma form_submit_sends:
  assumes "form_submit tr csrf base mode catalog newKey s = (s', Some (key, body, rq))"
  shows "body = form_body (fs_input s) \<and> fs_last s' = Some (body, key) \<and>
    (if \<exists>k. fs_last s = Some (body, k) then fs_last s' = fs_last s else key = newKey) \<and>
    rq = api_request csrf (submit_path base mode) (submit_options mode key body)"
  using assms unfolding form_submit_def Let_def
  by (cases "fs_last s") (auto split: if_splits prod.splits)

lemma submit_key_header:
  "map_of (wq_headers (api_request csrf path (submit_options mode key body))) ''idempotency-key'' = Some key"
  by (cases mode) (simp_all add: submit_options_def api_request_def Let_def to_lower_other is_upper_def)

lemma form_submit_refused: "form_submit tr csrf base mode catalog newKey s = (s', None) \<Longrightarrow> fs_last s' = fs_last s"
  by (auto simp: form_submit_def Let_def split: if_splits option.splits prod.splits)

lemma keys_fixed_step:
  assumes "form_step mode l l'" "keys_fixed l"
  shows "keys_fixed l'"
  using assms
proof (cases rule: form_step.cases)
  case (submit tr csrf base catalog newKey s s' key body rq sent)
  note f = form_submit_sends[OF submit(3)]
  show ?thesis
  proof (cases "\<exists>k. fs_last s = Some (body, k)")
    case True
    then have "(key, body) \<in> set sent" using f assms(2) submit(1) by (auto simp: keys_fixed_def)
    then show ?thesis using f assms(2) submit(1,2) by (auto simp: keys_fixed_def)
  next
    case False
    then have "key \<notin> fst ` set sent" using f submit(4) by simp
    then show ?thesis using f assms(2) submit(1,2) by (auto simp: keys_fixed_def image_iff)
  qed
next
  case (refuse tr csrf base catalog newKey s s' sent)
  then show ?thesis using assms(2) form_submit_refused[OF refuse(3)] by (auto simp: keys_fixed_def split: option.splits)
next
  case (reply s sent outcome)
  then show ?thesis using assms(2) by (auto simp: keys_fixed_def form_done_def split: sum.splits option.splits)
qed (auto simp: keys_fixed_def split: option.splits)

text \<open>C12: The form never uses one idempotency key for two different requests: over any sequence of
  edits, submissions, refusals and replies, two requests it sent under the same key have the same body;
  and a request that repeats the last body repeats its key, so a lost reply can be asked for again.\<close>

theorem form_keys_identify_bodies:
  assumes "(form_step mode)\<^sup>*\<^sup>* (form_start f) (s, sent)"
  shows "((key, body) \<in> set sent \<and> (key, body') \<in> set sent \<longrightarrow> body = body') \<and>
    (\<forall>tr csrf base catalog newKey s' key' body' rq.
       form_submit tr csrf base mode catalog newKey s = (s', Some (key', body', rq)) \<longrightarrow>
       map_of (wq_headers rq) ''idempotency-key'' = Some key' \<and>
       (case fs_last s of
          Some (lastBody, lastKey) \<Rightarrow> (lastKey, lastBody) \<in> set sent \<and> (body' = lastBody \<longrightarrow> key' = lastKey) \<and> (body' \<noteq> lastBody \<longrightarrow> key' = newKey)
        | None \<Rightarrow> key' = newKey))"
proof -
  have "keys_fixed (s, sent)"
    using assms
  proof (induction rule: rtranclp_induct)
    case base
    show ?case by (simp add: form_start_def keys_fixed_def)
  qed (rule keys_fixed_step)
  then show ?thesis
    unfolding keys_fixed_def
    by (auto dest!: form_submit_sends simp: submit_key_header split: option.splits if_splits)
qed

definition small_catalog :: "catalog_entry list" where
  "small_catalog = [\<lparr>ce_name = ''bazel-remote'', ce_version = ''0.1.0'', ce_exposures = [''ClusterInternal''],
     ce_clientProfiles = [], ce_protocols = [''reapi''], ce_capabilities = caps True True True True ''restart'', ce_inputSchema = JNull\<rparr>]"

definition sent_once :: form_state where
  "sent_once = \<lparr>fs_input = defaults, fs_error = [], fs_busy = True, fs_last = Some (form_body defaults, ''k1'')\<rparr>"

lemma first_submit:
  "form_submit id None ''/projects/p'' NewInstance small_catalog ''k1'' (fst (form_start defaults)) =
     (sent_once, Some (''k1'', form_body defaults,
        api_request None ''/projects/p/instances'' (submit_options NewInstance ''k1'' (form_body defaults))))"
  by (simp add: form_submit_def form_start_def sent_once_def canSubmit_def selectedTemplate_def small_catalog_def supportsCapacity_def
      no_space_left_def defaults_def Let_def)

theorem form_keys_identify_bodies_witness:
  "(form_step NewInstance)\<^sup>*\<^sup>* (form_start defaults) (sent_once, [(''k1'', form_body defaults)]) \<and>
   (\<exists>s' rq. form_submit id None ''/projects/p'' NewInstance small_catalog ''k2'' sent_once = (s', Some (''k1'', form_body defaults, rq)))"
proof -
  have "form_step NewInstance (form_start defaults) (sent_once, [(''k1'', form_body defaults)])"
    unfolding form_start_def by (rule form_step.submit[OF first_submit[unfolded form_start_def fst_conv]]) simp
  then have r: "(form_step NewInstance)\<^sup>*\<^sup>* (form_start defaults) (sent_once, [(''k1'', form_body defaults)])" by blast
  obtain s' key' rq where e: "form_submit id None ''/projects/p'' NewInstance small_catalog ''k2'' sent_once = (s', Some (key', form_body defaults, rq))"
    by (simp add: form_submit_def sent_once_def canSubmit_def selectedTemplate_def small_catalog_def supportsCapacity_def
        no_space_left_def defaults_def Let_def)
  then have "key' = ''k1''" using form_keys_identify_bodies[OF r] by (fastforce simp: sent_once_def)
  then show ?thesis using r e by blast
qed

section \<open>The volume of a reclaim\<close>

lemma volumeGiB_Some:
  assumes "volumeGiB q = Some g"
  obtains k where "takeWhile is_digit q \<noteq> []" "k < 4" "dropWhile is_digit q = binary_suffixes ! k"
    "g = (digits_val (takeWhile is_digit q) * 1024 ^ (k + 1) + 1024 ^ 3 - 1) div 1024 ^ 3" "g \<le> 1048576"
proof -
  have "dropWhile is_digit q \<in> {''Ki'', ''Mi'', ''Gi'', ''Ti''}"
    using assms by (auto simp: volumeGiB_def Let_def split: if_splits option.splits)
  then show thesis
    using assms that[of 0] that[of 1] that[of 2] that[of 3]
    by (auto simp: volumeGiB_def Let_def binary_suffixes_def split: if_splits)
qed

text \<open>The console and the API round a volume's capacity alike.\<close>

lemma volumeGiB_is_quantityCeil:
  assumes "volumeGiB q = Some g" "length q \<le> 128"
  shows "quantityCeil q ''1Gi'' = Inr (int g)"
proof -
  from assms(1) obtain k where q: "takeWhile is_digit q \<noteq> []" "k < 4" "dropWhile is_digit q = binary_suffixes ! k"
    and g: "g = (digits_val (takeWhile is_digit q) * 1024 ^ (k + 1) + 1024 ^ 3 - 1) div 1024 ^ 3" "g \<le> 1048576"
    by (rule volumeGiB_Some)
  have plus: "(if q \<noteq> [] \<and> hd q = CHR ''+'' then tl q else q) = q"
    using q(1) by (cases q) (auto simp: is_digit_def split: if_splits)
  have k: "k \<in> {0, 1, 2, 3}" using q(2) by auto
  have sfx: "binary_suffixes ! k \<in> set binary_suffixes" "hd (binary_suffixes ! k) \<noteq> CHR ''.''" "binary_suffixes ! k \<noteq> []"
    "index_of binary_suffixes (binary_suffixes ! k) = Some k"
    using k by (auto simp: binary_suffixes_def)
  have "match_quantity q = Some (takeWhile is_digit q, [], binary_suffixes ! k)"
    unfolding match_quantity_def Let_def plus q(3) using q(1) sfx by simp
  then have r: "rational q = Inr (int (digits_val (takeWhile is_digit q)) * 1024 ^ (k + 1), 1)"
    using assms(2) sfx q(1) by (simp add: rational_def Let_def throw_if_def)
  have u: "rational ''1Gi'' = Inr (1024 ^ 3, 1)" by code_simp
  have "int g = (int (digits_val (takeWhile is_digit q)) * 1024 ^ (k + 1) + 1024 ^ 3 - 1) div 1024 ^ 3"
    unfolding g(1) by (simp add: zdiv_int of_nat_diff)
  then show ?thesis using g(2) by (simp add: quantityCeil_def r u Let_def throw_if_def)
qed

text \<open>The form of a reclaim starts with room for the whole volume and for a cache inside it.\<close>

lemma reclaim_form_fits:
  assumes "volumeGiB (vo_capacity (rc_volume rc)) = Some g"
  shows "\<exists>n c. fm_storageGiB (form_of_reclaim rc) = Some (of_nat n) \<and> g \<le> n \<and> 2 \<le> n \<and>
    fm_cacheGiB (form_of_reclaim rc) = Some (of_nat c) \<and>
    (if rc_template rc = ''webdav-apache'' then c = 0 else 1 \<le> c \<and> c < n)"
proof -
  let ?n = "max g (max (gib_or 0 (vo_allocatedCapacity (rc_volume rc))) 2)"
  show ?thesis
    using assms
    by (intro exI[of _ ?n] exI[of _ "if rc_template rc = ''webdav-apache'' then 0 else max 1 (min 16 (?n - 1))"])
      (auto simp: form_of_reclaim_def gib_or_def Let_def)
qed

end
