(* ===== verification/Web_Detail.thy ===== *)
theory Web_Detail
  imports Web_Instance
begin

text \<open>
  The detail page of an instance in the web console (src/apps/admin-web/src): InstanceDetail of App.tsx,
  ConnectionInfo.tsx, RetainedVolume.tsx and RotateCredential.tsx. The API's reply is the record
  \<open>web_detail\<close>; its spec, status and profiles are the API's own records.
\<close>

section \<open>The instance\<close>

record web_detail =
  wd_id :: string
  wd_name :: string
  wd_lifecycle :: lifecycle
  wd_revision :: "string option"
  wd_template :: "string option"
  wd_templateVersion :: "string option"
  wd_capabilities :: "capabilities option"
  wd_clientProfiles :: "client_profile list"
  wd_spec :: "cache_spec option"
  wd_status :: "cache_status option"

text \<open>\<open>revision?.split(":").at(-1)\<close>\<close>

definition last_part :: "string \<Rightarrow> string" where
  "last_part s = rev (takeWhile (\<lambda>c. c \<noteq> CHR '':'') (rev s))"

definition status_conditions :: "web_detail \<Rightarrow> condition list" where
  "status_conditions d = (case wd_status d of None \<Rightarrow> [] | Some st \<Rightarrow> (case cs_conditions st of None \<Rightarrow> [] | Some xs \<Rightarrow> xs))"

definition status_endpoints :: "web_detail \<Rightarrow> endpoint list" where
  "status_endpoints d =
     (case wd_status d of None \<Rightarrow> []
      | Some st \<Rightarrow> (case cs_endpoints st of None \<Rightarrow> [] | Some xs \<Rightarrow> map (\<lambda>(p, u). \<lparr>ep_protocol = p, ep_url = u\<rparr>) xs))"

text \<open>\<open>String(c.observedGeneration)\<close>; a missing generation prints as \<open>undefined\<close>.\<close>

definition generation_text :: "condition \<Rightarrow> string" where
  "generation_text c = (case cn_observedGeneration c of None \<Rightarrow> ''undefined'' | Some g \<Rightarrow> show_int g)"

definition current_generation :: "web_detail \<Rightarrow> condition \<Rightarrow> bool" where
  "current_generation d c \<longleftrightarrow> Some (generation_text c) = map_option last_part (wd_revision d)"

text \<open>The line shown for a condition.\<close>

definition condition_text :: "(string \<Rightarrow> string) \<Rightarrow> web_detail \<Rightarrow> condition \<Rightarrow> string" where
  "condition_text tr d c =
     (if cn_type c = ''Ready'' then (if cn_status c = ''True'' then tr ''Service ready'' else tr ''Service not ready'')
      else if cn_type c = ''PolicyApplied'' then
        (if cn_reason c = ''NotSupported'' then tr ''Automatic eviction unsupported''
         else if cn_status c = ''True'' \<and> current_generation d c then tr ''Cache policy applied''
         else tr ''Cache policy not yet verified'')
      else cn_type c)"

definition instance_available :: "web_detail \<Rightarrow> bool" where
  "instance_available d \<longleftrightarrow>
     wd_spec d \<noteq> None \<and> truthy (wd_revision d) \<and> wd_lifecycle d \<notin> {Deleted, Detached, Deleting, Pending}"

record detail_state =
  ds_detail :: "web_detail option"
  ds_error :: string
  ds_editing :: bool
  ds_confirm :: bool
  ds_busy :: bool
  ds_formBusy :: bool
  ds_rotationBusy :: bool
  ds_rotating :: bool
  ds_reclaimTarget :: "reclaim_target option"
  ds_reclaimCredentials :: "(string \<times> string) option"
  ds_reclaimSubmitted :: bool
  ds_deleteKey :: string
  ds_changed :: nat

definition detail_loaded :: "web_error + web_detail \<Rightarrow> detail_state \<Rightarrow> detail_state" where
  "detail_loaded outcome s =
     (case outcome of
        Inr d \<Rightarrow> s\<lparr>ds_detail := Some d, ds_error := []\<rparr>
      | Inl (AbortError _) \<Rightarrow> s
      | Inl e \<Rightarrow> s\<lparr>ds_error := message e\<rparr>)"

definition dialog_busy :: "detail_state \<Rightarrow> bool" where
  "dialog_busy s \<longleftrightarrow> ds_busy s \<or> ds_formBusy s \<or> ds_rotationBusy s"

text \<open>The controls of the page; a control that is not offered or disabled does nothing.\<close>

definition page_available :: "detail_state \<Rightarrow> bool" where
  "page_available s = (case ds_detail s of None \<Rightarrow> False | Some d \<Rightarrow> instance_available d)"

definition edit_clicked :: "bool \<Rightarrow> detail_state \<Rightarrow> detail_state" where
  "edit_clicked canWrite s = (if canWrite \<and> page_available s then s\<lparr>ds_editing := \<not> ds_editing s\<rparr> else s)"

definition rotate_clicked :: "bool \<Rightarrow> detail_state \<Rightarrow> detail_state" where
  "rotate_clicked canAdmin s = (if canAdmin \<and> page_available s then s\<lparr>ds_rotating := True\<rparr> else s)"

definition delete_clicked :: "bool \<Rightarrow> detail_state \<Rightarrow> detail_state" where
  "delete_clicked canAdmin s = (if canAdmin \<and> page_available s then s\<lparr>ds_confirm := True\<rparr> else s)"

definition delete_confirmed :: "string option \<Rightarrow> string \<Rightarrow> string \<Rightarrow> detail_state \<Rightarrow> detail_state \<times> web_request option" where
  "delete_confirmed csrf base iid s =
     (if ds_confirm s \<and> ds_detail s \<noteq> None \<and> \<not> ds_busy s then
        (s\<lparr>ds_busy := True\<rparr>,
         Some (api_request csrf (base @ ''/instances/'' @ iid)
           \<lparr>op_method = Some ''DELETE'', op_headers = [(''Idempotency-Key'', ds_deleteKey s)], op_body = None\<rparr>))
      else (s, None))"

definition delete_done :: "web_error + unit \<Rightarrow> detail_state \<Rightarrow> detail_state" where
  "delete_done outcome s =
     (case outcome of
        Inr _ \<Rightarrow> s\<lparr>ds_confirm := False, ds_changed := ds_changed s + 1, ds_busy := False\<rparr>
      | Inl e \<Rightarrow> s\<lparr>ds_error := message e, ds_busy := False\<rparr>)"

definition edit_saved :: "detail_state \<Rightarrow> detail_state" where
  "edit_saved s = s\<lparr>ds_editing := False, ds_changed := ds_changed s + 1\<rparr>"

text \<open>\<open>onReclaim\<close>: offered to administrators of an instance whose template and version are known.\<close>

definition reclaim_chosen :: "bool \<Rightarrow> string \<Rightarrow> string \<Rightarrow> volume \<Rightarrow> detail_state \<Rightarrow> detail_state" where
  "reclaim_chosen canAdmin base iid v s =
     (case ds_detail s of
        None \<Rightarrow> s
      | Some d \<Rightarrow>
          if canAdmin \<and> truthy (wd_template d) \<and> truthy (wd_templateVersion d)
          then s\<lparr>ds_reclaimTarget := Some \<lparr>rc_path = base @ ''/instances/'' @ iid @ ''/retained-volume'', rc_volume = v, rc_name = wd_name d,
                 rc_template = the (wd_template d), rc_templateVersion = wd_templateVersion d\<rparr>\<rparr>
          else s)"

definition reclaim_saved :: "(string \<times> string) option \<Rightarrow> detail_state \<Rightarrow> detail_state" where
  "reclaim_saved credentials s =
     s\<lparr>ds_reclaimTarget := None, ds_reclaimCredentials := credentials, ds_reclaimSubmitted := True, ds_changed := ds_changed s + 1\<rparr>"

definition credentials_closed :: "detail_state \<Rightarrow> detail_state" where
  "credentials_closed s = s\<lparr>ds_reclaimCredentials := None, ds_reclaimSubmitted := False\<rparr>"

section \<open>ConnectionInfo\<close>

definition connection_ready :: "web_detail \<Rightarrow> bool" where
  "connection_ready d \<longleftrightarrow>
     list_ex (\<lambda>c. cn_type c = ''Ready'' \<and> cn_status c = ''True'' \<and> cn_observedGeneration c \<noteq> None \<and> current_generation d c)
       (status_conditions d)"

definition connection_available :: "web_detail \<Rightarrow> bool" where
  "connection_available d \<longleftrightarrow>
     (case wd_spec d of None \<Rightarrow> False | Some sp \<Rightarrow> sp_desiredState sp = ''Running'') \<and> connection_ready d \<and>
     wd_lifecycle d \<notin> {Deleted, Detached, Deleting, Pending}"

definition connection_examples ::
  "(string \<Rightarrow> string) \<Rightarrow> (string \<Rightarrow> url option) \<Rightarrow> web_detail \<Rightarrow> (endpoint \<times> string) list" where
  "connection_examples tr parse_url d =
     (if connection_available d then
        concat (map (\<lambda>ep. case connectionExample tr parse_url ep of None \<Rightarrow> [] | Some text \<Rightarrow> [(ep, text)]) (status_endpoints d))
      else [])"

definition connection_profiles :: "(string \<Rightarrow> url option) \<Rightarrow> web_detail \<Rightarrow> (client_profile \<times> string) list" where
  "connection_profiles parse_url d =
     (if connection_available d then
        concat (map (\<lambda>p.
          if cp_status p \<noteq> ''experimental'' then []
          else concat (map (\<lambda>ep.
            if ep_protocol ep \<noteq> cp_protocol p then []
            else case clientProfileExample parse_url (cp_id p) ep (Some (cp_version p)) (Some (wd_id d)) of
                None \<Rightarrow> [] | Some text \<Rightarrow> [(p, text)]) (status_endpoints d)))
          (wd_clientProfiles d))
      else [])"

section \<open>RetainedVolume\<close>

record retained_state =
  rv_volume :: "volume option"
  rv_error :: string
  rv_confirm :: string
  rv_busy :: bool
  rv_operation :: "op_summary option"
  rv_refresh :: nat
  rv_key :: string
  rv_changed :: nat

definition volume_requested :: "retained_state \<Rightarrow> retained_state" where
  "volume_requested s = s\<lparr>rv_volume := None, rv_error := []\<rparr>"

definition volume_loaded :: "web_error + volume \<Rightarrow> retained_state \<Rightarrow> retained_state" where
  "volume_loaded outcome s =
     (case outcome of
        Inr v \<Rightarrow> s\<lparr>rv_volume := Some v\<rparr>
      | Inl (AbortError _) \<Rightarrow> s
      | Inl e \<Rightarrow> s\<lparr>rv_error := message e\<rparr>)"

definition polls :: "retained_state \<Rightarrow> bool" where
  "polls s = (case rv_operation s of None \<Rightarrow> False | Some x \<Rightarrow> os_state x \<notin> {Succeeded, OpFailed, Superseded})"

definition operation_polled :: "web_error + op_summary \<Rightarrow> retained_state \<Rightarrow> retained_state" where
  "operation_polled outcome s =
     (case outcome of
        Inr x \<Rightarrow> s\<lparr>rv_operation := Some x, rv_error := [],
           rv_changed := (if os_state x = Succeeded then rv_changed s + 1 else rv_changed s)\<rparr>
      | Inl (AbortError _) \<Rightarrow> s
      | Inl e \<Rightarrow> s\<lparr>rv_error := message e\<rparr>)"

definition remove_volume :: "string option \<Rightarrow> string \<Rightarrow> retained_state \<Rightarrow> retained_state \<times> web_request option" where
  "remove_volume csrf path s =
     (case rv_volume s of
        None \<Rightarrow> (s, None)
      | Some v \<Rightarrow>
          if rv_busy s \<or> rv_operation s \<noteq> None \<or> rv_confirm s \<noteq> vo_name v then (s, None)
          else (s\<lparr>rv_busy := True, rv_error := []\<rparr>,
            Some (api_request csrf path
              \<lparr>op_method = Some ''DELETE'', op_headers = [(''If-Match'', vo_uid v), (''Idempotency-Key'', rv_key s)], op_body = None\<rparr>)))"

text \<open>The button that calls it.\<close>

definition remove_clicked :: "bool \<Rightarrow> string option \<Rightarrow> string \<Rightarrow> retained_state \<Rightarrow> retained_state \<times> web_request option" where
  "remove_clicked canAdmin csrf path s =
     (case rv_volume s of
        None \<Rightarrow> (s, None)
      | Some v \<Rightarrow>
          if rv_operation s = None \<and> canAdmin \<and> \<not> rv_busy s \<and> \<not> vo_deleting v \<and> rv_confirm s = vo_name v
          then remove_volume csrf path s else (s, None))"

definition remove_done :: "web_error + op_summary \<Rightarrow> retained_state \<Rightarrow> retained_state" where
  "remove_done outcome s =
     (case outcome of
        Inr x \<Rightarrow> s\<lparr>rv_operation := Some x, rv_changed := rv_changed s + 1, rv_busy := False\<rparr>
      | Inl e \<Rightarrow> s\<lparr>rv_error := message e, rv_busy := False\<rparr>)"

definition reload_volume :: "string \<Rightarrow> retained_state \<Rightarrow> retained_state" where
  "reload_volume newKey s =
     volume_requested (s\<lparr>rv_key := newKey, rv_operation := None, rv_confirm := [], rv_refresh := rv_refresh s + 1\<rparr>)"

text \<open>\<open>reload\<close> is offered after a failed removal, or when the volume could not be read.\<close>

definition reload_offered :: "bool \<Rightarrow> retained_state \<Rightarrow> bool" where
  "reload_offered canAdmin s =
     (case rv_operation s of
        Some x \<Rightarrow> os_state x \<in> {OpFailed, Superseded}
      | None \<Rightarrow> rv_volume s = None \<and> rv_error s \<noteq> [])"

definition reclaim_offered :: "bool \<Rightarrow> bool \<Rightarrow> retained_state \<Rightarrow> bool" where
  "reclaim_offered canAdmin reclaimable s =
     (case rv_volume s of
        None \<Rightarrow> False
      | Some v \<Rightarrow> rv_operation s = None \<and> canAdmin \<and> reclaimable \<and> \<not> vo_deleting v \<and> vo_phase v = ''Bound'')"

section \<open>RotateCredential\<close>

record rotate_state =
  ro_busy :: bool
  ro_error :: string
  ro_done :: bool
  ro_credentials :: "(string \<times> string) option"
  ro_attempt :: "string \<times> string"

text \<open>The key and the revision are those of the dialog's first render.\<close>

definition rotate_init :: "string \<Rightarrow> string \<Rightarrow> rotate_state" where
  "rotate_init key rv = \<lparr>ro_busy = False, ro_error = [], ro_done = False, ro_credentials = None, ro_attempt = (key, rv)\<rparr>"

definition rotate :: "string option \<Rightarrow> string \<Rightarrow> string \<Rightarrow> rotate_state \<Rightarrow> rotate_state \<times> web_request" where
  "rotate csrf base iid s =
     (s\<lparr>ro_busy := True, ro_error := []\<rparr>,
      api_request csrf (base @ ''/instances/'' @ iid @ ''/credentials/rotate'')
        \<lparr>op_method = Some ''POST'',
         op_headers = [(''Idempotency-Key'', fst (ro_attempt s)), (''If-Match'', dquote # snd (ro_attempt s) @ [dquote])],
         op_body = None\<rparr>)"

definition rotate_done :: "web_error + (string \<times> string) option \<Rightarrow> rotate_state \<Rightarrow> rotate_state" where
  "rotate_done outcome s =
     (case outcome of
        Inr c \<Rightarrow> s\<lparr>ro_credentials := c, ro_done := True, ro_busy := False\<rparr>
      | Inl e \<Rightarrow> s\<lparr>ro_error := message e, ro_busy := False\<rparr>)"

section \<open>Connection instructions and readiness\<close>

lemma last_part_append: "CHR '':'' \<notin> set s \<Longrightarrow> last_part (u @ CHR '':'' # s) = s"
  unfolding last_part_def by (simp, subst takeWhile_append2) auto

lemma show_int_plain: "CHR '':'' \<notin> set (show_int n)"
  using show_nat_correct[of "nat n"] show_nat_correct[of "nat (- n)"] by (auto simp: show_int_def list_all_iff is_digit_def)

lemma show_nat_head: "\<not> is_digit c \<Longrightarrow> show_nat n \<noteq> c # s"
  using show_nat_correct[of n] by (metis list.pred_inject(2))

lemma show_int_inject: "show_int a = show_int b \<longleftrightarrow> a = b"
proof
  assume e: "show_int a = show_int b"
  have d: "show_nat n \<noteq> CHR ''-'' # s" for n s by (rule show_nat_head) (simp add: is_digit_def)
  show "a = b" using e d[of "nat a"] d[of "nat b"] by (auto simp: show_int_def split: if_splits dest: sym)
qed simp

lemma last_part_revision:
  "last_part (revision c) = (case om_generation (co_metadata c) of None \<Rightarrow> ''undefined'' | Some g \<Rightarrow> show_int g)"
  using show_int_plain by (auto simp: revision_def last_part_append split: option.splits)

lemma show_int_defined: "show_int n \<noteq> ''undefined''"
  using show_nat_head[of "CHR ''u''" "nat n"] by (simp add: show_int_def is_digit_def)

text \<open>C26: Connection instructions are shown only for the configuration that is running: when the console
  lists any example or recipe for an instance, the instance is meant to run, and the operator has reported
  the very generation the API read as ready.\<close>

theorem instructions_follow_readiness:
  assumes "wd_revision d = Some (revision c)"
    and "connection_examples tr parse_url d \<noteq> [] \<or> connection_profiles parse_url d \<noteq> []"
  shows "\<exists>sp st conds cond g. wd_spec d = Some sp \<and> sp_desiredState sp = ''Running'' \<and>
    wd_status d = Some st \<and> cs_conditions st = Some conds \<and> cond \<in> set conds \<and>
    cn_type cond = ''Ready'' \<and> cn_status cond = ''True'' \<and>
    om_generation (co_metadata c) = Some g \<and> cn_observedGeneration cond = Some g \<and>
    wd_lifecycle d \<in> {Active, Failed}"
proof -
  have a: "connection_available d"
    using assms(2) by (auto simp: connection_examples_def connection_profiles_def split: if_splits)
  then obtain cond g where cond: "cond \<in> set (status_conditions d)" "cn_type cond = ''Ready''" "cn_status cond = ''True''"
    "cn_observedGeneration cond = Some g" "current_generation d cond"
    by (auto simp: connection_available_def connection_ready_def list_ex_iff)
  then have "show_int g = last_part (revision c)"
    using assms(1) by (simp add: current_generation_def generation_text_def)
  then have "om_generation (co_metadata c) = Some g"
    using show_int_defined[of g] by (auto simp: last_part_revision show_int_inject split: option.splits)
  moreover obtain sp where "wd_spec d = Some sp" "sp_desiredState sp = ''Running''"
    using a by (auto simp: connection_available_def split: option.splits)
  moreover have "wd_lifecycle d \<in> {Active, Failed}"
    using a by (cases "wd_lifecycle d") (auto simp: connection_available_def)
  moreover obtain st conds where "wd_status d = Some st" "cs_conditions st = Some conds" "cond \<in> set conds"
    using cond(1) unfolding status_conditions_def
    by (cases "wd_status d"; cases "cs_conditions (the (wd_status d))") auto
  ultimately show ?thesis using cond by blast
qed

section \<open>Removing a retained volume\<close>

text \<open>The life of the panel: the user types, clicks and asks to check again; replies arrive. A volume
  is read once after each request for it. The second component lists the key and the volume of every
  removal sent; a new key is one never used.\<close>

type_synonym removal_log = "retained_state \<times> (string \<times> string) list"

inductive retained_step :: "removal_log \<Rightarrow> removal_log \<Rightarrow> bool" where
  load: "rv_volume s = None \<Longrightarrow> retained_step (s, sent) (volume_loaded outcome s, sent)"
| type: "retained_step (s, sent) (s\<lparr>rv_confirm := text\<rparr>, sent)"
| click: "remove_clicked canAdmin csrf path s = (s', Some rq) \<Longrightarrow> rv_volume s = Some v \<Longrightarrow>
     retained_step (s, sent) (s', (rv_key s, vo_uid v) # sent)"
| reply: "rv_busy s \<Longrightarrow> retained_step (s, sent) (remove_done outcome' s, sent)"
| poll: "polls s \<Longrightarrow> retained_step (s, sent) (operation_polled polled s, sent)"
| reload: "reload_offered canAdmin s \<Longrightarrow> newKey \<notin> fst ` set sent \<Longrightarrow> retained_step (s, sent) (reload_volume newKey s, sent)"

definition removal_start :: "string \<Rightarrow> removal_log" where
  "removal_start key = (\<lparr>rv_volume = None, rv_error = [], rv_confirm = [], rv_busy = False, rv_operation = None,
     rv_refresh = 0, rv_key = key, rv_changed = 0\<rparr>, [])"

definition removal_inv :: "removal_log \<Rightarrow> bool" where
  "removal_inv l \<longleftrightarrow>
     (\<forall>k u u'. (k, u) \<in> set (snd l) \<and> (k, u') \<in> set (snd l) \<longrightarrow> u = u') \<and>
     (\<forall>u. (rv_key (fst l), u) \<in> set (snd l) \<longrightarrow> (\<exists>v. rv_volume (fst l) = Some v \<and> vo_uid v = u))"

lemma remove_clicked_sends:
  assumes "remove_clicked canAdmin csrf path s = (s', Some rq)" "rv_volume s = Some v"
  shows "canAdmin \<and> \<not> vo_deleting v \<and> rv_confirm s = vo_name v \<and> rv_operation s = None \<and> \<not> rv_busy s \<and>
    s' = s\<lparr>rv_busy := True, rv_error := []\<rparr> \<and>
    rq = api_request csrf path \<lparr>op_method = Some ''DELETE'',
      op_headers = [(''If-Match'', vo_uid v), (''Idempotency-Key'', rv_key s)], op_body = None\<rparr>"
  using assms by (auto simp: remove_clicked_def remove_volume_def split: if_splits)

lemma removal_inv_step:
  assumes "retained_step l l'" "removal_inv l"
  shows "removal_inv l'"
  using assms
proof (cases rule: retained_step.cases)
  case (click canAdmin csrf path s s' rq v sent)
  then show ?thesis using assms(2) remove_clicked_sends[OF click(3,4)] by (auto simp: removal_inv_def)
next
  case (reload canAdmin s newKey sent)
  then show ?thesis using assms(2) by (auto simp: removal_inv_def reload_volume_def volume_requested_def image_iff)
next
  case (load s sent outcome)
  then show ?thesis using assms(2) by (auto simp: removal_inv_def volume_loaded_def split: sum.splits web_error.splits)
next
  case (reply s sent outcome)
  then show ?thesis using assms(2) by (auto simp: removal_inv_def remove_done_def split: sum.splits)
next
  case (poll s sent polled)
  then show ?thesis using assms(2) by (auto simp: removal_inv_def operation_polled_def split: sum.splits web_error.splits)
qed (auto simp: removal_inv_def)


section \<open>Concrete pages\<close>

definition shown_object :: cache_object where
  "shown_object = (case desiredObject sample_input ''p'' ''ns'' ''i'' ''fast'' ''op'' ''h'' of
     Inr d \<Rightarrow> d\<lparr>co_metadata := (co_metadata d)\<lparr>om_uid := Some ''u1'', om_generation := Some 3\<rparr>\<rparr> | Inl _ \<Rightarrow> undefined)"

definition shown_ready :: condition where
  "shown_ready = \<lparr>cn_type = ''Ready'', cn_status = ''True'', cn_reason = ''Ready'', cn_message = None, cn_observedGeneration = Some 3\<rparr>"

definition cache_url :: url where
  "cache_url = \<lparr>ur_protocol = ''http:'', ur_username = [], ur_password = [], ur_host = ''a'', ur_pathname = ''/cache/'', ur_search = [], ur_hash = []\<rparr>"

definition shown_detail :: web_detail where
  "shown_detail = \<lparr>wd_id = ''i'', wd_name = ''cache'', wd_lifecycle = Active, wd_revision = Some ''u1:3'', wd_template = Some ''gradle-http'',
     wd_templateVersion = Some ''0.2.0'', wd_capabilities = None, wd_clientProfiles = [], wd_spec = Some (co_spec shown_object),
     wd_status = Some \<lparr>cs_observedGeneration = Some 3, cs_credentialRevision = None,
       cs_endpoints = Some [(''gradle-http'', ''http://a/cache/'')], cs_conditions = Some [shown_ready]\<rparr>\<rparr>"

lemma shown_object_facts: "revision shown_object = ''u1:3''" "sp_desiredState (co_spec shown_object) = ''Running''"
  "om_generation (co_metadata shown_object) = Some 3"
  by code_simp+

lemma shown_available: "connection_available shown_detail"
proof -
  have "last_part ''u1:3'' = show_int 3" by code_simp
  then show ?thesis
    by (simp add: connection_available_def connection_ready_def shown_detail_def status_conditions_def shown_ready_def
        current_generation_def generation_text_def shown_object_facts)
qed

theorem instructions_follow_readiness_witness:
  "connection_examples id (\<lambda>_. Some cache_url) shown_detail \<noteq> [] \<and>
   (\<exists>cond \<in> set [shown_ready]. cn_observedGeneration cond = om_generation (co_metadata shown_object))"
proof -
  have n: "connection_examples id (\<lambda>_. Some cache_url) shown_detail \<noteq> []"
    using shown_available
    by (simp add: connection_examples_def shown_detail_def status_endpoints_def connectionExample_def bare_address_def cache_url_def
        web_schemes_def is_space_def)
  have r: "wd_revision shown_detail = Some (revision shown_object)" by (simp add: shown_detail_def shown_object_facts)
  from instructions_follow_readiness[OF r disjI1[OF n]] show ?thesis using n by (auto simp: shown_detail_def)
qed

definition kept_volume :: volume where
  "kept_volume = \<lparr>vo_name = ''data'', vo_uid = ''v1'', vo_capacity = ''10Gi'', vo_allocatedCapacity = ''10Gi'', vo_phase = ''Bound'', vo_deleting = False\<rparr>"

definition typed_state :: retained_state where
  "typed_state = \<lparr>rv_volume = Some kept_volume, rv_error = [], rv_confirm = ''data'', rv_busy = False, rv_operation = None,
     rv_refresh = 0, rv_key = ''k1'', rv_changed = 0\<rparr>"


end
