(* ===== verification/Web_Panels.thy ===== *)
theory Web_Panels
  imports Web_Console
begin

text \<open>
  The panels of a project's resources in the web console (src/apps/admin-web/src): ProjectQuota.tsx,
  ResourceInventory.tsx and Statistics.tsx. The snapshots are the API's records. A number typed into a
  quota field is read with \<open>Number\<close>; the parsed time of a check is in milliseconds, \<open>None\<close> when it is
  missing or no date, and the current time is an argument.
\<close>

section \<open>ProjectQuota\<close>

record quota_draft =
  qd_instances :: string
  qd_storageGiB :: string
  qd_cpuMillis :: string
  qd_memoryMiB :: string

record quota_state =
  qs_snapshot :: "snapshot option"
  qs_draft :: quota_draft
  qs_loading :: bool
  qs_saving :: bool
  qs_error :: string
  qs_saved :: bool

definition limit_draft :: "int option \<Rightarrow> string" where
  "limit_draft l = (case l of None \<Rightarrow> [] | Some n \<Rightarrow> show_int n)"

definition accept :: "snapshot \<Rightarrow> quota_state \<Rightarrow> quota_state" where
  "accept sn s =
     (let q = sn_limits sn
      in s\<lparr>qs_snapshot := Some sn,
           qs_draft := \<lparr>qd_instances = limit_draft (q_instances q), qd_storageGiB = limit_draft (q_storageGiB q),
             qd_cpuMillis = limit_draft (q_cpuMillis q), qd_memoryMiB = limit_draft (q_memoryMiB q)\<rparr>\<rparr>)"

definition quota_requested :: "quota_state \<Rightarrow> quota_state" where
  "quota_requested s = s\<lparr>qs_loading := True, qs_error := [], qs_saved := False, qs_snapshot := None\<rparr>"

definition quota_loaded :: "web_error + snapshot \<Rightarrow> quota_state \<Rightarrow> quota_state" where
  "quota_loaded outcome s =
     (case outcome of
        Inr sn \<Rightarrow> (accept sn s)\<lparr>qs_loading := False\<rparr>
      | Inl (AbortError _) \<Rightarrow> s
      | Inl e \<Rightarrow> s\<lparr>qs_error := message e, qs_loading := False\<rparr>)"

text \<open>One field: empty is no limit, otherwise \<open>Number\<close> of the text, \<open>None\<close> when it is not finite.\<close>

definition draft_limit :: "string \<Rightarrow> rat option option" where
  "draft_limit text = (if js_trim text = [] then None else Some (finite_number text))"

text \<open>\<open>!Number.isSafeInteger(value) || value < 0 || value > 2147483647\<close>, negated\<close>

definition limit_ok :: "rat option option \<Rightarrow> bool" where
  "limit_ok l =
     (case l of
        None \<Rightarrow> True
      | Some None \<Rightarrow> False
      | Some (Some r) \<Rightarrow> of_int \<lfloor>r\<rfloor> = r \<and> \<bar>r\<bar> < 2 ^ 53 \<and> 0 \<le> r \<and> r \<le> 2147483647)"

definition json_draft :: "rat option option \<Rightarrow> json" where
  "json_draft l = (case l of Some (Some r) \<Rightarrow> JNum r | _ \<Rightarrow> JNull)"

definition draft_values :: "quota_draft \<Rightarrow> (string \<times> rat option option) list" where
  "draft_values q = [(''instances'', draft_limit (qd_instances q)), (''storageGiB'', draft_limit (qd_storageGiB q)),
     (''cpuMillis'', draft_limit (qd_cpuMillis q)), (''memoryMiB'', draft_limit (qd_memoryMiB q))]"

definition quota_save ::
  "(string \<Rightarrow> string) \<Rightarrow> string option \<Rightarrow> string \<Rightarrow> quota_state \<Rightarrow> quota_state \<times> (json \<times> web_request) option" where
  "quota_save tr csrf base s =
     (case qs_snapshot s of
        None \<Rightarrow> (s, None)
      | Some sn \<Rightarrow>
          if qs_loading s \<or> qs_saving s then (s, None)
          else
            let limits = draft_values (qs_draft s)
            in if list_ex (\<lambda>(_, l). \<not> limit_ok l) limits
               then (s\<lparr>qs_error := tr ''Enter an integer from 0 to 2147483647, or leave blank for no limit.''\<rparr>, None)
               else
                 let body = JObj (map (\<lambda>(k, l). (k, json_draft l)) limits)
                 in (s\<lparr>qs_saving := True, qs_error := [], qs_saved := False\<rparr>,
                     Some (body, api_request csrf (base @ ''/quota'')
                       \<lparr>op_method = Some ''PUT'', op_headers = [(''If-Match'', sn_revision sn)], op_body = Some (json_text body)\<rparr>)))"

definition quota_save_done :: "web_error + snapshot \<Rightarrow> quota_state \<Rightarrow> quota_state" where
  "quota_save_done outcome s =
     (case outcome of
        Inr sn \<Rightarrow> (accept sn s)\<lparr>qs_saved := True, qs_saving := False\<rparr>
      | Inl e \<Rightarrow> s\<lparr>qs_error := message e, qs_saving := False\<rparr>)"

text \<open>The line about the cluster's hard quota.\<close>

definition sync_text :: "(string \<Rightarrow> string) \<Rightarrow> snapshot \<Rightarrow> string" where
  "sync_text tr sn =
     (if sn_syncState sn = ''Applied'' \<and> sn_observedRevision sn = Some (sn_revision sn) then tr ''Synchronized''
      else if sn_syncState sn = ''Failed'' then tr ''Synchronization failed; retrying in the background''
      else tr ''Pending synchronization'')"

section \<open>The quota form and the API\<close>

lemma number_of_show_nat: "number_literal (show_nat n) = Some (of_nat n)"
proof -
  have d: "list_all is_digit (show_nat n)" "show_nat n \<noteq> []" using show_nat_correct[of n] by auto
  then have w: "takeWhile is_digit (show_nat n) = show_nat n" "dropWhile is_digit (show_nat n) = []"
    by (auto simp: list_all_iff)
  show ?thesis
    unfolding number_literal_def w using d by (simp add: scan_fraction_def scan_exponent_def decimal_value_def)
qed

lemma digit_letters: "is_digit c \<Longrightarrow> c \<notin> {CHR ''x'', CHR ''X'', CHR ''o'', CHR ''O'', CHR ''b'', CHR ''B'', CHR ''+'', CHR ''-'', dquote}"
  by (auto simp: is_digit_def dquote_def)

lemma radix_digits: "list_all is_digit s \<Longrightarrow> radix_literal s = None"
proof (cases s)
  case (Cons z t)
  assume "list_all is_digit s"
  then show ?thesis using Cons digit_letters[of "hd t"] by (cases t) (simp_all add: radix_literal_def)
qed (simp add: radix_literal_def)

lemma trim_digits:
  assumes "list_all is_digit s"
  shows "js_trim s = s"
proof -
  have "dropWhile is_space t = t" if "list_all is_digit t" for t
    using that by (cases t) (auto simp: is_digit_def is_space_def)
  then show ?thesis using assms by (simp add: js_trim_def list_all_rev)
qed

lemma finite_number_show_nat:
  assumes "int n < 2 ^ 53"
  shows "finite_number (show_nat n) = Some (of_nat n)"
proof -
  let ?t = "show_nat n"
  have d: "list_all is_digit ?t" "?t \<noteq> []" using show_nat_correct[of n] by auto
  have "is_digit (hd ?t)" using d by (cases ?t) auto
  then have h: "\<not> is_sign (hd ?t)" "hd ?t \<noteq> CHR ''-''" using digit_letters by (auto simp: is_sign_def)
  have "to_double (of_nat n) = Some (of_nat n)" using to_double_int[of "int n"] assms by simp
  then show ?thesis
    using h d(2) by (simp add: finite_number_def Let_def trim_digits[OF d(1)] radix_digits[OF d(1)] number_of_show_nat)
qed

lemma limit_of_ok:
  assumes "limit_ok (draft_limit text)"
  shows "\<exists>l. limit (Some (json_draft (draft_limit text))) = Some l \<and>
    (case l of None \<Rightarrow> js_trim text = [] | Some m \<Rightarrow> js_trim text \<noteq> [] \<and> finite_number text = Some (of_int m))"
proof (cases "js_trim text = []")
  case True
  then show ?thesis by (intro exI[of _ None]) (simp add: draft_limit_def json_draft_def limit_def z_nullable_def)
next
  case False
  then obtain r where "finite_number text = Some r" "of_int \<lfloor>r\<rfloor> = r" "0 \<le> r" "r \<le> 2147483647"
    using assms by (auto simp: draft_limit_def limit_ok_def split: option.splits)
  then obtain m where m: "finite_number text = Some (of_int m)" "0 \<le> m" "m \<le> 2147483647"
    by (metis of_int_0_le_iff of_int_le_numeral_iff)
  then show ?thesis
    using False by (intro exI[of _ "Some m"]) (simp add: draft_limit_def json_draft_def limit_def z_nullable_def z_int_JNum)
qed

lemma show_revision_pattern: "1 \<le> n \<Longrightarrow> revision_pattern (show_int n)"
proof -
  assume n: "1 \<le> n"
  let ?s = "show_nat (nat n)"
  have d: "list_all is_digit ?s" "?s \<noteq> []" using show_nat_correct[of "nat n"] by auto
  then have "is_digit (hd ?s)" "is_digit (last ?s)" by (simp_all add: list_all_iff)
  then have "hd ?s \<noteq> dquote" "last ?s \<noteq> dquote" using digit_letters by auto
  then show "revision_pattern (show_int n)"
    using n d show_nat_no_leading_zero[of "nat n"] by (simp add: revision_pattern_def show_int_def)
qed

lemma quota_save_sends:
  assumes "quota_save tr csrf base s = (s', Some (body, rq))"
  shows "\<exists>sn. qs_snapshot s = Some sn \<and> \<not> qs_saving s \<and> body = JObj (map (\<lambda>(k, l). (k, json_draft l)) (draft_values (qs_draft s))) \<and>
    (\<forall>(k, l) \<in> set (draft_values (qs_draft s)). limit_ok l) \<and>
    rq = api_request csrf (base @ ''/quota'')
      \<lparr>op_method = Some ''PUT'', op_headers = [(''If-Match'', sn_revision sn)], op_body = Some (json_text body)\<rparr>"
  using assms by (auto simp: quota_save_def Let_def list_ex_iff split: option.splits if_splits)

text \<open>The limit a field stands for.\<close>

definition typed_limit :: "string \<Rightarrow> int option \<Rightarrow> bool" where
  "typed_limit text l =
     (case l of None \<Rightarrow> js_trim text = [] | Some m \<Rightarrow> js_trim text \<noteq> [] \<and> finite_number text = Some (of_int m))"

lemma if_match_header:
  "map_of (wq_headers (api_request csrf path \<lparr>op_method = Some ''PUT'', op_headers = [(''If-Match'', v)], op_body = b\<rparr>)) ''if-match'' = Some v"
  by (simp add: api_request_def Let_def to_lower_other is_upper_def)

text \<open>C25: Every quota the console submits is one the API understands as typed: whatever was typed into the
  four fields, if the form sends a request then the API's schema accepts its body, each limit is the number
  typed or no limit for an empty field, and the revision it names is that of the snapshot on display, in the
  form the API requires.\<close>

theorem quota_form_accepted:
  assumes "quota_save tr csrf base s = (s', Some (body, rq))"
    and "qs_snapshot s = Some sn" "sn_revision sn = show_int n" "1 \<le> n"
  shows "\<exists>q. quotaInput (Some body) = Some q \<and>
    typed_limit (qd_instances (qs_draft s)) (q_instances q) \<and> typed_limit (qd_storageGiB (qs_draft s)) (q_storageGiB q) \<and>
    typed_limit (qd_cpuMillis (qs_draft s)) (q_cpuMillis q) \<and> typed_limit (qd_memoryMiB (qs_draft s)) (q_memoryMiB q) \<and>
    map_of (wq_headers rq) ''if-match'' = Some (sn_revision sn) \<and> revision_pattern (sn_revision sn)"
proof -
  note sent = quota_save_sends[OF assms(1)]
  let ?d = "qs_draft s"
  have ok: "limit_ok (draft_limit (qd_instances ?d))" "limit_ok (draft_limit (qd_storageGiB ?d))"
    "limit_ok (draft_limit (qd_cpuMillis ?d))" "limit_ok (draft_limit (qd_memoryMiB ?d))"
    using sent by (auto simp: draft_values_def)
  from ok[THEN limit_of_ok] obtain a b c d where
    l: "limit (Some (json_draft (draft_limit (qd_instances ?d)))) = Some a"
      "limit (Some (json_draft (draft_limit (qd_storageGiB ?d)))) = Some b"
      "limit (Some (json_draft (draft_limit (qd_cpuMillis ?d)))) = Some c"
      "limit (Some (json_draft (draft_limit (qd_memoryMiB ?d)))) = Some d"
    and t: "typed_limit (qd_instances ?d) a" "typed_limit (qd_storageGiB ?d) b"
      "typed_limit (qd_cpuMillis ?d) c" "typed_limit (qd_memoryMiB ?d) d"
    unfolding typed_limit_def by blast
  have "quotaInput (Some body) = Some \<lparr>q_instances = a, q_storageGiB = b, q_cpuMillis = c, q_memoryMiB = d\<rparr>"
    using sent l by (auto simp: quotaInput_def draft_values_def schema_defs)
  then show ?thesis using t sent assms(2-4) show_revision_pattern[of n] if_match_header by fastforce
qed

text \<open>A snapshot shown and saved unchanged asks for the same limits.\<close>

lemma draft_of_limit:
  assumes "valid_limit l"
  shows "limit_ok (draft_limit (limit_draft l)) \<and> json_draft (draft_limit (limit_draft l)) = json_limit l"
proof (cases l)
  case (Some m)
  then have m: "0 \<le> m" "m \<le> 2147483647" using assms by (auto simp: valid_limit_def)
  have d: "list_all is_digit (show_nat (nat m))" "show_nat (nat m) \<noteq> []" using show_nat_correct[of "nat m"] by auto
  have "finite_number (show_nat (nat m)) = Some (of_int m)" using finite_number_show_nat[of "nat m"] m by simp
  moreover have "(of_int m :: rat) \<le> 2147483647" using m(2) by (simp add: of_int_le_numeral_iff)
  ultimately show ?thesis
    using Some m d trim_digits[OF d(1)] by (simp add: limit_draft_def show_int_def draft_limit_def limit_ok_def json_draft_def json_limit_def)
qed (simp add: limit_draft_def draft_limit_def js_trim_def limit_ok_def json_draft_def json_limit_def)

lemma quota_save_unchanged:
  assumes "valid_quota (sn_limits sn)" "\<not> qs_loading s" "\<not> qs_saving s"
  shows "\<exists>s' rq. quota_save tr csrf base (accept sn s) = (s', Some (json_quota (sn_limits sn), rq))"
  using assms draft_of_limit
  by (simp add: valid_quota_def quota_save_def accept_def Let_def draft_values_def json_quota_def)

definition edited_quota :: quota_state where
  "edited_quota = \<lparr>qs_snapshot = Some \<lparr>sn_syncState = ''Applied'', sn_observedRevision = Some ''7'', sn_checkedAt = None, sn_error = None,
       sn_limits = \<lparr>q_instances = None, q_storageGiB = None, q_cpuMillis = None, q_memoryMiB = None\<rparr>, sn_revision = ''7'',
       sn_reserved = \<lparr>re_instances = 0, re_storageGiB = 0, re_cpuMillis = 0, re_memoryMiB = 0\<rparr>, sn_unknown = 0\<rparr>,
     qs_draft = \<lparr>qd_instances = show_nat 5, qd_storageGiB = [], qd_cpuMillis = '' '', qd_memoryMiB = show_nat 6\<rparr>,
     qs_loading = False, qs_saving = False, qs_error = [], qs_saved = False\<rparr>"

theorem quota_form_accepted_witness:
  "\<exists>s' body rq. quota_save id None ''/projects/p'' edited_quota = (s', Some (body, rq)) \<and>
     (\<exists>q. quotaInput (Some body) = Some q \<and> q_instances q = Some 5 \<and> q_cpuMillis q = None \<and>
        map_of (wq_headers rq) ''if-match'' = Some ''7'')"
proof -
  have nums: "finite_number (show_nat 5) = Some 5" "finite_number (show_nat 6) = Some 6"
    using finite_number_show_nat[of 5] finite_number_show_nat[of 6] by simp_all
  have trims: "js_trim (show_nat 5) \<noteq> []" "js_trim (show_nat 6) \<noteq> []" "js_trim '' '' = []" "js_trim [] = []"
    using show_nat_correct[of 5] show_nat_correct[of 6] by (simp_all add: trim_digits) (simp_all add: js_trim_def is_space_def)
  have "\<exists>s' body rq. quota_save id None ''/projects/p'' edited_quota = (s', Some (body, rq))"
    by (simp add: quota_save_def edited_quota_def draft_values_def draft_limit_def trims nums limit_ok_def Let_def)
  then obtain s' body rq where e: "quota_save id None ''/projects/p'' edited_quota = (s', Some (body, rq))" by blast
  obtain sn where sn: "qs_snapshot edited_quota = Some sn" "sn_revision sn = ''7''" by (simp add: edited_quota_def)
  have "''7'' = show_int 7" by code_simp
  then have "sn_revision sn = show_int 7" using sn(2) by simp
  from quota_form_accepted[OF e sn(1) this] obtain q where
    q: "quotaInput (Some body) = Some q" "typed_limit (show_nat 5) (q_instances q)" "typed_limit '' '' (q_cpuMillis q)"
      "map_of (wq_headers rq) ''if-match'' = Some ''7''"
    using sn(2) by (auto simp: edited_quota_def)
  have "q_instances q = Some 5" using q(2) trims nums by (cases "q_instances q") (auto simp: typed_limit_def)
  moreover have "q_cpuMillis q = None" using q(3) trims by (cases "q_cpuMillis q") (auto simp: typed_limit_def)
  ultimately show ?thesis using e q by blast
qed

section \<open>ResourceInventory\<close>

record inventory_view =
  iv_checkedAt :: "int option"
  iv_result :: "inventory_result option"

record inventory_state =
  it_snapshot :: "inventory_view option"
  it_error :: string
  it_refresh :: nat
  it_busy :: bool
  it_scheduled :: bool

definition inventory_requested :: "inventory_state \<Rightarrow> inventory_state" where
  "inventory_requested s = s\<lparr>it_snapshot := None\<rparr>"

definition inventory_read :: "web_error + inventory_view \<Rightarrow> inventory_state \<Rightarrow> inventory_state" where
  "inventory_read outcome s =
     (case outcome of
        Inr v \<Rightarrow> s\<lparr>it_snapshot := Some v, it_error := []\<rparr>
      | Inl (AbortError _) \<Rightarrow> s
      | Inl e \<Rightarrow> s\<lparr>it_error := message e\<rparr>)"

definition schedule :: "string option \<Rightarrow> string \<Rightarrow> inventory_state \<Rightarrow> inventory_state \<times> web_request" where
  "schedule csrf base s =
     (s\<lparr>it_busy := True, it_error := [], it_scheduled := False\<rparr>,
      api_request csrf (base @ ''/inventory/refresh'') \<lparr>op_method = Some ''POST'', op_headers = [], op_body = None\<rparr>)"

text \<open>\<open>encodeURIComponent\<close>: the UTF-8 bytes of a code unit below 256.\<close>

definition percent_byte :: "nat \<Rightarrow> string" where
  "percent_byte n = ''%'' @ [hex_upper (n div 16), hex_upper (n mod 16)]"

definition uri_char :: "char \<Rightarrow> string" where
  "uri_char c =
     (let n = (of_char c :: nat)
      in if is_alnum c \<or> c \<in> set ''-_.!~*()'' \<or> c = CHR 0x27 then [c]
         else if n < 128 then percent_byte n
         else percent_byte (192 + n div 64) @ percent_byte (128 + n mod 64))"

definition uri_component :: "string \<Rightarrow> string" where
  "uri_component s = concat (map uri_char s)"

definition reconcile :: "bool \<Rightarrow> string option \<Rightarrow> string \<Rightarrow> string \<Rightarrow> inventory_state \<Rightarrow> inventory_state \<times> web_request option" where
  "reconcile confirmed csrf base iid s =
     (if \<not> confirmed then (s, None)
      else (s\<lparr>it_busy := True, it_error := []\<rparr>,
        Some (api_request csrf (base @ ''/instances/'' @ uri_component iid @ ''/reservations/reconcile'')
          \<lparr>op_method = Some ''POST'', op_headers = [], op_body = None\<rparr>)))"

text \<open>Both handlers end alike.\<close>

definition inventory_done :: "web_error + unit \<Rightarrow> inventory_state \<Rightarrow> inventory_state" where
  "inventory_done outcome s =
     (case outcome of
        Inr _ \<Rightarrow> inventory_requested (s\<lparr>it_scheduled := True, it_refresh := it_refresh s + 1, it_busy := False\<rparr>)
      | Inl e \<Rightarrow> s\<lparr>it_error := message e, it_busy := False\<rparr>)"

definition stale :: "int \<Rightarrow> inventory_view \<Rightarrow> bool" where
  "stale now v = (case iv_checkedAt v of None \<Rightarrow> False | Some checked \<Rightarrow> 300000 < now - checked)"

definition reservation_codes :: "string list" where
  "reservation_codes = [''ResourceReservationUnknown'', ''ResourceReservationInsufficient'']"

definition reconcile_offered :: "bool \<Rightarrow> int \<Rightarrow> inventory_view \<Rightarrow> inventory_result \<Rightarrow> inventory_issue \<Rightarrow> bool" where
  "reconcile_offered canReconcile now v r i \<longleftrightarrow>
     canReconcile \<and> truthy (is_instanceId i) \<and> \<not> stale now v \<and> \<not> ir_truncated r \<and> is_code i \<in> set reservation_codes \<and>
     \<not> list_ex (\<lambda>j. is_instanceId j = is_instanceId i \<and> is_code j \<notin> set reservation_codes) (ir_issues r)"

definition inventory_text :: "(string \<Rightarrow> strmap \<Rightarrow> string) \<Rightarrow> int \<Rightarrow> inventory_view \<Rightarrow> inventory_result \<Rightarrow> string" where
  "inventory_text tr now v r =
     (if ir_state r = ''Healthy'' then
        (if stale now v then tr ''No differences found at the last check'' [] else tr ''No resource differences found'' [])
      else if ir_state r = ''Drift'' then tr ''Resource differences found: {value0}'' [(''value0'', show_nat (ir_issueCount r))]
      else if ir_state r = ''InProgress'' then tr ''Resources are changing. Waiting for the next check'' []
      else tr ''Unable to complete inventory. Check cluster connectivity and permissions'' [])"

text \<open>The correction of a reservation is offered only on a current and complete comparison in which the
  instance has no other difference.\<close>

lemma reconcile_offered_alone:
  assumes "reconcile_offered canReconcile now v r i" "j \<in> set (ir_issues r)" "is_instanceId j = is_instanceId i"
  shows "is_code j \<in> {''ResourceReservationUnknown'', ''ResourceReservationInsufficient''} \<and>
    (case iv_checkedAt v of None \<Rightarrow> True | Some checked \<Rightarrow> now - checked \<le> 5 * 60 * 1000)"
  using assms by (auto simp: reconcile_offered_def reservation_codes_def list_ex_iff stale_def split: option.splits)

section \<open>Statistics\<close>

text \<open>The panel polls while the instance runs; it keeps the last result when a poll fails.\<close>

record 'a statistics_state =
  ss_data :: "'a option"
  ss_error :: string

definition statistics_reset :: "'a statistics_state \<Rightarrow> 'a statistics_state" where
  "statistics_reset s = s\<lparr>ss_data := None, ss_error := []\<rparr>"

definition statistics_loaded :: "web_error + 'a \<Rightarrow> 'a statistics_state \<Rightarrow> 'a statistics_state" where
  "statistics_loaded outcome s =
     (case outcome of
        Inr x \<Rightarrow> s\<lparr>ss_data := Some x, ss_error := []\<rparr>
      | Inl (AbortError _) \<Rightarrow> s
      | Inl e \<Rightarrow> s\<lparr>ss_error := message e\<rparr>)"

lemma statistics_kept: "ss_data (statistics_loaded (Inl e) s) = ss_data s"
  by (cases e) (simp_all add: statistics_loaded_def)

end
