(* ===== verification/Web_Charts.thy ===== *)
theory Web_Charts
  imports Web_Console
begin

text \<open>
  The history and observability panels of the web console (src/apps/admin-web/src): LookupHistory.tsx
  and Observability.tsx. Numbers are exact rationals: the rounding of floating-point arithmetic is not
  modelled, only the rounding of \<open>toFixed\<close>. A series is the list of its points, a time in seconds and a
  value that may be missing.
\<close>

section \<open>Observations\<close>

text \<open>\<open>useObservation\<close>: no request without a path.\<close>

record 'a observation_state =
  ob_data :: "'a option"
  ob_error :: bool

definition observation_requested :: "string option \<Rightarrow> string option \<Rightarrow> 'a observation_state \<times> web_request option" where
  "observation_requested csrf path =
     (\<lparr>ob_data = None, ob_error = False\<rparr>,
      case path of None \<Rightarrow> None | Some p \<Rightarrow> if p = [] then None else Some (api_request csrf p get_options))"

definition observation_loaded :: "web_error + 'a \<Rightarrow> 'a observation_state \<Rightarrow> 'a observation_state" where
  "observation_loaded outcome s =
     (case outcome of
        Inr x \<Rightarrow> s\<lparr>ob_data := Some x\<rparr>
      | Inl (AbortError _) \<Rightarrow> s
      | Inl _ \<Rightarrow> s\<lparr>ob_error := True\<rparr>)"

text \<open>\<open>Empty\<close>: the state to report, if any.\<close>

definition reported_state :: "string observation_state \<Rightarrow> string option option" where
  "reported_state s =
     (if ob_data s = Some ''ok'' \<and> \<not> ob_error s then None
      else Some (if ob_error s then Some ''error'' else ob_data s))"

section \<open>MetricChart\<close>

type_synonym points = "(rat \<times> rat option) list"

text \<open>\<open>x.toFixed(2)\<close>, below the magnitude at which it switches to an exponent: the sign, and of two
  nearest hundredths the one of the larger magnitude.\<close>

definition two_digits :: "nat \<Rightarrow> string" where
  "two_digits n = [digit_char (n div 10), digit_char (n mod 10)]"

definition toFixed2 :: "rat \<Rightarrow> string" where
  "toFixed2 x =
     (let n = nat \<lfloor>\<bar>x\<bar> * 100 + 1 / 2\<rfloor>
      in (if x < 0 then ''-'' else []) @ show_nat (n div 100) @ ''.'' @ two_digits (n mod 100))"

record chart_frame =
  ch_minX :: rat
  ch_maxX :: rat
  ch_maxY :: rat

definition present :: "points \<Rightarrow> (rat \<times> rat) list" where
  "present ps = concat (map (\<lambda>(time, v). case v of None \<Rightarrow> [] | Some y \<Rightarrow> [(time, y)]) ps)"

definition chart_frame_of :: "points \<Rightarrow> chart_frame" where
  "chart_frame_of ps =
     \<lparr>ch_minX = (case ps of [] \<Rightarrow> 0 | p # _ \<Rightarrow> fst p), ch_maxX = (if ps = [] then 1 else fst (last ps)),
      ch_maxY = fold max (map snd (present ps)) 1\<rparr>"

definition chart_x :: "chart_frame \<Rightarrow> rat \<Rightarrow> rat" where
  "chart_x f time = 10 + (time - ch_minX f) / max 1 (ch_maxX f - ch_minX f) * 380"

definition chart_y :: "chart_frame \<Rightarrow> rat \<Rightarrow> rat" where
  "chart_y f v = 100 - v / ch_maxY f * 85"

definition point_text :: "chart_frame \<Rightarrow> rat \<times> rat \<Rightarrow> string" where
  "point_text f p = toFixed2 (chart_x f (fst p)) @ '','' @ toFixed2 (chart_y f (snd p)) @ '' ''"

text \<open>The loop over the points with the segments so far and the open segment.\<close>

fun segment_loop :: "chart_frame \<Rightarrow> string list \<Rightarrow> string \<Rightarrow> points \<Rightarrow> string list" where
  "segment_loop f segments segment [] = (if segment \<noteq> [] then segments @ [segment] else segments)"
| "segment_loop f segments segment ((time, None) # ps) =
     segment_loop f (if segment \<noteq> [] then segments @ [segment] else segments) [] ps"
| "segment_loop f segments segment ((time, Some v) # ps) =
     segment_loop f segments (segment @ point_text f (time, v)) ps"

definition chart_segments :: "points \<Rightarrow> string list" where
  "chart_segments ps = segment_loop (chart_frame_of ps) [] [] ps"

text \<open>The value shown beside the title: the last one present.\<close>

definition latest_value :: "points \<Rightarrow> rat option" where
  "latest_value ps = (if present ps = [] then None else Some (snd (last (present ps))))"

text \<open>The name of a chart, by the texts of the message catalogue: the fixed entries and those of the loop
  over kinds, methods and outcomes. A series that has none is shown by its own name.\<close>

definition base_metric_names :: "(string \<times> string) list" where
  "base_metric_names =
     [(''used_bytes'', ''Content usage''), (''capacity_bytes'', ''Capacity reference''), (''entries'', ''Entry count''),
      (''cpu_cores'', ''CPU usage''), (''memory_bytes'', ''Memory usage''), (''restarts'', ''Container restarts''),
      (''get_hit'', ''Read hits''), (''get_miss'', ''Read misses''), (''GET_requests'', ''Read request rate''),
      (''PUT_requests'', ''Write request rate''), (''GET_errors'', ''Read service errors''),
      (''PUT_errors'', ''Write service errors''), (''GET_p95'', ''Read P95 latency''), (''PUT_p95'', ''Write P95 latency''),
      (''evictions'', ''Capacity eviction rate''), (''evicted_bytes'', ''Evicted bytes''),
      (''get_hit_ratio'', ''Read entry hit ratio''), (''read_bytes'', ''Read traffic''), (''write_bytes'', ''Write traffic''),
      (''memory_limit_bytes'', ''Memory limit''), (''cpu_limit_cores'', ''CPU limit''), (''throttled_seconds'', ''CPU throttling''),
      (''volume_used_bytes'', ''Actual volume usage''), (''volume_capacity_bytes'', ''Actual volume capacity'')]"

definition lookup_metric_names :: "(string \<times> string) list" where
  "lookup_metric_names =
     concat (map (\<lambda>(kind, label).
       concat (map (\<lambda>(method, verb).
         map (\<lambda>(outcome, meaning). (kind @ ''_'' @ method @ ''_'' @ outcome, label @ '' '' @ verb @ '' '' @ meaning))
           [(''hit'', ''hits''), (''miss'', ''misses''), (''hit_ratio'', ''hit ratio'')])
         [(''get'', ''read''), (''contains'', ''existence check'')]))
       [(''ac'', ''AC''), (''cas'', ''CAS'')])"

definition metricNames :: "(string \<times> string) list" where
  "metricNames = base_metric_names @ lookup_metric_names"

definition chart_label :: "string \<Rightarrow> string" where
  "chart_label name = (case map_of metricNames name of None \<Rightarrow> name | Some text \<Rightarrow> text)"

section \<open>LookupHistory\<close>

record web_series =
  lk_kind :: string
  lk_method :: string
  lk_outcome :: string
  lk_points :: points

definition lookup_path :: "string \<Rightarrow> string \<Rightarrow> string" where
  "lookup_path path window = path @ ''/statistics/history?window='' @ window"

definition selected_points :: "string \<Rightarrow> string \<Rightarrow> string \<Rightarrow> web_series list \<Rightarrow> points" where
  "selected_points kind method outcome series =
     (case sql_first (\<lambda>x. lk_outcome x = outcome) (filter (\<lambda>x. lk_kind x = kind \<and> lk_method x = method) series) of
        None \<Rightarrow> [] | Some x \<Rightarrow> lk_points x)"

text \<open>\<open>new Map(points)\<close>: the last entry of a key counts. The rows of the table, latest first.\<close>

definition points_map :: "points \<Rightarrow> rat \<Rightarrow> rat option option" where
  "points_map ps = map_of (rev ps)"

definition lookup_times :: "points \<Rightarrow> points \<Rightarrow> rat list" where
  "lookup_times hits misses = rev (sort (remdups (map fst hits @ map fst misses)))"

text \<open>\<open>n == null\<close> shows a gap: no entry, or an entry without a value.\<close>

definition cell :: "points \<Rightarrow> rat \<Rightarrow> rat option" where
  "cell ps time = (case points_map ps time of None \<Rightarrow> None | Some v \<Rightarrow> v)"

definition lookup_rows :: "string \<Rightarrow> string \<Rightarrow> web_series list \<Rightarrow> (rat \<times> rat option \<times> rat option) list" where
  "lookup_rows kind method series =
     (let hits = selected_points kind method ''hit'' series; misses = selected_points kind method ''miss'' series
      in map (\<lambda>time. (time, cell hits time, cell misses time)) (lookup_times hits misses))"

section \<open>Instance and project panels\<close>

definition metric_tabs :: "string list" where
  "metric_tabs = [''capacity'', ''lookups'', ''resources'', ''performance'']"

definition instance_tabs :: "bool \<Rightarrow> string list" where
  "instance_tabs canEdit =
     [''capacity'', ''lookups'', ''performance'', ''resources'', ''events''] @ (if canEdit then [''logs''] else [])"

text \<open>The paths of the three observations of an instance.\<close>

definition metrics_path :: "string \<Rightarrow> string \<Rightarrow> string \<Rightarrow> string option" where
  "metrics_path path tab window =
     (if tab \<in> set metric_tabs then Some (path @ ''/observability/metrics?group='' @ tab @ ''&window='' @ window) else None)"

definition events_path :: "string \<Rightarrow> string \<Rightarrow> string option" where
  "events_path path tab = (if tab = ''events'' then Some (path @ ''/observability/events'') else None)"

definition logs_path :: "bool \<Rightarrow> string \<Rightarrow> string \<Rightarrow> string option" where
  "logs_path canEdit path tab = (if tab = ''logs'' \<and> canEdit then Some (path @ ''/observability/logs?minutes=15'') else None)"

text \<open>The three observations of a project: its overview, its alerts, and their history in the alert centre.\<close>

definition overview_path :: "bool \<Rightarrow> string \<Rightarrow> string option" where
  "overview_path alertsOnly base = (if alertsOnly then None else Some (base @ ''/observability''))"

definition alerts_path :: "string \<Rightarrow> string option" where
  "alerts_path base = Some (base @ ''/observability/alerts'')"

definition history_path :: "bool \<Rightarrow> string \<Rightarrow> string option" where
  "history_path alertsOnly base = (if alertsOnly then Some (base @ ''/observability/alert-history'') else None)"

text \<open>A firing alert that was not active when it was last checked is marked so.\<close>

definition not_active_note :: "string \<Rightarrow> bool option \<Rightarrow> bool" where
  "not_active_note state active_confirmed \<longleftrightarrow> state = ''firing'' \<and> active_confirmed = Some False"

record project_panel =
  pp_refresh :: nat
  pp_selected :: string
  pp_action :: string
  pp_busy :: bool

definition silence_fields :: "string \<Rightarrow> json" where
  "silence_fields fingerprint = JObj [(''fingerprint'', JStr fingerprint), (''minutes'', JNum 60)]"

definition silence_alert :: "string option \<Rightarrow> string \<Rightarrow> string \<Rightarrow> string \<Rightarrow> project_panel \<Rightarrow> project_panel \<times> web_request" where
  "silence_alert csrf base iid fingerprint s =
     (s\<lparr>pp_busy := True, pp_action := []\<rparr>,
      api_request csrf (base @ ''/instances/'' @ iid @ ''/observability/silences'')
        \<lparr>op_method = Some ''POST'', op_headers = [], op_body = Some (json_text (silence_fields fingerprint))\<rparr>)"

definition silence_alert_done :: "(string \<Rightarrow> string) \<Rightarrow> web_error + unit \<Rightarrow> project_panel \<Rightarrow> project_panel" where
  "silence_alert_done tr outcome s =
     (case outcome of
        Inr _ \<Rightarrow> s\<lparr>pp_refresh := pp_refresh s + 1, pp_action := tr ''Alerts silenced for one hour.'', pp_busy := False\<rparr>
      | Inl _ \<Rightarrow> s\<lparr>pp_action := tr ''The silence outcome could not be confirmed. Refresh alerts before retrying.'', pp_busy := False\<rparr>)"

text \<open>The control of an alert.\<close>

definition silence_clicked :: "bool \<Rightarrow> string option \<Rightarrow> string \<Rightarrow> string \<Rightarrow> string \<Rightarrow> project_panel \<Rightarrow> project_panel \<times> web_request option" where
  "silence_clicked canEdit csrf base iid fingerprint s =
     (if canEdit \<and> \<not> pp_busy s
      then (case silence_alert csrf base iid fingerprint s of (s', r) \<Rightarrow> (s', Some r)) else (s, None))"

text \<open>A row of the overview: the service state is unknown when its data is stale or missing, and the
  usage is shown for current data only.\<close>

definition service_state :: "string \<Rightarrow> string option \<Rightarrow> string" where
  "service_state dataState phase =
     (if dataState = ''stale'' \<or> dataState = ''no_data'' then ''unknown''
      else case phase of None \<Rightarrow> ''unknown'' | Some p \<Rightarrow> p)"

definition shown_usage :: "string \<Rightarrow> rat option \<Rightarrow> rat option" where
  "shown_usage dataState usedBytes = (if dataState = ''ok'' then map_option (\<lambda>b. b / 1024 ^ 3) usedBytes else None)"

section \<open>What a chart draws\<close>

text \<open>The runs of consecutive samples with a value, with the run that is open.\<close>

fun runs_from :: "(rat \<times> rat) list \<Rightarrow> points \<Rightarrow> (rat \<times> rat) list list" where
  "runs_from r [] = (if r = [] then [] else [r])"
| "runs_from r ((time, None) # ps) = (if r = [] then [] else [r]) @ runs_from [] ps"
| "runs_from r ((time, Some v) # ps) = runs_from (r @ [(time, v)]) ps"

definition sampled :: "(rat \<times> rat) list \<Rightarrow> points" where
  "sampled r = map (\<lambda>(time, v). (time, Some v)) r"

lemma present_simps [simp]:
  "present [] = []" "present ((time, None) # ps) = present ps" "present ((time, Some v) # ps) = (time, v) # present ps"
  by (simp_all add: present_def)

lemma point_text_nonempty: "point_text f p \<noteq> []"
  by (simp add: point_text_def)

lemma segment_loop_runs:
  "segment_loop f segments (concat (map (point_text f) r)) ps =
     segments @ map (\<lambda>x. concat (map (point_text f) x)) (runs_from r ps)"
proof (induction r ps arbitrary: segments rule: runs_from.induct)
  case (1 r)
  show ?case using point_text_nonempty[of f] by (cases r) auto
next
  case (2 r time ps)
  show ?case using "2.IH" point_text_nonempty[of f] by (cases r) auto
next
  case (3 r time v ps)
  show ?case using "3.IH"[of segments] by simp
qed

lemma concat_runs: "concat (runs_from r ps) = r @ present ps"
  by (induction r ps rule: runs_from.induct) auto

text \<open>A run is a block of the series that gaps or the ends delimit.\<close>

definition is_run :: "points \<Rightarrow> (rat \<times> rat) list \<Rightarrow> bool" where
  "is_run ps r \<longleftrightarrow> r \<noteq> [] \<and> (\<exists>pre post. ps = pre @ sampled r @ post \<and>
     (pre = [] \<or> snd (last pre) = None) \<and> (post = [] \<or> snd (hd post) = None))"

lemma is_run_later: "is_run ps r \<Longrightarrow> is_run (pre @ (time, None) # ps) r"
proof -
  assume "is_run ps r"
  then obtain a b where r: "r \<noteq> []" "ps = a @ sampled r @ b" "a = [] \<or> snd (last a) = None" "b = [] \<or> snd (hd b) = None"
    by (auto simp: is_run_def)
  then have "pre @ (time, None) # ps = (pre @ (time, None) # a) @ sampled r @ b" by simp
  moreover have "snd (last (pre @ (time, None) # a)) = None" using r(3) by (cases a) auto
  ultimately show ?thesis using r(1,4) unfolding is_run_def by blast
qed

lemma runs_are_runs: "r' \<in> set (runs_from r ps) \<Longrightarrow> is_run (sampled r @ ps) r'"
proof (induction r ps rule: runs_from.induct)
  case (1 r)
  then have "r' = r" "r \<noteq> []" by (auto split: if_splits)
  then show ?case unfolding is_run_def by (intro conjI exI[of _ "[]"]) auto
next
  case (2 r time ps)
  show ?case
  proof (cases "r' \<in> set (runs_from [] ps)")
    case True
    then show ?thesis using "2.IH" is_run_later[of ps r' "sampled r" time] by (simp add: sampled_def)
  next
    case False
    then have "r' = r" "r \<noteq> []" using "2.prems" by (auto split: if_splits)
    then show ?thesis unfolding is_run_def by (intro conjI exI[of _ "[]"] exI[of _ "(time, None) # ps"]) auto
  qed
next
  case (3 r time v ps)
  then show ?case by (simp add: sampled_def)
qed

lemma fold_max_bound:
  fixes m :: rat
  shows "m \<le> fold max xs m \<and> (\<forall>x \<in> set xs. x \<le> fold max xs m)"
proof (induction xs arbitrary: m)
  case (Cons x xs)
  from Cons.IH[of "max x m"] show ?case by auto
qed simp

lemma scaled_bounds:
  fixes q :: rat
  assumes "0 \<le> q" "q \<le> 1"
  shows "10 \<le> 10 + q * 380 \<and> 10 + q * 380 \<le> 390 \<and> 15 \<le> 100 - q * 85 \<and> 100 - q * 85 \<le> 100"
  using assms by simp

lemma chart_x_bounds:
  assumes "ch_minX f \<le> time" "time \<le> ch_maxX f"
  shows "10 \<le> chart_x f time \<and> chart_x f time \<le> 390"
proof -
  let ?w = "max 1 (ch_maxX f - ch_minX f)"
  have "0 \<le> (time - ch_minX f) / ?w" "(time - ch_minX f) / ?w \<le> 1" using assms by (auto simp: divide_le_eq)
  then show ?thesis unfolding chart_x_def using scaled_bounds by blast
qed

lemma chart_y_bounds:
  assumes "0 \<le> v" "v \<le> ch_maxY f" "1 \<le> ch_maxY f"
  shows "15 \<le> chart_y f v \<and> chart_y f v \<le> 100"
proof -
  have "0 \<le> v / ch_maxY f" "v / ch_maxY f \<le> 1" using assms by (auto simp: divide_le_eq)
  then show ?thesis unfolding chart_y_def using scaled_bounds by blast
qed

text \<open>A chart shows the series and nothing else: its polylines are exactly the maximal runs of
  consecutive samples with a value, in order, so that a line never bridges a gap and no sample is lost;
  and for a series in time order with values that are not negative, every point lies inside the axes.\<close>

theorem chart_shows_series:
  assumes "\<And>p. p \<in> set ps \<Longrightarrow> fst (hd ps) \<le> fst p \<and> fst p \<le> fst (last ps)"
    and "\<And>time v. (time, Some v) \<in> set ps \<Longrightarrow> 0 \<le> v"
  shows "\<exists>rs. chart_segments ps = map (\<lambda>r. concat (map (point_text (chart_frame_of ps)) r)) rs \<and>
    concat rs = present ps \<and> (\<forall>r \<in> set rs. is_run ps r) \<and>
    (\<forall>time v. (time, Some v) \<in> set ps \<longrightarrow>
       10 \<le> chart_x (chart_frame_of ps) time \<and> chart_x (chart_frame_of ps) time \<le> 390 \<and>
       15 \<le> chart_y (chart_frame_of ps) v \<and> chart_y (chart_frame_of ps) v \<le> 100)"
proof (intro exI conjI allI impI ballI)
  show "chart_segments ps = map (\<lambda>r. concat (map (point_text (chart_frame_of ps)) r)) (runs_from [] ps)"
    using segment_loop_runs[of "chart_frame_of ps" "[]" "[]" ps] by (simp add: chart_segments_def)
  show "concat (runs_from [] ps) = present ps" by (simp add: concat_runs)
  show "is_run ps r" if "r \<in> set (runs_from [] ps)" for r using runs_are_runs[OF that] by (simp add: sampled_def)
  fix time v assume p: "(time, Some v) \<in> set ps"
  then have ne: "ps \<noteq> []" by auto
  have "ch_minX (chart_frame_of ps) \<le> time" "time \<le> ch_maxX (chart_frame_of ps)"
    using assms(1)[OF p] ne by (auto simp: chart_frame_of_def split: list.splits)
  then show "10 \<le> chart_x (chart_frame_of ps) time" "chart_x (chart_frame_of ps) time \<le> 390" using chart_x_bounds by auto
  have "v \<in> set (map snd (present ps))" using p by (force simp: present_def)
  then have "v \<le> ch_maxY (chart_frame_of ps)" "1 \<le> ch_maxY (chart_frame_of ps)"
    using fold_max_bound[of 1 "map snd (present ps)"] by (auto simp: chart_frame_of_def)
  then show "15 \<le> chart_y (chart_frame_of ps) v" "chart_y (chart_frame_of ps) v \<le> 100"
    using chart_y_bounds assms(2)[OF p] by auto
qed

definition gap_series :: points where
  "gap_series = [(0, Some 2), (60, Some 4), (120, None), (180, Some 1)]"

theorem chart_shows_series_witness:
  "\<exists>rs. chart_segments gap_series = map (\<lambda>r. concat (map (point_text (chart_frame_of gap_series)) r)) rs \<and>
     concat rs = [(0, 2), (60, 4), (180, 1)] \<and> (\<forall>r \<in> set rs. is_run gap_series r)"
proof -
  have p: "present gap_series = [(0, 2), (60, 4), (180, 1)]" by (simp add: gap_series_def)
  have "fst (hd gap_series) \<le> fst x \<and> fst x \<le> fst (last gap_series)" if "x \<in> set gap_series" for x
    using that by (auto simp: gap_series_def)
  moreover have "0 \<le> v" if "(time, Some v) \<in> set gap_series" for time v
    using that by (auto simp: gap_series_def)
  ultimately show ?thesis using chart_shows_series[of gap_series] p by auto
qed

section \<open>Names of the series\<close>

lemma fst_hit_ratio [simp]: "fst (hit_ratio base d) = fst d @ ''_ratio''"
  by (cases d) (simp add: hit_ratio_def Let_def)

lemma fst_anchored [simp]: "fst (anchored x g sel d) = fst d"
  by (cases d) (simp add: anchored_def Let_def)

lemma fst_comp_anchored [simp]: "fst \<circ> anchored x g sel = fst"
  by (rule ext) simp

lemma capacity_names:
  "map fst (capacity_descriptors x sel) =
     [''used_bytes'', ''capacity_bytes'', ''entries''] @ (if gradle_metrics x then [''evictions'', ''evicted_bytes''] else [])"
  by (cases "gradle_metrics x") (simp_all add: capacity_descriptors_def)

lemma resource_names:
  "map fst (resource_descriptors ns uid cluster) =
     [''cpu_cores'', ''memory_bytes'', ''restarts'', ''memory_limit_bytes'', ''cpu_limit_cores'', ''throttled_seconds'',
      ''volume_used_bytes'', ''volume_capacity_bytes'']"
  by (simp add: resource_descriptors_def Let_def)

lemma performance_names:
  "map fst (performance_descriptors x sel) =
     (if gradle_metrics x then [''GET_requests'', ''GET_errors'', ''GET_p95'', ''PUT_requests'', ''PUT_errors'', ''PUT_p95'',
        ''read_bytes'', ''write_bytes''] else [])"
  by (cases "gradle_metrics x") (simp_all add: performance_descriptors_def)

lemma lookup_base_names:
  "map fst (lookup_base x sel) =
     (if tg_template x = ''bazel-remote'' \<and> tg_version x = ''0.1.0'' then
        [''ac_get_hit'', ''ac_get_miss'', ''ac_contains_hit'', ''ac_contains_miss'',
         ''cas_get_hit'', ''cas_get_miss'', ''cas_contains_hit'', ''cas_contains_miss'']
      else if gradle_metrics x then [''get_hit'', ''get_miss''] else [])"
proof (cases "tg_template x = ''bazel-remote'' \<and> tg_version x = ''0.1.0''")
  case True
  then show ?thesis unfolding lookup_base_def if_P[OF True] by (simp add: bazel_lookup_def)
next
  case False
  then show ?thesis unfolding lookup_base_def if_not_P[OF False] by (cases "gradle_metrics x") simp_all
qed

lemma lookup_names:
  "map fst (lookup_descriptors x sel) =
     (let names = map fst (lookup_base x sel) in names @ map (\<lambda>n. n @ ''_ratio'') (filter (ends_with ''_hit'') names))"
  by (simp add: lookup_descriptors_def Let_def filter_map comp_def)

text \<open>A name has a text of its own.\<close>

definition labelled :: "string \<Rightarrow> bool" where
  "labelled name \<longleftrightarrow> map_of metricNames name \<noteq> None"

lemma labelled_names:
  "list_all labelled [''used_bytes'', ''capacity_bytes'', ''entries'', ''evictions'', ''evicted_bytes'']"
  "list_all labelled [''cpu_cores'', ''memory_bytes'', ''restarts'', ''memory_limit_bytes'', ''cpu_limit_cores'', ''throttled_seconds'',
      ''volume_used_bytes'', ''volume_capacity_bytes'']"
  "list_all labelled [''GET_requests'', ''GET_errors'', ''GET_p95'', ''PUT_requests'', ''PUT_errors'', ''PUT_p95'', ''read_bytes'', ''write_bytes'']"
  "list_all labelled [''get_hit'', ''get_miss'', ''get_hit_ratio'']"
  "list_all labelled [''ac_get_hit'', ''ac_get_miss'', ''ac_contains_hit'', ''ac_contains_miss'',
     ''cas_get_hit'', ''cas_get_miss'', ''cas_contains_hit'', ''cas_contains_miss'',
     ''ac_get_hit_ratio'', ''ac_contains_hit_ratio'', ''cas_get_hit_ratio'', ''cas_contains_hit_ratio'']"
  by code_simp+

lemma lookups_labelled: "list_all labelled (map fst (lookup_descriptors x sel))"
  unfolding lookup_names lookup_base_names Let_def
  using labelled_names(4,5) by (simp add: ends_with_def)

text \<open>Every series that the API asks the metrics backend for, in every group and for every template, has a
  name of its own in the charts.\<close>

lemma series_are_named:
  assumes "descriptors x cluster g sel = Inr ds" and "d \<in> set ds"
  shows "labelled (fst d)"
proof -
  have "list_all labelled (map fst ds)"
  proof (cases g)
    case Capacity
    then show ?thesis using assms(1) labelled_names(1) by (auto simp: descriptors_def capacity_names)
  next
    case Lookups
    then show ?thesis using assms(1) lookups_labelled by (auto simp: descriptors_def)
  next
    case Resources
    then obtain ns uid where "ds = resource_descriptors ns uid cluster"
      using assms(1) by (auto simp: descriptors_def rbind_eq_Inr)
    then show ?thesis using labelled_names(2) by (simp only: resource_names)
  next
    case Performance
    then show ?thesis using assms(1) labelled_names(3) by (auto simp: descriptors_def performance_names)
  qed
  then show ?thesis using assms(2) by (auto simp: list_all_iff)
qed

section \<open>What the history table shows\<close>

text \<open>One row per sampled time, latest first.\<close>

lemma lookup_times_strict:
  "sorted_wrt (>) (lookup_times hits misses) \<and> set (lookup_times hits misses) = fst ` set hits \<union> fst ` set misses"
proof -
  have "sorted_wrt (<) (sort (remdups (map fst hits @ map fst misses)))"
    by (simp add: strict_sorted_iff del: remdups_append2)
  then show ?thesis by (auto simp: lookup_times_def sorted_wrt_rev)
qed

end
