(* ===== verification/Spec2Isabelle.thy ===== *)
theory Spec2Isabelle
  imports System Contract_Props Reservation Secrets Quota_Sync Worker_Props Kubernetes_Props Ledger Startup Observation_Props
    Web_Project Web_Detail Web_Panels Web_Charts
begin

text \<open>
  Verification of the management API of expbuild (src/apps/admin-api/src) and of the web console that is
  its client (src/apps/admin-web/src).

  \<^bold>\<open>The program.\<close> A Fastify server manages build-cache instances of projects on a Kubernetes cluster.
  Accounts hold a role in a project; a request to create, change, rotate, delete or reclaim an
  instance is checked, reserves resources under the project's quota and records an operation row in
  PostgreSQL. A background worker of any replica claims an operation under a lease and carries it out
  through the Kubernetes client; other loops push project quotas to the cluster, compare the platform's
  records with the cluster, and collect snapshots, events and alerts of the instances. The parts meet in
  the database tables and in the port to the cluster. The console is a single-page application that keeps the
  session token, follows the address bar, polls the API, and offers the operations an account may use.

  \<^bold>\<open>Conventions\<close> (Prelude, Js_Text, Json_Schema, Json_Text, Database). An async function is an action
  \<open>'s \<Rightarrow> 's \<times> (error + 'a)\<close>: the state it leaves behind and the value it returns or the exception it
  throws, sequenced by \<open>mbind\<close>, caught by \<open>mcatch\<close>. The state of the handlers and workers is \<open>'w sys\<close>: the
  database, the clock, and the outside world \<open>'w\<close>, of which nothing is known. A table is the list of its
  rows; a transaction (db.ts) is an action on the database that is undone when it throws, atomic because
  the code holds the locks it needs. Where a handler awaits, \<open>pause\<close> runs \<open>en_others\<close>, an arbitrary
  function that stands for everything other requests, replicas and workers do in between. zod schemas are
  functions from JSON to options. Random values, hashes and tokens are arguments.

  \<^bold>\<open>Theories and sources.\<close>
  \<^item> Quantities: quantities.ts, exact rational arithmetic on Kubernetes quantities.
  \<^item> Contract, Contract_Props: instance-contract.ts, template-catalog.ts, client-profiles.ts and
    network-policy.ts: the CacheInstance object, the eight templates, the creation schemas, the catalog.
  \<^item> Quotas, Ledger: quotas.ts, and the abstract ledger it refines.
  \<^item> Inventory, Inventory_Scan, Reservation: inventory.ts and reservation-reconcile.ts, the comparison with
    the cluster, the leased scan, the reconciliation of a reservation.
  \<^item> Secrets: secrets.ts and security.ts; AES-256-GCM and scrypt are parameters.
  \<^item> Kube_Port, Kubernetes, Kubernetes_Props: the port and the client of kubernetes.ts over the API calls.
  \<^item> Quota_Sync: quota-sync.ts, the gate and the synchronization of project quotas.
  \<^item> Worker, Worker_Props: worker.ts, claiming, executing and finishing operations.
  \<^item> Access, Accounts, Accounts_Props, Project_Routes: app.ts, sessions, throttle, accounts, projects, members.
  \<^item> Instance_Routes, Instance_Props: instance-routes.ts, the requests that record operations.
  \<^item> Fetch, Statistics: the HTTP client code, statistics.ts and history.ts.
  \<^item> Backends, Observation, Observability, Observation_Props: observation-backends.ts, observation-store.ts,
    observability.ts and alert-reconciliation.ts.
  \<^item> Telemetry: telemetry.ts, counters, request hooks and the operation queue.
  \<^item> Startup: the migrations of db.ts, bootstrap.ts, and the checks of main.ts.
  \<^item> Listings: the reading routes of app.ts over accounts, projects and audit events.
  \<^item> System: the requests and the worker together.
  \<^item> Web_Recipes: client-profiles.ts and the examples of ConnectionInfo.tsx, every recipe as its text.
  \<^item> Web_Client: api.ts, i18n.ts and the routes of ui.tsx. Web_Session: sign-in, restoring and expiry of the
    session in App.tsx, PasswordForm.tsx.
  \<^item> Web_Console: the console around the pages, the retry controls (App.tsx, RetryOperation.tsx) and
    Management.tsx; Web_Project: the project page with its poll, filters and listing (App.tsx).
  \<^item> Web_Instance: the instance form of App.tsx; Web_Detail: the instance page of App.tsx, ConnectionInfo.tsx,
    RetainedVolume.tsx and RotateCredential.tsx.
  \<^item> Web_Panels: ProjectQuota.tsx, ResourceInventory.tsx, Statistics.tsx; Web_Charts: Observability.tsx and
    LookupHistory.tsx.
  In the console theories a component is the record of its state, a function for each request it sends and
  for each reply it gets, and a predicate for each control that is offered or disabled.

  \<^bold>\<open>What is shown.\<close>
  \<^item> Operations (Worker_Props, System, Instance_Props): rows stay well formed and only move forward
    (\<open>operation_state_machine\<close>); an instance never has two unfinished operations, over any interleaving of
    requests and worker steps (\<open>one_operation_at_a_time\<close>); a lease fences out other workers; a step never keeps
    its claim; success means the bound object is ready; a repeated request is answered with the first
    operation; a retry resumes the latest failed one.
  \<^item> Access (Instance_Props, Accounts_Props, System): an accepted request is still authorized at its commit;
    a disabled account or changed password ends its sessions; the platform and every project keep an active
    administrator; the login throttle is bounded.
  \<^item> Quotas (Quotas, Ledger, Instance_Props): accepted requests and
    settlements stay within the quota; the transactions refine an abstract ledger with exact sums.
  \<^item> Cluster (Kubernetes_Props, Quota_Sync, Inventory, Inventory_Scan, Reservation): creation adopts only its
    own object, updates are optimistic, a retained volume is deleted only when it is unused and the recorded
    one; the quota gate admits only the confirmed revision; a healthy inventory means agreement, a scan writes
    only its own columns and only under its lease, and a reconciled reservation clears the reports.
  \<^item> Observation (Observation_Props, Telemetry): only the leader exports samples; a snapshot belongs to the
    identity the binding still has and events are bounded; a resolved alert stays resolved; silences are
    audited before they are made; metrics are complete on their grid and logs confined to the asked instance
    and window; the in-flight gauge is exact.
  \<^item> Data (Contract_Props, Quantities, Secrets, Json_Text, Fetch): accepted input is well formed and its
    amounts survive printing; comparison of quantities is exact; sealed secrets open only with their key and
    operation; JSON text and base64 round trip.
  \<^item> Start-up (Startup): a migration runs once, an edited one is refused, and a failing run changes nothing.
  \<^item> Console and API (Web_Session, Web_Project, Web_Console, Web_Panels, Web_Instance, Web_Recipes): requests after
    a login pass authentication and the CSRF check; the page enables writing and administration exactly when the
    API grants them; the retry control agrees with the API; a quota the form sends is the one the API reads; the
    edit form gives back the accepted request; every advertised client profile has a recipe.
  \<^item> Console (Web_Instance, Web_Detail, Web_Recipes, Web_Project, Web_Charts): an idempotency key never stands for two
    bodies or two volumes; a volume is removed only after its name was typed; instructions belong to the
    generation that is ready; a shell that runs a recipe hands over exactly the address; the page shows the last
    poll that succeeded; a chart draws the runs of its series inside its axes and names every series.

  \<^bold>\<open>Interfaces.\<close> \<open>keyed_table\<close> (Database) states what a table with a key promises, interpreted for projects,
  bindings, operations and users; \<open>reservation_ledger\<close> (Quotas) what the routes rely on when they reserve;
  \<open>worker_relation\<close> (Worker_Props) and \<open>route_relation\<close>, \<open>api_relation\<close> (Access, System) carry a relation
  between states through every step of the worker and every route, and are interpreted for fencing, for the
  state machine, for the operations ledger, for the administrators, for the alerts and for the audit log.

  \<^bold>\<open>Bounds and fuel.\<close> All loops of the code terminate in the model: paged listings carry the code's own bound of
  five pages; the JSON parser is given the length of its text, which every recursive call shortens, so it never
  runs out (\<open>JSON_roundtrip\<close> needs no assumption on it); the text replacement recurses on the remaining text.
  A JavaScript number is a rational; \<open>js_number\<close> and \<open>to_double\<close> round where a value may exceed 53 bits.

  \<^bold>\<open>Parameters.\<close> The Kubernetes API, \<open>fetch\<close>, the URL parser, date parsing, UTF-8 decoding, the ciphers and
  the key derivation are arguments. Theorems that need something of them say so as hypotheses: that a cipher
  opens what it sealed, that a digest does not collide on two texts, that others keep the invariant at hand.

  \<^bold>\<open>Not modelled.\<close> The polling loops and the shutdown of main.ts, which only call the modelled steps until
  the process is asked to stop; the OpenAPI description (openapi.ts), a static document; the SQL text of the
  migrations; health probes, HTTP headers and cookies beyond their values, registration and help texts of
  metrics. Connections and their release are left out except for the collector's session, whose loss is
  observable. Of the console: the elements a component returns, the message catalogue (messages.ts, a parameter
  of the translation; texts are named by their English entry), icons, dialogs and the language menu of ui.tsx,
  the tables that only list an answer (platform health, audit log), number and date formats of the browser, the
  rounding of floating-point coordinates, and the scheduling of effects by React: each effect and each reply is a
  step of its own.
\<close>

end
